(* ===== verification/Prelude.thy ===== *)
theory Prelude
  imports Main "HOL-Library.Word"
begin

text \<open>
  Shared vocabulary of the development: machine integers and byte strings, the \<open>Result\<close>
  combinators of the Rust sources, the string operations of the standard library the code
  uses (prefix stripping, reverse splitting, decimal printing and parsing), the
  order-preserving deduplication idiom, and the lemma collections the component theories
  add to.

  A Rust \<open>String\<close> or \<open>&str\<close> is a \<open>string\<close>, the list of its UTF-8 bytes; a \<open>Vec<T>\<close> or slice
  is a list; \<open>Option<T>\<close> is \<open>'a option\<close>; \<open>Result<T, E>\<close> is the sum \<open>'e + 'a\<close>, with \<open>Inl\<close> for
  \<open>Err\<close> and \<open>Inr\<close> for \<open>Ok\<close>.
\<close>

section \<open>Integers, bytes, collections of lemmas\<close>

type_synonym u16 = "16 word"
type_synonym u32 = "32 word"
type_synonym u64 = "64 word"
type_synonym i32 = "32 word"
type_synonym bytes = "8 word list"

named_theorems accessor_simps \<open>total accessors over generated messages\<close>
named_theorems dispatch_simps \<open>one unfolding step of a dispatch loop\<close>

section \<open>Results\<close>

definition bindR :: "'e + 'a \<Rightarrow> ('a \<Rightarrow> 'e + 'b) \<Rightarrow> 'e + 'b" where
  "bindR m f = (case m of Inl e \<Rightarrow> Inl e | Inr a \<Rightarrow> f a)"

definition ok_or :: "'e \<Rightarrow> 'a option \<Rightarrow> 'e + 'a" where
  "ok_or e x = (case x of None \<Rightarrow> Inl e | Some a \<Rightarrow> Inr a)"

definition map_err :: "('e \<Rightarrow> 'f) \<Rightarrow> 'e + 'a \<Rightarrow> 'f + 'a" where
  "map_err f m = (case m of Inl e \<Rightarrow> Inl (f e) | Inr a \<Rightarrow> Inr a)"

definition map_ok :: "('a \<Rightarrow> 'b) \<Rightarrow> 'e + 'a \<Rightarrow> 'e + 'b" where
  "map_ok f m = (case m of Inl e \<Rightarrow> Inl e | Inr a \<Rightarrow> Inr (f a))"

lemma bindR_simps [simp]: "bindR (Inl e) f = Inl e" "bindR (Inr a) f = f a"
  by (simp_all add: bindR_def)

lemma ok_or_simps [simp]: "ok_or e None = Inl e" "ok_or e (Some a) = Inr a"
  by (simp_all add: ok_or_def)

lemma map_err_simps [simp]: "map_err f (Inl e) = Inl (f e)" "map_err f (Inr a) = Inr a"
  by (simp_all add: map_err_def)

lemma map_ok_simps [simp]: "map_ok f (Inl e) = Inl e" "map_ok f (Inr a) = Inr (f a)"
  by (simp_all add: map_ok_def)

lemma bindR_eq_Inr: "bindR m f = Inr b \<longleftrightarrow> (\<exists>a. m = Inr a \<and> f a = Inr b)"
  by (cases m) auto

lemma bindR_eq_Inl: "bindR m f = Inl e \<longleftrightarrow> m = Inl e \<or> (\<exists>a. m = Inr a \<and> f a = Inl e)"
  by (cases m) auto

lemma bindR_assoc: "bindR (bindR m f) g = bindR m (\<lambda>a. bindR (f a) g)"
  by (cases m) auto

lemma ok_or_eq_Inr [simp]: "ok_or e x = Inr a \<longleftrightarrow> x = Some a"
  by (cases x) auto

lemma ok_or_eq_Inl [simp]: "ok_or e x = Inl e' \<longleftrightarrow> x = None \<and> e' = e"
  by (cases x) auto

text \<open>A computation that may panic (\<open>expect\<close>, \<open>unwrap\<close>): the panic is a value.\<close>

datatype 'a panicking = Panicked string | Returned 'a

section \<open>Options\<close>

text \<open>\<open>xs.first()\<close> and \<open>xs.last()\<close> of a slice.\<close>

definition first_opt :: "'a list \<Rightarrow> 'a option" where
  "first_opt xs = (case xs of [] \<Rightarrow> None | x # _ \<Rightarrow> Some x)"

definition last_opt :: "'a list \<Rightarrow> 'a option" where
  "last_opt xs = (if xs = [] then None else Some (last xs))"

definition unwrap_or :: "'a \<Rightarrow> 'a option \<Rightarrow> 'a" where
  "unwrap_or d x = (case x of None \<Rightarrow> d | Some a \<Rightarrow> a)"

definition opt_filter :: "('a \<Rightarrow> bool) \<Rightarrow> 'a option \<Rightarrow> 'a option" where
  "opt_filter p x = (case x of None \<Rightarrow> None | Some a \<Rightarrow> if p a then Some a else None)"

lemma first_opt_simps [simp]: "first_opt [] = None" "first_opt (x # xs) = Some x"
  by (simp_all add: first_opt_def)

lemma last_opt_simps [simp]: "last_opt [] = None" "last_opt (xs @ [x]) = Some x"
  "last_opt [x] = Some x"
  by (simp_all add: last_opt_def)

lemma first_opt_None [simp]: "first_opt xs = None \<longleftrightarrow> xs = []"
  by (cases xs) auto

lemma last_opt_None [simp]: "last_opt xs = None \<longleftrightarrow> xs = []"
  by (simp add: last_opt_def)

lemma unwrap_or_simps [simp]: "unwrap_or d None = d" "unwrap_or d (Some a) = a"
  by (simp_all add: unwrap_or_def)

lemma opt_filter_simps [simp]:
  "opt_filter p None = None" "opt_filter p (Some a) = (if p a then Some a else None)"
  by (simp_all add: opt_filter_def)

section \<open>Strings\<close>

definition starts_with :: "string \<Rightarrow> string \<Rightarrow> bool" where
  "starts_with s p \<longleftrightarrow> take (length p) s = p"

definition strip_prefix :: "string \<Rightarrow> string \<Rightarrow> string option" where
  "strip_prefix s p = (if starts_with s p then Some (drop (length p) s) else None)"

text \<open>\<open>s.rsplit(c).next()\<close>: everything after the last \<open>c\<close>, or all of \<open>s\<close>.\<close>

definition rsplit_next :: "char \<Rightarrow> string \<Rightarrow> string" where
  "rsplit_next c s = rev (takeWhile (\<lambda>x. x \<noteq> c) (rev s))"

lemma starts_with_append [simp]: "starts_with (p @ s) p"
  by (simp add: starts_with_def)

lemma starts_withE: "starts_with s p \<Longrightarrow> \<exists>r. s = p @ r"
  by (metis starts_with_def append_take_drop_id)

lemma strip_prefix_append [simp]: "strip_prefix (p @ s) p = Some s"
  by (simp add: strip_prefix_def)

lemma strip_prefix_Some: "strip_prefix s p = Some r \<longleftrightarrow> s = p @ r"
proof
  assume "strip_prefix s p = Some r"
  then have "starts_with s p" "r = drop (length p) s"
    by (auto simp: strip_prefix_def split: if_splits)
  then show "s = p @ r"
    by (metis starts_with_def append_take_drop_id)
qed simp

lemma rsplit_next_notin: "c \<notin> set (rsplit_next c s)"
  by (auto simp: rsplit_next_def dest: set_takeWhileD)

lemma rsplit_next_id: "c \<notin> set s \<Longrightarrow> rsplit_next c s = s"
  unfolding rsplit_next_def
  by (metis (mono_tags, lifting) rev_rev_ident set_rev takeWhile_eq_all_conv)

lemma rsplit_next_append: "c \<notin> set s \<Longrightarrow> rsplit_next c (p @ c # s) = s"
  unfolding rsplit_next_def
  by (simp add: takeWhile_append1 takeWhile_tail)
    (metis (mono_tags, lifting) rev_rev_ident set_rev takeWhile_eq_all_conv)

text \<open>Joining fields with a separator the left field does not hold can be undone.\<close>

lemma sep_append_inject:
  assumes "c \<notin> set a" and "c \<notin> set a'"
  shows "a @ c # b = a' @ c # b' \<longleftrightarrow> a = a' \<and> b = b'"
proof
  assume eq: "a @ c # b = a' @ c # b'"
  have "takeWhile (\<lambda>x. x \<noteq> c) (a @ c # b) = a" "takeWhile (\<lambda>x. x \<noteq> c) (a' @ c # b') = a'"
    using assms by (simp_all add: takeWhile_tail takeWhile_append2)
      (metis takeWhile_eq_all_conv takeWhile_tail)+
  with eq have "a = a'" by metis
  with eq show "a = a' \<and> b = b'" by simp
qed simp

section \<open>Decimal numbers\<close>

text \<open>
  \<open>show_nat\<close> is \<open>Display\<close> of an unsigned integer. \<open>parse_uint bound\<close> is \<open>str::parse\<close> of an
  unsigned type whose values are those below \<open>bound\<close>: one optional leading \<open>+\<close>, then one or
  more ASCII digits, an error on anything else and on overflow.
\<close>

definition digit_char :: "nat \<Rightarrow> char" where
  "digit_char d = char_of (48 + d)"

definition is_digit :: "char \<Rightarrow> bool" where
  "is_digit c \<longleftrightarrow> 48 \<le> (of_char c :: nat) \<and> (of_char c :: nat) \<le> 57"

fun show_nat :: "nat \<Rightarrow> string" where
  "show_nat n =
     (if n < 10 then [digit_char n] else show_nat (n div 10) @ [digit_char (n mod 10)])"

declare show_nat.simps [simp del]

fun parse_digits :: "nat \<Rightarrow> string \<Rightarrow> nat option" where
  "parse_digits acc [] = Some acc"
| "parse_digits acc (c # cs) =
     (if is_digit c then parse_digits (acc * 10 + (of_char c - 48)) cs else None)"

definition parse_uint :: "nat \<Rightarrow> string \<Rightarrow> nat option" where
  "parse_uint bound s =
     (let ds = (case s of c # cs \<Rightarrow> if c = CHR ''+'' then cs else s | [] \<Rightarrow> s)
      in if ds = [] then None
         else case parse_digits 0 ds of
                None \<Rightarrow> None
              | Some n \<Rightarrow> if n < bound then Some n else None)"

lemma of_char_digit_char: "d < 10 \<Longrightarrow> (of_char (digit_char d) :: nat) = 48 + d"
  by (simp add: digit_char_def)

lemma is_digit_digit_char [simp]: "d < 10 \<Longrightarrow> is_digit (digit_char d)"
  by (simp add: is_digit_def of_char_digit_char)

lemma show_nat_nonempty [simp]: "show_nat n \<noteq> []"
  by (subst show_nat.simps) simp

lemma show_nat_digits: "c \<in> set (show_nat n) \<Longrightarrow> is_digit c"
proof (induction n rule: show_nat.induct)
  case (1 n)
  show ?case
  proof (cases "n < 10")
    case True
    with "1.prems" show ?thesis by (subst (asm) show_nat.simps) simp
  next
    case False
    with "1.prems" have "c \<in> set (show_nat (n div 10)) \<or> c = digit_char (n mod 10)"
      by (subst (asm) show_nat.simps) auto
    with False "1.IH" show ?thesis by auto
  qed
qed

lemma parse_digits_append:
  "parse_digits acc (xs @ ys) =
     (case parse_digits acc xs of None \<Rightarrow> None | Some n \<Rightarrow> parse_digits n ys)"
  by (induction acc xs rule: parse_digits.induct) auto

lemma parse_digits_show_nat: "parse_digits 0 (show_nat n) = Some n"
proof (induction n rule: show_nat.induct)
  case (1 n)
  show ?case
  proof (cases "n < 10")
    case True
    then show ?thesis by (subst show_nat.simps) (simp add: of_char_digit_char)
  next
    case False
    with "1.IH" show ?thesis
      by (subst show_nat.simps)
        (simp add: parse_digits_append of_char_digit_char mult.commute)
  qed
qed

lemma show_nat_inject [simp]: "show_nat m = show_nat n \<longleftrightarrow> m = n"
  by (metis option.inject parse_digits_show_nat)

lemma parse_uint_show_nat: "n < bound \<Longrightarrow> parse_uint bound (show_nat n) = Some n"
proof -
  assume n: "n < bound"
  obtain c cs where s: "show_nat n = c # cs"
    using show_nat_nonempty [of n] by (cases "show_nat n") auto
  have "is_digit c" using show_nat_digits [of c n] s by simp
  then have "c \<noteq> CHR ''+''" by (auto simp: is_digit_def)
  with n s parse_digits_show_nat [of n] show ?thesis
    by (simp add: parse_uint_def)
qed

lemma parse_uint_bound: "parse_uint bound s = Some n \<Longrightarrow> n < bound"
  by (auto simp: parse_uint_def Let_def split: option.splits if_splits list.splits)

lemma not_digit_notin_show_nat: "\<not> is_digit c \<Longrightarrow> c \<notin> set (show_nat n)"
  using show_nat_digits by blast

section \<open>Order-preserving deduplication\<close>

text \<open>
  The idiom \<open>if !seen.contains(&x) { seen.push(x) }\<close>, folded over a list.
\<close>

definition push_new :: "'a list \<Rightarrow> 'a \<Rightarrow> 'a list" where
  "push_new seen x = (if x \<in> set seen then seen else seen @ [x])"

lemma set_push_new [simp]: "set (push_new seen x) = insert x (set seen)"
  by (auto simp: push_new_def)

lemma distinct_push_new [simp]: "distinct seen \<Longrightarrow> distinct (push_new seen x)"
  by (simp add: push_new_def)

lemma set_foldl_push_new: "set (foldl push_new seen xs) = set seen \<union> set xs"
  by (induction xs arbitrary: seen) auto

lemma distinct_foldl_push_new: "distinct seen \<Longrightarrow> distinct (foldl push_new seen xs)"
  by (induction xs arbitrary: seen) auto

section \<open>Detail maps\<close>

text \<open>
  \<open>iter.collect::<BTreeMap<String, String>>()\<close>: a later pair replaces an earlier one with
  the same key.
\<close>

type_synonym details = "string \<rightharpoonup> string"

definition collect_map :: "('k \<times> 'v) list \<Rightarrow> 'k \<rightharpoonup> 'v" where
  "collect_map kvs = map_of (rev kvs)"

lemma collect_map_Nil [simp]: "collect_map [] = Map.empty"
  by (simp add: collect_map_def)

lemma collect_map_snoc [simp]: "collect_map (kvs @ [(k, v)]) = (collect_map kvs)(k \<mapsto> v)"
  by (simp add: collect_map_def)

lemma collect_map_singleton [simp]: "collect_map [(k, v)] = [k \<mapsto> v]"
  by (simp add: collect_map_def)

end
