(* ===== verification/Error_Codes.thy ===== *)
theory Error_Codes
  imports Prelude
begin

text \<open>
  \<^verbatim>\<open>src/src/error_codes.rs\<close>: the inventory of stable error codes, static messages and
  detail keys. The constants of the modules \<open>codes\<close> and \<open>messages\<close> have the same names;
  \<open>err\<close> enumerates those names, and \<open>codes\<close> and \<open>messages\<close> give each its text. Strings are
  UTF-8 bytes, so the dash of one message is three of them.
\<close>

datatype (plugins only: code) err =
    VALUE_NOT_POSITIVE
  | VALUE_NOT_NON_NEGATIVE
  | VALUE_EMPTY
  | COLLECTION_EMPTY
  | ENTITY_NOT_FOUND
  | ENTITY_ALREADY_EXISTS
  | STATUS_MISMATCH
  | STATUS_FORBIDDEN
  | COMMAND_TYPE_URL_MISSING
  | COMMAND_PAYLOAD_MISSING
  | COMMAND_SEQUENCE_MISSING
  | ANY_TYPE_MISMATCH
  | ANY_DECODE_FAILED
  | PROTO_UUID_INVALID
  | TIMESTAMP_PARSE_FAILED
  | ENDPOINT_PARSE_FAILED
  | ENDPOINT_INVALID_URI
  | CONNECTION_FAILED
  | CONNECTION_FAILED_MAX_RETRIES
  | TRANSPORT_ERROR
  | GRPC_ERROR
  | INVALID_TRANSPORT_MODE
  | INVALID_PORT
  | HANDLER_WRONG_RESPONSE_KIND
  | HANDLER_WRONG_REQUEST_KIND
  | NO_HANDLER_REGISTERED
  | MISSING_COMMAND_BOOK
  | MISSING_COMMAND_PAGE
  | MISSING_COMMAND_PAYLOAD
  | NOTIFICATION_DECODE_FAILED
  | REJECTION_NOTIFICATION_DECODE_FAILED
  | MISSING_SAGA_SOURCE
  | EMPTY_SAGA_SOURCE
  | MISSING_SAGA_EVENT_PAYLOAD
  | SAGA_INVALID_TYPE_URL
  | SAGA_HANDLER_UNSUPPORTED_RETURN_TYPE
  | MISSING_PM_TRIGGER
  | EMPTY_PM_TRIGGER
  | MISSING_PM_EVENT_PAYLOAD
  | PM_INVALID_TYPE_URL
  | PM_HANDLER_WRONG_RETURN_TYPE
  | UPCASTER_WRONG_RESPONSE_KIND
  | HANDLER_FIELD_EMPTY_STRING
  | HANDLER_FIELD_EMPTY_LIST
  | HANDLER_STATE_NOT_TYPE
  | HANDLER_UNKNOWN_KIND
  | ROUTER_NO_HANDLERS
  | DUPLICATE_COMMAND_HANDLER
  | MIXED_HANDLER_KINDS
  | MISSING_DESTINATION_SEQUENCE

primrec codes :: "err \<Rightarrow> string" where
    "codes VALUE_NOT_POSITIVE = ''VALUE_NOT_POSITIVE''"
  | "codes VALUE_NOT_NON_NEGATIVE = ''VALUE_NOT_NON_NEGATIVE''"
  | "codes VALUE_EMPTY = ''VALUE_EMPTY''"
  | "codes COLLECTION_EMPTY = ''COLLECTION_EMPTY''"
  | "codes ENTITY_NOT_FOUND = ''ENTITY_NOT_FOUND''"
  | "codes ENTITY_ALREADY_EXISTS = ''ENTITY_ALREADY_EXISTS''"
  | "codes STATUS_MISMATCH = ''STATUS_MISMATCH''"
  | "codes STATUS_FORBIDDEN = ''STATUS_FORBIDDEN''"
  | "codes COMMAND_TYPE_URL_MISSING = ''COMMAND_TYPE_URL_MISSING''"
  | "codes COMMAND_PAYLOAD_MISSING = ''COMMAND_PAYLOAD_MISSING''"
  | "codes COMMAND_SEQUENCE_MISSING = ''COMMAND_SEQUENCE_MISSING''"
  | "codes ANY_TYPE_MISMATCH = ''ANY_TYPE_MISMATCH''"
  | "codes ANY_DECODE_FAILED = ''ANY_DECODE_FAILED''"
  | "codes PROTO_UUID_INVALID = ''PROTO_UUID_INVALID''"
  | "codes TIMESTAMP_PARSE_FAILED = ''TIMESTAMP_PARSE_FAILED''"
  | "codes ENDPOINT_PARSE_FAILED = ''ENDPOINT_PARSE_FAILED''"
  | "codes ENDPOINT_INVALID_URI = ''ENDPOINT_INVALID_URI''"
  | "codes CONNECTION_FAILED = ''CONNECTION_FAILED''"
  | "codes CONNECTION_FAILED_MAX_RETRIES = ''CONNECTION_FAILED_MAX_RETRIES''"
  | "codes TRANSPORT_ERROR = ''TRANSPORT_ERROR''"
  | "codes GRPC_ERROR = ''GRPC_ERROR''"
  | "codes INVALID_TRANSPORT_MODE = ''INVALID_TRANSPORT_MODE''"
  | "codes INVALID_PORT = ''INVALID_PORT''"
  | "codes HANDLER_WRONG_RESPONSE_KIND = ''HANDLER_WRONG_RESPONSE_KIND''"
  | "codes HANDLER_WRONG_REQUEST_KIND = ''HANDLER_WRONG_REQUEST_KIND''"
  | "codes NO_HANDLER_REGISTERED = ''NO_HANDLER_REGISTERED''"
  | "codes MISSING_COMMAND_BOOK = ''MISSING_COMMAND_BOOK''"
  | "codes MISSING_COMMAND_PAGE = ''MISSING_COMMAND_PAGE''"
  | "codes MISSING_COMMAND_PAYLOAD = ''MISSING_COMMAND_PAYLOAD''"
  | "codes NOTIFICATION_DECODE_FAILED = ''NOTIFICATION_DECODE_FAILED''"
  | "codes REJECTION_NOTIFICATION_DECODE_FAILED = ''REJECTION_NOTIFICATION_DECODE_FAILED''"
  | "codes MISSING_SAGA_SOURCE = ''MISSING_SAGA_SOURCE''"
  | "codes EMPTY_SAGA_SOURCE = ''EMPTY_SAGA_SOURCE''"
  | "codes MISSING_SAGA_EVENT_PAYLOAD = ''MISSING_SAGA_EVENT_PAYLOAD''"
  | "codes SAGA_INVALID_TYPE_URL = ''SAGA_INVALID_TYPE_URL''"
  | "codes SAGA_HANDLER_UNSUPPORTED_RETURN_TYPE = ''SAGA_HANDLER_UNSUPPORTED_RETURN_TYPE''"
  | "codes MISSING_PM_TRIGGER = ''MISSING_PM_TRIGGER''"
  | "codes EMPTY_PM_TRIGGER = ''EMPTY_PM_TRIGGER''"
  | "codes MISSING_PM_EVENT_PAYLOAD = ''MISSING_PM_EVENT_PAYLOAD''"
  | "codes PM_INVALID_TYPE_URL = ''PM_INVALID_TYPE_URL''"
  | "codes PM_HANDLER_WRONG_RETURN_TYPE = ''PM_HANDLER_WRONG_RETURN_TYPE''"
  | "codes UPCASTER_WRONG_RESPONSE_KIND = ''UPCASTER_WRONG_RESPONSE_KIND''"
  | "codes HANDLER_FIELD_EMPTY_STRING = ''HANDLER_FIELD_EMPTY_STRING''"
  | "codes HANDLER_FIELD_EMPTY_LIST = ''HANDLER_FIELD_EMPTY_LIST''"
  | "codes HANDLER_STATE_NOT_TYPE = ''HANDLER_STATE_NOT_TYPE''"
  | "codes HANDLER_UNKNOWN_KIND = ''HANDLER_UNKNOWN_KIND''"
  | "codes ROUTER_NO_HANDLERS = ''ROUTER_NO_HANDLERS''"
  | "codes DUPLICATE_COMMAND_HANDLER = ''DUPLICATE_COMMAND_HANDLER''"
  | "codes MIXED_HANDLER_KINDS = ''MIXED_HANDLER_KINDS''"
  | "codes MISSING_DESTINATION_SEQUENCE = ''MISSING_DESTINATION_SEQUENCE''"

primrec messages :: "err \<Rightarrow> string" where
    "messages VALUE_NOT_POSITIVE =
       ''value must be positive''"
  | "messages VALUE_NOT_NON_NEGATIVE =
       ''value must be non-negative''"
  | "messages VALUE_EMPTY =
       ''value must not be empty''"
  | "messages COLLECTION_EMPTY =
       ''collection must not be empty''"
  | "messages ENTITY_NOT_FOUND =
       ''entity not found''"
  | "messages ENTITY_ALREADY_EXISTS =
       ''entity already exists''"
  | "messages STATUS_MISMATCH =
       ''status does not match expected''"
  | "messages STATUS_FORBIDDEN =
       ''status is the forbidden value''"
  | "messages COMMAND_TYPE_URL_MISSING =
       ''command type_url not set''"
  | "messages COMMAND_PAYLOAD_MISSING =
       ''command payload not set''"
  | "messages COMMAND_SEQUENCE_MISSING =
       ''sequence not set (call with_sequence)''"
  | "messages ANY_TYPE_MISMATCH =
       ''Any type_url does not match expected message type''"
  | "messages ANY_DECODE_FAILED =
       ''failed to decode Any payload into expected message type''"
  | "messages PROTO_UUID_INVALID =
       ''proto UUID bytes are not a valid 16-byte UUID''"
  | "messages TIMESTAMP_PARSE_FAILED =
       ''failed to parse RFC3339 timestamp''"
  | "messages ENDPOINT_PARSE_FAILED =
       ''failed to parse fallback endpoint''"
  | "messages ENDPOINT_INVALID_URI =
       ''endpoint URI is invalid''"
  | "messages CONNECTION_FAILED =
       ''connection failed''"
  | "messages CONNECTION_FAILED_MAX_RETRIES =
       ''connection failed after max retries''"
  | "messages TRANSPORT_ERROR =
       ''transport error''"
  | "messages GRPC_ERROR =
       ''grpc error''"
  | "messages INVALID_TRANSPORT_MODE =
       ''invalid transport mode env value''"
  | "messages INVALID_PORT =
       ''invalid port env value''"
  | "messages HANDLER_WRONG_RESPONSE_KIND =
       ''handler returned wrong response kind''"
  | "messages HANDLER_WRONG_REQUEST_KIND =
       ''handler dispatched with wrong request kind''"
  | "messages NO_HANDLER_REGISTERED =
       ''no handler registered for the given (domain, type_url)''"
  | "messages MISSING_COMMAND_BOOK =
       ''missing command book''"
  | "messages MISSING_COMMAND_PAGE =
       ''missing command page''"
  | "messages MISSING_COMMAND_PAYLOAD =
       ''missing command payload''"
  | "messages NOTIFICATION_DECODE_FAILED =
       ''failed to decode Notification payload''"
  | "messages REJECTION_NOTIFICATION_DECODE_FAILED =
       ''failed to decode RejectionNotification payload''"
  | "messages MISSING_SAGA_SOURCE =
       ''missing saga source''"
  | "messages EMPTY_SAGA_SOURCE =
       ''empty saga source''"
  | "messages MISSING_SAGA_EVENT_PAYLOAD =
       ''missing event payload''"
  | "messages SAGA_INVALID_TYPE_URL =
       ''saga trigger has invalid type_url''"
  | "messages SAGA_HANDLER_UNSUPPORTED_RETURN_TYPE =
       ''saga handler returned unsupported type''"
  | "messages MISSING_PM_TRIGGER =
       ''missing PM trigger''"
  | "messages EMPTY_PM_TRIGGER =
       ''empty PM trigger''"
  | "messages MISSING_PM_EVENT_PAYLOAD =
       ''missing event payload on PM trigger''"
  | "messages PM_INVALID_TYPE_URL =
       ''PM trigger has invalid type_url''"
  | "messages PM_HANDLER_WRONG_RETURN_TYPE =
       ''PM handler must return ProcessManagerResponse''"
  | "messages UPCASTER_WRONG_RESPONSE_KIND =
       ''upcaster handler returned non-Upcaster response''"
  | "messages HANDLER_FIELD_EMPTY_STRING =
       ''handler field must be a non-empty string''"
  | "messages HANDLER_FIELD_EMPTY_LIST =
       ''handler field must be a non-empty list''"
  | "messages HANDLER_STATE_NOT_TYPE =
       ''handler '' @ [CHR 0x27] @ ''state'' @ [CHR 0x27] @ '' must be a type''"
  | "messages HANDLER_UNKNOWN_KIND =
       ''unknown handler kind''"
  | "messages ROUTER_NO_HANDLERS =
       ''no handlers registered on Router''"
  | "messages DUPLICATE_COMMAND_HANDLER =
       ''duplicate command handler registration for (domain, type_url)''"
  | "messages MIXED_HANDLER_KINDS =
       ''cannot mix handler kinds in one Router '' @ [CHR 0xE2] @ [CHR 0x80] @ [CHR 0x94] @ '' all handlers must share a kind''"
  | "messages MISSING_DESTINATION_SEQUENCE =
       ''no sequence for destination domain''"

datatype detail_key =
    K_FIELD
  | K_CONTEXT
  | K_CAUSE
  | K_ENDPOINT
  | K_INPUT
  | K_EXPECTED
  | K_ACTUAL
  | K_EXPECTED_KIND
  | K_DOMAIN
  | K_TYPE_URL
  | K_ROUTER_NAME
  | K_HANDLER_CLASS
  | K_HANDLER_KIND
  | K_ACTUAL_RETURN_TYPE
  | K_ENV_VAR
  | K_OTHER_KIND

primrec keys :: "detail_key \<Rightarrow> string" where
    "keys K_FIELD = ''field''"
  | "keys K_CONTEXT = ''context''"
  | "keys K_CAUSE = ''cause''"
  | "keys K_ENDPOINT = ''endpoint''"
  | "keys K_INPUT = ''input''"
  | "keys K_EXPECTED = ''expected''"
  | "keys K_ACTUAL = ''actual''"
  | "keys K_EXPECTED_KIND = ''expected_kind''"
  | "keys K_DOMAIN = ''domain''"
  | "keys K_TYPE_URL = ''type_url''"
  | "keys K_ROUTER_NAME = ''router_name''"
  | "keys K_HANDLER_CLASS = ''handler_class''"
  | "keys K_HANDLER_KIND = ''handler_kind''"
  | "keys K_ACTUAL_RETURN_TYPE = ''actual_return_type''"
  | "keys K_ENV_VAR = ''env_var''"
  | "keys K_OTHER_KIND = ''other_kind''"

text \<open>All constants of the inventory, in the order of the source.\<close>

definition all_errs :: "err list" where
  "all_errs = [VALUE_NOT_POSITIVE,
     VALUE_NOT_NON_NEGATIVE,
     VALUE_EMPTY,
     COLLECTION_EMPTY,
     ENTITY_NOT_FOUND,
     ENTITY_ALREADY_EXISTS,
     STATUS_MISMATCH,
     STATUS_FORBIDDEN,
     COMMAND_TYPE_URL_MISSING,
     COMMAND_PAYLOAD_MISSING,
     COMMAND_SEQUENCE_MISSING,
     ANY_TYPE_MISMATCH,
     ANY_DECODE_FAILED,
     PROTO_UUID_INVALID,
     TIMESTAMP_PARSE_FAILED,
     ENDPOINT_PARSE_FAILED,
     ENDPOINT_INVALID_URI,
     CONNECTION_FAILED,
     CONNECTION_FAILED_MAX_RETRIES,
     TRANSPORT_ERROR,
     GRPC_ERROR,
     INVALID_TRANSPORT_MODE,
     INVALID_PORT,
     HANDLER_WRONG_RESPONSE_KIND,
     HANDLER_WRONG_REQUEST_KIND,
     NO_HANDLER_REGISTERED,
     MISSING_COMMAND_BOOK,
     MISSING_COMMAND_PAGE,
     MISSING_COMMAND_PAYLOAD,
     NOTIFICATION_DECODE_FAILED,
     REJECTION_NOTIFICATION_DECODE_FAILED,
     MISSING_SAGA_SOURCE,
     EMPTY_SAGA_SOURCE,
     MISSING_SAGA_EVENT_PAYLOAD,
     SAGA_INVALID_TYPE_URL,
     SAGA_HANDLER_UNSUPPORTED_RETURN_TYPE,
     MISSING_PM_TRIGGER,
     EMPTY_PM_TRIGGER,
     MISSING_PM_EVENT_PAYLOAD,
     PM_INVALID_TYPE_URL,
     PM_HANDLER_WRONG_RETURN_TYPE,
     UPCASTER_WRONG_RESPONSE_KIND,
     HANDLER_FIELD_EMPTY_STRING,
     HANDLER_FIELD_EMPTY_LIST,
     HANDLER_STATE_NOT_TYPE,
     HANDLER_UNKNOWN_KIND,
     ROUTER_NO_HANDLERS,
     DUPLICATE_COMMAND_HANDLER,
     MIXED_HANDLER_KINDS,
     MISSING_DESTINATION_SEQUENCE]"

definition all_keys :: "detail_key list" where
  "all_keys = [K_FIELD,
     K_CONTEXT,
     K_CAUSE,
     K_ENDPOINT,
     K_INPUT,
     K_EXPECTED,
     K_ACTUAL,
     K_EXPECTED_KIND,
     K_DOMAIN,
     K_TYPE_URL,
     K_ROUTER_NAME,
     K_HANDLER_CLASS,
     K_HANDLER_KIND,
     K_ACTUAL_RETURN_TYPE,
     K_ENV_VAR,
     K_OTHER_KIND]"

lemma all_errs_complete: "e \<in> set all_errs"
  by (cases e) (simp_all add: all_errs_def)

lemma all_keys_complete: "k \<in> set all_keys"
  by (cases k) (simp_all add: all_keys_def)

lemma distinct_codes: "distinct (map codes all_errs)"
  by code_simp

lemma distinct_messages: "distinct (map messages all_errs)"
  by code_simp

lemma distinct_keys: "distinct (map keys all_keys)"
  by code_simp

lemma codes_inject [simp]: "codes a = codes b \<longleftrightarrow> a = b"
  using distinct_codes all_errs_complete by (auto simp: distinct_map dest: inj_onD)

lemma messages_inject [simp]: "messages a = messages b \<longleftrightarrow> a = b"
  using distinct_messages all_errs_complete by (auto simp: distinct_map dest: inj_onD)

lemma keys_inject [simp]: "keys a = keys b \<longleftrightarrow> a = b"
  using distinct_keys all_keys_complete by (auto simp: distinct_map dest: inj_onD)

text \<open>The texts are looked up only where a theorem asks for them.\<close>

declare codes.simps [simp del] messages.simps [simp del] keys.simps [simp del]

end
