(* ===== verification/Errors.thy ===== *)
theory Errors
  imports Error_Codes
begin

text \<open>
  \<^verbatim>\<open>src/src/error.rs\<close> and \<open>client_error_to_status\<close> of \<^verbatim>\<open>src/src/handler.rs\<close>: the
  structured error values of the client, their predicates, and their translation to gRPC
  statuses.

  \<open>tonic::Status\<close> is third-party; the code reads its code and message, so it is a record of
  the two. \<open>tonic::Code\<close> is the fixed enumeration of gRPC status codes. A
  \<open>tonic::transport::Error\<close> is only ever printed, so it is represented by its text.
\<close>

section \<open>Values\<close>

datatype Code = Code_Ok | Code_Cancelled | Code_Unknown | Code_InvalidArgument
  | Code_DeadlineExceeded | Code_NotFound | Code_AlreadyExists | Code_PermissionDenied
  | Code_ResourceExhausted | Code_FailedPrecondition | Code_Aborted | Code_OutOfRange
  | Code_Unimplemented | Code_Internal | Code_Unavailable | Code_DataLoss
  | Code_Unauthenticated

record Status =
  status_code_of :: Code
  status_message :: string

record ErrorDetail =
  ed_code :: string
  ed_message :: string
  ed_details :: details

record CommandRejectedError =
  cr_code :: string
  cr_message :: string
  cr_status_code :: string
  cr_details :: details

datatype ClientError =
    CE_Connection ErrorDetail
  | CE_Transport string
  | CE_Grpc Status
  | CE_InvalidArgument ErrorDetail
  | CE_InvalidTimestamp ErrorDetail
  | CE_Rejected CommandRejectedError

section \<open>Constructors\<close>

definition ErrorDetail_new :: "string \<Rightarrow> string \<Rightarrow> (string \<times> string) list \<Rightarrow> ErrorDetail" where
  "ErrorDetail_new code message kvs =
     \<lparr>ed_code = code, ed_message = message, ed_details = collect_map kvs\<rparr>"

definition invalid_argument :: "string \<Rightarrow> string \<Rightarrow> (string \<times> string) list \<Rightarrow> ClientError" where
  "invalid_argument code message kvs = CE_InvalidArgument (ErrorDetail_new code message kvs)"

definition invalid_timestamp :: "string \<Rightarrow> string \<Rightarrow> (string \<times> string) list \<Rightarrow> ClientError" where
  "invalid_timestamp code message kvs = CE_InvalidTimestamp (ErrorDetail_new code message kvs)"

definition connection :: "string \<Rightarrow> string \<Rightarrow> (string \<times> string) list \<Rightarrow> ClientError" where
  "connection code message kvs = CE_Connection (ErrorDetail_new code message kvs)"

definition rej_precondition_failed ::
  "string \<Rightarrow> string \<Rightarrow> (string \<times> string) list \<Rightarrow> CommandRejectedError" where
  "rej_precondition_failed code message kvs =
     \<lparr>cr_code = code, cr_message = message, cr_status_code = ''FAILED_PRECONDITION'',
      cr_details = collect_map kvs\<rparr>"

definition rej_invalid_argument ::
  "string \<Rightarrow> string \<Rightarrow> (string \<times> string) list \<Rightarrow> CommandRejectedError" where
  "rej_invalid_argument code message kvs =
     \<lparr>cr_code = code, cr_message = message, cr_status_code = ''INVALID_ARGUMENT'',
      cr_details = collect_map kvs\<rparr>"

definition rej_not_found ::
  "string \<Rightarrow> string \<Rightarrow> (string \<times> string) list \<Rightarrow> CommandRejectedError" where
  "rej_not_found code message kvs =
     \<lparr>cr_code = code, cr_message = message, cr_status_code = ''NOT_FOUND'',
      cr_details = collect_map kvs\<rparr>"

text \<open>\<open>From<CommandRejectedError>\<close> and \<open>From<Status>\<close> for \<open>ClientError\<close>.\<close>

definition client_error_from_rejected :: "CommandRejectedError \<Rightarrow> ClientError" where
  "client_error_from_rejected err = CE_Rejected err"

definition client_error_from_status :: "Status \<Rightarrow> ClientError" where
  "client_error_from_status s = CE_Grpc s"

text \<open>
  Shorthands of the model, not of the source: an error value of the inventory with its own
  code, message and details, and the one without details.
\<close>

abbreviation inv_arg :: "err \<Rightarrow> (string \<times> string) list \<Rightarrow> ClientError" where
  "inv_arg e kvs \<equiv> invalid_argument (codes e) (messages e) kvs"

section \<open>Accessors and predicates\<close>

definition rej_is_precondition_failed :: "CommandRejectedError \<Rightarrow> bool" where
  "rej_is_precondition_failed e \<longleftrightarrow> cr_status_code e = ''FAILED_PRECONDITION''"

definition rej_is_invalid_argument :: "CommandRejectedError \<Rightarrow> bool" where
  "rej_is_invalid_argument e \<longleftrightarrow> cr_status_code e = ''INVALID_ARGUMENT''"

definition rej_is_not_found :: "CommandRejectedError \<Rightarrow> bool" where
  "rej_is_not_found e \<longleftrightarrow> cr_status_code e = ''NOT_FOUND''"

primrec ce_message :: "ClientError \<Rightarrow> string" where
  "ce_message (CE_Connection d) = ed_message d"
| "ce_message (CE_Transport e) = messages TRANSPORT_ERROR"
| "ce_message (CE_Grpc s) = messages GRPC_ERROR"
| "ce_message (CE_InvalidArgument d) = ed_message d"
| "ce_message (CE_InvalidTimestamp d) = ed_message d"
| "ce_message (CE_Rejected r) = cr_message r"

primrec ce_code :: "ClientError \<Rightarrow> string" where
  "ce_code (CE_Connection d) = ed_code d"
| "ce_code (CE_Transport e) = codes TRANSPORT_ERROR"
| "ce_code (CE_Grpc s) = codes GRPC_ERROR"
| "ce_code (CE_InvalidArgument d) = ed_code d"
| "ce_code (CE_InvalidTimestamp d) = ed_code d"
| "ce_code (CE_Rejected r) = cr_code r"

definition grpc_code :: "ClientError \<Rightarrow> Code option" where
  "grpc_code e = (case e of CE_Grpc s \<Rightarrow> Some (status_code_of s) | _ \<Rightarrow> None)"

definition ce_status :: "ClientError \<Rightarrow> Status option" where
  "ce_status e = (case e of CE_Grpc s \<Rightarrow> Some s | _ \<Rightarrow> None)"

definition is_not_found :: "ClientError \<Rightarrow> bool" where
  "is_not_found e \<longleftrightarrow>
     grpc_code e = Some Code_NotFound \<or>
     (case e of CE_Rejected r \<Rightarrow> rej_is_not_found r | _ \<Rightarrow> False)"

definition is_precondition_failed :: "ClientError \<Rightarrow> bool" where
  "is_precondition_failed e \<longleftrightarrow>
     grpc_code e = Some Code_FailedPrecondition \<or>
     (case e of CE_Rejected r \<Rightarrow> rej_is_precondition_failed r | _ \<Rightarrow> False)"

definition is_invalid_argument :: "ClientError \<Rightarrow> bool" where
  "is_invalid_argument e \<longleftrightarrow>
     grpc_code e = Some Code_InvalidArgument \<or>
     (case e of CE_InvalidArgument _ \<Rightarrow> True | _ \<Rightarrow> False) \<or>
     (case e of CE_Rejected r \<Rightarrow> rej_is_invalid_argument r | _ \<Rightarrow> False)"

definition is_connection_error :: "ClientError \<Rightarrow> bool" where
  "is_connection_error e \<longleftrightarrow>
     (case e of
        CE_Connection _ \<Rightarrow> True
      | CE_Transport _ \<Rightarrow> True
      | CE_Grpc s \<Rightarrow> status_code_of s = Code_Unavailable
      | _ \<Rightarrow> False)"

section \<open>Translation to gRPC statuses\<close>

definition rejected_to_status :: "CommandRejectedError \<Rightarrow> Status" where
  "rejected_to_status err =
     (if cr_status_code err = ''INVALID_ARGUMENT''
        then \<lparr>status_code_of = Code_InvalidArgument, status_message = cr_message err\<rparr>
      else if cr_status_code err = ''NOT_FOUND''
        then \<lparr>status_code_of = Code_NotFound, status_message = cr_message err\<rparr>
      else \<lparr>status_code_of = Code_FailedPrecondition, status_message = cr_message err\<rparr>)"

primrec client_error_to_status :: "ClientError \<Rightarrow> Status" where
  "client_error_to_status (CE_InvalidArgument d) =
     \<lparr>status_code_of = Code_InvalidArgument, status_message = ed_message d\<rparr>"
| "client_error_to_status (CE_Connection d) =
     \<lparr>status_code_of = Code_Unavailable, status_message = ed_message d\<rparr>"
| "client_error_to_status (CE_Transport e) =
     \<lparr>status_code_of = Code_Unavailable, status_message = e\<rparr>"
| "client_error_to_status (CE_Grpc s) = s"
| "client_error_to_status (CE_InvalidTimestamp d) =
     \<lparr>status_code_of = Code_InvalidArgument, status_message = ed_message d\<rparr>"
| "client_error_to_status (CE_Rejected r) = rejected_to_status r"

text \<open>What the caller of the service sees: the status wrapped in a client error again.\<close>

abbreviation over_the_wire :: "ClientError \<Rightarrow> ClientError" where
  "over_the_wire e \<equiv> client_error_from_status (client_error_to_status e)"

section \<open>Lemmas\<close>

lemma ErrorDetail_new_sel [simp]:
  "ed_code (ErrorDetail_new c m kvs) = c"
  "ed_message (ErrorDetail_new c m kvs) = m"
  "ed_details (ErrorDetail_new c m kvs) = collect_map kvs"
  by (simp_all add: ErrorDetail_new_def)

lemma ErrorDetail_new_inject:
  "ErrorDetail_new c m kvs = ErrorDetail_new c' m' kvs' \<longleftrightarrow>
     c = c' \<and> m = m' \<and> collect_map kvs = collect_map kvs'"
  by (simp add: ErrorDetail_new_def)

lemma invalid_argument_sel [simp]:
  "ce_code (invalid_argument c m kvs) = c"
  "ce_message (invalid_argument c m kvs) = m"
  "is_invalid_argument (invalid_argument c m kvs)"
  by (simp_all add: invalid_argument_def is_invalid_argument_def)

lemma invalid_timestamp_sel [simp]:
  "ce_code (invalid_timestamp c m kvs) = c"
  "ce_message (invalid_timestamp c m kvs) = m"
  by (simp_all add: invalid_timestamp_def)

lemma connection_sel [simp]:
  "ce_code (connection c m kvs) = c"
  "ce_message (connection c m kvs) = m"
  "is_connection_error (connection c m kvs)"
  by (simp_all add: connection_def is_connection_error_def)

lemma inv_arg_inject [simp]:
  "inv_arg a kvs = inv_arg b kvs' \<longleftrightarrow> a = b \<and> collect_map kvs = collect_map kvs'"
  by (auto simp: invalid_argument_def ErrorDetail_new_inject)

lemma inv_arg_not_rejected [simp]:
  "inv_arg a kvs \<noteq> CE_Rejected r" "CE_Rejected r \<noteq> inv_arg a kvs"
  by (simp_all add: invalid_argument_def)

text \<open>
  A value of \<open>CommandRejectedError\<close> made by one of the three constructors: its status class
  is one of three.
\<close>

definition rejection_class :: "CommandRejectedError \<Rightarrow> bool" where
  "rejection_class r \<longleftrightarrow>
     cr_status_code r \<in> {''FAILED_PRECONDITION'', ''INVALID_ARGUMENT'', ''NOT_FOUND''}"

lemma rejection_class_constructors [simp]:
  "rejection_class (rej_precondition_failed c m kvs)"
  "rejection_class (rej_invalid_argument c m kvs)"
  "rejection_class (rej_not_found c m kvs)"
  by (simp_all add: rejection_class_def rej_precondition_failed_def rej_invalid_argument_def
      rej_not_found_def)

lemma rejected_to_status_code:
  assumes "rejection_class r"
  shows "(status_code_of (rejected_to_status r) = Code_NotFound) = rej_is_not_found r"
    and "(status_code_of (rejected_to_status r) = Code_InvalidArgument) =
           rej_is_invalid_argument r"
    and "(status_code_of (rejected_to_status r) = Code_FailedPrecondition) =
           rej_is_precondition_failed r"
  using assms
  by (auto simp: rejected_to_status_def rejection_class_def rej_is_not_found_def
      rej_is_invalid_argument_def rej_is_precondition_failed_def)

lemma rejected_to_status_not_unavailable [simp]:
  "status_code_of (rejected_to_status r) \<noteq> Code_Unavailable"
  by (simp add: rejected_to_status_def)

section \<open>Properties\<close>

text \<open>C30: the class of an error survives the wire. A service answers a client error with
  \<open>client_error_to_status\<close>, and the caller's library wraps that status in a
  \<open>ClientError\<close> again. For every error (a rejection being one the three rejection
  constructors make), \<open>is_not_found\<close>, \<open>is_precondition_failed\<close> and \<open>is_connection_error\<close>
  answer the same on both sides, and \<open>is_invalid_argument\<close> does so for everything but a
  timestamp error, which becomes an invalid argument.\<close>

theorem wire_preserves_error_class:
  assumes "\<And>r. e = CE_Rejected r \<Longrightarrow> rejection_class r"
  shows "is_not_found (over_the_wire e) = is_not_found e
    \<and> is_precondition_failed (over_the_wire e) = is_precondition_failed e
    \<and> is_connection_error (over_the_wire e) = is_connection_error e
    \<and> is_invalid_argument (over_the_wire e) =
        (is_invalid_argument e \<or> (\<exists>d. e = CE_InvalidTimestamp d))"
  using assms
  by (cases e)
    (auto simp: client_error_from_status_def is_not_found_def is_precondition_failed_def
      is_connection_error_def is_invalid_argument_def grpc_code_def rejected_to_status_code)

theorem wire_preserves_error_class_witness:
  "is_not_found (over_the_wire (CE_Rejected (rej_not_found ''C'' ''m'' [])))"
proof -
  have "is_not_found (CE_Rejected (rej_not_found ''C'' ''m'' []))"
    by (simp add: is_not_found_def rej_is_not_found_def rej_not_found_def)
  then show ?thesis
    using wire_preserves_error_class [of "CE_Rejected (rej_not_found ''C'' ''m'' [])"] by simp
qed

end
