(* ===== verification/Proto.thy ===== *)
theory Proto
  imports Errors
begin

text \<open>
  The protobuf messages of \<^verbatim>\<open>src/src/proto.rs\<close>. The types themselves are generated at
  build time from a schema that is not part of the repository: their shape here is the one
  the sources construct and match on (struct literals and patterns in \<^verbatim>\<open>src/src\<close>,
  \<^verbatim>\<open>src/angzarr-macros\<close> and \<^verbatim>\<open>src/tests\<close>), field for field. A message the modelled
  code only passes along is an \<open>opaque\<close>, its encoded bytes. Enumerations travel as \<open>i32\<close>.

  Encoding and decoding belong to generated code and to the \<open>prost\<close> crate. The operations that
  decode take the decoder as an argument: the record \<open>Wire\<close> gathers the decoders of the two
  framework messages the routers read, and \<open>Codec\<close> is the interface of one user message type.
\<close>

section \<open>Identifiers, covers, pages\<close>

type_synonym opaque = bytes

record Any_msg =
  any_type_url :: string
  any_value :: bytes

record Timestamp =
  ts_seconds :: "64 word"
  ts_nanos :: i32

record ProtoUuid =
  uuid_value :: bytes

record DomainDivergence =
  div_domain :: string
  div_sequence :: u32

record Edition =
  ed_name :: string
  ed_divergences :: "DomainDivergence list"

record Cover =
  cv_domain :: string
  cv_root :: "ProtoUuid option"
  cv_correlation_id :: string
  cv_edition :: "Edition option"

record AngzarrDeferredSequence =
  ads_source :: "Cover option"
  ads_source_seq :: u32

datatype SequenceType =
    Sequence u32
  | ExternalDeferred opaque
  | AngzarrDeferred AngzarrDeferredSequence

record PageHeader =
  ph_sequence_type :: "SequenceType option"
  ph_sync_mode :: "i32 option"

datatype EventPayload = Ev_Event Any_msg | Ev_External opaque

datatype CommandPayload = Cmd_Command Any_msg | Cmd_External opaque

record EventPage =
  ep_header :: "PageHeader option"
  ep_created_at :: "Timestamp option"
  ep_payload :: "EventPayload option"
  ep_cascade_id :: "string option"
  ep_no_commit :: bool

record CommandPage =
  cp_header :: "PageHeader option"
  cp_merge_strategy :: i32
  cp_payload :: "CommandPayload option"

record Snapshot =
  sn_sequence :: u32
  sn_state :: "Any_msg option"
  sn_retention :: i32

record EventBook =
  eb_cover :: "Cover option"
  eb_pages :: "EventPage list"
  eb_snapshot :: "Snapshot option"
  eb_next_sequence :: u32

record CommandBook =
  cb_cover :: "Cover option"
  cb_pages :: "CommandPage list"

section \<open>Requests and responses\<close>

record ContextualCommand =
  cc_events :: "EventBook option"
  cc_command :: "CommandBook option"

record Notification =
  nt_other :: opaque
  nt_payload :: "Any_msg option"

record RejectionNotification =
  rn_rejected_command :: "CommandBook option"
  rn_rejection_reason :: string

record RevocationResponse =
  rv_emit_system_revocation :: bool
  rv_send_to_dead_letter_queue :: bool
  rv_escalate :: bool
  rv_abort :: bool
  rv_reason :: string

datatype BusinessResult =
    BR_Events EventBook
  | BR_Revocation RevocationResponse
  | BR_Other opaque

record BusinessResponse =
  br_result :: "BusinessResult option"

record SagaHandleRequest =
  sg_source :: "EventBook option"
  sg_destination_sequences :: "string \<rightharpoonup> u32"

record SagaResponse =
  sr_commands :: "CommandBook list"
  sr_events :: "EventBook list"

record PMHandleRequest =
  pm_trigger :: "EventBook option"
  pm_process_state :: "EventBook option"
  pm_destination_sequences :: "string \<rightharpoonup> u32"

record PMHandleResponse =
  pr_commands :: "CommandBook list"
  pr_process_events :: "EventBook list"
  pr_facts :: "EventBook list"

record Projection =
  pj_cover :: "Cover option"
  pj_projector :: string
  pj_sequence :: u32
  pj_projection :: "Any_msg option"

record UpcastRequest =
  uq_domain :: string
  uq_events :: "EventPage list"

record UpcastResponse =
  ur_events :: "EventPage list"

record FactRequest =
  fr_facts :: "EventBook option"
  fr_prior_events :: "EventBook option"

record ReplayRequest =
  rq_base_snapshot :: "Snapshot option"
  rq_events :: "EventPage list"

record ReplayResponse =
  rp_state :: "Any_msg option"

record CommandResponse =
  cres_events :: "EventBook option"
  cres_projections :: "Projection list"

record CommandRequest =
  cq_command :: "CommandBook option"
  cq_sync_mode :: i32
  cq_cascade_error_mode :: i32
  cq_cascade_id :: "string option"

record SequenceRange =
  srg_lower :: u32
  srg_upper :: "u32 option"

datatype PointInTime = AsOfSequence u32 | AsOfTime Timestamp

record TemporalQuery =
  tq_point_in_time :: "PointInTime option"

datatype Selection = Sel_Range SequenceRange | Sel_Temporal TemporalQuery | Sel_Other opaque

record Query =
  qy_cover :: "Cover option"
  qy_selection :: "Selection option"

section \<open>Default messages\<close>

text \<open>\<open>Default::default()\<close> of a generated message: every field its zero value.\<close>

definition default_EventBook :: EventBook where
  "default_EventBook =
     \<lparr>eb_cover = None, eb_pages = [], eb_snapshot = None, eb_next_sequence = 0\<rparr>"

definition default_RejectionNotification :: RejectionNotification where
  "default_RejectionNotification = \<lparr>rn_rejected_command = None, rn_rejection_reason = []\<rparr>"

definition default_PageHeader :: PageHeader where
  "default_PageHeader = \<lparr>ph_sequence_type = None, ph_sync_mode = None\<rparr>"

definition default_SagaResponse :: SagaResponse where
  "default_SagaResponse = \<lparr>sr_commands = [], sr_events = []\<rparr>"

definition default_PMHandleResponse :: PMHandleResponse where
  "default_PMHandleResponse = \<lparr>pr_commands = [], pr_process_events = [], pr_facts = []\<rparr>"

definition default_ReplayResponse :: ReplayResponse where
  "default_ReplayResponse = \<lparr>rp_state = None\<rparr>"

section \<open>Generated code as parameters\<close>

text \<open>
  The decoders of the two framework messages the routers look into, with the error's text on
  failure, and the full protobuf name of \<open>Notification\<close> (\<open>Notification::full_name()\<close>).
\<close>

record Wire =
  w_notification_name :: string
  w_decode_notification :: "bytes \<Rightarrow> string + Notification"
  w_decode_rejection :: "bytes \<Rightarrow> string + RejectionNotification"

text \<open>
  One generated message type \<open>M\<close>: \<open>M::full_name()\<close>, \<open>M::decode\<close> and \<open>encode_to_vec\<close>. That
  decoding inverts encoding is the documented contract of the generated code.
\<close>

record 'm Codec =
  cd_name :: string
  cd_decode :: "bytes \<Rightarrow> string + 'm"
  cd_encode :: "'m \<Rightarrow> bytes"

definition lawful_codec :: "'m Codec \<Rightarrow> bool" where
  "lawful_codec c \<longleftrightarrow> (\<forall>m. cd_decode c (cd_encode c m) = Inr m)"

lemma lawful_codecD [simp]: "lawful_codec c \<Longrightarrow> cd_decode c (cd_encode c m) = Inr m"
  by (simp add: lawful_codec_def)

section \<open>Event and command payloads\<close>

text \<open>
  The pattern \<open>match &page.payload { Some(Payload::Event(e)) => e, _ => ... }\<close>, and its
  command counterpart.
\<close>

definition event_any :: "EventPage \<Rightarrow> Any_msg option" where
  "event_any p = (case ep_payload p of Some (Ev_Event e) \<Rightarrow> Some e | _ \<Rightarrow> None)"

definition command_any :: "CommandPage \<Rightarrow> Any_msg option" where
  "command_any p = (case cp_payload p of Some (Cmd_Command c) \<Rightarrow> Some c | _ \<Rightarrow> None)"

lemma event_any_simps [simp]:
  "ep_payload p = None \<Longrightarrow> event_any p = None"
  "ep_payload p = Some (Ev_Event e) \<Longrightarrow> event_any p = Some e"
  "ep_payload p = Some (Ev_External x) \<Longrightarrow> event_any p = None"
  by (simp_all add: event_any_def)

lemma event_any_Some: "event_any p = Some e \<longleftrightarrow> ep_payload p = Some (Ev_Event e)"
  by (auto simp: event_any_def split: option.splits EventPayload.splits)

lemma command_any_simps [simp]:
  "cp_payload p = None \<Longrightarrow> command_any p = None"
  "cp_payload p = Some (Cmd_Command c) \<Longrightarrow> command_any p = Some c"
  "cp_payload p = Some (Cmd_External x) \<Longrightarrow> command_any p = None"
  by (simp_all add: command_any_def)

lemma command_any_Some: "command_any p = Some c \<longleftrightarrow> cp_payload p = Some (Cmd_Command c)"
  by (auto simp: command_any_def split: option.splits CommandPayload.splits)

lemma default_EventBook_sel [simp, accessor_simps]:
  "eb_cover default_EventBook = None" "eb_pages default_EventBook = []"
  "eb_snapshot default_EventBook = None" "eb_next_sequence default_EventBook = 0"
  by (simp_all add: default_EventBook_def)

lemma default_RejectionNotification_sel [simp, accessor_simps]:
  "rn_rejected_command default_RejectionNotification = None"
  "rn_rejection_reason default_RejectionNotification = []"
  by (simp_all add: default_RejectionNotification_def)

lemma default_SagaResponse_sel [simp, accessor_simps]:
  "sr_commands default_SagaResponse = []" "sr_events default_SagaResponse = []"
  by (simp_all add: default_SagaResponse_def)

lemma default_PMHandleResponse_sel [simp, accessor_simps]:
  "pr_commands default_PMHandleResponse = []" "pr_process_events default_PMHandleResponse = []"
  "pr_facts default_PMHandleResponse = []"
  by (simp_all add: default_PMHandleResponse_def)

end
