(* ===== verification/Cover_Ext.thy ===== *)
theory Cover_Ext
  imports Proto
begin

text \<open>
  \<^verbatim>\<open>src/src/proto_ext\<close>, the part about covers: the shared constants (\<^verbatim>\<open>constants.rs\<close>),
  the accessors of the \<open>CoverExt\<close> trait (\<^verbatim>\<open>cover.rs\<close>), editions (\<^verbatim>\<open>edition.rs\<close>), proto
  UUIDs (\<^verbatim>\<open>uuid.rs\<close>) and correlated requests (\<^verbatim>\<open>grpc.rs\<close>).

  A default method of \<open>CoverExt\<close> only reads \<open>self.cover()\<close>, so it is a function of the
  optional cover. The \<open>hex\<close> and \<open>uuid\<close> crates are third-party: \<open>hex::encode\<close> is an argument
  \<open>hex\<close>, the UUID type with its operations the record \<open>UuidCrate\<close>.
\<close>

section \<open>Third-party interfaces\<close>

text \<open>
  \<open>hex::encode\<close>: lower-case hexadecimal digits, two per byte. What the theorems use of it is
  that different bytes have different texts and that no text holds a colon.
\<close>

definition lawful_hex :: "(bytes \<Rightarrow> string) \<Rightarrow> bool" where
  "lawful_hex hex \<longleftrightarrow> inj hex \<and> (\<forall>b. CHR '':'' \<notin> set (hex b)) \<and> hex [] = []"

text \<open>\<open>uuid::Uuid\<close>: 16 bytes, built from a slice of exactly that length.\<close>

record 'u UuidCrate =
  uc_from_slice :: "bytes \<Rightarrow> string + 'u"
  uc_as_bytes :: "'u \<Rightarrow> bytes"
  uc_to_string :: "'u \<Rightarrow> string"
  uc_new_v5 :: "'u \<Rightarrow> bytes \<Rightarrow> 'u"
  uc_namespace_dns :: 'u
  uc_namespace_oid :: 'u

definition lawful_uuid :: "'u UuidCrate \<Rightarrow> bool" where
  "lawful_uuid U \<longleftrightarrow>
     (\<forall>u. length (uc_as_bytes U u) = 16 \<and> uc_from_slice U (uc_as_bytes U u) = Inr u) \<and>
     (\<forall>b u. uc_from_slice U b = Inr u \<longrightarrow> uc_as_bytes U u = b) \<and>
     (\<forall>b. length b = 16 \<longrightarrow> (\<exists>u. uc_from_slice U b = Inr u))"

section \<open>Constants\<close>

definition CORRELATION_ID_HEADER :: string where
  "CORRELATION_ID_HEADER = ''x-correlation-id''"

definition UNKNOWN_DOMAIN :: string where
  "UNKNOWN_DOMAIN = ''unknown''"

definition PROJECTION_DOMAIN_PREFIX :: string where
  "PROJECTION_DOMAIN_PREFIX = ''_projection''"

definition PROJECTION_TYPE_URL :: string where
  "PROJECTION_TYPE_URL = ''angzarr_client.proto.angzarr.Projection''"

definition WILDCARD_DOMAIN :: string where
  "WILDCARD_DOMAIN = ''*''"

definition META_ANGZARR_DOMAIN :: string where
  "META_ANGZARR_DOMAIN = ''_angzarr''"

definition DEFAULT_EDITION :: string where
  "DEFAULT_EDITION = []"

definition TYPE_URL_PREFIX :: string where
  "TYPE_URL_PREFIX = ''type.googleapis.com/''"

section \<open>Covers\<close>

definition domain_of :: "Cover option \<Rightarrow> string" where
  "domain_of c = unwrap_or UNKNOWN_DOMAIN (opt_filter (\<lambda>d. d \<noteq> []) (map_option cv_domain c))"

definition correlation_id :: "Cover option \<Rightarrow> string" where
  "correlation_id c = unwrap_or [] (map_option cv_correlation_id c)"

definition root_id_hex :: "(bytes \<Rightarrow> string) \<Rightarrow> Cover option \<Rightarrow> string option" where
  "root_id_hex hex c = map_option (\<lambda>u. hex (uuid_value u)) (Option.bind c cv_root)"

definition root_uuid :: "'u UuidCrate \<Rightarrow> Cover option \<Rightarrow> 'u option" where
  "root_uuid U c = Option.bind (Option.bind c cv_root)
     (\<lambda>u. case uc_from_slice U (uuid_value u) of Inl _ \<Rightarrow> None | Inr x \<Rightarrow> Some x)"

definition has_correlation_id :: "Cover option \<Rightarrow> bool" where
  "has_correlation_id c \<longleftrightarrow> \<not> (correlation_id c = [])"

definition edition_of :: "Cover option \<Rightarrow> string" where
  "edition_of c = unwrap_or DEFAULT_EDITION
     (opt_filter (\<lambda>e. e \<noteq> []) (map_option ed_name (Option.bind c cv_edition)))"

definition routing_key :: "Cover option \<Rightarrow> string" where
  "routing_key c = domain_of c"

definition cache_key :: "(bytes \<Rightarrow> string) \<Rightarrow> Cover option \<Rightarrow> string" where
  "cache_key hex c =
     edition_of c @ '':'' @ domain_of c @ '':'' @ unwrap_or [] (root_id_hex hex c)"

lemma domain_of_nonempty: "domain_of c \<noteq> []"
  by (cases c) (auto simp: domain_of_def UNKNOWN_DOMAIN_def)

lemma domain_of_Some [accessor_simps]:
  "domain_of (Some c) = (if cv_domain c = [] then UNKNOWN_DOMAIN else cv_domain c)"
  by (simp add: domain_of_def)

lemma domain_of_None [accessor_simps]: "domain_of None = UNKNOWN_DOMAIN"
  by (simp add: domain_of_def)

lemma edition_of_eq [accessor_simps]:
  "edition_of c = (case Option.bind c cv_edition of None \<Rightarrow> [] | Some e \<Rightarrow> ed_name e)"
  by (auto simp: edition_of_def DEFAULT_EDITION_def split: option.splits)

text \<open>The root as the cache key sees it: a missing root and an empty one are the same.\<close>

definition root_bytes :: "Cover option \<Rightarrow> bytes" where
  "root_bytes c = (case Option.bind c cv_root of None \<Rightarrow> [] | Some u \<Rightarrow> uuid_value u)"

lemma root_hex_default:
  "lawful_hex hex \<Longrightarrow> unwrap_or [] (root_id_hex hex c) = hex (root_bytes c)"
  by (auto simp: root_id_hex_def root_bytes_def lawful_hex_def split: option.splits)

section \<open>Editions\<close>

definition edition_is_empty :: "Edition \<Rightarrow> bool" where
  "edition_is_empty e \<longleftrightarrow> ed_name e = []"

definition is_main_timeline :: "Edition \<Rightarrow> bool" where
  "is_main_timeline e \<longleftrightarrow> ed_name e = [] \<or> ed_name e = DEFAULT_EDITION"

definition name_or_default :: "Edition \<Rightarrow> string" where
  "name_or_default e = (if ed_name e = [] then DEFAULT_EDITION else ed_name e)"

definition divergence_for :: "Edition \<Rightarrow> string \<Rightarrow> u32 option" where
  "divergence_for e d =
     map_option div_sequence (find (\<lambda>x. div_domain x = d) (ed_divergences e))"

definition main_timeline :: Edition where
  "main_timeline = \<lparr>ed_name = [], ed_divergences = []\<rparr>"

definition edition_implicit :: "string \<Rightarrow> Edition" where
  "edition_implicit name = \<lparr>ed_name = name, ed_divergences = []\<rparr>"

definition edition_explicit :: "string \<Rightarrow> DomainDivergence list \<Rightarrow> Edition" where
  "edition_explicit name divs = \<lparr>ed_name = name, ed_divergences = divs\<rparr>"

lemma divergence_for_None:
  "divergence_for e d = None \<longleftrightarrow> d \<notin> div_domain ` set (ed_divergences e)"
  by (auto simp: divergence_for_def find_None_iff)

section \<open>Proto UUIDs\<close>

definition to_uuid :: "'u UuidCrate \<Rightarrow> ProtoUuid \<Rightarrow> string + 'u" where
  "to_uuid U p = uc_from_slice U (uuid_value p)"

definition to_hex :: "(bytes \<Rightarrow> string) \<Rightarrow> ProtoUuid \<Rightarrow> string" where
  "to_hex hex p = hex (uuid_value p)"

definition to_uuid_text :: "'u UuidCrate \<Rightarrow> (bytes \<Rightarrow> string) \<Rightarrow> ProtoUuid \<Rightarrow> string" where
  "to_uuid_text U hex p =
     (case to_uuid U p of Inr u \<Rightarrow> uc_to_string U u | Inl _ \<Rightarrow> to_hex hex p)"

definition to_proto_uuid :: "'u UuidCrate \<Rightarrow> 'u \<Rightarrow> ProtoUuid" where
  "to_proto_uuid U u = \<lparr>uuid_value = uc_as_bytes U u\<rparr>"

section \<open>Correlated requests\<close>

text \<open>
  A \<open>tonic::Request\<close> is the message with its ASCII metadata. \<open>ascii s\<close> says whether \<open>s\<close>
  parses as a metadata value (\<open>s.parse().is_ok()\<close>, a rule of the \<open>tonic\<close> crate).
\<close>

record 'm Request =
  req_message :: 'm
  req_metadata :: "string \<rightharpoonup> string"

definition correlated_request :: "(string \<Rightarrow> bool) \<Rightarrow> 'm \<Rightarrow> string \<Rightarrow> 'm Request" where
  "correlated_request ascii msg corr =
     (let req = \<lparr>req_message = msg, req_metadata = Map.empty\<rparr>
      in if corr \<noteq> [] \<and> ascii corr
         then req\<lparr>req_metadata := (req_metadata req)(CORRELATION_ID_HEADER \<mapsto> corr)\<rparr>
         else req)"

lemma correlated_request_sel [simp]:
  "req_message (correlated_request ascii msg corr) = msg"
  "req_metadata (correlated_request ascii msg corr) =
     (if corr \<noteq> [] \<and> ascii corr then [CORRELATION_ID_HEADER \<mapsto> corr] else Map.empty)"
  by (simp_all add: correlated_request_def Let_def)

end
