(* ===== verification/Instances.thy ===== *)
theory Instances
  imports Cover_Ext
begin

text \<open>
  Concrete instances of the third-party interfaces, used by the witnesses only: they show that
  what the theorems assume of those crates can hold, by functions that do what the crates
  document. Nothing of the model depends on them.
\<close>

section \<open>Hexadecimal text\<close>

definition hex_digit :: "nat \<Rightarrow> char" where
  "hex_digit d = char_of (if d < 10 then 48 + d else 87 + d)"

definition hex_byte :: "8 word \<Rightarrow> string" where
  "hex_byte b = [hex_digit (unat b div 16), hex_digit (unat b mod 16)]"

definition hex_model :: "bytes \<Rightarrow> string" where
  "hex_model bs = concat (map hex_byte bs)"

lemma of_char_hex_digit:
  "d < 16 \<Longrightarrow> (of_char (hex_digit d) :: nat) = (if d < 10 then 48 + d else 87 + d)"
  by (simp add: hex_digit_def)

lemma hex_digit_inject:
  assumes "a < 16" and "b < 16" and "hex_digit a = hex_digit b"
  shows "a = b"
proof -
  have "(of_char (hex_digit a) :: nat) = of_char (hex_digit b)" using assms(3) by (rule arg_cong)
  then have "(if a < 10 then 48 + a else 87 + a) = (if b < 10 then 48 + b else 87 + b)"
    by (simp only: of_char_hex_digit [OF assms(1)] of_char_hex_digit [OF assms(2)])
  then show ?thesis by presburger
qed

lemma hex_digit_not_colon:
  assumes "d < 16"
  shows "hex_digit d \<noteq> CHR '':''"
proof
  assume "hex_digit d = CHR '':''"
  then have "(of_char (hex_digit d) :: nat) = of_char CHR '':''" by (rule arg_cong)
  then have "(if d < 10 then 48 + d else 87 + d) = 58"
    by (simp only: of_char_hex_digit [OF assms]) simp
  then show False by presburger
qed

lemma unat_byte_div: "unat (b :: 8 word) div 16 < 16"
  using unsigned_less [where 'a = nat, of b] by simp

lemma hex_byte_inject: "hex_byte a = hex_byte b \<Longrightarrow> a = b"
proof -
  assume "hex_byte a = hex_byte b"
  then have "unat a div 16 = unat b div 16" "unat a mod 16 = unat b mod 16"
    unfolding hex_byte_def by (auto intro: hex_digit_inject unat_byte_div)
  then have "unat a = unat b" by (metis div_mult_mod_eq)
  then show "a = b" by (simp add: word_unat_eq_iff)
qed

lemma hex_byte_not_colon: "CHR '':'' \<notin> set (hex_byte b)"
proof -
  have "hex_digit (unat b div 16) \<noteq> CHR '':''" "hex_digit (unat b mod 16) \<noteq> CHR '':''"
    by (rule hex_digit_not_colon, simp add: unat_byte_div)+
  then show ?thesis by (simp add: hex_byte_def)
qed

lemma hex_model_inject: "hex_model a = hex_model b \<Longrightarrow> a = b"
proof (induction a arbitrary: b)
  case Nil
  then show ?case by (cases b) (auto simp: hex_model_def hex_byte_def)
next
  case (Cons x xs)
  then obtain y ys where b: "b = y # ys"
    by (cases b) (auto simp: hex_model_def hex_byte_def)
  with Cons.prems have "hex_byte x = hex_byte y" "hex_model xs = hex_model ys"
    by (auto simp: hex_model_def hex_byte_def)
  with Cons.IH b show ?case by (auto dest: hex_byte_inject)
qed

lemma lawful_hex_model: "lawful_hex hex_model"
  unfolding lawful_hex_def
proof (intro conjI allI)
  show "inj hex_model" by (rule injI) (rule hex_model_inject)
  show "CHR '':'' \<notin> set (hex_model b)" for b
    using hex_byte_not_colon by (auto simp: hex_model_def)
  show "hex_model [] = []" by (simp add: hex_model_def)
qed

section \<open>UUIDs\<close>

typedef uuid16 = "{bs :: bytes. length bs = 16}"
  by (rule exI [of _ "replicate 16 0"]) simp

definition uuid16_crate :: "uuid16 UuidCrate" where
  "uuid16_crate =
     \<lparr>uc_from_slice = (\<lambda>b. if length b = 16 then Inr (Abs_uuid16 b) else Inl ''length''),
      uc_as_bytes = Rep_uuid16,
      uc_to_string = (\<lambda>u. hex_model (Rep_uuid16 u)),
      uc_new_v5 = (\<lambda>u name. u),
      uc_namespace_dns = Abs_uuid16 (replicate 16 0),
      uc_namespace_oid = Abs_uuid16 (replicate 16 1)\<rparr>"

lemma lawful_uuid16: "lawful_uuid uuid16_crate"
proof -
  have "length (Rep_uuid16 u) = 16" for u using Rep_uuid16 [of u] by simp
  then show ?thesis
    by (auto simp: lawful_uuid_def uuid16_crate_def Rep_uuid16_inverse Abs_uuid16_inverse
        split: if_splits)
qed

section \<open>Codecs\<close>

text \<open>A message type whose messages are byte strings, encoded as themselves.\<close>

definition bytes_codec :: "string \<Rightarrow> bytes Codec" where
  "bytes_codec name =
     \<lparr>cd_name = name, cd_decode = (\<lambda>b. Inr b), cd_encode = (\<lambda>b. b)\<rparr>"

lemma lawful_bytes_codec: "lawful_codec (bytes_codec name)"
  by (simp add: lawful_codec_def bytes_codec_def)

section \<open>Example messages\<close>

definition order_cover :: Cover where
  "order_cover = \<lparr>cv_domain = ''order'', cv_root = Some \<lparr>uuid_value = [85]\<rparr>,
                  cv_correlation_id = [], cv_edition = None\<rparr>"

definition seq_header :: "u32 \<Rightarrow> PageHeader" where
  "seq_header n = \<lparr>ph_sequence_type = Some (Sequence n), ph_sync_mode = None\<rparr>"

definition event_page :: "u32 \<Rightarrow> Any_msg \<Rightarrow> EventPage" where
  "event_page n e =
     \<lparr>ep_header = Some (seq_header n), ep_created_at = None, ep_payload = Some (Ev_Event e),
      ep_cascade_id = None, ep_no_commit = False\<rparr>"

definition command_page :: "u32 \<Rightarrow> Any_msg \<Rightarrow> CommandPage" where
  "command_page n c =
     \<lparr>cp_header = Some (seq_header n), cp_merge_strategy = 0, cp_payload = Some (Cmd_Command c)\<rparr>"

definition event_book :: "Cover option \<Rightarrow> EventPage list \<Rightarrow> EventBook" where
  "event_book c ps = \<lparr>eb_cover = c, eb_pages = ps, eb_snapshot = None, eb_next_sequence = 0\<rparr>"

definition raw_any :: "string \<Rightarrow> bytes \<Rightarrow> Any_msg" where
  "raw_any name v = \<lparr>any_type_url = TYPE_URL_PREFIX @ name, any_value = v\<rparr>"

end
