(* ===== verification/Convert.thy ===== *)
theory Convert
  imports Cover_Ext Instances
begin

text \<open>
  \<^verbatim>\<open>src/src/convert.rs\<close>: type URLs, unpacking of \<open>google.protobuf.Any\<close> values, UUID and
  timestamp conversion.

  A user message type is its \<open>Codec\<close>. The \<open>chrono\<close> crate is third-party: parsing an RFC 3339
  text is an argument \<open>chrono\<close> that yields seconds and nanoseconds or the error's text. The
  system clock is the argument of \<open>now_ts\<close>: \<open>None\<close> when it reads before the epoch.
\<close>

section \<open>Type URLs\<close>

definition type_url :: "string \<Rightarrow> string" where
  "type_url type_name = TYPE_URL_PREFIX @ type_name"

definition type_name_from_url :: "string \<Rightarrow> string" where
  "type_name_from_url u = rsplit_next (CHR ''/'') u"

definition type_url_matches_exact :: "string \<Rightarrow> string \<Rightarrow> bool" where
  "type_url_matches_exact u full_type_name \<longleftrightarrow> u = TYPE_URL_PREFIX @ full_type_name"

definition type_url_matches :: "string \<Rightarrow> string \<Rightarrow> bool" where
  "type_url_matches u full_type_name \<longleftrightarrow> type_url_matches_exact u full_type_name"

definition full_type_url :: "'m Codec \<Rightarrow> string" where
  "full_type_url c = TYPE_URL_PREFIX @ cd_name c"

definition full_type_name :: "'m Codec \<Rightarrow> string" where
  "full_type_name c = cd_name c"

section \<open>Unpacking\<close>

definition type_matches :: "'m Codec \<Rightarrow> Any_msg \<Rightarrow> bool" where
  "type_matches c any \<longleftrightarrow> any_type_url any = full_type_url c"

definition decode_payload :: "'m Codec \<Rightarrow> bytes \<Rightarrow> string \<Rightarrow> ClientError + 'm" where
  "decode_payload c v url =
     map_err (\<lambda>e. inv_arg ANY_DECODE_FAILED [(keys K_EXPECTED, url), (keys K_CAUSE, e)])
       (cd_decode c v)"

definition try_unpack :: "'m Codec \<Rightarrow> Any_msg \<Rightarrow> ClientError + 'm option" where
  "try_unpack c any =
     (if \<not> type_matches c any then Inr None
      else map_ok Some (decode_payload c (any_value any) (any_type_url any)))"

definition unpack :: "'m Codec \<Rightarrow> Any_msg \<Rightarrow> ClientError + 'm" where
  "unpack c any =
     (let expected = full_type_url c
      in if any_type_url any \<noteq> expected
         then Inl (inv_arg ANY_TYPE_MISMATCH
                     [(keys K_EXPECTED, expected), (keys K_ACTUAL, any_type_url any)])
         else decode_payload c (any_value any) expected)"

text \<open>\<open>Any::from_msg\<close> as the builders spell it: the full type URL and the encoded bytes.\<close>

definition pack :: "'m Codec \<Rightarrow> 'm \<Rightarrow> Any_msg" where
  "pack c m = \<lparr>any_type_url = full_type_url c, any_value = cd_encode c m\<rparr>"

section \<open>UUIDs and timestamps\<close>

definition uuid_to_proto :: "'u UuidCrate \<Rightarrow> 'u \<Rightarrow> ProtoUuid" where
  "uuid_to_proto U u = \<lparr>uuid_value = uc_as_bytes U u\<rparr>"

definition proto_to_uuid :: "'u UuidCrate \<Rightarrow> ProtoUuid \<Rightarrow> ClientError + 'u" where
  "proto_to_uuid U p =
     map_err (\<lambda>e. inv_arg PROTO_UUID_INVALID [(keys K_CAUSE, e)])
       (uc_from_slice U (uuid_value p))"

definition parse_timestamp ::
  "(string \<Rightarrow> string + (64 word \<times> u32)) \<Rightarrow> string \<Rightarrow> ClientError + Timestamp" where
  "parse_timestamp chrono rfc3339 =
     bindR (map_err (\<lambda>e. invalid_timestamp (codes TIMESTAMP_PARSE_FAILED)
                (messages TIMESTAMP_PARSE_FAILED)
                [(keys K_INPUT, rfc3339), (keys K_CAUSE, e)])
              (chrono rfc3339))
       (\<lambda>(secs, nanos). Inr \<lparr>ts_seconds = secs, ts_nanos = nanos\<rparr>)"

definition now_ts :: "(64 word \<times> u32) option \<Rightarrow> Timestamp panicking" where
  "now_ts clock =
     (case clock of
        None \<Rightarrow> Panicked ''system time before unix epoch''
      | Some (secs, nanos) \<Rightarrow> Returned \<lparr>ts_seconds = secs, ts_nanos = nanos\<rparr>)"

section \<open>Lemmas\<close>

lemma full_type_url_inject [simp]:
  "full_type_url c = full_type_url d \<longleftrightarrow> cd_name c = cd_name d"
  by (simp add: full_type_url_def)

lemma type_matches_pack [simp]: "type_matches d (pack c m) \<longleftrightarrow> cd_name c = cd_name d"
  by (simp add: type_matches_def pack_def)

lemma decode_payload_Inr [simp]:
  "decode_payload c v url = Inr m \<longleftrightarrow> cd_decode c v = Inr m"
  by (cases "cd_decode c v") (simp_all add: decode_payload_def)

lemma decode_payload_Inl:
  "decode_payload c v url = Inl e \<longleftrightarrow>
     (\<exists>t. cd_decode c v = Inl t \<and>
          e = inv_arg ANY_DECODE_FAILED [(keys K_EXPECTED, url), (keys K_CAUSE, t)])"
  by (cases "cd_decode c v") (auto simp: decode_payload_def)

lemma decode_payload_encode [simp]:
  "lawful_codec c \<Longrightarrow> decode_payload c (cd_encode c m) url = Inr m"
  by simp

text \<open>The two entry points read the same payload: one calls a mismatch an error, one \<open>None\<close>.\<close>

lemma try_unpack_unpack:
  "try_unpack c any =
     (if type_matches c any then map_ok Some (unpack c any) else Inr None)"
  by (simp add: try_unpack_def unpack_def type_matches_def Let_def)

lemma type_name_from_url_type_url:
  assumes "CHR ''/'' \<notin> set name"
  shows "type_name_from_url (type_url name) = name"
proof -
  have "type_url name = ''type.googleapis.com'' @ CHR ''/'' # name"
    by (simp add: type_url_def TYPE_URL_PREFIX_def)
  then show ?thesis
    using rsplit_next_append [OF assms] unfolding type_name_from_url_def by metis
qed

section \<open>Properties\<close>

text \<open>C29: unpacking an \<open>Any\<close>. A packed message of type \<open>c\<close> unpacks to itself and
  \<open>try_unpack\<close> finds it; read as another type \<open>d\<close> it is the error \<open>ANY_TYPE_MISMATCH\<close> naming
  both URLs for \<open>unpack\<close> and an \<open>Ok(None)\<close> for \<open>try_unpack\<close>. Whatever the bytes, of a payload
  whose type matches \<open>unpack\<close> gives the decoded message, or \<open>ANY_DECODE_FAILED\<close> naming the
  expected URL and the decoder's cause, and \<open>try_unpack\<close> the same message or the same error.\<close>

theorem any_unpack_roundtrip:
  assumes "lawful_codec c" and "cd_name d \<noteq> cd_name c"
  shows "unpack c (pack c m) = Inr m
    \<and> try_unpack c (pack c m) = Inr (Some m)
    \<and> unpack d (pack c m) =
        Inl (inv_arg ANY_TYPE_MISMATCH
               [(keys K_EXPECTED, type_url (full_type_name d)),
                (keys K_ACTUAL, type_url (full_type_name c))])
    \<and> try_unpack d (pack c m) = Inr None
    \<and> (\<forall>any. type_matches c any \<longrightarrow>
         unpack c any =
           (case cd_decode c (any_value any) of
              Inr v \<Rightarrow> Inr v
            | Inl cause \<Rightarrow> Inl (inv_arg ANY_DECODE_FAILED
                [(keys K_EXPECTED, type_url (full_type_name c)), (keys K_CAUSE, cause)]))
         \<and> try_unpack c any = map_ok Some (unpack c any))"
  using assms
  by (auto simp: decode_payload_def unpack_def try_unpack_unpack pack_def Let_def
      type_matches_def full_type_url_def type_url_def full_type_name_def split: sum.split)

theorem any_unpack_roundtrip_witness:
  "unpack (bytes_codec ''pkg.A'') (pack (bytes_codec ''pkg.A'') [1, 2]) = Inr [1, 2]
   \<and> try_unpack (bytes_codec ''pkg.B'') (pack (bytes_codec ''pkg.A'') [1, 2]) = Inr None"
proof -
  have "cd_name (bytes_codec ''pkg.B'') \<noteq> cd_name (bytes_codec ''pkg.A'')"
    by (simp add: bytes_codec_def)
  from any_unpack_roundtrip [OF lawful_bytes_codec this] show ?thesis by blast
qed

end
