(* ===== verification/Pages.thy ===== *)
theory Pages
  imports Convert
begin

text \<open>
  \<^verbatim>\<open>src/src/proto_ext/pages.rs\<close> and \<^verbatim>\<open>books.rs\<close>: the accessors of page headers, event and
  command pages and books, sequence arithmetic and idempotency keys.

  Sequence numbers are \<open>u32\<close>; \<open>+ 1\<close> wraps, as the release build does. The enumeration
  \<open>MergeStrategy\<close> is generated code: its \<open>try_from\<close> is an argument \<open>strategy\<close>, and its
  variant \<open>MergeCommutative\<close> an argument \<open>commutative\<close>.
\<close>

section \<open>Page headers\<close>

definition explicit_sequence :: "PageHeader \<Rightarrow> u32 option" where
  "explicit_sequence h = (case ph_sequence_type h of Some (Sequence s) \<Rightarrow> Some s | _ \<Rightarrow> None)"

definition header_is_deferred :: "PageHeader \<Rightarrow> bool" where
  "header_is_deferred h \<longleftrightarrow>
     (case ph_sequence_type h of
        Some (ExternalDeferred _) \<Rightarrow> True | Some (AngzarrDeferred _) \<Rightarrow> True | _ \<Rightarrow> False)"

definition external_deferred :: "PageHeader \<Rightarrow> opaque option" where
  "external_deferred h =
     (case ph_sequence_type h of Some (ExternalDeferred x) \<Rightarrow> Some x | _ \<Rightarrow> None)"

definition angzarr_deferred :: "PageHeader \<Rightarrow> AngzarrDeferredSequence option" where
  "angzarr_deferred h =
     (case ph_sequence_type h of Some (AngzarrDeferred x) \<Rightarrow> Some x | _ \<Rightarrow> None)"

section \<open>Event pages\<close>

definition ep_sequence_num :: "EventPage \<Rightarrow> u32" where
  "ep_sequence_num p = unwrap_or 0 (Option.bind (ep_header p) explicit_sequence)"

definition ep_is_deferred :: "EventPage \<Rightarrow> bool" where
  "ep_is_deferred p = unwrap_or False (map_option header_is_deferred (ep_header p))"

definition ep_type_url :: "EventPage \<Rightarrow> string option" where
  "ep_type_url p =
     (case ep_payload p of Some (Ev_Event e) \<Rightarrow> Some (any_type_url e) | _ \<Rightarrow> None)"

definition ep_payload_bytes :: "EventPage \<Rightarrow> bytes option" where
  "ep_payload_bytes p =
     (case ep_payload p of Some (Ev_Event e) \<Rightarrow> Some (any_value e) | _ \<Rightarrow> None)"

definition decode_matching :: "'m Codec \<Rightarrow> Any_msg \<Rightarrow> ClientError + 'm option" where
  "decode_matching c any =
     (let expected = TYPE_URL_PREFIX @ cd_name c
      in if any_type_url any \<noteq> expected then Inr None
         else map_ok Some (decode_payload c (any_value any) expected))"

definition ep_decode_typed :: "'m Codec \<Rightarrow> EventPage \<Rightarrow> ClientError + 'm option" where
  "ep_decode_typed c p =
     (case ep_payload p of Some (Ev_Event e) \<Rightarrow> decode_matching c e | _ \<Rightarrow> Inr None)"

section \<open>Command pages\<close>

definition cp_sequence_num :: "CommandPage \<Rightarrow> u32" where
  "cp_sequence_num p = unwrap_or 0 (Option.bind (cp_header p) explicit_sequence)"

definition cp_is_deferred :: "CommandPage \<Rightarrow> bool" where
  "cp_is_deferred p = unwrap_or False (map_option header_is_deferred (cp_header p))"

definition cp_type_url :: "CommandPage \<Rightarrow> string option" where
  "cp_type_url p =
     (case cp_payload p of Some (Cmd_Command c) \<Rightarrow> Some (any_type_url c) | _ \<Rightarrow> None)"

definition cp_payload_bytes :: "CommandPage \<Rightarrow> bytes option" where
  "cp_payload_bytes p =
     (case cp_payload p of Some (Cmd_Command c) \<Rightarrow> Some (any_value c) | _ \<Rightarrow> None)"

definition cp_decode_typed :: "'m Codec \<Rightarrow> CommandPage \<Rightarrow> ClientError + 'm option" where
  "cp_decode_typed c p =
     (case cp_payload p of Some (Cmd_Command a) \<Rightarrow> decode_matching c a | _ \<Rightarrow> Inr None)"

definition cp_merge_strategy_of ::
  "(i32 \<Rightarrow> 'ms option) \<Rightarrow> 'ms \<Rightarrow> CommandPage \<Rightarrow> 'ms" where
  "cp_merge_strategy_of strategy commutative p =
     unwrap_or commutative (strategy (cp_merge_strategy p))"

section \<open>Idempotency keys\<close>


section \<open>Books\<close>

definition calculate_next_sequence :: "EventPage list \<Rightarrow> Snapshot option \<Rightarrow> u32" where
  "calculate_next_sequence pages snapshot =
     (case last_opt pages of
        Some p \<Rightarrow> ep_sequence_num p + 1
      | None \<Rightarrow> unwrap_or 0 (map_option (\<lambda>s. sn_sequence s + 1) snapshot))"

definition calculate_set_next_seq :: "EventBook \<Rightarrow> EventBook" where
  "calculate_set_next_seq b =
     b\<lparr>eb_next_sequence := calculate_next_sequence (eb_pages b) (eb_snapshot b)\<rparr>"

text \<open>The entries of \<open>destination_map\<close>, and the hash map collected from them.\<close>

fun destination_entries ::
  "(bytes \<Rightarrow> string) \<Rightarrow> EventBook list \<Rightarrow> (string \<times> EventBook) list" where
  "destination_entries hex [] = []"
| "destination_entries hex (b # bs) =
     (case root_id_hex hex (eb_cover b) of
        None \<Rightarrow> destination_entries hex bs
      | Some h \<Rightarrow> (h, b) # destination_entries hex bs)"

definition destination_map ::
  "(bytes \<Rightarrow> string) \<Rightarrow> EventBook list \<Rightarrow> string \<rightharpoonup> EventBook" where
  "destination_map hex destinations = collect_map (destination_entries hex destinations)"

definition eb_is_empty :: "EventBook \<Rightarrow> bool" where
  "eb_is_empty b \<longleftrightarrow> eb_pages b = []"

definition eb_last_page :: "EventBook \<Rightarrow> EventPage option" where
  "eb_last_page b = last_opt (eb_pages b)"

definition eb_first_page :: "EventBook \<Rightarrow> EventPage option" where
  "eb_first_page b = first_opt (eb_pages b)"

definition cb_command_sequence :: "CommandBook \<Rightarrow> u32" where
  "cb_command_sequence b = unwrap_or 0 (map_option cp_sequence_num (first_opt (cb_pages b)))"

definition cb_first_command :: "CommandBook \<Rightarrow> CommandPage option" where
  "cb_first_command b = first_opt (cb_pages b)"

definition cb_merge_strategy ::
  "(i32 \<Rightarrow> 'ms option) \<Rightarrow> 'ms \<Rightarrow> CommandBook \<Rightarrow> 'ms" where
  "cb_merge_strategy strategy commutative b =
     unwrap_or commutative
       (map_option (cp_merge_strategy_of strategy commutative) (first_opt (cb_pages b)))"

section \<open>Lemmas\<close>

lemma explicit_sequence_Some [accessor_simps]:
  "explicit_sequence h = Some s \<longleftrightarrow> ph_sequence_type h = Some (Sequence s)"
  by (auto simp: explicit_sequence_def split: option.splits SequenceType.splits)

lemma explicit_not_deferred:
  "explicit_sequence h = Some s \<Longrightarrow> \<not> header_is_deferred h"
  by (simp add: explicit_sequence_Some header_is_deferred_def)


lemma decode_matching_try_unpack: "decode_matching c any = try_unpack c any"
  by (simp add: decode_matching_def try_unpack_def type_matches_def full_type_url_def Let_def)

text \<open>Every typed accessor reports an undecodable payload the way \<open>try_unpack\<close> does.\<close>

lemma ep_decode_typed_event [simp]:
  "ep_payload p = Some (Ev_Event e) \<Longrightarrow> ep_decode_typed c p = try_unpack c e"
  by (simp add: ep_decode_typed_def decode_matching_try_unpack)

lemma cp_decode_typed_command [simp]:
  "cp_payload p = Some (Cmd_Command e) \<Longrightarrow> cp_decode_typed c p = try_unpack c e"
  by (simp add: cp_decode_typed_def decode_matching_try_unpack)

lemma sequence_num_deferred: "ep_is_deferred p \<Longrightarrow> ep_sequence_num p = 0"
  by (cases "ep_header p")
    (auto simp: ep_is_deferred_def ep_sequence_num_def header_is_deferred_def
      explicit_sequence_def split: option.splits SequenceType.splits)

lemma ep_sequence_num_eq [accessor_simps]:
  "ep_header p = Some h \<Longrightarrow> ph_sequence_type h = Some (Sequence s) \<Longrightarrow> ep_sequence_num p = s"
  by (simp add: ep_sequence_num_def explicit_sequence_def)

lemma calculate_next_sequence_snoc [accessor_simps]:
  "calculate_next_sequence (ps @ [p]) sn = ep_sequence_num p + 1"
  by (simp add: calculate_next_sequence_def)

lemma calculate_next_sequence_Nil [accessor_simps]:
  "calculate_next_sequence [] sn = (case sn of None \<Rightarrow> 0 | Some s \<Rightarrow> sn_sequence s + 1)"
  by (cases sn) (simp_all add: calculate_next_sequence_def)

text \<open>Pages numbered one after the other, from \<open>n\<close> on.\<close>

fun numbered_from :: "u32 \<Rightarrow> EventPage list \<Rightarrow> bool" where
  "numbered_from n [] \<longleftrightarrow> True"
| "numbered_from n (p # ps) \<longleftrightarrow>
     Option.bind (ep_header p) explicit_sequence = Some n \<and> numbered_from (n + 1) ps"

lemma numbered_from_append [simp]:
  "numbered_from n (ps @ qs) \<longleftrightarrow>
     numbered_from n ps \<and> numbered_from (n + of_nat (length ps)) qs"
  by (induction ps arbitrary: n) (simp_all add: add.assoc add.commute)

lemma numbered_from_next:
  assumes "numbered_from n ps" and "ps \<noteq> []"
  shows "calculate_next_sequence ps sn = n + of_nat (length ps)"
  using assms
  by (cases ps rule: rev_cases)
    (auto simp: calculate_next_sequence_snoc ep_sequence_num_def add.assoc add.commute)

lemma destination_entries_append [simp]:
  "destination_entries hex (bs @ cs) = destination_entries hex bs @ destination_entries hex cs"
  by (induction bs) (auto split: option.splits)

lemma destination_map_snoc:
  "destination_map hex (bs @ [b]) =
     (case root_id_hex hex (eb_cover b) of
        None \<Rightarrow> destination_map hex bs | Some h \<Rightarrow> (destination_map hex bs)(h \<mapsto> b))"
  by (auto simp: destination_map_def split: option.splits)

lemma cache_key_fields:
  assumes "lawful_hex hex"
  shows "cache_key hex c = edition_of c @ CHR '':'' # domain_of c @ CHR '':'' # hex (root_bytes c)"
  by (simp add: cache_key_def root_hex_default [OF assms])


lemma lawful_hexD:
  assumes "lawful_hex hex"
  shows "hex a = hex b \<longleftrightarrow> a = b" and "CHR '':'' \<notin> set (hex a)"
  using assms by (auto simp: lawful_hex_def inj_eq)

section \<open>Properties\<close>



text \<open>a cache key is an identity. For covers whose edition and effective domain hold no
  colon, two covers have the same cache key exactly when edition, effective domain (\<open>unknown\<close>
  for a missing one) and root bytes agree; the correlation id never matters.\<close>

theorem cache_key_identifies:
  assumes "lawful_hex hex"
    and "CHR '':'' \<notin> set (edition_of c)" and "CHR '':'' \<notin> set (edition_of d)"
    and "CHR '':'' \<notin> set (domain_of c)" and "CHR '':'' \<notin> set (domain_of d)"
  shows "cache_key hex c = cache_key hex d \<longleftrightarrow>
     edition_of c = edition_of d \<and> domain_of c = domain_of d \<and> root_bytes c = root_bytes d"
  using assms by (auto simp: cache_key_fields sep_append_inject lawful_hexD)

theorem cache_key_identifies_witness:
  "cache_key hex_model None \<noteq> cache_key hex_model
     (Some \<lparr>cv_domain = ''order'', cv_root = None, cv_correlation_id = [], cv_edition = None\<rparr>)"
proof -
  let ?d = "Some \<lparr>cv_domain = ''order'', cv_root = None, cv_correlation_id = [],
                 cv_edition = None\<rparr>"
  have "CHR '':'' \<notin> set (edition_of None)" "CHR '':'' \<notin> set (edition_of ?d)"
    "CHR '':'' \<notin> set (domain_of None)" "CHR '':'' \<notin> set (domain_of ?d)"
    by (simp_all add: edition_of_eq domain_of_def UNKNOWN_DOMAIN_def)
  from cache_key_identifies [OF lawful_hex_model this] show ?thesis
    by (simp add: domain_of_def UNKNOWN_DOMAIN_def)
qed

text \<open>C28: the next sequence number. Of a book whose pages are numbered one after the other
  from \<open>n\<close> it is \<open>n\<close> plus the number of pages (modulo 2^32), so appending a page numbered with
  it keeps the book numbered; a snapshot counts only when there is no page, and then as its
  sequence plus one. Setting it changes nothing else of any book.\<close>

theorem next_sequence_continues:
  assumes "numbered_from n (eb_pages b)" and "eb_pages b \<noteq> []"
    and "Option.bind (ep_header p) explicit_sequence =
           Some (eb_next_sequence (calculate_set_next_seq b))"
  shows "eb_next_sequence (calculate_set_next_seq b) = n + of_nat (length (eb_pages b))
    \<and> numbered_from n (eb_pages (calculate_set_next_seq b) @ [p])
    \<and> (\<forall>c. eb_pages c = [] \<longrightarrow> eb_next_sequence (calculate_set_next_seq c) =
            (case eb_snapshot c of None \<Rightarrow> 0 | Some s \<Rightarrow> sn_sequence s + 1))
    \<and> (\<forall>c. (calculate_set_next_seq c)\<lparr>eb_next_sequence := eb_next_sequence c\<rparr> = c)"
  using assms
  by (auto simp: calculate_set_next_seq_def numbered_from_next calculate_next_sequence_Nil
      split: option.splits)

theorem next_sequence_continues_witness:
  "eb_next_sequence (calculate_set_next_seq (event_book None [event_page 4294967295 (raw_any [] [])]))
     = 0"
proof -
  let ?p = "\<lambda>n. event_page n (raw_any [] [])" and ?b = "event_book None"
  have n: "numbered_from 4294967295 (eb_pages (?b [?p 4294967295]))"
    "eb_pages (?b [?p 4294967295]) \<noteq> []"
    by (simp_all add: event_book_def event_page_def seq_header_def explicit_sequence_def)
  have "Option.bind (ep_header (?p 0)) explicit_sequence =
          Some (eb_next_sequence (calculate_set_next_seq (?b [?p 4294967295])))"
    by (simp add: event_book_def event_page_def seq_header_def explicit_sequence_def
        calculate_set_next_seq_def calculate_next_sequence_def ep_sequence_num_def)
  from next_sequence_continues [OF n this] show ?thesis
    by (simp add: event_book_def)
qed

end
