(* ===== verification/Destinations.thy ===== *)
theory Destinations
  imports Pages
begin

text \<open>
  \<^verbatim>\<open>src/src/router/state.rs\<close>: \<open>Destinations\<close>, the destination sequences of a saga or
  process-manager request, and the stamping of outbound commands.

  The sequences are kept in an \<open>IndexMap\<close> of the \<open>indexmap\<close> crate: its operations are the
  record \<open>IndexMapCrate\<close> over an abstract map type \<open>'im\<close>, with the crate's documented
  contract as \<open>lawful_index_map\<close> (a later pair replaces the value of an earlier one, keys
  iterate in order of first insertion). An operation through \<open>&mut CommandBook\<close> returns the
  book as it leaves it, beside its result.
\<close>

section \<open>The map type\<close>

record 'im IndexMapCrate =
  im_new :: 'im
  im_collect :: "(string \<times> u32) list \<Rightarrow> 'im"
  im_get :: "'im \<Rightarrow> string \<Rightarrow> u32 option"
  im_contains_key :: "'im \<Rightarrow> string \<Rightarrow> bool"
  im_keys :: "'im \<Rightarrow> string list"

definition lawful_index_map :: "'im IndexMapCrate \<Rightarrow> bool" where
  "lawful_index_map M \<longleftrightarrow>
     im_new M = im_collect M [] \<and>
     (\<forall>kvs k. im_get M (im_collect M kvs) k = collect_map kvs k) \<and>
     (\<forall>kvs k. im_contains_key M (im_collect M kvs) k = (k \<in> fst ` set kvs)) \<and>
     (\<forall>kvs. im_keys M (im_collect M kvs) = foldl push_new [] (map fst kvs))"

section \<open>Operations\<close>

record 'im Destinations =
  dst_sequences :: 'im

definition Destinations_new :: "'im IndexMapCrate \<Rightarrow> 'im Destinations" where
  "Destinations_new M = \<lparr>dst_sequences = im_new M\<rparr>"

definition from_sequences :: "'im IndexMapCrate \<Rightarrow> (string \<times> u32) list \<Rightarrow> 'im Destinations" where
  "from_sequences M sequences = \<lparr>dst_sequences = im_collect M sequences\<rparr>"

definition sequence_for :: "'im IndexMapCrate \<Rightarrow> 'im Destinations \<Rightarrow> string \<Rightarrow> u32 option" where
  "sequence_for M d domain = im_get M (dst_sequences d) domain"

definition deferred_header :: "Cover \<Rightarrow> u32 \<Rightarrow> PageHeader" where
  "deferred_header source_cover source_seq =
     \<lparr>ph_sequence_type =
        Some (AngzarrDeferred \<lparr>ads_source = Some source_cover, ads_source_seq = source_seq\<rparr>),
      ph_sync_mode = None\<rparr>"

text \<open>One pass of the loop body: \<open>get_or_insert_with(Default::default)\<close> and the assignment.\<close>

definition stamp_page :: "u32 \<Rightarrow> CommandPage \<Rightarrow> CommandPage" where
  "stamp_page seq p =
     p\<lparr>cp_header :=
         Some ((unwrap_or default_PageHeader (cp_header p))\<lparr>ph_sequence_type := Some (Sequence seq)\<rparr>)\<rparr>"

definition stamp_command ::
  "'im IndexMapCrate \<Rightarrow> 'im Destinations \<Rightarrow> CommandBook \<Rightarrow> string \<Rightarrow>
     (ClientError + unit) \<times> CommandBook" where
  "stamp_command M d cmd domain =
     (case im_get M (dst_sequences d) domain of
        None \<Rightarrow> (Inl (inv_arg MISSING_DESTINATION_SEQUENCE [(keys K_DOMAIN, domain)]), cmd)
      | Some seq \<Rightarrow> (Inr (), cmd\<lparr>cb_pages := map (stamp_page seq) (cb_pages cmd)\<rparr>))"

definition has_domain :: "'im IndexMapCrate \<Rightarrow> 'im Destinations \<Rightarrow> string \<Rightarrow> bool" where
  "has_domain M d domain = im_contains_key M (dst_sequences d) domain"

definition Destinations_domains :: "'im IndexMapCrate \<Rightarrow> 'im Destinations \<Rightarrow> string list" where
  "Destinations_domains M d = im_keys M (dst_sequences d)"

section \<open>Lemmas\<close>

lemma stamp_page_sel [simp]:
  "cp_payload (stamp_page s p) = cp_payload p"
  "cp_merge_strategy (stamp_page s p) = cp_merge_strategy p"
  "cp_sequence_num (stamp_page s p) = s"
  "cp_is_deferred (stamp_page s p) = False"
  by (simp_all add: stamp_page_def cp_sequence_num_def cp_is_deferred_def explicit_sequence_def
      header_is_deferred_def)

lemma stamp_page_sync_mode:
  "map_option ph_sync_mode (cp_header (stamp_page s p)) =
     Some (Option.bind (cp_header p) ph_sync_mode)"
  by (cases "cp_header p") (simp_all add: stamp_page_def default_PageHeader_def)

lemma stamp_page_again [simp]: "stamp_page s (stamp_page t p) = stamp_page s p"
  by (simp add: stamp_page_def)

lemma lawful_index_mapD:
  assumes "lawful_index_map M"
  shows "im_get M (im_collect M kvs) k = collect_map kvs k"
    and "im_contains_key M (im_collect M kvs) k = (k \<in> fst ` set kvs)"
    and "im_keys M (im_collect M kvs) = foldl push_new [] (map fst kvs)"
    and "im_new M = im_collect M []"
  using assms by (simp_all add: lawful_index_map_def)

lemma collect_map_None: "collect_map kvs k = None \<longleftrightarrow> k \<notin> fst ` set kvs"
  by (simp add: collect_map_def map_of_eq_None_iff)

lemma sequence_for_from_sequences:
  "lawful_index_map M \<Longrightarrow> sequence_for M (from_sequences M kvs) d = collect_map kvs d"
  by (simp add: sequence_for_def from_sequences_def lawful_index_mapD)

lemma stamp_command_from_sequences:
  "lawful_index_map M \<Longrightarrow> stamp_command M (from_sequences M kvs) cmd d =
     (case collect_map kvs d of
        None \<Rightarrow> (Inl (inv_arg MISSING_DESTINATION_SEQUENCE [(keys K_DOMAIN, d)]), cmd)
      | Some s \<Rightarrow> (Inr (), cmd\<lparr>cb_pages := map (stamp_page s) (cb_pages cmd)\<rparr>))"
  by (simp add: stamp_command_def from_sequences_def lawful_index_mapD)

section \<open>A concrete map for the witnesses\<close>

definition assoc_index_map :: "(string \<times> u32) list IndexMapCrate" where
  "assoc_index_map =
     \<lparr>im_new = [], im_collect = (\<lambda>kvs. kvs), im_get = collect_map,
      im_contains_key = (\<lambda>m k. k \<in> fst ` set m),
      im_keys = (\<lambda>m. foldl push_new [] (map fst m))\<rparr>"

lemma lawful_assoc_index_map: "lawful_index_map assoc_index_map"
  by (simp add: lawful_index_map_def assoc_index_map_def)

section \<open>Properties\<close>

text \<open>C18: stamping an outbound command. With destination sequences built from the pairs
  \<open>kvs\<close>, stamping for a domain of the last pair \<open>(domain, s)\<close> succeeds, gives every page the
  explicit sequence \<open>s\<close> and keeps its payload, merge strategy and sync mode (so a deferred page
  becomes an explicit one); stamping for a domain of no pair is \<open>MISSING_DESTINATION_SEQUENCE\<close>
  naming it and changes nothing. \<open>has_domain\<close> and \<open>Destinations_domains\<close> agree with which of the two
  happens, each domain listed once.\<close>

theorem stamp_command_correct:
  assumes "lawful_index_map M" and "stamp_command M (from_sequences M kvs) cmd d = (r, cmd')"
  shows "(r = Inr () \<longleftrightarrow> has_domain M (from_sequences M kvs) d)
    \<and> (has_domain M (from_sequences M kvs) d \<longleftrightarrow> d \<in> set (Destinations_domains M (from_sequences M kvs)))
    \<and> distinct (Destinations_domains M (from_sequences M kvs))
    \<and> (r \<noteq> Inr () \<longrightarrow>
         r = Inl (inv_arg MISSING_DESTINATION_SEQUENCE [(keys K_DOMAIN, d)]) \<and> cmd' = cmd)
    \<and> (r = Inr () \<longrightarrow> cb_cover cmd' = cb_cover cmd
         \<and> list_all2 (\<lambda>p q. Some (cp_sequence_num q) = collect_map kvs d \<and> \<not> cp_is_deferred q
              \<and> cp_payload q = cp_payload p \<and> cp_merge_strategy q = cp_merge_strategy p
              \<and> Option.bind (cp_header q) ph_sync_mode = Option.bind (cp_header p) ph_sync_mode)
             (cb_pages cmd) (cb_pages cmd'))"
proof -
  let ?D = "from_sequences M kvs"
  have dom: "has_domain M ?D d \<longleftrightarrow> d \<in> fst ` set kvs"
    "Destinations_domains M ?D = foldl push_new [] (map fst kvs)"
    using assms(1)
    by (simp_all add: has_domain_def Destinations_domains_def from_sequences_def lawful_index_mapD)
  have sync: "Option.bind (cp_header (stamp_page s p)) ph_sync_mode
      = Option.bind (cp_header p) ph_sync_mode" for s p
    by (cases "cp_header p") (simp_all add: stamp_page_def default_PageHeader_def)
  show ?thesis
  proof (cases "collect_map kvs d")
    case None
    with assms dom show ?thesis
      by (auto simp: stamp_command_from_sequences collect_map_None set_foldl_push_new
          distinct_foldl_push_new)
  next
    case (Some s)
    then have "d \<in> fst ` set kvs" by (metis collect_map_None option.distinct(1))
    with Some assms dom show ?thesis
      by (auto simp: stamp_command_from_sequences set_foldl_push_new
          distinct_foldl_push_new list.rel_map sync intro: list.rel_refl)
  qed
qed

theorem stamp_command_correct_witness:
  "has_domain assoc_index_map (from_sequences assoc_index_map [(''inventory'', 5)]) ''inventory''"
proof -
  let ?cmd = "\<lparr>cb_cover = None, cb_pages = [command_page 0 (raw_any [] [])]\<rparr>"
  let ?s = "stamp_command assoc_index_map (from_sequences assoc_index_map [(''inventory'', 5)])
              ?cmd ''inventory''"
  have "fst ?s = Inr ()"
    by (simp add: stamp_command_from_sequences [OF lawful_assoc_index_map])
  moreover have "?s = (fst ?s, snd ?s)" by simp
  ultimately show ?thesis
    using stamp_command_correct [OF lawful_assoc_index_map, of "[(''inventory'', 5)]" ?cmd
        "''inventory''" "fst ?s" "snd ?s"] by blast
qed

end
