(* ===== verification/Handlers.thy ===== *)
theory Handlers
  imports Destinations
begin

text \<open>
  \<^verbatim>\<open>src/src/router/handler.rs\<close> and \<^verbatim>\<open>responses.rs\<close>: handler kinds, the metadata a handler
  describes itself with, requests and responses per kind, build and dispatch errors.

  A \<open>Box<dyn Handler>\<close> is a record of its two methods. User code behind \<open>dispatch\<close> and behind a
  factory closure may do anything to the outside world: both take the world \<open>'w\<close> and return it
  changed, so that which handler runs, how often and in which order is visible. \<open>config\<close> of one
  instance is constant.
\<close>

section \<open>Kinds and configuration\<close>

datatype Kind = Kind_CommandHandler | Kind_Saga | Kind_ProcessManager | Kind_Projector
  | Kind_Upcaster

text \<open>\<open>format!("{:?}", kind)\<close>.\<close>

primrec kind_debug :: "Kind \<Rightarrow> string" where
  "kind_debug Kind_CommandHandler = ''CommandHandler''"
| "kind_debug Kind_Saga = ''Saga''"
| "kind_debug Kind_ProcessManager = ''ProcessManager''"
| "kind_debug Kind_Projector = ''Projector''"
| "kind_debug Kind_Upcaster = ''Upcaster''"

record CommandHandlerConfig =
  ch_domain :: string
  ch_handled :: "string list"
  ch_rejected :: "(string \<times> string) list"
  ch_applies :: "string list"
  ch_state_factory :: "string option"
  ch_handles_fact :: "string list"
  ch_supports_replay :: bool

record SagaConfig =
  sc_name :: string
  sc_source :: string
  sc_target :: string
  sc_sync :: bool
  sc_handled :: "string list"
  sc_rejected :: "(string \<times> string) list"

record ProcessManagerConfig =
  pc_name :: string
  pc_pm_domain :: string
  pc_sources :: "string list"
  pc_targets :: "string list"
  pc_sync_targets :: "string list"
  pc_handled :: "string list"
  pc_rejected :: "(string \<times> string) list"
  pc_applies :: "string list"
  pc_state_factory :: "string option"

record ProjectorConfig =
  jc_name :: string
  jc_domains :: "string list"
  jc_handled :: "string list"

record UpcasterConfig =
  uc_name :: string
  uc_domain :: string
  uc_upcasts :: "(string \<times> string) list"

datatype HandlerConfig =
    Cfg_CommandHandler CommandHandlerConfig
  | Cfg_Saga SagaConfig
  | Cfg_ProcessManager ProcessManagerConfig
  | Cfg_Projector ProjectorConfig
  | Cfg_Upcaster UpcasterConfig

primrec config_kind :: "HandlerConfig \<Rightarrow> Kind" where
  "config_kind (Cfg_CommandHandler c) = Kind_CommandHandler"
| "config_kind (Cfg_Saga c) = Kind_Saga"
| "config_kind (Cfg_ProcessManager c) = Kind_ProcessManager"
| "config_kind (Cfg_Projector c) = Kind_Projector"
| "config_kind (Cfg_Upcaster c) = Kind_Upcaster"

section \<open>Requests and responses\<close>

datatype HandlerRequest =
    Req_CommandHandler ContextualCommand
  | Req_HandleFact FactRequest
  | Req_Replay ReplayRequest
  | Req_Saga SagaHandleRequest
  | Req_ProcessManager PMHandleRequest
  | Req_Projector EventBook
  | Req_Upcaster UpcastRequest

datatype HandlerResponse =
    Resp_CommandHandler BusinessResponse
  | Resp_HandleFact EventBook
  | Resp_Replay ReplayResponse
  | Resp_Saga SagaResponse
  | Resp_ProcessManager PMHandleResponse
  | Resp_Projector Projection
  | Resp_Upcaster UpcastResponse

text \<open>The public carriers of handler results (\<open>responses.rs\<close>).\<close>

record SagaHandlerResponse =
  shr_commands :: "CommandBook list"
  shr_events :: "EventBook list"

record ProcessManagerResponse =
  pmr_commands :: "CommandBook list"
  pmr_process_events :: "EventBook list"
  pmr_facts :: "EventBook list"

record RejectionHandlerResponse =
  rhr_events :: "EventBook list"
  rhr_notification :: "Notification option"

section \<open>Errors\<close>

datatype BuildError =
    BE_Empty ErrorDetail
  | BE_MixedKinds ErrorDetail
  | BE_DuplicateCommandHandler ErrorDetail

primrec build_error_detail :: "BuildError \<Rightarrow> ErrorDetail" where
  "build_error_detail (BE_Empty d) = d"
| "build_error_detail (BE_MixedKinds d) = d"
| "build_error_detail (BE_DuplicateCommandHandler d) = d"

definition be_code :: "BuildError \<Rightarrow> string" where
  "be_code e = ed_code (build_error_detail e)"

definition be_message :: "BuildError \<Rightarrow> string" where
  "be_message e = ed_message (build_error_detail e)"

definition be_details :: "BuildError \<Rightarrow> details" where
  "be_details e = ed_details (build_error_detail e)"

record DispatchError =
  de_code :: Code
  de_details :: string

definition DispatchError_new :: "Code \<Rightarrow> string \<Rightarrow> DispatchError" where
  "DispatchError_new code details = \<lparr>de_code = code, de_details = details\<rparr>"

definition client_error_from_dispatch :: "DispatchError \<Rightarrow> ClientError" where
  "client_error_from_dispatch err =
     client_error_from_status
       \<lparr>status_code_of = de_code err, status_message = de_details err\<rparr>"

section \<open>Handlers, factories, routers\<close>

record 'w Handler =
  h_config :: HandlerConfig
  h_dispatch :: "HandlerRequest \<Rightarrow> 'w \<Rightarrow> (ClientError + HandlerResponse) \<times> 'w"

record 'w Factory =
  fac_kind :: Kind
  fac_produce :: "'w \<Rightarrow> 'w Handler \<times> 'w"

text \<open>
  The five runtime routers are structurally the same: the factories and the identifier cached
  by a \<open>OnceLock\<close>.
\<close>

record 'w RuntimeRouter =
  rt_factories :: "'w Factory list"
  rt_cached_name :: "string option"

datatype 'w Built =
    Built_CommandHandler "'w RuntimeRouter"
  | Built_Saga "'w RuntimeRouter"
  | Built_ProcessManager "'w RuntimeRouter"
  | Built_Projector "'w RuntimeRouter"
  | Built_Upcaster "'w RuntimeRouter"

primrec built_kind :: "'w Built \<Rightarrow> Kind" where
  "built_kind (Built_CommandHandler r) = Kind_CommandHandler"
| "built_kind (Built_Saga r) = Kind_Saga"
| "built_kind (Built_ProcessManager r) = Kind_ProcessManager"
| "built_kind (Built_Projector r) = Kind_Projector"
| "built_kind (Built_Upcaster r) = Kind_Upcaster"

primrec built_router :: "'w Built \<Rightarrow> 'w RuntimeRouter" where
  "built_router (Built_CommandHandler r) = r"
| "built_router (Built_Saga r) = r"
| "built_router (Built_ProcessManager r) = r"
| "built_router (Built_Projector r) = r"
| "built_router (Built_Upcaster r) = r"

section \<open>Steady factories\<close>

text \<open>
  A factory is steady at a configuration when every handler it produces has it. The kind
  macros only emit such handlers: their \<open>config\<close> is a constant of the type.
\<close>

definition steady :: "'w Factory \<Rightarrow> HandlerConfig \<Rightarrow> bool" where
  "steady f c \<longleftrightarrow> (\<forall>w. h_config (fst (fac_produce f w)) = c)"

lemma steadyD [dest]: "steady f c \<Longrightarrow> h_config (fst (fac_produce f w)) = c"
  by (simp add: steady_def)

lemma steady_produce:
  assumes "steady f c" and "fac_produce f w = (h, w')"
  shows "h_config h = c"
  using assms by (metis fst_conv steadyD)

text \<open>A constant factory and handler, for the witnesses.\<close>

definition const_handler :: "HandlerConfig \<Rightarrow> (HandlerRequest \<Rightarrow> ClientError + HandlerResponse)
    \<Rightarrow> 'w Handler" where
  "const_handler c f = \<lparr>h_config = c, h_dispatch = (\<lambda>req w. (f req, w))\<rparr>"

definition const_factory :: "'w Handler \<Rightarrow> 'w Factory" where
  "const_factory h = \<lparr>fac_kind = config_kind (h_config h), fac_produce = (\<lambda>w. (h, w))\<rparr>"

lemma steady_const_factory [simp]: "steady (const_factory h) c \<longleftrightarrow> h_config h = c"
  by (simp add: steady_def const_factory_def)

lemma const_sel [simp]:
  "h_config (const_handler c f) = c"
  "fac_kind (const_factory h) = config_kind (h_config h)"
  "fac_produce (const_factory h) w = (h, w)"
  "h_dispatch (const_handler c f) req w = (f req, w)"
  by (simp_all add: const_handler_def const_factory_def)

end
