(* ===== verification/Router_Builder.thy ===== *)
theory Router_Builder
  imports Handlers
begin

text \<open>
  \<^verbatim>\<open>src/src/router/builder.rs\<close>: the \<open>Router\<close> builder. Factories are registered with the kind
  of handler they produce; \<open>build\<close> refuses an empty router, a mix of kinds, and two command
  handlers for one \<open>(domain, command type)\<close>, for which it produces every command handler once.
\<close>

section \<open>Operations\<close>

record 'w Router =
  rb_name :: string
  rb_factories :: "'w Factory list"

definition Router_new :: "string \<Rightarrow> 'w Router" where
  "Router_new name = \<lparr>rb_name = name, rb_factories = []\<rparr>"

definition Router_name :: "'w Router \<Rightarrow> string" where
  "Router_name r = rb_name r"

text \<open>\<open>with_handler::<H, F>\<close>: \<open>kind\<close> is \<open>H::KIND\<close>, \<open>produce\<close> the boxed closure.\<close>

definition with_handler ::
  "Kind \<Rightarrow> ('w \<Rightarrow> 'w Handler \<times> 'w) \<Rightarrow> 'w Router \<Rightarrow> 'w Router" where
  "with_handler kind produce r =
     r\<lparr>rb_factories := rb_factories r @ [\<lparr>fac_kind = kind, fac_produce = produce\<rparr>]\<rparr>"

definition Router_handler_count :: "'w Router \<Rightarrow> nat" where
  "Router_handler_count r = length (rb_factories r)"

text \<open>The loop over the kinds.\<close>

fun check_kinds :: "string \<Rightarrow> Kind \<Rightarrow> 'w Factory list \<Rightarrow> BuildError + unit" where
  "check_kinds name first_kind [] = Inr ()"
| "check_kinds name first_kind (f # fs) =
     (if fac_kind f \<noteq> first_kind
      then Inl (BE_MixedKinds (ErrorDetail_new (codes MIXED_HANDLER_KINDS)
             (messages MIXED_HANDLER_KINDS)
             [(keys K_HANDLER_KIND, kind_debug first_kind),
              (keys K_OTHER_KIND, kind_debug (fac_kind f)),
              (keys K_ROUTER_NAME, name)]))
      else check_kinds name first_kind fs)"

definition duplicate_error :: "string \<Rightarrow> string \<Rightarrow> string \<Rightarrow> BuildError" where
  "duplicate_error name domain url =
     BE_DuplicateCommandHandler (ErrorDetail_new (codes DUPLICATE_COMMAND_HANDLER)
       (messages DUPLICATE_COMMAND_HANDLER)
       [(keys K_DOMAIN, domain), (keys K_TYPE_URL, url), (keys K_ROUTER_NAME, name)])"

text \<open>The inner loop over one handler's types, and the outer one over the factories.\<close>

fun claim_types ::
  "string \<Rightarrow> string \<Rightarrow> string list \<Rightarrow> (string \<times> string) set \<Rightarrow>
     BuildError + (string \<times> string) set" where
  "claim_types name domain [] seen = Inr seen"
| "claim_types name domain (u # us) seen =
     (if (domain, u) \<in> seen then Inl (duplicate_error name domain u)
      else claim_types name domain us (insert (domain, u) seen))"

fun check_duplicates ::
  "string \<Rightarrow> 'w Factory list \<Rightarrow> (string \<times> string) set \<Rightarrow> 'w \<Rightarrow> (BuildError + unit) \<times> 'w"
where
  "check_duplicates name [] seen w = (Inr (), w)"
| "check_duplicates name (f # fs) seen w =
     (let (handler, w1) = fac_produce f w
      in case h_config handler of
           Cfg_CommandHandler c \<Rightarrow>
             (case claim_types name (ch_domain c) (ch_handled c) seen of
                Inl e \<Rightarrow> (Inl e, w1)
              | Inr seen1 \<Rightarrow> check_duplicates name fs seen1 w1)
         | _ \<Rightarrow> check_duplicates name fs seen w1)"

definition built_of :: "Kind \<Rightarrow> 'w Factory list \<Rightarrow> 'w Built" where
  "built_of kind factories =
     (let r = \<lparr>rt_factories = factories, rt_cached_name = None\<rparr>
      in case kind of
           Kind_CommandHandler \<Rightarrow> Built_CommandHandler r
         | Kind_Saga \<Rightarrow> Built_Saga r
         | Kind_ProcessManager \<Rightarrow> Built_ProcessManager r
         | Kind_Projector \<Rightarrow> Built_Projector r
         | Kind_Upcaster \<Rightarrow> Built_Upcaster r)"

definition build :: "'w Router \<Rightarrow> 'w \<Rightarrow> (BuildError + 'w Built) \<times> 'w" where
  "build r w =
     (case map_option fac_kind (first_opt (rb_factories r)) of
        None \<Rightarrow>
          (Inl (BE_Empty (ErrorDetail_new (codes ROUTER_NO_HANDLERS)
             (messages ROUTER_NO_HANDLERS) [(keys K_ROUTER_NAME, rb_name r)])), w)
      | Some first_kind \<Rightarrow>
          (case check_kinds (rb_name r) first_kind (rb_factories r) of
             Inl e \<Rightarrow> (Inl e, w)
           | Inr _ \<Rightarrow>
               (let (dup, w1) =
                      (if first_kind = Kind_CommandHandler
                       then check_duplicates (rb_name r) (rb_factories r) {} w
                       else (Inr (), w))
                in case dup of
                     Inl e \<Rightarrow> (Inl e, w1)
                   | Inr _ \<Rightarrow> (Inr (built_of first_kind (rb_factories r)), w1))))"

section \<open>Lemmas\<close>

text \<open>The routing keys a configuration claims.\<close>

definition claimed :: "HandlerConfig \<Rightarrow> (string \<times> string) list" where
  "claimed cfg =
     (case cfg of Cfg_CommandHandler c \<Rightarrow> map (Pair (ch_domain c)) (ch_handled c) | _ \<Rightarrow> [])"

lemma built_of_sel [simp]:
  "built_kind (built_of k fs) = k"
  "rt_factories (built_router (built_of k fs)) = fs"
  "rt_cached_name (built_router (built_of k fs)) = None"
  by (cases k; simp add: built_of_def Let_def)+

lemma check_kinds_Inr: "check_kinds name k fs = Inr () \<longleftrightarrow> (\<forall>f \<in> set fs. fac_kind f = k)"
  by (induction name k fs rule: check_kinds.induct) auto

lemma check_kinds_Inl:
  "check_kinds name k fs = Inl e \<Longrightarrow> be_code e = codes MIXED_HANDLER_KINDS"
  by (induction name k fs rule: check_kinds.induct)
    (auto simp: be_code_def split: if_splits)

lemma claim_types_Inr:
  "claim_types name d us seen = Inr seen' \<longleftrightarrow>
     distinct us \<and> Pair d ` set us \<inter> seen = {} \<and> seen' = Pair d ` set us \<union> seen"
  by (induction name d us seen rule: claim_types.induct) auto

lemma claim_types_Inl:
  "claim_types name d us seen = Inl e \<Longrightarrow> be_code e = codes DUPLICATE_COMMAND_HANDLER"
  by (induction name d us seen rule: claim_types.induct)
    (auto simp: be_code_def duplicate_error_def split: if_splits)

lemma check_duplicates_Inl:
  "fst (check_duplicates name fs seen w) = Inl e \<Longrightarrow>
     be_code e = codes DUPLICATE_COMMAND_HANDLER"
  by (induction name fs seen w rule: check_duplicates.induct)
    (auto split: prod.splits HandlerConfig.splits sum.splits dest: claim_types_Inl)

lemma claimed_simps [simp]:
  "claimed (Cfg_CommandHandler c) = map (Pair (ch_domain c)) (ch_handled c)"
  "claimed (Cfg_Saga s) = []" "claimed (Cfg_ProcessManager p) = []"
  "claimed (Cfg_Projector j) = []" "claimed (Cfg_Upcaster u) = []"
  by (simp_all add: claimed_def)

lemma check_duplicates_Inr:
  assumes "list_all2 steady fs cfgs"
  shows "fst (check_duplicates name fs seen w) = Inr () \<longleftrightarrow>
     distinct (concat (map claimed cfgs)) \<and> set (concat (map claimed cfgs)) \<inter> seen = {}"
  using assms
proof (induction fs cfgs arbitrary: seen w rule: list_all2_induct)
  case Nil
  then show ?case by simp
next
  case (Cons f fs c cs)
  obtain h w1 where p: "fac_produce f w = (h, w1)" by fastforce
  with Cons.hyps(1) have h: "h_config h = c" by (rule steady_produce)
  show ?case
  proof (cases c)
    case (Cfg_CommandHandler k)
    let ?cl = "claim_types name (ch_domain k) (ch_handled k) seen"
    show ?thesis
    proof (cases ?cl)
      case (Inl e)
      then have "\<not> (distinct (ch_handled k) \<and> Pair (ch_domain k) ` set (ch_handled k) \<inter> seen = {})"
        using claim_types_Inr [of name "ch_domain k" "ch_handled k" seen] by auto
      with Inl p h Cfg_CommandHandler show ?thesis
        by (auto simp: distinct_map)
    next
      case (Inr seen1)
      then have "distinct (ch_handled k)" "Pair (ch_domain k) ` set (ch_handled k) \<inter> seen = {}"
        "seen1 = Pair (ch_domain k) ` set (ch_handled k) \<union> seen"
        using claim_types_Inr [of name "ch_domain k" "ch_handled k" seen] by auto
      with Inr p h Cfg_CommandHandler Cons.IH [of seen1 w1] show ?thesis
        by (auto simp: distinct_map inj_on_def)
    qed
  qed (use p h Cons.IH in simp_all)
qed

lemma build_outcome:
  assumes "list_all2 steady (rb_factories r) cfgs"
  shows "(case fst (build r w) of
       Inl e \<Rightarrow>
         (be_code e = codes ROUTER_NO_HANDLERS \<and> rb_factories r = [])
         \<or> (be_code e = codes MIXED_HANDLER_KINDS \<and>
            (\<exists>f \<in> set (rb_factories r). fac_kind f \<noteq> fac_kind (hd (rb_factories r))))
         \<or> (be_code e = codes DUPLICATE_COMMAND_HANDLER \<and>
            (\<forall>f \<in> set (rb_factories r). fac_kind f = Kind_CommandHandler) \<and>
            \<not> distinct (concat (map claimed cfgs)))
     | Inr b \<Rightarrow>
         rb_factories r \<noteq> []
         \<and> (\<forall>f \<in> set (rb_factories r). fac_kind f = built_kind b)
         \<and> (built_kind b = Kind_CommandHandler \<longrightarrow> distinct (concat (map claimed cfgs)))
         \<and> rt_factories (built_router b) = rb_factories r
         \<and> rt_cached_name (built_router b) = None)"
proof (cases "rb_factories r")
  case Nil
  then show ?thesis by (simp add: build_def be_code_def)
next
  case (Cons f fs)
  show ?thesis
  proof (cases "check_kinds (rb_name r) (fac_kind f) (rb_factories r)")
    case (Inl e)
    then have "\<not> (\<forall>g \<in> set (rb_factories r). fac_kind g = fac_kind f)"
      using check_kinds_Inr [of "rb_name r" "fac_kind f" "rb_factories r"] by auto
    with Inl Cons check_kinds_Inl [OF Inl] show ?thesis by (auto simp: build_def)
  next
    case (Inr u)
    then have kinds: "\<forall>g \<in> set (rb_factories r). fac_kind g = fac_kind f"
      using check_kinds_Inr [of "rb_name r" "fac_kind f" "rb_factories r"] by simp
    show ?thesis
    proof (cases "fac_kind f = Kind_CommandHandler")
      case False
      with Cons Inr have "build r w = (Inr (built_of (fac_kind f) (rb_factories r)), w)"
        by (simp add: build_def)
      with Cons kinds False show ?thesis by simp
    next
      case True
      obtain dup w1 where dup: "check_duplicates (rb_name r) (rb_factories r) {} w = (dup, w1)"
        by fastforce
      note key = check_duplicates_Inr [OF assms, of "rb_name r" "{}" w, unfolded dup]
      show ?thesis
      proof (cases dup)
        case (Inl e)
        with True Cons Inr dup have b: "build r w = (Inl e, w1)"
          by (simp add: build_def)
        from Inl dup have "be_code e = codes DUPLICATE_COMMAND_HANDLER"
          using check_duplicates_Inl [of "rb_name r" "rb_factories r" "{}" w e] by simp
        with b Inl key kinds True show ?thesis by simp
      next
        case (Inr v)
        with True Cons \<open>check_kinds (rb_name r) (fac_kind f) (rb_factories r) = Inr u\<close> dup
        have b: "build r w = (Inr (built_of (fac_kind f) (rb_factories r)), w1)"
          by (simp add: build_def)
        with Inr key kinds Cons True show ?thesis by simp
      qed
    qed
  qed
qed

text \<open>A command-handler configuration for the witnesses.\<close>

definition ch_example :: "string \<Rightarrow> string list \<Rightarrow> HandlerConfig" where
  "ch_example d us = Cfg_CommandHandler
     \<lparr>ch_domain = d, ch_handled = us, ch_rejected = [], ch_applies = [],
      ch_state_factory = None, ch_handles_fact = [], ch_supports_replay = False\<rparr>"

lemma config_kind_ch_example [simp]: "config_kind (ch_example d us) = Kind_CommandHandler"
  by (simp add: ch_example_def)

section \<open>Properties\<close>

text \<open>C17: what \<open>build\<close> accepts. Of factories steady at their configurations, an empty router
  is \<open>ROUTER_NO_HANDLERS\<close>; otherwise two kinds are \<open>MIXED_HANDLER_KINDS\<close>; otherwise two claims
  of command handlers on one \<open>(domain, type)\<close> are \<open>DUPLICATE_COMMAND_HANDLER\<close>; and every other
  router is built: the common kind, all factories in registration order, no cached name.\<close>

theorem build_classifies:
  assumes "list_all2 steady (rb_factories r) cfgs"
  shows "if rb_factories r = []
     then \<exists>e. fst (build r w) = Inl e \<and> be_code e = codes ROUTER_NO_HANDLERS
     else if \<exists>f \<in> set (rb_factories r). fac_kind f \<noteq> fac_kind (hd (rb_factories r))
     then \<exists>e. fst (build r w) = Inl e \<and> be_code e = codes MIXED_HANDLER_KINDS
     else if fac_kind (hd (rb_factories r)) = Kind_CommandHandler
          \<and> \<not> distinct (concat (map claimed cfgs))
     then \<exists>e. fst (build r w) = Inl e \<and> be_code e = codes DUPLICATE_COMMAND_HANDLER
     else \<exists>b. fst (build r w) = Inr b \<and> built_kind b = fac_kind (hd (rb_factories r))
          \<and> rt_factories (built_router b) = rb_factories r
          \<and> rt_cached_name (built_router b) = None"
proof (cases "fst (build r w)")
  case (Inl e)
  with assms build_outcome [OF assms, of w] show ?thesis
    by (cases "rb_factories r") auto
next
  case (Inr b)
  with assms build_outcome [OF assms, of w] show ?thesis
    by (cases "rb_factories r") auto
qed

theorem build_classifies_witness:
  "\<exists>e. fst (build \<lparr>rb_name = ''r'', rb_factories =
       [const_factory (const_handler (ch_example ''order'' [''A'', ''B'']) (\<lambda>_. Inl (inv_arg VALUE_EMPTY []))),
        const_factory (const_handler (ch_example ''order'' [''B'']) (\<lambda>_. Inl (inv_arg VALUE_EMPTY [])))]\<rparr> ())
     = Inl e \<and> be_code e = codes DUPLICATE_COMMAND_HANDLER"
proof -
  let ?f = "\<lambda>_. Inl (inv_arg VALUE_EMPTY [])"
  let ?fs = "[const_factory (const_handler (ch_example ''order'' [''A'', ''B'']) ?f),
    const_factory (const_handler (ch_example ''order'' [''B'']) ?f) :: unit Factory]"
  let ?cfgs = "[ch_example ''order'' [''A'', ''B''], ch_example ''order'' [''B'']]"
  have s: "list_all2 steady (rb_factories \<lparr>rb_name = ''r'', rb_factories = ?fs\<rparr>) ?cfgs" by simp
  show ?thesis
    using build_classifies [OF s, of "()"] by (simp add: ch_example_def)
qed

end
