(* ===== verification/Fan_Out.thy ===== *)
theory Fan_Out
  imports Router_Builder
begin

text \<open>
  The loop every fan-out dispatcher of the routers runs over its factories: produce a handler,
  skip it unless its configuration is selected, dispatch the request to it, absorb its
  response, and leave at the first error. The saga loop, the process-manager loop, the
  rejection loop and the upcaster's loop over one page are instances, each interpreted in the
  theory that defines it.

  \<open>foldR\<close> is a left fold that may fail. \<open>answers f c g\<close> describes a factory whose handlers all
  have the configuration \<open>c\<close> and whose answer to a request is a function \<open>g\<close> of the request,
  whatever they do to the world: then the outcome of a fan-out is a \<open>foldR\<close> over the selected
  answers, in registration order. \<open>merging_fan_out\<close> extends the loop's contract for the
  dispatchers that concatenate responses: theirs is one sum over the selected answers.
\<close>

section \<open>Failing folds\<close>

fun foldR :: "('s \<Rightarrow> 'x \<Rightarrow> 'e + 's) \<Rightarrow> 'x list \<Rightarrow> 's \<Rightarrow> 'e + 's" where
  "foldR f [] s = Inr s"
| "foldR f (x # xs) s = bindR (f s x) (foldR f xs)"

fun traverseR :: "('x \<Rightarrow> 'e + 'y) \<Rightarrow> 'x list \<Rightarrow> 'e + 'y list" where
  "traverseR f [] = Inr []"
| "traverseR f (x # xs) = bindR (f x) (\<lambda>y. map_ok (Cons y) (traverseR f xs))"

lemma foldR_append [simp]: "foldR f (xs @ ys) s = bindR (foldR f xs s) (foldR f ys)"
proof (induction xs arbitrary: s)
  case (Cons x xs)
  then show ?case by (cases "f s x") simp_all
qed simp

lemma foldR_filter:
  "foldR (\<lambda>s x. if p x then f s x else Inr s) xs s = foldR f (filter p xs) s"
proof (induction xs arbitrary: s)
  case (Cons x xs)
  then show ?case by (cases "f s x") simp_all
qed simp

text \<open>A fold that adds each item's result to the state is a traversal and one sum.\<close>

lemma foldR_traverse:
  fixes g :: "'x \<Rightarrow> 'e + 's :: monoid_add"
  shows "foldR (\<lambda>s x. map_ok ((+) s) (g x)) xs s = map_ok (\<lambda>ys. s + sum_list ys) (traverseR g xs)"
proof (induction xs arbitrary: s)
  case (Cons x xs)
  then show ?case
    by (cases "g x"; cases "traverseR g xs") (simp_all add: add.assoc)
qed simp

lemma traverseR_Inr_length: "traverseR f xs = Inr ys \<Longrightarrow> length ys = length xs"
proof (induction xs arbitrary: ys)
  case (Cons x xs)
  then show ?case by (cases "f x"; cases "traverseR f xs") auto
qed simp

lemma traverseR_Inr: "traverseR f xs = Inr ys \<longleftrightarrow> list_all2 (\<lambda>x y. f x = Inr y) xs ys"
proof (induction xs arbitrary: ys)
  case (Cons x xs)
  then show ?case
    by (cases "f x"; cases "traverseR f xs") (auto simp: list_all2_Cons1)
qed auto

lemma traverseR_map: "traverseR f (map h xs) = traverseR (\<lambda>x. f (h x)) xs"
  by (induction xs) simp_all

section \<open>Factories that answer\<close>

definition answers ::
  "'w Factory \<Rightarrow> HandlerConfig \<times> (HandlerRequest \<Rightarrow> ClientError + HandlerResponse) \<Rightarrow> bool"
where
  "answers f a \<longleftrightarrow> steady f (fst a) \<and>
     (\<forall>w req w'. fst (h_dispatch (fst (fac_produce f w)) req w') = snd a req)"

lemma answers_steady: "answers f (c, g) \<Longrightarrow> steady f c"
  by (simp add: answers_def)

lemma answers_const [simp]: "answers (const_factory (const_handler c g)) (c, g)"
  by (simp add: answers_def)

lemma answersD:
  assumes "answers f (c, g)" and "fac_produce f w = (h, w1)"
  shows "h_config h = c" and "fst (h_dispatch h req w') = g req"
  using assms unfolding answers_def steady_def by (metis fst_conv snd_conv)+

section \<open>The loop\<close>

locale fan_out =
  fixes loop :: "'w Factory list \<Rightarrow> 'acc \<Rightarrow> 'w \<Rightarrow> (ClientError + 'acc) \<times> 'w"
    and selected :: "HandlerConfig \<Rightarrow> bool"
    and request :: "'acc \<Rightarrow> HandlerRequest"
    and absorb :: "'acc \<Rightarrow> HandlerResponse \<Rightarrow> ClientError + 'acc"
  assumes loop_Nil: "loop [] acc w = (Inr acc, w)"
    and loop_skip: "fac_produce f w = (h, w1) \<Longrightarrow> \<not> selected (h_config h) \<Longrightarrow>
          loop (f # fs) acc w = loop fs acc w1"
    and loop_fail: "fac_produce f w = (h, w1) \<Longrightarrow> selected (h_config h) \<Longrightarrow>
          h_dispatch h (request acc) w1 = (Inl e, w2) \<Longrightarrow> loop (f # fs) acc w = (Inl e, w2)"
    and loop_refuse: "fac_produce f w = (h, w1) \<Longrightarrow> selected (h_config h) \<Longrightarrow>
          h_dispatch h (request acc) w1 = (Inr resp, w2) \<Longrightarrow> absorb acc resp = Inl e \<Longrightarrow>
          loop (f # fs) acc w = (Inl e, w2)"
    and loop_step: "fac_produce f w = (h, w1) \<Longrightarrow> selected (h_config h) \<Longrightarrow>
          h_dispatch h (request acc) w1 = (Inr resp, w2) \<Longrightarrow> absorb acc resp = Inr acc1 \<Longrightarrow>
          loop (f # fs) acc w = loop fs acc1 w2"
begin

text \<open>One factory, as one of the five laws.\<close>

lemma step_cases:
  obtains (skip) h w1 where "fac_produce f w = (h, w1)" "\<not> selected (h_config h)"
      "\<And>fs. loop (f # fs) acc w = loop fs acc w1"
  | (error) e w2 where "\<And>fs. loop (f # fs) acc w = (Inl e, w2)"
  | (step) h w1 resp w2 acc1 where "fac_produce f w = (h, w1)" "selected (h_config h)"
      "h_dispatch h (request acc) w1 = (Inr resp, w2)" "absorb acc resp = Inr acc1"
      "\<And>fs. loop (f # fs) acc w = loop fs acc1 w2"
proof -
  obtain h w1 where p: "fac_produce f w = (h, w1)" by fastforce
  obtain r w2 where d: "h_dispatch h (request acc) w1 = (r, w2)" by fastforce
  show ?thesis
  proof (cases "selected (h_config h)")
    case False
    from loop_skip [OF p False] show ?thesis by (rule skip [OF p False])
  next
    case sel: True
    show ?thesis
    proof (cases r)
      case (Inl e)
      from loop_fail [OF p sel d [unfolded Inl]] show ?thesis by (rule error)
    next
      case (Inr resp)
      show ?thesis
      proof (cases "absorb acc resp")
        case (Inl e)
        from loop_refuse [OF p sel d [unfolded \<open>r = Inr resp\<close>] Inl] show ?thesis by (rule error)
      next
        case abs: (Inr acc1)
        from loop_step [OF p sel d [unfolded Inr] abs] show ?thesis
          by (rule step [OF p sel d [unfolded Inr] abs])
      qed
    qed
  qed
qed

text \<open>The factories after a successful prefix go on from its state and its world; those after
  a failing one are not touched.\<close>

lemma loop_append:
  "loop (fs @ gs) acc w =
     (case loop fs acc w of (Inl e, w') \<Rightarrow> (Inl e, w') | (Inr acc', w') \<Rightarrow> loop gs acc' w')"
proof (induction fs arbitrary: acc w)
  case Nil
  then show ?case by (simp add: loop_Nil)
next
  case (Cons f fs)
  show ?case by (cases f w acc rule: step_cases) (simp_all add: Cons)
qed

lemma loop_stops: "loop fs acc w = (Inl e, w') \<Longrightarrow> loop (fs @ gs) acc w = (Inl e, w')"
  by (simp add: loop_append)

lemma loop_unselected:
  assumes "list_all2 steady fs cfgs" and "\<forall>c \<in> set cfgs. \<not> selected c"
  shows "fst (loop fs acc w) = Inr acc"
  using assms
proof (induction fs cfgs arbitrary: w rule: list_all2_induct)
  case Nil
  then show ?case by (simp add: loop_Nil)
next
  case (Cons f fs c cs)
  obtain h w1 where p: "fac_produce f w = (h, w1)" by fastforce
  with Cons.hyps(1) have "h_config h = c" by (rule steady_produce)
  with p Cons show ?case by (simp add: loop_skip)
qed

text \<open>The accumulator keeps what every absorbed response keeps.\<close>

lemma loop_invariant:
  assumes "\<And>acc resp acc'. P acc \<Longrightarrow> absorb acc resp = Inr acc' \<Longrightarrow> P acc'"
    and "P acc" and "fst (loop fs acc w) = Inr acc'"
  shows "P acc'"
  using assms(2,3)
proof (induction fs arbitrary: acc w)
  case Nil
  then show ?case by (simp add: loop_Nil)
next
  case (Cons f fs)
  then show ?case
    by (cases f w acc rule: step_cases) (auto dest: assms(1))
qed

text \<open>An error comes from one selected handler: its own, or the refusal of its response.\<close>

lemma loop_error:
  assumes "fst (loop fs acc w) = Inl e"
  shows "\<exists>f \<in> set fs. \<exists>w1 w2 acc1. selected (h_config (fst (fac_produce f w1))) \<and>
     (fst (h_dispatch (fst (fac_produce f w1)) (request acc1) w2) = Inl e \<or>
      (\<exists>resp. fst (h_dispatch (fst (fac_produce f w1)) (request acc1) w2) = Inr resp \<and>
              absorb acc1 resp = Inl e))"
  using assms
proof (induction fs arbitrary: acc w)
  case Nil
  then show ?case by (simp add: loop_Nil)
next
  case (Cons f fs)
  obtain h w1 where p: "fac_produce f w = (h, w1)" by fastforce
  obtain r w2 where d: "h_dispatch h (request acc) w1 = (r, w2)" by fastforce
  show ?case
  proof (cases "selected (h_config h)")
    case False
    with Cons p show ?thesis by (auto simp: loop_skip)
  next
    case sel: True
    have here: ?thesis
      if "r = Inl e \<or> (\<exists>resp. r = Inr resp \<and> absorb acc resp = Inl e)"
      using that p d sel by (intro bexI [of _ f] exI [of _ w] exI [of _ w1] exI [of _ acc]) auto
    show ?thesis
    proof (cases r)
      case (Inl e')
      with Cons.prems loop_fail [OF p sel] d have "e' = e" by simp
      with Inl here show ?thesis by simp
    next
      case (Inr resp)
      show ?thesis
      proof (cases "absorb acc resp")
        case (Inl e')
        with Cons.prems loop_refuse [OF p sel] d \<open>r = Inr resp\<close> have "e' = e" by simp
        with Inl \<open>r = Inr resp\<close> here show ?thesis by simp
      next
        case abs: (Inr acc1)
        with Cons.prems loop_step [OF p sel _ abs] d Inr have "fst (loop fs acc1 w2) = Inl e" by simp
        with Cons.IH show ?thesis by fastforce
      qed
    qed
  qed
qed

text \<open>With answering factories the outcome is a fold over the selected answers.\<close>

lemma loop_answers:
  assumes "list_all2 answers fs as"
  shows "fst (loop fs acc w) =
    foldR (\<lambda>acc a. bindR (snd a (request acc)) (absorb acc)) (filter (\<lambda>a. selected (fst a)) as) acc"
  using assms
proof (induction fs as arbitrary: acc w rule: list_all2_induct)
  case Nil
  then show ?case by (simp add: loop_Nil)
next
  case (Cons f fs a as)
  obtain c g where a: "a = (c, g)" by (cases a)
  obtain h w1 where p: "fac_produce f w = (h, w1)" by fastforce
  from Cons.hyps(1) a p have h: "h_config h = c" "fst (h_dispatch h (request acc) w1) = g (request acc)"
    using answersD by metis+
  obtain r w2 where d: "h_dispatch h (request acc) w1 = (r, w2)" by fastforce
  with h have g: "g (request acc) = r" by simp
  show ?case
  proof (cases "selected c")
    case False
    with h p a Cons.IH show ?thesis by (simp add: loop_skip)
  next
    case True
    show ?thesis
    proof (cases r)
      case (Inl e)
      with True a h p d g show ?thesis by (simp add: loop_fail)
    next
      case (Inr resp)
      show ?thesis
      proof (cases "absorb acc resp")
        case (Inl e)
        with True a h p d g Inr show ?thesis by (simp add: loop_refuse)
      next
        case abs: (Inr acc1)
        with True a h p d g Inr Cons.IH show ?thesis by (simp add: loop_step)
      qed
    qed
  qed
qed

end

text \<open>
  A fan-out that sends every handler the same request and adds up what the responses carry: the
  accumulator is a monoid, and \<open>take_response\<close> reads a dispatch's outcome.
\<close>

locale merging_fan_out =
  fan_out loop selected "\<lambda>_. req" "\<lambda>acc resp. map_ok ((+) acc) (take_response (Inr resp))"
  for loop :: "'w Factory list \<Rightarrow> ('acc :: monoid_add) \<Rightarrow> 'w \<Rightarrow> (ClientError + 'acc) \<times> 'w"
    and selected :: "HandlerConfig \<Rightarrow> bool"
    and req :: HandlerRequest
    and take_response :: "ClientError + HandlerResponse \<Rightarrow> ClientError + 'acc" +
  assumes take_error: "take_response (Inl e) = Inl e"
begin

lemma take_bind:
  "bindR m (\<lambda>resp. map_ok f (take_response (Inr resp))) = map_ok f (take_response m)"
  by (cases m) (simp_all add: take_error)

lemma loop_merges:
  assumes "list_all2 answers fs as"
  shows "fst (loop fs acc w) =
    map_ok (\<lambda>rs. acc + sum_list rs)
      (traverseR (\<lambda>a. take_response (snd a req)) (filter (\<lambda>a. selected (fst a)) as))"
  by (simp add: loop_answers [OF assms] take_bind foldR_traverse)

end

end
