(* ===== verification/Effects.thy ===== *)
theory Effects
  imports Fan_Out
begin

text \<open>
  Folds that may fail and act on the world, and the fan-out loop of the routers as such a fold:
  with factories that make given handlers, whatever making and running one does to the world,
  the loop of \<open>fan_out\<close> visits the handlers in order of registration.
\<close>

section \<open>Folds with effects\<close>

fun foldW :: "('s \<Rightarrow> 'x \<Rightarrow> 'w \<Rightarrow> ('e + 's) \<times> 'w) \<Rightarrow> 'x list \<Rightarrow> 's \<Rightarrow> 'w \<Rightarrow> ('e + 's) \<times> 'w" where
  "foldW f [] s w = (Inr s, w)"
| "foldW f (x # xs) s w =
     (case f s x w of (Inl e, w1) \<Rightarrow> (Inl e, w1) | (Inr s1, w1) \<Rightarrow> foldW f xs s1 w1)"

lemma foldW_map: "foldW f (map h xs) s w = foldW (\<lambda>s x. f s (h x)) xs s w"
  by (induction xs arbitrary: s w) (simp_all split: prod.split sum.split)

text \<open>A fold whose state is a function of a simpler fold's state.\<close>

lemma foldW_abs:
  assumes "\<And>s x w. x \<in> set xs \<Longrightarrow> f (g s) x w = map_prod (map_ok g) id (f' s x w)"
  shows "foldW f xs (g s) w = map_prod (map_ok g) id (foldW f' xs s w)"
  using assms
proof (induction xs arbitrary: s w)
  case (Cons x xs)
  obtain r w1 where r: "f' s x w = (r, w1)" by fastforce
  with Cons.prems [of x s w] Cons.IH [OF Cons.prems] show ?case by (cases r) simp_all
qed simp

lemma foldW_cong:
  assumes "\<And>s x w. x \<in> set xs \<Longrightarrow> f s x w = f' s x w"
  shows "foldW f xs s w = foldW f' xs s w"
  using assms by (induction xs arbitrary: s w) (simp_all split: prod.split sum.split)

text \<open>What every step keeps, the fold keeps.\<close>

lemma foldW_keeps:
  assumes "\<And>s x w s1. P s \<Longrightarrow> fst (f s x w) = Inr s1 \<Longrightarrow> P s1"
    and "P s" and "fst (foldW f xs s w) = Inr t"
  shows "P t"
  using assms(2,3)
proof (induction xs arbitrary: s w)
  case (Cons x xs)
  obtain r w1 where r: "f s x w = (r, w1)" by fastforce
  then show ?case
    using Cons.prems Cons.IH assms(1) [of s x w] by (cases r) auto
qed simp

section \<open>A fan-out as a fold\<close>

text \<open>A factory that makes a given handler, with a given effect.\<close>

definition makes :: "'w Factory \<Rightarrow> 'w Handler \<times> ('w \<Rightarrow> 'w) \<Rightarrow> bool" where
  "makes f hk \<longleftrightarrow> (\<forall>w. fac_produce f w = (fst hk, snd hk w))"

lemma makes_const [simp]: "makes (const_factory h) (h, \<lambda>w. w)"
  by (simp add: makes_def)

text \<open>What one handler contributes to a fan-out.\<close>

definition visit ::
  "(HandlerConfig \<Rightarrow> bool) \<Rightarrow> ('acc \<Rightarrow> HandlerRequest) \<Rightarrow>
     ('acc \<Rightarrow> HandlerResponse \<Rightarrow> ClientError + 'acc) \<Rightarrow> 'acc \<Rightarrow> 'w Handler \<times> ('w \<Rightarrow> 'w) \<Rightarrow> 'w \<Rightarrow>
     (ClientError + 'acc) \<times> 'w" where
  "visit selected request absorb acc hk w =
     (let w1 = snd hk w
      in if selected (h_config (fst hk))
         then (case h_dispatch (fst hk) (request acc) w1 of
                 (Inl e, w2) \<Rightarrow> (Inl e, w2) | (Inr resp, w2) \<Rightarrow> (absorb acc resp, w2))
         else (Inr acc, w1))"

lemma visit_skip:
  "\<not> selected (h_config h) \<Longrightarrow> visit selected request absorb acc (h, k) w = (Inr acc, k w)"
  by (simp add: visit_def)

lemma visit_run:
  "selected (h_config h) \<Longrightarrow> visit selected request absorb acc (h, k) w =
     (bindR (fst (h_dispatch h (request acc) (k w))) (absorb acc), snd (h_dispatch h (request acc) (k w)))"
  by (simp add: visit_def Let_def split: prod.split sum.split)

context fan_out
begin

lemma loop_visits:
  assumes "list_all2 makes fs hks"
  shows "loop fs acc w = foldW (visit selected request absorb) hks acc w"
  using assms
proof (induction fs hks arbitrary: acc w rule: list_all2_induct)
  case Nil
  then show ?case by (simp add: loop_Nil)
next
  case (Cons f fs hk hks)
  obtain h k where hk: "hk = (h, k)" by (cases hk)
  with Cons.hyps(1) have p: "fac_produce f w = (h, k w)" by (simp add: makes_def)
  obtain r w2 where d: "h_dispatch h (request acc) (k w) = (r, w2)" by fastforce
  show ?case
  proof (cases "selected (h_config h)")
    case False
    with loop_skip [OF p] hk Cons.IH show ?thesis by (simp add: visit_def)
  next
    case sel: True
    show ?thesis
    proof (cases r)
      case (Inl e)
      with loop_fail [OF p sel] d hk sel show ?thesis by (simp add: visit_def)
    next
      case resp: (Inr resp)
      show ?thesis
      proof (cases "absorb acc resp")
        case (Inl e)
        with loop_refuse [OF p sel] d resp hk sel show ?thesis by (simp add: visit_def)
      next
        case (Inr acc1)
        with loop_step [OF p sel] d resp hk sel Cons.IH show ?thesis by (simp add: visit_def)
      qed
    qed
  qed
qed

end

end
