(* ===== verification/Dispatch_Command.thy ===== *)
theory Dispatch_Command
  imports Effects
begin

text \<open>
  \<^verbatim>\<open>src/src/router/runtime.rs\<close>, the command-handler router: \<open>dispatch\<close>, the rejection path
  \<open>dispatch_rejection\<close>, and the extraction of type URLs and rejection keys.

  The loops run over the factories; the world is threaded through \<open>produce\<close> and
  \<open>handler.dispatch\<close>. The length of a page list is cast to \<open>u32\<close> and added with wrap-around.
\<close>

section \<open>Extraction\<close>

definition extract_command_type_url :: "ContextualCommand \<Rightarrow> ClientError + string" where
  "extract_command_type_url cmd =
     bindR (ok_or (inv_arg MISSING_COMMAND_BOOK []) (cc_command cmd)) (\<lambda>book.
     bindR (ok_or (inv_arg MISSING_COMMAND_PAGE []) (first_opt (cb_pages book))) (\<lambda>page.
     bindR (case cp_payload page of
              Some (Cmd_Command c) \<Rightarrow> Inr c
            | _ \<Rightarrow> Inl (inv_arg MISSING_COMMAND_PAYLOAD [])) (\<lambda>payload.
     Inr (any_type_url payload))))"

text \<open>\<open>url.rsplit('/').next().rsplit('.').next()\<close>: the bare message name.\<close>

definition command_suffix :: "string \<Rightarrow> string" where
  "command_suffix url = rsplit_next (CHR ''.'') (rsplit_next (CHR ''/'') url)"

text \<open>The last part of \<open>extract_rejection_key\<close>: the key of a decoded rejection.\<close>

definition rejection_key :: "RejectionNotification \<Rightarrow> string \<times> string" where
  "rejection_key rejection =
     (let domain = unwrap_or [] (Option.bind (rn_rejected_command rejection)
                     (\<lambda>cb. map_option cv_domain (cb_cover cb)));
          suffix = unwrap_or [] (map_option command_suffix
                     (Option.bind (rn_rejected_command rejection) (\<lambda>cb.
                        Option.bind (first_opt (cb_pages cb)) (\<lambda>p.
                          case cp_payload p of
                            Some (Cmd_Command a) \<Rightarrow> Some (any_type_url a)
                          | _ \<Rightarrow> None))))
      in (domain, suffix))"

definition extract_rejection_key ::
  "Wire \<Rightarrow> ContextualCommand \<Rightarrow> ClientError + (string \<times> string)" where
  "extract_rejection_key W cmd =
     bindR (ok_or (inv_arg MISSING_COMMAND_BOOK []) (cc_command cmd)) (\<lambda>book.
     bindR (ok_or (inv_arg MISSING_COMMAND_PAGE []) (first_opt (cb_pages book))) (\<lambda>page.
     bindR (case cp_payload page of
              Some (Cmd_Command c) \<Rightarrow> Inr c
            | _ \<Rightarrow> Inl (inv_arg MISSING_COMMAND_PAYLOAD [])) (\<lambda>payload.
     bindR (map_err (\<lambda>e. inv_arg NOTIFICATION_DECODE_FAILED [(keys K_CAUSE, e)])
              (w_decode_notification W (any_value payload))) (\<lambda>notif.
     bindR (case nt_payload notif of
              Some p \<Rightarrow> map_err
                (\<lambda>e. inv_arg REJECTION_NOTIFICATION_DECODE_FAILED [(keys K_CAUSE, e)])
                (w_decode_rejection W (any_value p))
            | None \<Rightarrow> Inr default_RejectionNotification) (\<lambda>rejection.
     Inr (rejection_key rejection))))))"

section \<open>The rejection loop\<close>

definition wrong_kind :: "string \<Rightarrow> ClientError" where
  "wrong_kind expected = inv_arg HANDLER_WRONG_RESPONSE_KIND [(keys K_EXPECTED_KIND, expected)]"

text \<open>\<open>scoped_cmd\<close>: the command with the running sequence in its event book, if it has one.\<close>

definition scoped_command :: "ContextualCommand \<Rightarrow> u32 \<Rightarrow> ContextualCommand" where
  "scoped_command cmd running_seq =
     (case cc_events cmd of
        None \<Rightarrow> cmd
      | Some eb \<Rightarrow> cmd\<lparr>cc_events := Some (eb\<lparr>eb_next_sequence := running_seq\<rparr>)\<rparr>)"

text \<open>The state of the loop is the running sequence and the merged book.\<close>

fun rejection_loop ::
  "string \<times> string \<Rightarrow> ContextualCommand \<Rightarrow> 'w Factory list \<Rightarrow> u32 \<times> EventBook \<Rightarrow> 'w \<Rightarrow>
     (ClientError + u32 \<times> EventBook) \<times> 'w" where
  "rejection_loop key cmd [] (running_seq, merged) w = (Inr (running_seq, merged), w)"
| "rejection_loop key cmd (f # fs) (running_seq, merged) w =
     (let (handler, w1) = fac_produce f w
      in case h_config handler of
           Cfg_CommandHandler c \<Rightarrow>
             if \<not> list_ex (\<lambda>(d, k). d = fst key \<and> k = snd key) (ch_rejected c)
             then rejection_loop key cmd fs (running_seq, merged) w1
             else (case h_dispatch handler
                          (Req_CommandHandler (scoped_command cmd running_seq)) w1 of
                     (Inl e, w2) \<Rightarrow> (Inl e, w2)
                   | (Inr response, w2) \<Rightarrow>
                       (case response of
                          Resp_CommandHandler br \<Rightarrow>
                            (case br_result br of
                               Some (BR_Events events) \<Rightarrow>
                                 rejection_loop key cmd fs
                                   (running_seq + of_nat (length (eb_pages events)),
                                    merged\<lparr>eb_pages := eb_pages merged @ eb_pages events\<rparr>) w2
                             | _ \<Rightarrow> rejection_loop key cmd fs (running_seq, merged) w2)
                        | _ \<Rightarrow> (Inl (wrong_kind ''CommandHandler''), w2)))
         | _ \<Rightarrow> rejection_loop key cmd fs (running_seq, merged) w1)"

definition dispatch_rejection ::
  "Wire \<Rightarrow> 'w RuntimeRouter \<Rightarrow> ContextualCommand \<Rightarrow> 'w \<Rightarrow>
     (ClientError + BusinessResponse) \<times> 'w" where
  "dispatch_rejection W r cmd w =
     (case extract_rejection_key W cmd of
        Inl e \<Rightarrow> (Inl e, w)
      | Inr key \<Rightarrow>
          (let initial_next_seq = unwrap_or 0 (map_option eb_next_sequence (cc_events cmd));
               merged = default_EventBook\<lparr>eb_next_sequence := initial_next_seq\<rparr>
           in case rejection_loop key cmd (rt_factories r) (initial_next_seq, merged) w of
                (Inl e, w1) \<Rightarrow> (Inl e, w1)
              | (Inr (running_seq, merged1), w1) \<Rightarrow>
                  (Inr \<lparr>br_result =
                     Some (BR_Events (merged1\<lparr>eb_next_sequence := running_seq\<rparr>))\<rparr>, w1)))"

section \<open>The command loop\<close>

definition command_domain :: "ContextualCommand \<Rightarrow> string option" where
  "command_domain cmd = map_option cv_domain (Option.bind (cc_command cmd) cb_cover)"

text \<open>\<open>None\<close> when no handler matched.\<close>

fun command_loop ::
  "string \<Rightarrow> string \<Rightarrow> ContextualCommand \<Rightarrow> 'w Factory list \<Rightarrow> 'w \<Rightarrow>
     (ClientError + BusinessResponse) option \<times> 'w" where
  "command_loop cover_domain url cmd [] w = (None, w)"
| "command_loop cover_domain url cmd (f # fs) w =
     (let (handler, w1) = fac_produce f w
      in case h_config handler of
           Cfg_CommandHandler c \<Rightarrow>
             if ch_domain c \<noteq> cover_domain then command_loop cover_domain url cmd fs w1
             else if \<not> list_ex (\<lambda>u. u = url) (ch_handled c)
             then command_loop cover_domain url cmd fs w1
             else (case h_dispatch handler (Req_CommandHandler cmd) w1 of
                     (Inl e, w2) \<Rightarrow> (Some (Inl e), w2)
                   | (Inr response, w2) \<Rightarrow>
                       (case response of
                          Resp_CommandHandler br \<Rightarrow> (Some (Inr br), w2)
                        | _ \<Rightarrow> (Some (Inl (wrong_kind ''CommandHandler'')), w2)))
         | _ \<Rightarrow> command_loop cover_domain url cmd fs w1)"

definition no_handler :: "string \<Rightarrow> string \<Rightarrow> ClientError" where
  "no_handler domain url =
     inv_arg NO_HANDLER_REGISTERED [(keys K_DOMAIN, domain), (keys K_TYPE_URL, url)]"

definition notification_url :: "Wire \<Rightarrow> string" where
  "notification_url W = TYPE_URL_PREFIX @ w_notification_name W"

definition ch_dispatch ::
  "Wire \<Rightarrow> 'w RuntimeRouter \<Rightarrow> ContextualCommand \<Rightarrow> 'w \<Rightarrow>
     (ClientError + BusinessResponse) \<times> 'w" where
  "ch_dispatch W r cmd w =
     (case extract_command_type_url cmd of
        Inl e \<Rightarrow> (Inl e, w)
      | Inr url \<Rightarrow>
          if url = notification_url W then dispatch_rejection W r cmd w
          else (case command_loop (unwrap_or [] (command_domain cmd)) url cmd
                       (rt_factories r) w of
                  (Some result, w1) \<Rightarrow> (result, w1)
                | (None, w1) \<Rightarrow>
                    (Inl (no_handler (unwrap_or ''<missing>'' (command_domain cmd)) url), w1)))"

section \<open>The rejection loop is a fan-out\<close>

definition rejects :: "string \<times> string \<Rightarrow> HandlerConfig \<Rightarrow> bool" where
  "rejects key cfg \<longleftrightarrow>
     (case cfg of Cfg_CommandHandler c \<Rightarrow> key \<in> set (ch_rejected c) | _ \<Rightarrow> False)"

definition emitted_pages :: "BusinessResponse \<Rightarrow> EventPage list" where
  "emitted_pages br = (case br_result br of Some (BR_Events b) \<Rightarrow> eb_pages b | _ \<Rightarrow> [])"

definition absorb_rejection ::
  "u32 \<times> EventBook \<Rightarrow> HandlerResponse \<Rightarrow> ClientError + (u32 \<times> EventBook)" where
  "absorb_rejection acc response =
     (case response of
        Resp_CommandHandler br \<Rightarrow>
          Inr (fst acc + of_nat (length (emitted_pages br)),
               (snd acc)\<lparr>eb_pages := eb_pages (snd acc) @ emitted_pages br\<rparr>)
      | _ \<Rightarrow> Inl (wrong_kind ''CommandHandler''))"

lemma rejected_match:
  "list_ex (\<lambda>(d, k). d = fst key \<and> k = snd key) xs \<longleftrightarrow> key \<in> set xs"
  by (cases key) (auto simp: list_ex_iff)

interpretation rejections: fan_out "rejection_loop key cmd" "rejects key"
  "\<lambda>acc. Req_CommandHandler (scoped_command cmd (fst acc))" absorb_rejection
  for key cmd
proof (unfold_locales, goal_cases)
  case (1 acc w)
  then show ?case by (cases acc) simp
next
  case (2 f w h w1 fs acc)
  then show ?case
    by (cases acc) (auto simp: rejects_def rejected_match split: HandlerConfig.splits)
next
  case (3 f w h w1 acc e w2 fs)
  then show ?case
    by (cases acc) (auto simp: rejects_def rejected_match split: HandlerConfig.splits)
next
  case (4 f w h w1 acc resp w2 e fs)
  then show ?case
    by (cases acc)
      (auto simp: rejects_def rejected_match absorb_rejection_def
        split: HandlerConfig.splits HandlerResponse.splits)
next
  case (5 f w h w1 acc resp w2 acc1 fs)
  then show ?case
    by (cases acc)
      (auto simp: rejects_def rejected_match absorb_rejection_def emitted_pages_def
        split: HandlerConfig.splits HandlerResponse.splits option.splits BusinessResult.splits)
qed

section \<open>The specification of the two paths\<close>

text \<open>A handler's outcome read as a command handler's.\<close>

definition as_command :: "ClientError + HandlerResponse \<Rightarrow> ClientError + BusinessResponse" where
  "as_command m = bindR m (\<lambda>response.
     case response of Resp_CommandHandler br \<Rightarrow> Inr br | _ \<Rightarrow> Inl (wrong_kind ''CommandHandler''))"

lemma as_command_simps [simp]:
  "as_command (Inl e) = Inl e"
  "as_command (Inr (Resp_CommandHandler br)) = Inr br"
  by (simp_all add: as_command_def)

lemma as_command_Inr: "as_command m = Inr br \<longleftrightarrow> m = Inr (Resp_CommandHandler br)"
  by (cases m) (auto simp: as_command_def split: HandlerResponse.splits)

definition claims :: "string \<Rightarrow> string \<Rightarrow> HandlerConfig \<Rightarrow> bool" where
  "claims d url cfg \<longleftrightarrow> (d, url) \<in> set (claimed cfg)"

lemma claims_command_handler [simp]:
  "claims d url (Cfg_CommandHandler c) \<longleftrightarrow> ch_domain c = d \<and> url \<in> set (ch_handled c)"
  by (auto simp: claims_def)

lemma claims_other [simp]:
  "\<not> claims d url (Cfg_Saga s)" "\<not> claims d url (Cfg_ProcessManager p)"
  "\<not> claims d url (Cfg_Projector j)" "\<not> claims d url (Cfg_Upcaster u)"
  by (simp_all add: claims_def)

lemma handled_match: "list_ex (\<lambda>u. u = url) us \<longleftrightarrow> url \<in> set us"
  by (auto simp: list_ex_iff)

lemma command_loop_skip [dispatch_simps]:
  "fac_produce f w = (h, w1) \<Longrightarrow> \<not> claims d url (h_config h) \<Longrightarrow>
     command_loop d url cmd (f # fs) w = command_loop d url cmd fs w1"
  by (cases "h_config h") (auto simp: handled_match)

lemma command_loop_hit [dispatch_simps]:
  "fac_produce f w = (h, w1) \<Longrightarrow> claims d url (h_config h) \<Longrightarrow>
     command_loop d url cmd (f # fs) w =
       (Some (as_command (fst (h_dispatch h (Req_CommandHandler cmd) w1))),
        snd (h_dispatch h (Req_CommandHandler cmd) w1))"
  by (cases "h_config h")
    (auto simp: handled_match as_command_def split: prod.splits sum.splits HandlerResponse.splits)

text \<open>The command loop finds the first claiming handler.\<close>

lemma command_loop_answers:
  assumes "list_all2 answers fs as"
  shows "fst (command_loop d url cmd fs w) =
     map_option (\<lambda>a. as_command (snd a (Req_CommandHandler cmd)))
       (find (\<lambda>a. claims d url (fst a)) as)"
  using assms
proof (induction fs as arbitrary: w rule: list_all2_induct)
  case Nil
  then show ?case by simp
next
  case (Cons f fs a as)
  obtain c g where a: "a = (c, g)" by (cases a)
  obtain h w1 where p: "fac_produce f w = (h, w1)" by fastforce
  from Cons.hyps(1) a p
  have h: "h_config h = c" "fst (h_dispatch h (Req_CommandHandler cmd) w1) = g (Req_CommandHandler cmd)"
    using answersD by metis+
  show ?case
    by (cases "claims d url c") (use p h a Cons.IH in \<open>simp_all add: dispatch_simps del: command_loop.simps\<close>)
qed

text \<open>With distinct claims the first claiming handler is the only one.\<close>

lemma find_unique:
  assumes "distinct (concat (map k xs))" and "x \<in> set xs" and "y \<in> set (k x)"
  shows "find (\<lambda>x. y \<in> set (k x)) xs = Some x"
  using assms
proof (induction xs)
  case (Cons z xs)
  show ?case
  proof (cases "y \<in> set (k z)")
    case True
    with Cons.prems have "x = z" by auto
    with True show ?thesis by simp
  next
    case False
    with Cons show ?thesis by auto
  qed
qed simp

lemma find_claim:
  assumes "distinct (concat (map (\<lambda>a. claimed (fst a)) as))" and "a \<in> set as"
    and "claims d url (fst a)"
  shows "find (\<lambda>a. claims d url (fst a)) as = Some a"
  unfolding claims_def by (rule find_unique) (use assms in \<open>auto simp: claims_def\<close>)

text \<open>The compensation of a rejection, over pages only: each handler is given the sequence that
  follows the pages emitted so far.\<close>

definition initial_sequence :: "ContextualCommand \<Rightarrow> u32" where
  "initial_sequence cmd = unwrap_or 0 (map_option eb_next_sequence (cc_events cmd))"

fun compensate ::
  "ContextualCommand \<Rightarrow> (HandlerRequest \<Rightarrow> ClientError + HandlerResponse) list \<Rightarrow>
     EventPage list \<Rightarrow> ClientError + EventPage list" where
  "compensate cmd [] pages = Inr pages"
| "compensate cmd (g # gs) pages =
     bindR (as_command (g (Req_CommandHandler
              (scoped_command cmd (initial_sequence cmd + of_nat (length pages))))))
       (\<lambda>br. compensate cmd gs (pages @ emitted_pages br))"

definition book_of_pages :: "u32 \<Rightarrow> EventPage list \<Rightarrow> EventBook" where
  "book_of_pages n pages =
     default_EventBook\<lparr>eb_pages := pages, eb_next_sequence := n + of_nat (length pages)\<rparr>"

lemma foldR_rejection:
  "foldR (\<lambda>acc g. bindR (g (Req_CommandHandler (scoped_command cmd (fst acc)))) (absorb_rejection acc))
     gs (initial_sequence cmd + of_nat (length pages),
         default_EventBook\<lparr>eb_next_sequence := n, eb_pages := pages\<rparr>)
   = map_ok (\<lambda>ps. (initial_sequence cmd + of_nat (length ps),
         default_EventBook\<lparr>eb_next_sequence := n, eb_pages := ps\<rparr>)) (compensate cmd gs pages)"
proof (induction gs arbitrary: pages)
  case Nil
  then show ?case by simp
next
  case (Cons g gs)
  let ?req = "Req_CommandHandler
     (scoped_command cmd (initial_sequence cmd + of_nat (length pages)))"
  show ?case
  proof (cases "g ?req")
    case (Inl e)
    then show ?thesis by simp
  next
    case (Inr resp)
    then show ?thesis
      using Cons.IH [of "pages @ emitted_pages br" for br]
      by (cases resp) (simp_all add: absorb_rejection_def as_command_def add.assoc)
  qed
qed

lemma foldR_map: "foldR f (map h xs) s = foldR (\<lambda>s x. f s (h x)) xs s"
proof (induction xs arbitrary: s)
  case (Cons x xs)
  then show ?case by (cases "f s (h x)") simp_all
qed simp

lemma rejection_loop_answers:
  assumes "list_all2 answers fs as"
  shows "fst (rejection_loop key cmd fs (initial_sequence cmd,
             default_EventBook\<lparr>eb_next_sequence := n\<rparr>) w) =
     map_ok (\<lambda>ps. (initial_sequence cmd + of_nat (length ps),
         default_EventBook\<lparr>eb_next_sequence := n, eb_pages := ps\<rparr>))
       (compensate cmd (map snd (filter (\<lambda>a. rejects key (fst a)) as)) [])"
proof -
  have d: "default_EventBook\<lparr>eb_next_sequence := n\<rparr> =
      default_EventBook\<lparr>eb_next_sequence := n, eb_pages := []\<rparr>"
    by (simp add: default_EventBook_def)
  from foldR_rejection [of cmd "map snd (filter (\<lambda>a. rejects key (fst a)) as)" "[]" n]
  show ?thesis
    by (subst d, subst rejections.loop_answers [OF assms]) (simp add: foldR_map)
qed

lemma dispatch_rejection_answers:
  assumes "list_all2 answers (rt_factories r) as" and "extract_rejection_key W cmd = Inr key"
  shows "fst (dispatch_rejection W r cmd w) =
     map_ok (\<lambda>ps. \<lparr>br_result = Some (BR_Events (book_of_pages (initial_sequence cmd) ps))\<rparr>)
       (compensate cmd (map snd (filter (\<lambda>a. rejects key (fst a)) as)) [])"
proof -
  let ?c = "compensate cmd (map snd (filter (\<lambda>a. rejects key (fst a)) as)) []"
  obtain res w1 where l: "rejection_loop key cmd (rt_factories r) (initial_sequence cmd,
      default_EventBook\<lparr>eb_next_sequence := initial_sequence cmd\<rparr>) w = (res, w1)"
    by fastforce
  from rejection_loop_answers [OF assms(1), of key cmd "initial_sequence cmd" w]
  have "res = map_ok (\<lambda>ps. (initial_sequence cmd + of_nat (length ps),
      default_EventBook\<lparr>eb_next_sequence := initial_sequence cmd, eb_pages := ps\<rparr>)) ?c"
    by (simp only: l fst_conv)
  with l show ?thesis
    by (cases ?c)
      (simp_all add: dispatch_rejection_def assms(2) Let_def book_of_pages_def
        initial_sequence_def [symmetric])
qed

text \<open>A handler that answers without events adds nothing.\<close>

lemma compensate_append:
  "compensate cmd (gs @ hs) ps = bindR (compensate cmd gs ps) (compensate cmd hs)"
proof (induction gs arbitrary: ps)
  case (Cons g gs)
  show ?case
    by (cases "as_command (g (Req_CommandHandler
          (scoped_command cmd (initial_sequence cmd + of_nat (length ps)))))")
      (simp_all add: Cons)
qed simp

lemma compensate_silent:
  assumes "\<And>req. \<exists>br. g req = Inr (Resp_CommandHandler br) \<and> emitted_pages br = []"
  shows "compensate cmd (gs @ g # hs) ps = compensate cmd (gs @ hs) ps"
proof -
  have "compensate cmd (g # hs) ps = compensate cmd hs ps" for ps
    using assms [of "Req_CommandHandler
        (scoped_command cmd (initial_sequence cmd + of_nat (length ps)))"] by auto
  then have "compensate cmd (g # hs) = compensate cmd hs" by (rule ext)
  then show ?thesis by (simp add: compensate_append)
qed

text \<open>Messages for the witnesses.\<close>

definition example_wire :: Wire where
  "example_wire =
     \<lparr>w_notification_name = ''angzarr.Notification'',
      w_decode_notification =
        (\<lambda>b. Inr \<lparr>nt_other = [], nt_payload = Some (raw_any ''angzarr.RejectionNotification'' b)\<rparr>),
      w_decode_rejection = (\<lambda>b. Inr \<lparr>rn_rejected_command =
         Some \<lparr>cb_cover = Some order_cover, cb_pages = [command_page 0 (raw_any ''shop.Reserve'' b)]\<rparr>,
         rn_rejection_reason = ''no stock''\<rparr>)\<rparr>"

definition example_command :: "string \<Rightarrow> ContextualCommand" where
  "example_command name =
     \<lparr>cc_events = Some (event_book None []),
      cc_command = Some \<lparr>cb_cover = Some order_cover, cb_pages = [command_page 0 (raw_any name [])]\<rparr>\<rparr>"

definition rejecting_example :: "string \<Rightarrow> string \<Rightarrow> HandlerConfig" where
  "rejecting_example d k = Cfg_CommandHandler
     \<lparr>ch_domain = d, ch_handled = [], ch_rejected = [(d, k)], ch_applies = [],
      ch_state_factory = None, ch_handles_fact = [], ch_supports_replay = False\<rparr>"

lemma extract_example_command:
  "extract_command_type_url (example_command name) = Inr (TYPE_URL_PREFIX @ name)"
  by (simp add: extract_command_type_url_def example_command_def command_page_def raw_any_def)

lemma command_suffix_example: "command_suffix (TYPE_URL_PREFIX @ ''shop.Reserve'') = ''Reserve''"
  by (simp add: command_suffix_def rsplit_next_def TYPE_URL_PREFIX_def)

lemma extract_example_rejection:
  "extract_rejection_key example_wire (example_command ''angzarr.Notification'') =
     Inr (''order'', ''Reserve'')"
  by (simp add: extract_rejection_key_def example_command_def example_wire_def command_page_def
      raw_any_def rejection_key_def order_cover_def command_suffix_example [unfolded raw_any_def])

section \<open>Properties\<close>

text \<open>C8: a command reaches the one handler that claims it. In a command-handler router
  accepted by \<open>build\<close>, whatever the order of registration, a command that is not a
  notification gets the answer of the handler whose domain and handled types contain the
  command's \<open>(domain, type URL)\<close>; when none does it is \<open>NO_HANDLER_REGISTERED\<close> naming both, a
  missing cover being reported as \<open><missing>\<close>.
  Stated for handlers whose answers depend on the request alone, whatever the state of the
  world (\<open>answers\<close>).\<close>

theorem ch_dispatch_routes:
  assumes "build rb w0 = (Inr (Built_CommandHandler r), w1)"
    and "list_all2 answers (rb_factories rb) as"
    and "extract_command_type_url cmd = Inr url" and "url \<noteq> notification_url W"
  shows "(\<forall>a \<in> set as. claims (unwrap_or [] (command_domain cmd)) url (fst a) \<longrightarrow>
        fst (ch_dispatch W r cmd w) = as_command (snd a (Req_CommandHandler cmd)))
    \<and> ((\<forall>a \<in> set as. \<not> claims (unwrap_or [] (command_domain cmd)) url (fst a)) \<longrightarrow>
        fst (ch_dispatch W r cmd w) =
          Inl (no_handler (unwrap_or ''<missing>'' (command_domain cmd)) url))"
proof -
  let ?d = "unwrap_or [] (command_domain cmd)"
  have "list_all2 steady (rb_factories rb) (map fst as)"
    using assms(2) by (auto simp: list_all2_conv_all_nth answers_def)
  from build_outcome [OF this, of w0] assms(1)
  have built: "distinct (concat (map (\<lambda>a. claimed (fst a)) as))" "rt_factories r = rb_factories rb"
    by (simp_all add: comp_def)
  obtain res w2 where l: "command_loop ?d url cmd (rb_factories rb) w = (res, w2)" by fastforce
  with command_loop_answers [OF assms(2), of ?d url cmd w]
  have res: "res = map_option (\<lambda>a. as_command (snd a (Req_CommandHandler cmd)))
      (find (\<lambda>a. claims ?d url (fst a)) as)" by simp
  have d: "fst (ch_dispatch W r cmd w) = (case res of Some x \<Rightarrow> x
      | None \<Rightarrow> Inl (no_handler (unwrap_or ''<missing>'' (command_domain cmd)) url))"
    using assms(3,4) l built(2) by (simp add: ch_dispatch_def split: option.splits)
  show ?thesis
    unfolding d res using find_claim [OF built(1)] find_None_iff [of "\<lambda>a. claims ?d url (fst a)" as]
    by (auto split: option.splits)
qed

theorem ch_dispatch_routes_witness:
  "fst (ch_dispatch example_wire
     \<lparr>rt_factories = [const_factory (const_handler (ch_example ''order'' [TYPE_URL_PREFIX @ ''shop.Buy''])
        (\<lambda>_. Inr (Resp_CommandHandler \<lparr>br_result = None\<rparr>)))], rt_cached_name = None\<rparr>
     (example_command ''shop.Buy'') ()) = Inr \<lparr>br_result = None\<rparr>"
proof -
  let ?g = "\<lambda>_. Inr (Resp_CommandHandler \<lparr>br_result = None\<rparr>)"
  let ?c = "ch_example ''order'' [TYPE_URL_PREFIX @ ''shop.Buy'']"
  let ?fs = "[const_factory (const_handler ?c ?g) :: unit Factory]"
  let ?rb = "\<lparr>rb_name = ''r'', rb_factories = ?fs\<rparr>"
  have b: "build ?rb () = (Inr (Built_CommandHandler \<lparr>rt_factories = ?fs, rt_cached_name = None\<rparr>), ())"
    by (simp add: build_def built_of_def Let_def ch_example_def)
  have a: "list_all2 answers (rb_factories ?rb) [(?c, ?g)]" by simp
  have n: "TYPE_URL_PREFIX @ ''shop.Buy'' \<noteq> notification_url example_wire"
    by (simp add: notification_url_def example_wire_def)
  have c: "claims (unwrap_or [] (command_domain (example_command ''shop.Buy'')))
      (TYPE_URL_PREFIX @ ''shop.Buy'') ?c"
    by (simp add: claims_def ch_example_def command_domain_def example_command_def order_cover_def)
  from ch_dispatch_routes [OF b a extract_example_command n, of "()"] c show ?thesis by simp
qed

text \<open>C9: compensation. A rejection notification is handed, in registration order, to every
  handler whose rejected set holds its key. When the command carries an event book, each handler
  gets it with the next sequence set to the one that follows all pages emitted before it; a
  command without an event book is handed to all of them as it is, and the count starts at 0.
  The answer holds exactly the concatenation of their event pages, with the next sequence
  advanced by their number, or the first error.
  Stated for handlers whose answers depend on the request alone, whatever the state of the
  world (\<open>answers\<close>).\<close>

theorem rejection_threads_sequence:
  assumes "list_all2 answers (rt_factories r) as"
    and "extract_command_type_url cmd = Inr (notification_url W)"
    and "extract_rejection_key W cmd = Inr key"
  shows "fst (ch_dispatch W r cmd w) =
     map_ok (\<lambda>ps. \<lparr>br_result = Some (BR_Events (book_of_pages (initial_sequence cmd) ps))\<rparr>)
       (compensate cmd (map snd (filter (\<lambda>a. rejects key (fst a)) as)) [])
    \<and> (case cc_events cmd of
         Some b \<Rightarrow> initial_sequence cmd = eb_next_sequence b
           \<and> (\<forall>n. scoped_command cmd n = cmd\<lparr>cc_events := Some (b\<lparr>eb_next_sequence := n\<rparr>)\<rparr>)
       | None \<Rightarrow> initial_sequence cmd = 0 \<and> (\<forall>n. scoped_command cmd n = cmd))"
  using assms
  by (simp add: ch_dispatch_def dispatch_rejection_answers initial_sequence_def scoped_command_def
      split: option.split)

theorem rejection_threads_sequence_witness:
  "fst (ch_dispatch example_wire
     \<lparr>rt_factories = [const_factory (const_handler (rejecting_example ''order'' ''Reserve'')
        (\<lambda>_. Inr (Resp_CommandHandler \<lparr>br_result =
           Some (BR_Events (event_book None [event_page 0 (raw_any ''x'' [])]))\<rparr>)))],
      rt_cached_name = None\<rparr>
     (example_command ''angzarr.Notification'') ())
   = Inr \<lparr>br_result = Some (BR_Events (book_of_pages 0 [event_page 0 (raw_any ''x'' [])]))\<rparr>"
proof -
  let ?g = "\<lambda>_. Inr (Resp_CommandHandler \<lparr>br_result =
     Some (BR_Events (event_book None [event_page 0 (raw_any ''x'' [])]))\<rparr>)"
  let ?c = "rejecting_example ''order'' ''Reserve''"
  let ?r = "\<lparr>rt_factories = [const_factory (const_handler ?c ?g) :: unit Factory],
    rt_cached_name = None\<rparr>"
  have a: "list_all2 answers (rt_factories ?r) [(?c, ?g)]" by simp
  have n: "extract_command_type_url (example_command ''angzarr.Notification'') =
      Inr (notification_url example_wire)"
    by (simp add: extract_example_command notification_url_def example_wire_def)
  from rejection_threads_sequence [OF a n extract_example_rejection, of "()"] show ?thesis
    by (simp add: rejects_def rejecting_example_def emitted_pages_def event_book_def
        initial_sequence_def example_command_def)
qed

text \<open>A revocation is lost. A handler that answers a rejection with a \<open>Revocation\<close> (the
  result \<open>delegate_to_framework\<close> builds) rather than with events has no effect on the answer:
  the router without it answers the same.\<close>

theorem revocation_is_dropped:
  assumes "list_all2 answers (rt_factories r) (as @ (c, g) # bs)"
    and "list_all2 answers (rt_factories r') (as @ bs)"
    and "\<And>req. \<exists>v. g req = Inr (Resp_CommandHandler \<lparr>br_result = Some (BR_Revocation v)\<rparr>)"
    and "extract_command_type_url cmd = Inr (notification_url W)"
    and "extract_rejection_key W cmd = Inr key"
  shows "fst (ch_dispatch W r cmd w) = fst (ch_dispatch W r' cmd w')"
proof -
  have silent: "\<exists>br. g req = Inr (Resp_CommandHandler br) \<and> emitted_pages br = []" for req
    using assms(3) [of req] by (auto simp: emitted_pages_def)
  show ?thesis
    using dispatch_rejection_answers [OF assms(1,5), of w]
      dispatch_rejection_answers [OF assms(2,5), of w'] compensate_silent [of g, OF silent]
    by (simp add: ch_dispatch_def assms(4))
qed

theorem revocation_is_dropped_witness:
  "fst (ch_dispatch example_wire
     \<lparr>rt_factories = [const_factory (const_handler (rejecting_example ''order'' ''Reserve'')
        (\<lambda>_. Inr (Resp_CommandHandler \<lparr>br_result = Some (BR_Revocation
           \<lparr>rv_emit_system_revocation = True, rv_send_to_dead_letter_queue = False,
            rv_escalate = False, rv_abort = False, rv_reason = ''r''\<rparr>)\<rparr>)))],
      rt_cached_name = None\<rparr>
     (example_command ''angzarr.Notification'') ())
   = fst (ch_dispatch example_wire \<lparr>rt_factories = [], rt_cached_name = None\<rparr>
     (example_command ''angzarr.Notification'') ())"
proof -
  let ?g = "\<lambda>_. Inr (Resp_CommandHandler \<lparr>br_result = Some (BR_Revocation
           \<lparr>rv_emit_system_revocation = True, rv_send_to_dead_letter_queue = False,
            rv_escalate = False, rv_abort = False, rv_reason = ''r''\<rparr>)\<rparr>)"
  let ?c = "rejecting_example ''order'' ''Reserve''"
  let ?r = "\<lparr>rt_factories = [const_factory (const_handler ?c ?g) :: unit Factory],
    rt_cached_name = None\<rparr>"
  let ?s = "\<lparr>rt_factories = [] :: unit Factory list, rt_cached_name = None\<rparr>"
  have a: "list_all2 answers (rt_factories ?r) ([] @ (?c, ?g) # [])" by simp
  have a0: "list_all2 answers (rt_factories ?s) ([] @ [])" by simp
  have n: "extract_command_type_url (example_command ''angzarr.Notification'') =
      Inr (notification_url example_wire)"
    by (simp add: extract_example_command notification_url_def example_wire_def)
  show ?thesis
    by (rule revocation_is_dropped [OF a a0 _ n extract_example_rejection], rule exI, rule refl)
qed

end
