(* ===== verification/Dispatch_Events.thy ===== *)
theory Dispatch_Events
  imports Dispatch_Command
begin

text \<open>
  \<^verbatim>\<open>src/src/router/runtime.rs\<close>, the routers of events: saga, process manager and projector.

  Saga and process-manager dispatch fan out over the factories and concatenate the responses;
  both loops are interpreted as \<open>fan_out\<close>. The projector first produces the matching handlers,
  once each, then drives every page through all of them. Log lines are left out.
\<close>

section \<open>Sagas\<close>

definition extract_saga_event_type_url :: "SagaHandleRequest \<Rightarrow> ClientError + string" where
  "extract_saga_event_type_url request =
     bindR (ok_or (inv_arg MISSING_SAGA_SOURCE []) (sg_source request)) (\<lambda>book.
     bindR (ok_or (inv_arg EMPTY_SAGA_SOURCE []) (last_opt (eb_pages book))) (\<lambda>page.
     bindR (case ep_payload page of
              Some (Ev_Event e) \<Rightarrow> Inr e
            | _ \<Rightarrow> Inl (inv_arg MISSING_SAGA_EVENT_PAYLOAD [])) (\<lambda>payload.
     if any_type_url payload = [] \<or> \<not> starts_with (any_type_url payload) TYPE_URL_PREFIX
     then Inl (inv_arg SAGA_INVALID_TYPE_URL [(keys K_TYPE_URL, any_type_url payload)])
     else Inr (any_type_url payload))))"

text \<open>The domain of a book, \<open>""\<close> when there is no book or no cover.\<close>

definition book_domain :: "EventBook option \<Rightarrow> string" where
  "book_domain b = unwrap_or [] (map_option cv_domain (Option.bind b eb_cover))"

fun saga_loop ::
  "string \<Rightarrow> string \<Rightarrow> SagaHandleRequest \<Rightarrow> 'w Factory list \<Rightarrow> SagaResponse \<Rightarrow> 'w \<Rightarrow>
     (ClientError + SagaResponse) \<times> 'w" where
  "saga_loop source_domain url request [] merged w = (Inr merged, w)"
| "saga_loop source_domain url request (f # fs) merged w =
     (let (handler, w1) = fac_produce f w
      in case h_config handler of
           Cfg_Saga c \<Rightarrow>
             if sc_source c \<noteq> source_domain
             then saga_loop source_domain url request fs merged w1
             else if \<not> list_ex (\<lambda>u. u = url) (sc_handled c)
             then saga_loop source_domain url request fs merged w1
             else (case h_dispatch handler (Req_Saga request) w1 of
                     (Inl e, w2) \<Rightarrow> (Inl e, w2)
                   | (Inr response, w2) \<Rightarrow>
                       (case response of
                          Resp_Saga sr \<Rightarrow>
                            saga_loop source_domain url request fs
                              (merged\<lparr>sr_commands := sr_commands merged @ sr_commands sr,
                                      sr_events := sr_events merged @ sr_events sr\<rparr>) w2
                        | _ \<Rightarrow> (Inl (wrong_kind ''Saga''), w2)))
         | _ \<Rightarrow> saga_loop source_domain url request fs merged w1)"

definition saga_dispatch ::
  "'w RuntimeRouter \<Rightarrow> SagaHandleRequest \<Rightarrow> 'w \<Rightarrow> (ClientError + SagaResponse) \<times> 'w" where
  "saga_dispatch r request w =
     (case extract_saga_event_type_url request of
        Inl e \<Rightarrow> (Inl e, w)
      | Inr url \<Rightarrow>
          saga_loop (book_domain (sg_source request)) url request (rt_factories r)
            default_SagaResponse w)"

section \<open>Process managers\<close>

definition extract_pm_event_type_url :: "PMHandleRequest \<Rightarrow> ClientError + string" where
  "extract_pm_event_type_url request =
     bindR (ok_or (inv_arg MISSING_PM_TRIGGER []) (pm_trigger request)) (\<lambda>book.
     bindR (ok_or (inv_arg EMPTY_PM_TRIGGER []) (last_opt (eb_pages book))) (\<lambda>page.
     bindR (case ep_payload page of
              Some (Ev_Event e) \<Rightarrow> Inr e
            | _ \<Rightarrow> Inl (inv_arg MISSING_PM_EVENT_PAYLOAD [])) (\<lambda>payload.
     if any_type_url payload = [] \<or> \<not> starts_with (any_type_url payload) TYPE_URL_PREFIX
     then Inl (inv_arg PM_INVALID_TYPE_URL [(keys K_TYPE_URL, any_type_url payload)])
     else Inr (any_type_url payload))))"

fun pm_loop ::
  "string \<Rightarrow> string \<Rightarrow> PMHandleRequest \<Rightarrow> 'w Factory list \<Rightarrow> PMHandleResponse \<Rightarrow> 'w \<Rightarrow>
     (ClientError + PMHandleResponse) \<times> 'w" where
  "pm_loop trigger_domain url request [] merged w = (Inr merged, w)"
| "pm_loop trigger_domain url request (f # fs) merged w =
     (let (handler, w1) = fac_produce f w
      in case h_config handler of
           Cfg_ProcessManager c \<Rightarrow>
             if \<not> list_ex (\<lambda>s. s = trigger_domain) (pc_sources c)
             then pm_loop trigger_domain url request fs merged w1
             else if \<not> list_ex (\<lambda>u. u = url) (pc_handled c)
             then pm_loop trigger_domain url request fs merged w1
             else (case h_dispatch handler (Req_ProcessManager request) w1 of
                     (Inl e, w2) \<Rightarrow> (Inl e, w2)
                   | (Inr response, w2) \<Rightarrow>
                       (case response of
                          Resp_ProcessManager pr \<Rightarrow>
                            pm_loop trigger_domain url request fs
                              (merged\<lparr>pr_commands := pr_commands merged @ pr_commands pr,
                                 pr_facts := pr_facts merged @ pr_facts pr,
                                 pr_process_events :=
                                   pr_process_events merged @ pr_process_events pr\<rparr>) w2
                        | _ \<Rightarrow> (Inl (wrong_kind ''ProcessManager''), w2)))
         | _ \<Rightarrow> pm_loop trigger_domain url request fs merged w1)"

definition pm_dispatch ::
  "'w RuntimeRouter \<Rightarrow> PMHandleRequest \<Rightarrow> 'w \<Rightarrow> (ClientError + PMHandleResponse) \<times> 'w" where
  "pm_dispatch r request w =
     (case extract_pm_event_type_url request of
        Inl e \<Rightarrow> (Inl e, w)
      | Inr url \<Rightarrow>
          pm_loop (book_domain (pm_trigger request)) url request (rt_factories r)
            default_PMHandleResponse w)"

section \<open>Projectors\<close>

text \<open>A coverless book passes every projector; otherwise its domain or \<open>*\<close> must be declared.\<close>

definition projector_matches :: "string option \<Rightarrow> ProjectorConfig \<Rightarrow> bool" where
  "projector_matches incoming c \<longleftrightarrow>
     (case incoming of
        None \<Rightarrow> True
      | Some d \<Rightarrow> list_ex (\<lambda>x. x = d \<or> x = ''*'') (jc_domains c))"

fun collect_projectors ::
  "string option \<Rightarrow> 'w Factory list \<Rightarrow> 'w Handler list \<Rightarrow> 'w \<Rightarrow> 'w Handler list \<times> 'w" where
  "collect_projectors incoming [] matched w = (matched, w)"
| "collect_projectors incoming (f # fs) matched w =
     (let (handler, w1) = fac_produce f w
      in case h_config handler of
           Cfg_Projector c \<Rightarrow>
             if \<not> projector_matches incoming c then collect_projectors incoming fs matched w1
             else collect_projectors incoming fs (matched @ [handler]) w1
         | _ \<Rightarrow> collect_projectors incoming fs matched w1)"

text \<open>The inner loop over the handlers, and the outer one over the pages.\<close>

fun project_page ::
  "EventBook \<Rightarrow> 'w Handler list \<Rightarrow> 'w \<Rightarrow> (ClientError + unit) \<times> 'w" where
  "project_page page_book [] w = (Inr (), w)"
| "project_page page_book (h # hs) w =
     (case h_dispatch h (Req_Projector page_book) w of
        (Inl e, w1) \<Rightarrow> (Inl e, w1)
      | (Inr response, w1) \<Rightarrow>
          (case response of
             Resp_Projector _ \<Rightarrow> project_page page_book hs w1
           | _ \<Rightarrow> (Inl (wrong_kind ''Projector''), w1)))"

fun project_pages ::
  "EventBook \<Rightarrow> 'w Handler list \<Rightarrow> EventPage list \<Rightarrow> 'w \<Rightarrow> (ClientError + unit) \<times> 'w" where
  "project_pages book matched [] w = (Inr (), w)"
| "project_pages book matched (page # pages) w =
     (case project_page (book\<lparr>eb_cover := eb_cover book, eb_pages := [page],
             eb_next_sequence := eb_next_sequence book\<rparr>) matched w of
        (Inl e, w1) \<Rightarrow> (Inl e, w1)
      | (Inr _, w1) \<Rightarrow> project_pages book matched pages w1)"

definition projector_dispatch ::
  "'w RuntimeRouter \<Rightarrow> EventBook \<Rightarrow> 'w \<Rightarrow> (ClientError + Projection) \<times> 'w" where
  "projector_dispatch r book w =
     (let incoming_domain = map_option cv_domain (eb_cover book);
          (matched, w1) = collect_projectors incoming_domain (rt_factories r) [] w
      in case project_pages book matched (eb_pages book) w1 of
           (Inl e, w2) \<Rightarrow> (Inl e, w2)
         | (Inr _, w2) \<Rightarrow>
             (Inr \<lparr>pj_cover = eb_cover book, pj_projector = [],
                   pj_sequence = eb_next_sequence book, pj_projection = None\<rparr>, w2))"

section \<open>Responses add up\<close>

text \<open>
  A response is a monoid: the empty response, and the concatenation of two responses field by
  field. The record types are instances for any extension that is one.
\<close>

instantiation unit :: monoid_add
begin

definition zero_unit :: unit where
  "zero_unit = ()"

definition plus_unit :: "unit \<Rightarrow> unit \<Rightarrow> unit" where
  "plus_unit a b = ()"

instance
  by standard simp_all

end

instantiation SagaResponse_ext :: (monoid_add) monoid_add
begin

definition zero_SagaResponse_ext :: "'a SagaResponse_scheme" where
  "zero_SagaResponse_ext = \<lparr>sr_commands = [], sr_events = [], \<dots> = 0\<rparr>"

definition plus_SagaResponse_ext ::
  "'a SagaResponse_scheme \<Rightarrow> 'a SagaResponse_scheme \<Rightarrow> 'a SagaResponse_scheme" where
  "plus_SagaResponse_ext a b =
     \<lparr>sr_commands = sr_commands a @ sr_commands b, sr_events = sr_events a @ sr_events b,
      \<dots> = SagaResponse.more a + SagaResponse.more b\<rparr>"

instance
  by standard (simp_all add: zero_SagaResponse_ext_def plus_SagaResponse_ext_def add.assoc)

end

instantiation PMHandleResponse_ext :: (monoid_add) monoid_add
begin

definition zero_PMHandleResponse_ext :: "'a PMHandleResponse_scheme" where
  "zero_PMHandleResponse_ext =
     \<lparr>pr_commands = [], pr_process_events = [], pr_facts = [], \<dots> = 0\<rparr>"

definition plus_PMHandleResponse_ext ::
  "'a PMHandleResponse_scheme \<Rightarrow> 'a PMHandleResponse_scheme \<Rightarrow> 'a PMHandleResponse_scheme" where
  "plus_PMHandleResponse_ext a b =
     \<lparr>pr_commands = pr_commands a @ pr_commands b,
      pr_process_events = pr_process_events a @ pr_process_events b,
      pr_facts = pr_facts a @ pr_facts b,
      \<dots> = PMHandleResponse.more a + PMHandleResponse.more b\<rparr>"

instance
  by standard
    (simp_all add: zero_PMHandleResponse_ext_def plus_PMHandleResponse_ext_def add.assoc)

end

section \<open>Saga and process-manager loops are fan-outs\<close>

definition saga_listens :: "string \<Rightarrow> string \<Rightarrow> HandlerConfig \<Rightarrow> bool" where
  "saga_listens d url cfg \<longleftrightarrow>
     (case cfg of Cfg_Saga c \<Rightarrow> sc_source c = d \<and> url \<in> set (sc_handled c) | _ \<Rightarrow> False)"

definition as_saga :: "ClientError + HandlerResponse \<Rightarrow> ClientError + SagaResponse" where
  "as_saga m = bindR m (\<lambda>response.
     case response of Resp_Saga sr \<Rightarrow> Inr sr | _ \<Rightarrow> Inl (wrong_kind ''Saga''))"

definition pm_listens :: "string \<Rightarrow> string \<Rightarrow> HandlerConfig \<Rightarrow> bool" where
  "pm_listens d url cfg \<longleftrightarrow>
     (case cfg of
        Cfg_ProcessManager c \<Rightarrow> d \<in> set (pc_sources c) \<and> url \<in> set (pc_handled c) | _ \<Rightarrow> False)"

definition as_pm :: "ClientError + HandlerResponse \<Rightarrow> ClientError + PMHandleResponse" where
  "as_pm m = bindR m (\<lambda>response.
     case response of Resp_ProcessManager pr \<Rightarrow> Inr pr | _ \<Rightarrow> Inl (wrong_kind ''ProcessManager''))"

lemma update_saga [simp]:
  "(m :: SagaResponse)\<lparr>sr_commands := sr_commands m @ sr_commands a,
     sr_events := sr_events m @ sr_events a\<rparr> = m + a"
  by (simp add: plus_SagaResponse_ext_def)

lemma update_pm [simp]:
  "(m :: PMHandleResponse)\<lparr>pr_commands := pr_commands m @ pr_commands a,
     pr_facts := pr_facts m @ pr_facts a,
     pr_process_events := pr_process_events m @ pr_process_events a\<rparr> = m + a"
  by (simp add: plus_PMHandleResponse_ext_def)

interpretation sagas: merging_fan_out "saga_loop d url request" "saga_listens d url"
  "Req_Saga request" as_saga
  for d url request
proof (unfold_locales, goal_cases)
  case 1
  then show ?case by simp
next
  case 2
  then show ?case by (auto simp: saga_listens_def handled_match split: HandlerConfig.splits)
next
  case 3
  then show ?case by (auto simp: saga_listens_def handled_match split: HandlerConfig.splits)
next
  case 4
  then show ?case
    by (auto simp: saga_listens_def handled_match as_saga_def
        split: HandlerConfig.splits HandlerResponse.splits)
next
  case 5
  then show ?case
    by (auto simp: saga_listens_def handled_match as_saga_def
        split: HandlerConfig.splits HandlerResponse.splits)
next
  case 6
  then show ?case by (simp add: as_saga_def)
qed

interpretation pms: merging_fan_out "pm_loop d url request" "pm_listens d url"
  "Req_ProcessManager request" as_pm
  for d url request
proof (unfold_locales, goal_cases)
  case 1
  then show ?case by simp
next
  case 2
  then show ?case by (auto simp: pm_listens_def handled_match split: HandlerConfig.splits)
next
  case 3
  then show ?case by (auto simp: pm_listens_def handled_match split: HandlerConfig.splits)
next
  case 4
  then show ?case
    by (auto simp: pm_listens_def handled_match as_pm_def
        split: HandlerConfig.splits HandlerResponse.splits)
next
  case 5
  then show ?case
    by (auto simp: pm_listens_def handled_match as_pm_def
        split: HandlerConfig.splits HandlerResponse.splits)
next
  case 6
  then show ?case by (simp add: as_pm_def)
qed

section \<open>Lemmas\<close>

lemma bindR_InlE:
  assumes "bindR m f = Inl e"
  obtains "m = Inl e" | a where "m = Inr a" "f a = Inl e"
  using assms by (cases m) auto

definition concat_sagas :: "SagaResponse list \<Rightarrow> SagaResponse" where
  "concat_sagas rs = \<lparr>sr_commands = concat (map sr_commands rs),
                      sr_events = concat (map sr_events rs)\<rparr>"

definition concat_pms :: "PMHandleResponse list \<Rightarrow> PMHandleResponse" where
  "concat_pms rs = \<lparr>pr_commands = concat (map pr_commands rs),
                    pr_process_events = concat (map pr_process_events rs),
                    pr_facts = concat (map pr_facts rs)\<rparr>"

lemma sum_list_sagas: "sum_list rs = concat_sagas rs"
  by (induction rs) (simp_all add: concat_sagas_def plus_SagaResponse_ext_def zero_SagaResponse_ext_def)

lemma sum_list_pms: "sum_list rs = concat_pms rs"
  by (induction rs)
    (simp_all add: concat_pms_def plus_PMHandleResponse_ext_def zero_PMHandleResponse_ext_def)

lemma default_zero [simp]: "default_SagaResponse = 0" "default_PMHandleResponse = 0"
  by (simp_all add: default_SagaResponse_def default_PMHandleResponse_def zero_SagaResponse_ext_def
      zero_PMHandleResponse_ext_def)

text \<open>A well-formed trigger: a book whose last page holds an event with a standard type URL.\<close>

definition trigger_url :: "EventBook option \<Rightarrow> string option" where
  "trigger_url b = opt_filter (\<lambda>u. starts_with u TYPE_URL_PREFIX)
     (map_option any_type_url (Option.bind b (\<lambda>b. Option.bind (last_opt (eb_pages b)) event_any)))"

lemma prefix_not_empty: "starts_with u TYPE_URL_PREFIX \<Longrightarrow> u \<noteq> []"
  by (auto simp: starts_with_def TYPE_URL_PREFIX_def)

lemma extract_saga_trigger:
  "extract_saga_event_type_url request = Inr u \<longleftrightarrow> trigger_url (sg_source request) = Some u"
proof (cases "sg_source request")
  case None
  then show ?thesis by (simp add: extract_saga_event_type_url_def trigger_url_def)
next
  case book: (Some b)
  show ?thesis
  proof (cases "last_opt (eb_pages b)")
    case None
    with book show ?thesis by (simp add: extract_saga_event_type_url_def trigger_url_def)
  next
    case (Some page)
    with book show ?thesis
      using prefix_not_empty
      by (cases "event_any page")
        (auto simp: extract_saga_event_type_url_def trigger_url_def event_any_def
          split: option.splits EventPayload.splits)
  qed
qed

lemma extract_pm_trigger:
  "extract_pm_event_type_url request = Inr u \<longleftrightarrow> trigger_url (pm_trigger request) = Some u"
proof (cases "pm_trigger request")
  case None
  then show ?thesis by (simp add: extract_pm_event_type_url_def trigger_url_def)
next
  case book: (Some b)
  show ?thesis
  proof (cases "last_opt (eb_pages b)")
    case None
    with book show ?thesis by (simp add: extract_pm_event_type_url_def trigger_url_def)
  next
    case (Some page)
    with book show ?thesis
      using prefix_not_empty
      by (cases "event_any page")
        (auto simp: extract_pm_event_type_url_def trigger_url_def event_any_def
          split: option.splits EventPayload.splits)
  qed
qed

lemma saga_malformed:
  assumes "trigger_url (sg_source request) = None"
  shows "\<exists>e. saga_dispatch r request w = (Inl e, w) \<and> is_invalid_argument e"
proof -
  obtain e where e: "extract_saga_event_type_url request = Inl e"
    using assms extract_saga_trigger [of request]
    by (cases "extract_saga_event_type_url request") auto
  then have "is_invalid_argument e"
    unfolding extract_saga_event_type_url_def
    by (elim bindR_InlE) (auto split: option.split_asm EventPayload.split_asm if_split_asm)
  with e show ?thesis by (simp add: saga_dispatch_def)
qed

lemma pm_malformed:
  assumes "trigger_url (pm_trigger request) = None"
  shows "\<exists>e. pm_dispatch r request w = (Inl e, w) \<and> is_invalid_argument e"
proof -
  obtain e where e: "extract_pm_event_type_url request = Inl e"
    using assms extract_pm_trigger [of request]
    by (cases "extract_pm_event_type_url request") auto
  then have "is_invalid_argument e"
    unfolding extract_pm_event_type_url_def
    by (elim bindR_InlE) (auto split: option.split_asm EventPayload.split_asm if_split_asm)
  with e show ?thesis by (simp add: pm_dispatch_def)
qed

text \<open>Projectors: the factories' effects, and one flat list of deliveries.\<close>

definition produce_all :: "'w Factory list \<Rightarrow> 'w \<Rightarrow> 'w" where
  "produce_all fs w = foldl (\<lambda>w f. snd (fac_produce f w)) w fs"

definition projects :: "string option \<Rightarrow> HandlerConfig \<Rightarrow> bool" where
  "projects incoming cfg \<longleftrightarrow>
     (case cfg of Cfg_Projector c \<Rightarrow> projector_matches incoming c | _ \<Rightarrow> False)"

fun deliver :: "('w Handler \<times> EventBook) list \<Rightarrow> 'w \<Rightarrow> (ClientError + unit) \<times> 'w" where
  "deliver [] w = (Inr (), w)"
| "deliver ((h, b) # ds) w =
     (case h_dispatch h (Req_Projector b) w of
        (Inl e, w1) \<Rightarrow> (Inl e, w1)
      | (Inr (Resp_Projector _), w1) \<Rightarrow> deliver ds w1
      | (Inr _, w1) \<Rightarrow> (Inl (wrong_kind ''Projector''), w1))"

definition deliveries :: "EventBook \<Rightarrow> 'w Handler list \<Rightarrow> ('w Handler \<times> EventBook) list" where
  "deliveries book hs =
     concat (map (\<lambda>p. map (\<lambda>h. (h, book\<lparr>eb_pages := [p]\<rparr>)) hs) (eb_pages book))"

lemma deliver_append:
  "deliver (ds @ es) w =
     (case deliver ds w of (Inl e, w1) \<Rightarrow> (Inl e, w1) | (Inr _, w1) \<Rightarrow> deliver es w1)"
  by (induction ds arbitrary: w)
    (auto split: prod.splits sum.splits HandlerResponse.splits)

lemma project_page_deliver:
  "project_page b hs w = deliver (map (\<lambda>h. (h, b)) hs) w"
  by (induction hs arbitrary: w) (auto split: prod.splits sum.splits HandlerResponse.splits)

lemma project_pages_deliver:
  "project_pages book hs ps w =
     deliver (concat (map (\<lambda>p. map (\<lambda>h. (h, book\<lparr>eb_pages := [p]\<rparr>)) hs) ps)) w"
  by (induction ps arbitrary: w) (simp_all add: deliver_append project_page_deliver split: prod.splits sum.splits)

text \<open>The handlers the factories produce, one after the other.\<close>

fun produced :: "'w Factory list \<Rightarrow> 'w \<Rightarrow> 'w Handler list" where
  "produced [] w = []"
| "produced (f # fs) w = fst (fac_produce f w) # produced fs (snd (fac_produce f w))"

lemma collect_projectors_produced:
  "collect_projectors d fs matched w =
     (matched @ filter (\<lambda>h. projects d (h_config h)) (produced fs w), produce_all fs w)"
proof (induction fs arbitrary: matched w)
  case (Cons f fs)
  obtain h w1 where "fac_produce f w = (h, w1)" by fastforce
  then show ?case
    using Cons.IH [of matched w1] Cons.IH [of "matched @ [h]" w1]
    by (auto simp: produce_all_def projects_def split: HandlerConfig.split)
qed (simp add: produce_all_def)

text \<open>Configurations and requests for the witnesses.\<close>

definition saga_example :: "string \<Rightarrow> string \<Rightarrow> string \<Rightarrow> bool \<Rightarrow> HandlerConfig" where
  "saga_example source target url sync = Cfg_Saga
     \<lparr>sc_name = ''saga'', sc_source = source, sc_target = target, sc_sync = sync,
      sc_handled = [url], sc_rejected = []\<rparr>"

definition pm_example :: "string \<Rightarrow> string list \<Rightarrow> string \<Rightarrow> HandlerConfig" where
  "pm_example source targets url = Cfg_ProcessManager
     \<lparr>pc_name = ''pm'', pc_pm_domain = ''flow'', pc_sources = [source], pc_targets = targets,
      pc_sync_targets = [], pc_handled = [url], pc_rejected = [], pc_applies = [],
      pc_state_factory = None\<rparr>"

definition projector_example :: "string list \<Rightarrow> HandlerConfig" where
  "projector_example ds = Cfg_Projector \<lparr>jc_name = ''view'', jc_domains = ds, jc_handled = []\<rparr>"

definition paid_url :: string where
  "paid_url = TYPE_URL_PREFIX @ ''shop.Paid''"

definition paid_book :: EventBook where
  "paid_book = event_book (Some order_cover) [event_page 0 (raw_any ''shop.Paid'' [])]"

lemma paid_book_trigger [simp]:
  "trigger_url (Some paid_book) = Some paid_url" "book_domain (Some paid_book) = ''order''"
  by (simp_all add: trigger_url_def paid_book_def event_book_def event_page_def raw_any_def
      event_any_def paid_url_def book_domain_def order_cover_def)

section \<open>Properties\<close>

text \<open>C10: saga fan-out. For a well-formed trigger, every registered saga whose source domain is
  the trigger's and whose handled types contain its type URL is run, in registration order; the
  answer is the concatenation of all their commands and events, or the first error. None
  matching is an empty answer, not an error.
  Stated for handlers whose answers depend on the request alone, whatever the state of the
  world (\<open>answers\<close>).\<close>

theorem saga_dispatch_fans_out:
  assumes "list_all2 answers (rt_factories r) as"
    and "trigger_url (sg_source request) = Some url"
  shows "fst (saga_dispatch r request w) = map_ok concat_sagas
     (traverseR (\<lambda>a. as_saga (snd a (Req_Saga request)))
        (filter (\<lambda>a. saga_listens (book_domain (sg_source request)) url (fst a)) as))"
  using assms(2) sagas.loop_merges [OF assms(1), of _ url request 0 w]
  by (simp add: extract_saga_trigger [symmetric] saga_dispatch_def sum_list_sagas)

theorem saga_dispatch_fans_out_witness:
  "fst (saga_dispatch
     \<lparr>rt_factories = [const_factory (const_handler (saga_example ''order'' ''stock'' paid_url True)
         (\<lambda>_. Inr (Resp_Saga \<lparr>sr_commands = [], sr_events = [paid_book]\<rparr>))),
       const_factory (const_handler (saga_example ''other'' ''stock'' paid_url True)
         (\<lambda>_. Inl (wrong_kind [])))],
      rt_cached_name = None\<rparr>
     \<lparr>sg_source = Some paid_book, sg_destination_sequences = Map.empty\<rparr> ())
   = Inr \<lparr>sr_commands = [], sr_events = [paid_book]\<rparr>"
proof -
  let ?g = "\<lambda>_. Inr (Resp_Saga \<lparr>sr_commands = [], sr_events = [paid_book]\<rparr>)"
  let ?h = "\<lambda>_. Inl (wrong_kind [])"
  let ?c = "saga_example ''order'' ''stock'' paid_url True"
  let ?d = "saga_example ''other'' ''stock'' paid_url True"
  let ?r = "\<lparr>rt_factories = [const_factory (const_handler ?c ?g) :: unit Factory,
      const_factory (const_handler ?d ?h)], rt_cached_name = None\<rparr>"
  let ?q = "\<lparr>sg_source = Some paid_book, sg_destination_sequences = Map.empty\<rparr>"
  have a: "list_all2 answers (rt_factories ?r) [(?c, ?g), (?d, ?h)]" by simp
  have t: "trigger_url (sg_source ?q) = Some paid_url" by simp
  from saga_dispatch_fans_out [OF a t, of "()"] show ?thesis
    by (simp add: saga_listens_def saga_example_def as_saga_def concat_sagas_def)
qed

text \<open>Process-manager fan-out. As for sagas, over the managers whose sources contain the
  trigger's domain; commands, process events and facts are each concatenated.\<close>

theorem pm_dispatch_fans_out:
  assumes "list_all2 answers (rt_factories r) as"
    and "trigger_url (pm_trigger request) = Some url"
  shows "fst (pm_dispatch r request w) = map_ok concat_pms
     (traverseR (\<lambda>a. as_pm (snd a (Req_ProcessManager request)))
        (filter (\<lambda>a. pm_listens (book_domain (pm_trigger request)) url (fst a)) as))"
  using assms(2) pms.loop_merges [OF assms(1), of _ url request 0 w]
  by (simp add: extract_pm_trigger [symmetric] pm_dispatch_def sum_list_pms)

theorem pm_dispatch_fans_out_witness:
  "fst (pm_dispatch
     \<lparr>rt_factories = [const_factory (const_handler (pm_example ''order'' [''stock''] paid_url)
         (\<lambda>_. Inr (Resp_ProcessManager
            \<lparr>pr_commands = [], pr_process_events = [paid_book], pr_facts = [paid_book]\<rparr>)))],
      rt_cached_name = None\<rparr>
     \<lparr>pm_trigger = Some paid_book, pm_process_state = None,
      pm_destination_sequences = Map.empty\<rparr> ())
   = Inr \<lparr>pr_commands = [], pr_process_events = [paid_book], pr_facts = [paid_book]\<rparr>"
proof -
  let ?g = "\<lambda>_. Inr (Resp_ProcessManager
     \<lparr>pr_commands = [], pr_process_events = [paid_book], pr_facts = [paid_book]\<rparr>)"
  let ?c = "pm_example ''order'' [''stock''] paid_url"
  let ?r = "\<lparr>rt_factories = [const_factory (const_handler ?c ?g) :: unit Factory],
    rt_cached_name = None\<rparr>"
  let ?q = "\<lparr>pm_trigger = Some paid_book, pm_process_state = None,
    pm_destination_sequences = Map.empty\<rparr>"
  have a: "list_all2 answers (rt_factories ?r) [(?c, ?g)]" by simp
  have t: "trigger_url (pm_trigger ?q) = Some paid_url" by simp
  from pm_dispatch_fans_out [OF a t, of "()"] show ?thesis
    by (simp add: pm_listens_def pm_example_def as_pm_def concat_pms_def)
qed

text \<open>Malformed triggers. Sagas and process managers accept the same triggers, those with
  a book whose last page holds an event with a standard type URL; any other trigger is an error
  before a single handler is produced (the world is untouched), whatever is registered.\<close>

theorem malformed_trigger_runs_nothing:
  "(case trigger_url (sg_source request) of
      None \<Rightarrow> \<exists>e. saga_dispatch r request w = (Inl e, w) \<and> is_invalid_argument e
    | Some url \<Rightarrow> extract_saga_event_type_url request = Inr url)
   \<and> (case trigger_url (pm_trigger request') of
      None \<Rightarrow> \<exists>e. pm_dispatch r request' w = (Inl e, w) \<and> is_invalid_argument e
    | Some url \<Rightarrow> extract_pm_event_type_url request' = Inr url)"
  by (auto split: option.split simp: extract_saga_trigger extract_pm_trigger
      intro: saga_malformed pm_malformed)

text \<open>C11: projectors see every page. Every factory is run once, in registration order, and of
  the handlers they produce the matching projectors (all for a book without a cover, otherwise
  those declaring its domain or \<open>*\<close>) are each handed every page of the book in a book of its
  own, pages in order and projectors in registration order within a page, up to the first error;
  without one the answer is the synthetic projection with the book's cover and next sequence,
  whatever the projectors returned.\<close>

theorem projector_delivers_every_page:
  "projector_dispatch r book w =
     (case deliver (deliveries book
             (filter (\<lambda>h. projects (map_option cv_domain (eb_cover book)) (h_config h))
               (produced (rt_factories r) w)))
         (produce_all (rt_factories r) w) of
        (Inl e, w1) \<Rightarrow> (Inl e, w1)
      | (Inr _, w1) \<Rightarrow>
          (Inr \<lparr>pj_cover = eb_cover book, pj_projector = [],
                pj_sequence = eb_next_sequence book, pj_projection = None\<rparr>, w1))"
  by (simp add: projector_dispatch_def collect_projectors_produced project_pages_deliver
      deliveries_def)

text \<open>A projector that appends its name and the number of each page it is handed to the world,
  and fails on page 2; beside it one of another domain.\<close>

definition logging_projector :: "string list \<Rightarrow> string \<Rightarrow> (string \<times> u32 list) list Handler" where
  "logging_projector ds name =
     \<lparr>h_config = projector_example ds,
      h_dispatch = (\<lambda>req log.
        case req of
          Req_Projector b \<Rightarrow>
            (let log1 = log @ [(name, map (\<lambda>p. unwrap_or 0 (Option.bind (ep_header p) explicit_sequence)) (eb_pages b))]
             in if list_ex (\<lambda>p. Option.bind (ep_header p) explicit_sequence = Some 2) (eb_pages b)
                then (Inl (wrong_kind []), log1)
                else (Inr (Resp_Projector \<lparr>pj_cover = None, pj_projector = [], pj_sequence = 0,
                        pj_projection = None\<rparr>), log1))
        | _ \<Rightarrow> (Inl (wrong_kind []), log))\<rparr>"

theorem projector_delivers_every_page_witness:
  "projector_dispatch
     \<lparr>rt_factories = map const_factory [logging_projector [''stock''] ''s'',
        logging_projector [''*''] ''a'', logging_projector [''order''] ''b''], rt_cached_name = None\<rparr>
     (event_book (Some order_cover) [event_page n (raw_any ''shop.Paid'' []). n \<leftarrow> [0, 1, 2, 3]]) []
   = (Inl (wrong_kind []), [(''a'', [0]), (''b'', [0]), (''a'', [1]), (''b'', [1]), (''a'', [2])])"
  by (subst projector_delivers_every_page)
    (simp add: produce_all_def deliveries_def projects_def projector_matches_def logging_projector_def
      projector_example_def event_book_def order_cover_def event_page_def seq_header_def
      explicit_sequence_def Let_def)

end
