(* ===== verification/Upcasting.thy ===== *)
theory Upcasting
  imports Dispatch_Events
begin

text \<open>
  \<^verbatim>\<open>src/src/router/upcaster.rs\<close>: the upcaster router. Every page with an event is run through
  the handlers of the request's domain one after the other, the output of one being the input
  of the next; the loop over the factories for one page is interpreted as \<open>fan_out\<close> with the
  current page as its accumulator.
\<close>

section \<open>Operations\<close>

definition upcaster_wrong_kind :: ClientError where
  "upcaster_wrong_kind =
     inv_arg UPCASTER_WRONG_RESPONSE_KIND [(keys K_EXPECTED_KIND, ''Upcaster'')]"

fun upcast_page ::
  "string \<Rightarrow> 'w Factory list \<Rightarrow> EventPage \<Rightarrow> 'w \<Rightarrow> (ClientError + EventPage) \<times> 'w" where
  "upcast_page domain [] current_page w = (Inr current_page, w)"
| "upcast_page domain (f # fs) current_page w =
     (let (handler, w1) = fac_produce f w;
          matches_domain =
            (case h_config handler of Cfg_Upcaster c \<Rightarrow> uc_domain c = domain | _ \<Rightarrow> False)
      in if \<not> matches_domain then upcast_page domain fs current_page w1
         else (case h_dispatch handler
                      (Req_Upcaster \<lparr>uq_domain = domain, uq_events = [current_page]\<rparr>) w1 of
                 (Inl e, w2) \<Rightarrow> (Inl e, w2)
               | (Inr response, w2) \<Rightarrow>
                   (case response of
                      Resp_Upcaster r \<Rightarrow>
                        upcast_page domain fs
                          (case first_opt (ur_events r) of
                             Some transformed \<Rightarrow> transformed | None \<Rightarrow> current_page) w2
                    | _ \<Rightarrow> (Inl upcaster_wrong_kind, w2))))"

fun upcast_pages ::
  "string \<Rightarrow> 'w Factory list \<Rightarrow> EventPage list \<Rightarrow> EventPage list \<Rightarrow> 'w \<Rightarrow>
     (ClientError + EventPage list) \<times> 'w" where
  "upcast_pages domain fs [] out w = (Inr out, w)"
| "upcast_pages domain fs (page # pages) out w =
     (case ep_payload page of
        Some (Ev_Event _) \<Rightarrow>
          (case upcast_page domain fs page w of
             (Inl e, w1) \<Rightarrow> (Inl e, w1)
           | (Inr current_page, w1) \<Rightarrow>
               upcast_pages domain fs pages (out @ [current_page]) w1)
      | _ \<Rightarrow> upcast_pages domain fs pages (out @ [page]) w)"

definition upcaster_dispatch ::
  "'w RuntimeRouter \<Rightarrow> UpcastRequest \<Rightarrow> 'w \<Rightarrow> (ClientError + UpcastResponse) \<times> 'w" where
  "upcaster_dispatch r request w =
     (case upcast_pages (uq_domain request) (rt_factories r) (uq_events request) [] w of
        (Inl e, w1) \<Rightarrow> (Inl e, w1)
      | (Inr out, w1) \<Rightarrow> (Inr \<lparr>ur_events = out\<rparr>, w1))"

section \<open>The loop over one page is a fan-out\<close>

definition upcasts_for :: "string \<Rightarrow> HandlerConfig \<Rightarrow> bool" where
  "upcasts_for d cfg \<longleftrightarrow> (case cfg of Cfg_Upcaster c \<Rightarrow> uc_domain c = d | _ \<Rightarrow> False)"

definition single_upcast :: "string \<Rightarrow> EventPage \<Rightarrow> HandlerRequest" where
  "single_upcast d p = Req_Upcaster \<lparr>uq_domain = d, uq_events = [p]\<rparr>"

definition absorb_upcast :: "EventPage \<Rightarrow> HandlerResponse \<Rightarrow> ClientError + EventPage" where
  "absorb_upcast p response =
     (case response of
        Resp_Upcaster r \<Rightarrow> Inr (unwrap_or p (first_opt (ur_events r)))
      | _ \<Rightarrow> Inl upcaster_wrong_kind)"

interpretation upcasts: fan_out "upcast_page d" "upcasts_for d" "single_upcast d" absorb_upcast
  for d
proof (unfold_locales, goal_cases)
  case 1
  then show ?case by simp
next
  case 2
  then show ?case by (simp add: upcasts_for_def)
next
  case 3
  then show ?case by (simp add: upcasts_for_def single_upcast_def)
next
  case 4
  then show ?case
    by (auto simp: upcasts_for_def single_upcast_def absorb_upcast_def
        split: HandlerResponse.splits)
next
  case 5
  then show ?case
    by (auto simp: upcasts_for_def single_upcast_def absorb_upcast_def unwrap_or_def
        split: HandlerResponse.splits)
qed

section \<open>Lemmas\<close>

text \<open>One page through the answers, in order.\<close>

definition upcast_chain ::
  "string \<Rightarrow> (HandlerRequest \<Rightarrow> ClientError + HandlerResponse) list \<Rightarrow> EventPage \<Rightarrow>
     ClientError + EventPage" where
  "upcast_chain d gs p =
     foldR (\<lambda>p g. bindR (g (single_upcast d p)) (absorb_upcast p)) gs p"

lemma upcast_page_answers:
  assumes "list_all2 answers fs as"
  shows "fst (upcast_page d fs p w) =
     upcast_chain d (map snd (filter (\<lambda>a. upcasts_for d (fst a)) as)) p"
  by (simp add: upcasts.loop_answers [OF assms] upcast_chain_def foldR_map)

lemma upcast_pages_answers:
  assumes "list_all2 answers fs as"
  shows "fst (upcast_pages d fs ps out w) =
     map_ok (\<lambda>qs. out @ qs)
       (traverseR (\<lambda>p. if event_any p = None then Inr p
          else upcast_chain d (map snd (filter (\<lambda>a. upcasts_for d (fst a)) as)) p) ps)"
proof (induction ps arbitrary: out w)
  case Nil
  then show ?case by simp
next
  case (Cons p ps)
  let ?chain = "upcast_chain d (map snd (filter (\<lambda>a. upcasts_for d (fst a)) as))"
  let ?f = "\<lambda>p. if event_any p = None then Inr p else ?chain p"
  show ?case
  proof (cases "event_any p")
    case None
    then have "upcast_pages d fs (p # ps) out w = upcast_pages d fs ps (out @ [p]) w"
      by (auto simp: event_any_def split: option.splits EventPayload.splits)
    with None Cons show ?thesis by (cases "traverseR ?f ps") simp_all
  next
    case (Some e)
    obtain res w1 where l: "upcast_page d fs p w = (res, w1)" by fastforce
    with upcast_page_answers [OF assms, of d p w] have "?chain p = res" by simp
    moreover have "ep_payload p = Some (Ev_Event e)" using Some by (simp add: event_any_Some)
    ultimately show ?thesis
      using Some l Cons by (cases res; cases "traverseR ?f ps") simp_all
  qed
qed

text \<open>A configuration for the witness.\<close>

definition upcaster_example :: "string \<Rightarrow> HandlerConfig" where
  "upcaster_example d = Cfg_Upcaster \<lparr>uc_name = ''up'', uc_domain = d, uc_upcasts = []\<rparr>"

section \<open>Properties\<close>

text \<open>C12: upcasting is a pipeline per page. Pages come out in the order and number they came
  in; a page without an event is returned as it is; a page with one goes through every upcaster
  of the request's domain in registration order, each seeing its predecessor's page, an empty
  response leaving the page; the first error is the answer.
  Stated for handlers whose answers depend on the request alone, whatever the state of the
  world (\<open>answers\<close>).\<close>

theorem upcaster_is_pipeline:
  assumes "list_all2 answers (rt_factories r) as"
  shows "fst (upcaster_dispatch r request w) = map_ok (\<lambda>out. \<lparr>ur_events = out\<rparr>)
     (traverseR (\<lambda>p. if event_any p = None then Inr p
        else upcast_chain (uq_domain request)
               (map snd (filter (\<lambda>a. upcasts_for (uq_domain request) (fst a)) as)) p)
        (uq_events request))"
proof -
  obtain res w1 where l: "upcast_pages (uq_domain request) (rt_factories r) (uq_events request) [] w
      = (res, w1)" by fastforce
  with upcast_pages_answers [OF assms, of "uq_domain request" "uq_events request" "[]" w]
  show ?thesis
    by (cases res) (auto simp: upcaster_dispatch_def map_ok_def split: sum.splits)
qed

theorem upcaster_is_pipeline_witness:
  "fst (upcaster_dispatch \<lparr>rt_factories = [const_factory (const_handler (upcaster_example ''order'')
        (\<lambda>_. Inr (Resp_Upcaster \<lparr>ur_events = [event_page 0 (raw_any ''V3'' [])]\<rparr>)))],
      rt_cached_name = None\<rparr>
     \<lparr>uq_domain = ''order'', uq_events = [event_page 0 (raw_any ''V1'' []),
        (event_page 1 (raw_any ''V1'' []))\<lparr>ep_payload := None\<rparr>]\<rparr> ())
   = Inr \<lparr>ur_events = [event_page 0 (raw_any ''V3'' []),
        (event_page 1 (raw_any ''V1'' []))\<lparr>ep_payload := None\<rparr>]\<rparr>"
proof -
  let ?g = "\<lambda>_. Inr (Resp_Upcaster \<lparr>ur_events = [event_page 0 (raw_any ''V3'' [])]\<rparr>)"
  let ?c = "upcaster_example ''order''"
  let ?r = "\<lparr>rt_factories = [const_factory (const_handler ?c ?g) :: unit Factory],
    rt_cached_name = None\<rparr>"
  have a: "list_all2 answers (rt_factories ?r) [(?c, ?g)]" by simp
  have e: "event_any (event_page n e) = Some e" for n e by (simp add: event_page_def event_any_def)
  from upcaster_is_pipeline [OF a, of _ "()"] show ?thesis
    by (simp add: e upcasts_for_def upcaster_example_def upcast_chain_def absorb_upcast_def)
qed

end
