(* ===== verification/Router_Info.thy ===== *)
theory Router_Info
  imports Upcasting
begin

text \<open>
  \<^verbatim>\<open>src/src/router/runtime.rs\<close>, what a runtime router says about itself (handler count,
  cached name, output domains, opt-ins) and the fact and replay paths of the command-handler
  router.

  Each of these reads configurations by producing handlers, so the world is threaded; a name is
  cached by a \<open>OnceLock\<close>, so \<open>name\<close> returns the router changed.
\<close>

section \<open>Names\<close>

definition rt_handler_count :: "'w RuntimeRouter \<Rightarrow> nat" where
  "rt_handler_count r = length (rt_factories r)"

definition first_config :: "'w Factory list \<Rightarrow> 'w \<Rightarrow> HandlerConfig option \<times> 'w" where
  "first_config fs w =
     (case first_opt fs of
        None \<Rightarrow> (None, w)
      | Some f \<Rightarrow> (let (h, w1) = fac_produce f w in (Some (h_config h), w1)))"

text \<open>\<open>cached_name.get_or_init(init).clone()\<close>.\<close>

definition get_or_init ::
  "('w \<Rightarrow> string \<times> 'w) \<Rightarrow> 'w RuntimeRouter \<Rightarrow> 'w \<Rightarrow> string \<times> 'w RuntimeRouter \<times> 'w" where
  "get_or_init init r w =
     (case rt_cached_name r of
        Some n \<Rightarrow> (n, r, w)
      | None \<Rightarrow> (let (n, w1) = init w in (n, r\<lparr>rt_cached_name := Some n\<rparr>, w1)))"

definition ch_name :: "'w RuntimeRouter \<Rightarrow> 'w \<Rightarrow> string \<times> 'w RuntimeRouter \<times> 'w" where
  "ch_name r = get_or_init (\<lambda>w. let (c, w1) = first_config (rt_factories r) w
     in ((case c of Some (Cfg_CommandHandler k) \<Rightarrow> ch_domain k | _ \<Rightarrow> []), w1)) r"

definition saga_name :: "'w RuntimeRouter \<Rightarrow> 'w \<Rightarrow> string \<times> 'w RuntimeRouter \<times> 'w" where
  "saga_name r = get_or_init (\<lambda>w. let (c, w1) = first_config (rt_factories r) w
     in ((case c of Some (Cfg_Saga k) \<Rightarrow> sc_name k | _ \<Rightarrow> []), w1)) r"

definition pm_name :: "'w RuntimeRouter \<Rightarrow> 'w \<Rightarrow> string \<times> 'w RuntimeRouter \<times> 'w" where
  "pm_name r = get_or_init (\<lambda>w. let (c, w1) = first_config (rt_factories r) w
     in ((case c of Some (Cfg_ProcessManager k) \<Rightarrow> pc_name k | _ \<Rightarrow> []), w1)) r"

definition projector_name :: "'w RuntimeRouter \<Rightarrow> 'w \<Rightarrow> string \<times> 'w RuntimeRouter \<times> 'w" where
  "projector_name r = get_or_init (\<lambda>w. let (c, w1) = first_config (rt_factories r) w
     in ((case c of Some (Cfg_Projector k) \<Rightarrow> jc_name k | _ \<Rightarrow> []), w1)) r"

definition upcaster_name :: "'w RuntimeRouter \<Rightarrow> 'w \<Rightarrow> string \<times> 'w RuntimeRouter \<times> 'w" where
  "upcaster_name r = get_or_init (\<lambda>w. let (c, w1) = first_config (rt_factories r) w
     in ((case c of Some (Cfg_Upcaster k) \<Rightarrow> uc_name k | _ \<Rightarrow> []), w1)) r"

section \<open>Output domains\<close>

definition ch_output_domains :: "'w RuntimeRouter \<Rightarrow> string list" where
  "ch_output_domains r = []"

definition projector_output_domains :: "'w RuntimeRouter \<Rightarrow> string list" where
  "projector_output_domains r = []"

definition upcaster_output_domains :: "'w RuntimeRouter \<Rightarrow> string list" where
  "upcaster_output_domains r = []"

text \<open>The loop all four collectors share: \<open>step\<close> is its body on one configuration.\<close>

fun config_loop ::
  "('s \<Rightarrow> HandlerConfig \<Rightarrow> 's) \<Rightarrow> 'w Factory list \<Rightarrow> 's \<Rightarrow> 'w \<Rightarrow> 's \<times> 'w" where
  "config_loop step [] s w = (s, w)"
| "config_loop step (f # fs) s w =
     (let (h, w1) = fac_produce f w in config_loop step fs (step s (h_config h)) w1)"

definition saga_output_domains :: "'w RuntimeRouter \<Rightarrow> 'w \<Rightarrow> string list \<times> 'w" where
  "saga_output_domains r = config_loop
     (\<lambda>seen cfg. case cfg of
        Cfg_Saga c \<Rightarrow>
          if sc_target c \<noteq> [] \<and> sc_target c \<notin> set seen then seen @ [sc_target c] else seen
      | _ \<Rightarrow> seen) (rt_factories r) []"

definition saga_sync_output_domains :: "'w RuntimeRouter \<Rightarrow> 'w \<Rightarrow> string list \<times> 'w" where
  "saga_sync_output_domains r = config_loop
     (\<lambda>seen cfg. case cfg of
        Cfg_Saga c \<Rightarrow>
          if sc_sync c \<and> sc_target c \<noteq> [] \<and> sc_target c \<notin> set seen
          then seen @ [sc_target c] else seen
      | _ \<Rightarrow> seen) (rt_factories r) []"

fun push_targets :: "string list \<Rightarrow> string list \<Rightarrow> string list" where
  "push_targets seen [] = seen"
| "push_targets seen (t # ts) =
     push_targets (if t \<noteq> [] \<and> t \<notin> set seen then seen @ [t] else seen) ts"

definition pm_output_domains :: "'w RuntimeRouter \<Rightarrow> 'w \<Rightarrow> string list \<times> 'w" where
  "pm_output_domains r = config_loop
     (\<lambda>seen cfg. case cfg of
        Cfg_ProcessManager c \<Rightarrow> push_targets seen (pc_targets c) | _ \<Rightarrow> seen) (rt_factories r) []"

definition pm_sync_output_domains :: "'w RuntimeRouter \<Rightarrow> 'w \<Rightarrow> string list \<times> 'w" where
  "pm_sync_output_domains r = config_loop
     (\<lambda>seen cfg. case cfg of
        Cfg_ProcessManager c \<Rightarrow> push_targets seen (pc_sync_targets c) | _ \<Rightarrow> seen)
     (rt_factories r) []"

text \<open>\<open>factories.iter().any(..)\<close> and the loops with an early \<open>return true\<close>.\<close>

fun config_any :: "(HandlerConfig \<Rightarrow> bool) \<Rightarrow> 'w Factory list \<Rightarrow> 'w \<Rightarrow> bool \<times> 'w" where
  "config_any p [] w = (False, w)"
| "config_any p (f # fs) w =
     (let (h, w1) = fac_produce f w
      in if p (h_config h) then (True, w1) else config_any p fs w1)"

definition saga_has_async_outputs :: "'w RuntimeRouter \<Rightarrow> 'w \<Rightarrow> bool \<times> 'w" where
  "saga_has_async_outputs r = config_any
     (\<lambda>cfg. case cfg of Cfg_Saga c \<Rightarrow> \<not> sc_sync c \<and> sc_target c \<noteq> [] | _ \<Rightarrow> False)
     (rt_factories r)"

definition pm_has_async_outputs :: "'w RuntimeRouter \<Rightarrow> 'w \<Rightarrow> bool \<times> 'w" where
  "pm_has_async_outputs r = config_any
     (\<lambda>cfg. case cfg of
        Cfg_ProcessManager c \<Rightarrow>
          list_ex (\<lambda>t. t \<noteq> [] \<and> t \<notin> set (pc_sync_targets c)) (pc_targets c)
      | _ \<Rightarrow> False) (rt_factories r)"

section \<open>Facts and replay\<close>

definition supports_handle_fact :: "'w RuntimeRouter \<Rightarrow> 'w \<Rightarrow> bool \<times> 'w" where
  "supports_handle_fact r = config_any
     (\<lambda>cfg. case cfg of Cfg_CommandHandler c \<Rightarrow> ch_handles_fact c \<noteq> [] | _ \<Rightarrow> False)
     (rt_factories r)"

definition supports_replay :: "'w RuntimeRouter \<Rightarrow> 'w \<Rightarrow> bool \<times> 'w" where
  "supports_replay r = config_any
     (\<lambda>cfg. case cfg of Cfg_CommandHandler c \<Rightarrow> ch_supports_replay c | _ \<Rightarrow> False)
     (rt_factories r)"

definition is_command_handler :: "HandlerConfig \<Rightarrow> bool" where
  "is_command_handler cfg \<longleftrightarrow> (case cfg of Cfg_CommandHandler _ \<Rightarrow> True | _ \<Rightarrow> False)"

fun fact_loop ::
  "FactRequest \<Rightarrow> 'w Factory list \<Rightarrow> 'w \<Rightarrow> (ClientError + EventBook) \<times> 'w" where
  "fact_loop request [] w = (Inr default_EventBook, w)"
| "fact_loop request (f # fs) w =
     (let (handler, w1) = fac_produce f w
      in if \<not> is_command_handler (h_config handler) then fact_loop request fs w1
         else (case h_dispatch handler (Req_HandleFact request) w1 of
                 (Inl e, w2) \<Rightarrow> (Inl e, w2)
               | (Inr (Resp_HandleFact book), w2) \<Rightarrow> (Inr book, w2)
               | (Inr _, w2) \<Rightarrow> (Inl (wrong_kind ''HandleFact''), w2)))"

definition dispatch_fact ::
  "'w RuntimeRouter \<Rightarrow> FactRequest \<Rightarrow> 'w \<Rightarrow> (ClientError + EventBook) \<times> 'w" where
  "dispatch_fact r request w = fact_loop request (rt_factories r) w"

fun replay_loop ::
  "ReplayRequest \<Rightarrow> 'w Factory list \<Rightarrow> 'w \<Rightarrow> (ClientError + ReplayResponse) \<times> 'w" where
  "replay_loop request [] w = (Inr default_ReplayResponse, w)"
| "replay_loop request (f # fs) w =
     (let (handler, w1) = fac_produce f w
      in if \<not> is_command_handler (h_config handler) then replay_loop request fs w1
         else (case h_dispatch handler (Req_Replay request) w1 of
                 (Inl e, w2) \<Rightarrow> (Inl e, w2)
               | (Inr (Resp_Replay resp), w2) \<Rightarrow> (Inr resp, w2)
               | (Inr _, w2) \<Rightarrow> (Inl (wrong_kind ''Replay''), w2)))"

definition dispatch_replay ::
  "'w RuntimeRouter \<Rightarrow> ReplayRequest \<Rightarrow> 'w \<Rightarrow> (ClientError + ReplayResponse) \<times> 'w" where
  "dispatch_replay r request w = replay_loop request (rt_factories r) w"

section \<open>Lemmas\<close>

lemma config_loop_steady:
  assumes "list_all2 steady fs cfgs"
  shows "fst (config_loop step fs s w) = foldl step s cfgs"
  using assms
proof (induction fs cfgs arbitrary: s w rule: list_all2_induct)
  case (Cons f fs c cs)
  obtain h w1 where p: "fac_produce f w = (h, w1)" by fastforce
  with Cons.hyps(1) have "h_config h = c" by (rule steady_produce)
  with p Cons.IH show ?case by simp
qed simp

lemma config_any_steady:
  assumes "list_all2 steady fs cfgs"
  shows "fst (config_any p fs w) \<longleftrightarrow> (\<exists>c \<in> set cfgs. p c)"
  using assms
proof (induction fs cfgs arbitrary: w rule: list_all2_induct)
  case (Cons f fs c cs)
  obtain h w1 where q: "fac_produce f w = (h, w1)" by fastforce
  with Cons.hyps(1) have "h_config h = c" by (rule steady_produce)
  with q Cons.IH show ?case by simp
qed simp

lemma push_targets_set:
  "set (push_targets seen ts) = set seen \<union> (set ts - {[]})"
  by (induction seen ts rule: push_targets.induct) auto

lemma push_targets_distinct: "distinct seen \<Longrightarrow> distinct (push_targets seen ts)"
  by (induction seen ts rule: push_targets.induct) auto

text \<open>The nonempty targets of one configuration, and those addressed synchronously.\<close>

definition targets_of :: "HandlerConfig \<Rightarrow> string set" where
  "targets_of cfg =
     (case cfg of Cfg_Saga c \<Rightarrow> {sc_target c} - {[]}
      | Cfg_ProcessManager c \<Rightarrow> set (pc_targets c) - {[]} | _ \<Rightarrow> {})"

definition sync_targets_of :: "HandlerConfig \<Rightarrow> string set" where
  "sync_targets_of cfg =
     (case cfg of Cfg_Saga c \<Rightarrow> (if sc_sync c then {sc_target c} - {[]} else {})
      | Cfg_ProcessManager c \<Rightarrow> set (pc_sync_targets c) - {[]} | _ \<Rightarrow> {})"

lemma foldl_collect:
  assumes "\<And>seen c. c \<in> set cfgs \<Longrightarrow> set (step seen c) = set seen \<union> t c"
    and "\<And>seen c. distinct seen \<Longrightarrow> distinct (step seen c)" and "distinct seen"
  shows "set (foldl step seen cfgs) = set seen \<union> (\<Union>c \<in> set cfgs. t c)
     \<and> distinct (foldl step seen cfgs)"
  using assms(1,3)
proof (induction cfgs arbitrary: seen)
  case (Cons c cs)
  have "set (foldl step (step seen c) cs) = set (step seen c) \<union> (\<Union>c \<in> set cs. t c)
     \<and> distinct (foldl step (step seen c) cs)"
    by (rule Cons.IH) (use Cons.prems assms(2) in auto)
  moreover have "set (step seen c) = set seen \<union> t c" using Cons.prems(1) by simp
  ultimately show ?case by auto
qed simp

lemma saga_outputs_steady:
  assumes "list_all2 steady (rt_factories r) cfgs" and "\<forall>c \<in> set cfgs. config_kind c = Kind_Saga"
  shows "set (fst (saga_output_domains r w)) = (\<Union>c \<in> set cfgs. targets_of c)"
    and "distinct (fst (saga_output_domains r w))"
    and "set (fst (saga_sync_output_domains r w)) = (\<Union>c \<in> set cfgs. sync_targets_of c)"
    and "distinct (fst (saga_sync_output_domains r w))"
    and "fst (saga_has_async_outputs r w) \<longleftrightarrow> (\<exists>c \<in> set cfgs. \<not> targets_of c \<subseteq> sync_targets_of c)"
proof -
  let ?out = "\<lambda>seen cfg. case cfg of
      Cfg_Saga c \<Rightarrow>
        if sc_target c \<noteq> [] \<and> sc_target c \<notin> set seen then seen @ [sc_target c] else seen
    | _ \<Rightarrow> seen"
  let ?sync = "\<lambda>seen cfg. case cfg of
      Cfg_Saga c \<Rightarrow>
        if sc_sync c \<and> sc_target c \<noteq> [] \<and> sc_target c \<notin> set seen
        then seen @ [sc_target c] else seen
    | _ \<Rightarrow> seen"
  have out: "set (foldl ?out [] cfgs) = set [] \<union> (\<Union>c \<in> set cfgs. targets_of c)
      \<and> distinct (foldl ?out [] cfgs)"
    by (rule foldl_collect)
      (use assms(2) in \<open>force simp: targets_of_def split: HandlerConfig.splits\<close>)+
  have sync: "set (foldl ?sync [] cfgs) = set [] \<union> (\<Union>c \<in> set cfgs. sync_targets_of c)
      \<and> distinct (foldl ?sync [] cfgs)"
    by (rule foldl_collect)
      (use assms(2) in \<open>force simp: sync_targets_of_def split: HandlerConfig.splits\<close>)+
  show "set (fst (saga_output_domains r w)) = (\<Union>c \<in> set cfgs. targets_of c)"
    "distinct (fst (saga_output_domains r w))"
    unfolding saga_output_domains_def config_loop_steady [OF assms(1)] using out by simp_all
  show "set (fst (saga_sync_output_domains r w)) = (\<Union>c \<in> set cfgs. sync_targets_of c)"
    "distinct (fst (saga_sync_output_domains r w))"
    unfolding saga_sync_output_domains_def config_loop_steady [OF assms(1)] using sync by simp_all
  show "fst (saga_has_async_outputs r w) \<longleftrightarrow>
      (\<exists>c \<in> set cfgs. \<not> targets_of c \<subseteq> sync_targets_of c)"
    unfolding saga_has_async_outputs_def config_any_steady [OF assms(1)]
    by (rule bex_cong [OF refl], use assms(2) in
        \<open>auto simp: targets_of_def sync_targets_of_def split: HandlerConfig.splits\<close>)
qed

lemma pm_outputs_steady:
  assumes "list_all2 steady (rt_factories r) cfgs"
    and "\<forall>c \<in> set cfgs. config_kind c = Kind_ProcessManager"
  shows "set (fst (pm_output_domains r w)) = (\<Union>c \<in> set cfgs. targets_of c)"
    and "distinct (fst (pm_output_domains r w))"
    and "set (fst (pm_sync_output_domains r w)) = (\<Union>c \<in> set cfgs. sync_targets_of c)"
    and "distinct (fst (pm_sync_output_domains r w))"
    and "fst (pm_has_async_outputs r w) \<longleftrightarrow> (\<exists>c \<in> set cfgs. \<not> targets_of c \<subseteq> sync_targets_of c)"
proof -
  let ?out = "\<lambda>seen cfg. case cfg of
      Cfg_ProcessManager c \<Rightarrow> push_targets seen (pc_targets c) | _ \<Rightarrow> seen"
  let ?sync = "\<lambda>seen cfg. case cfg of
      Cfg_ProcessManager c \<Rightarrow> push_targets seen (pc_sync_targets c) | _ \<Rightarrow> seen"
  have out: "set (foldl ?out [] cfgs) = set [] \<union> (\<Union>c \<in> set cfgs. targets_of c)
      \<and> distinct (foldl ?out [] cfgs)"
    by (rule foldl_collect) (use assms(2) in
        \<open>force simp: targets_of_def push_targets_set push_targets_distinct split: HandlerConfig.splits\<close>)+
  have sync: "set (foldl ?sync [] cfgs) = set [] \<union> (\<Union>c \<in> set cfgs. sync_targets_of c)
      \<and> distinct (foldl ?sync [] cfgs)"
    by (rule foldl_collect) (use assms(2) in
        \<open>force simp: sync_targets_of_def push_targets_set push_targets_distinct split: HandlerConfig.splits\<close>)+
  show "set (fst (pm_output_domains r w)) = (\<Union>c \<in> set cfgs. targets_of c)"
    "distinct (fst (pm_output_domains r w))"
    unfolding pm_output_domains_def config_loop_steady [OF assms(1)] using out by simp_all
  show "set (fst (pm_sync_output_domains r w)) = (\<Union>c \<in> set cfgs. sync_targets_of c)"
    "distinct (fst (pm_sync_output_domains r w))"
    unfolding pm_sync_output_domains_def config_loop_steady [OF assms(1)] using sync by simp_all
  show "fst (pm_has_async_outputs r w) \<longleftrightarrow>
      (\<exists>c \<in> set cfgs. \<not> targets_of c \<subseteq> sync_targets_of c)"
    unfolding pm_has_async_outputs_def config_any_steady [OF assms(1)]
    by (rule bex_cong [OF refl], use assms(2) in
        \<open>auto simp: targets_of_def sync_targets_of_def list_ex_iff split: HandlerConfig.splits\<close>)
qed

text \<open>Reading the fact and replay outcomes of one handler.\<close>

definition as_fact :: "ClientError + HandlerResponse \<Rightarrow> ClientError + EventBook" where
  "as_fact m = bindR m (\<lambda>response.
     case response of Resp_HandleFact b \<Rightarrow> Inr b | _ \<Rightarrow> Inl (wrong_kind ''HandleFact''))"

definition as_replay :: "ClientError + HandlerResponse \<Rightarrow> ClientError + ReplayResponse" where
  "as_replay m = bindR m (\<lambda>response.
     case response of Resp_Replay b \<Rightarrow> Inr b | _ \<Rightarrow> Inl (wrong_kind ''Replay''))"

lemma fact_loop_answers:
  assumes "list_all2 answers fs as"
  shows "fst (fact_loop request fs w) =
     (case find (\<lambda>a. is_command_handler (fst a)) as of
        None \<Rightarrow> Inr default_EventBook | Some a \<Rightarrow> as_fact (snd a (Req_HandleFact request)))"
  using assms
proof (induction fs as arbitrary: w rule: list_all2_induct)
  case (Cons f fs a as)
  obtain c g where a: "a = (c, g)" by (cases a)
  obtain h w1 where p: "fac_produce f w = (h, w1)" by fastforce
  obtain r w2 where d: "h_dispatch h (Req_HandleFact request) w1 = (r, w2)" by fastforce
  from answersD [OF Cons.hyps(1) [unfolded a] p] d
  have "h_config h = c" "g (Req_HandleFact request) = r" by (metis, metis fst_conv)
  with p d a Cons.IH show ?case
    by (auto simp: as_fact_def split: sum.splits HandlerResponse.splits)
qed simp

lemma replay_loop_answers:
  assumes "list_all2 answers fs as"
  shows "fst (replay_loop request fs w) =
     (case find (\<lambda>a. is_command_handler (fst a)) as of
        None \<Rightarrow> Inr default_ReplayResponse | Some a \<Rightarrow> as_replay (snd a (Req_Replay request)))"
  using assms
proof (induction fs as arbitrary: w rule: list_all2_induct)
  case (Cons f fs a as)
  obtain c g where a: "a = (c, g)" by (cases a)
  obtain h w1 where p: "fac_produce f w = (h, w1)" by fastforce
  obtain r w2 where d: "h_dispatch h (Req_Replay request) w1 = (r, w2)" by fastforce
  from answersD [OF Cons.hyps(1) [unfolded a] p] d
  have "h_config h = c" "g (Req_Replay request) = r" by (metis, metis fst_conv)
  with p d a Cons.IH show ?case
    by (auto simp: as_replay_def split: sum.splits HandlerResponse.splits)
qed simp

text \<open>What the two opt-in queries answer over steady handlers.\<close>

lemma supports_answers:
  assumes "list_all2 answers (rt_factories r) as"
  shows "fst (supports_handle_fact r w) =
       (\<exists>a \<in> set as. \<exists>c. fst a = Cfg_CommandHandler c \<and> ch_handles_fact c \<noteq> [])"
    and "fst (supports_replay r w) =
       (\<exists>a \<in> set as. \<exists>c. fst a = Cfg_CommandHandler c \<and> ch_supports_replay c)"
proof -
  have st: "list_all2 steady (rt_factories r) (map fst as)"
    using assms by (auto simp: list_all2_conv_all_nth answers_def)
  have opt: "(case cfg of Cfg_CommandHandler c \<Rightarrow> p c | _ \<Rightarrow> False) \<longleftrightarrow>
      (\<exists>c. cfg = Cfg_CommandHandler c \<and> p c)" for cfg and p
    by (cases cfg) auto
  show "fst (supports_handle_fact r w) =
       (\<exists>a \<in> set as. \<exists>c. fst a = Cfg_CommandHandler c \<and> ch_handles_fact c \<noteq> [])"
    "fst (supports_replay r w) =
       (\<exists>a \<in> set as. \<exists>c. fst a = Cfg_CommandHandler c \<and> ch_supports_replay c)"
    unfolding supports_handle_fact_def supports_replay_def config_any_steady [OF st] opt
    by simp_all
qed

lemma get_or_init_cached:
  "get_or_init init r w = (n, r1, w1) \<Longrightarrow> get_or_init init' r1 w' = (n, r1, w')"
  by (auto simp: get_or_init_def split: option.splits prod.splits)

lemma get_or_init_factories:
  "get_or_init init r w = (n, r1, w1) \<Longrightarrow> rt_factories r1 = rt_factories r"
  by (auto simp: get_or_init_def split: option.splits prod.splits)

section \<open>Properties\<close>

text \<open>a router's name costs one factory call. After the first call of \<open>name\<close>, of any kind
  of router, every later call returns the same text without producing a handler (the world it
  is given comes back untouched), and dispatch is unaffected: the factories are the same.\<close>

theorem name_produces_at_most_once:
  assumes "call \<in> {ch_name, saga_name, pm_name, projector_name, upcaster_name}"
    and "call r w = (n, r1, w1)"
  shows "call r1 w' = (n, r1, w') \<and> rt_factories r1 = rt_factories r
     \<and> w1 \<in> {w, snd (first_config (rt_factories r) w)}"
proof -
  have one: "get_or_init init r1 w' = (n, r1, w') \<and> rt_factories r1 = rt_factories r
      \<and> w1 \<in> {w, snd (first_config (rt_factories r) w)}"
    if "get_or_init (\<lambda>w. let (c, w1) = first_config (rt_factories r) w in (g c, w1)) r w = (n, r1, w1)"
    for init and g :: "HandlerConfig option \<Rightarrow> string"
    using get_or_init_cached [OF that] get_or_init_factories [OF that] that
    by (auto simp: get_or_init_def split: option.splits prod.splits)
  from assms show ?thesis
    by (auto simp only: insert_iff empty_iff ch_name_def saga_name_def pm_name_def
        projector_name_def upcaster_name_def dest!: one)
qed

theorem name_produces_at_most_once_witness:
  "saga_name \<lparr>rt_factories = [const_factory (const_handler (saga_example ''o'' ''s'' [] True)
       (\<lambda>_. Inl (wrong_kind [])))], rt_cached_name = Some ''saga''\<rparr> (5 :: nat)
   = (''saga'', \<lparr>rt_factories = [const_factory (const_handler (saga_example ''o'' ''s'' [] True)
       (\<lambda>_. Inl (wrong_kind [])))], rt_cached_name = Some ''saga''\<rparr>, 5)"
proof -
  let ?f = "const_factory (const_handler (saga_example ''o'' ''s'' [] True)
       (\<lambda>_. Inl (wrong_kind []))) :: nat Factory"
  have s: "saga_name \<in> {ch_name, saga_name, pm_name, projector_name, upcaster_name}" by simp
  have "saga_name \<lparr>rt_factories = [?f], rt_cached_name = None\<rparr> 3 =
      (''saga'', \<lparr>rt_factories = [?f], rt_cached_name = Some ''saga''\<rparr>, 3)"
    by (simp add: saga_name_def get_or_init_def first_config_def saga_example_def)
  from name_produces_at_most_once [OF s this, of 5] show ?thesis by blast
qed

text \<open>what a saga router reports about its targets. \<open>output_domains\<close> lists each nonempty
  target once and \<open>sync_output_domains\<close> those of sagas with the sync flag, a subset of it;
  without async outputs the two hold the same domains, so readiness probing them covers every
  destination.\<close>

theorem saga_outputs_reported:
  assumes "list_all2 steady (rt_factories r) cfgs" and "\<forall>c \<in> set cfgs. config_kind c = Kind_Saga"
  shows "set (fst (saga_output_domains r w)) = (\<Union>c \<in> set cfgs. targets_of c)
    \<and> distinct (fst (saga_output_domains r w)) \<and> distinct (fst (saga_sync_output_domains r w))
    \<and> set (fst (saga_sync_output_domains r w)) \<subseteq> set (fst (saga_output_domains r w))
    \<and> (\<not> fst (saga_has_async_outputs r w) \<longrightarrow>
         set (fst (saga_sync_output_domains r w)) = set (fst (saga_output_domains r w)))"
proof -
  have "sync_targets_of c \<subseteq> targets_of c" if "c \<in> set cfgs" for c
    using that assms(2) by (auto simp: sync_targets_of_def targets_of_def split: HandlerConfig.splits)
  then show ?thesis unfolding saga_outputs_steady [OF assms]
    using saga_outputs_steady(2,4) [OF assms] by blast
qed

theorem saga_outputs_reported_witness:
  "set (fst (saga_output_domains
     \<lparr>rt_factories = [const_factory (const_handler (saga_example ''o'' ''stock'' [] True)
        (\<lambda>_. Inl (wrong_kind [])))], rt_cached_name = None\<rparr> ())) = {''stock''}"
proof -
  let ?c = "saga_example ''o'' ''stock'' [] True"
  let ?r = "\<lparr>rt_factories = [const_factory (const_handler ?c (\<lambda>_. Inl (wrong_kind []))) :: unit Factory],
    rt_cached_name = None\<rparr>"
  have "list_all2 steady (rt_factories ?r) [?c]" "\<forall>c \<in> set [?c]. config_kind c = Kind_Saga"
    by (simp_all add: saga_example_def)
  from saga_outputs_reported [OF this, of "()"] show ?thesis
    by (simp add: targets_of_def saga_example_def)
qed

text \<open>the same for process managers, whose sync targets are a subset of their targets (the
  \<open>process_manager\<close> macro refuses anything else).\<close>

theorem pm_outputs_reported:
  assumes "list_all2 steady (rt_factories r) cfgs"
    and "\<forall>c \<in> set cfgs. \<exists>k. c = Cfg_ProcessManager k \<and> set (pc_sync_targets k) \<subseteq> set (pc_targets k)"
  shows "set (fst (pm_output_domains r w)) = (\<Union>c \<in> set cfgs. targets_of c)
    \<and> distinct (fst (pm_output_domains r w)) \<and> distinct (fst (pm_sync_output_domains r w))
    \<and> set (fst (pm_sync_output_domains r w)) \<subseteq> set (fst (pm_output_domains r w))
    \<and> (\<not> fst (pm_has_async_outputs r w) \<longrightarrow>
         set (fst (pm_sync_output_domains r w)) = set (fst (pm_output_domains r w)))"
proof -
  have k: "\<forall>c \<in> set cfgs. config_kind c = Kind_ProcessManager" using assms(2) by auto
  have "sync_targets_of c \<subseteq> targets_of c" if "c \<in> set cfgs" for c
  proof -
    from that assms(2) obtain k where "c = Cfg_ProcessManager k"
      "set (pc_sync_targets k) \<subseteq> set (pc_targets k)" by auto
    then show ?thesis by (auto simp: sync_targets_of_def targets_of_def)
  qed
  then show ?thesis unfolding pm_outputs_steady [OF assms(1) k]
    using pm_outputs_steady(2,4) [OF assms(1) k] by blast
qed

theorem pm_outputs_reported_witness:
  "set (fst (pm_output_domains
     \<lparr>rt_factories = [const_factory (const_handler (pm_example ''o'' [''a'', ''b''] [])
        (\<lambda>_. Inl (wrong_kind [])))], rt_cached_name = None\<rparr> ())) = {''a'', ''b''}"
proof -
  let ?c = "pm_example ''o'' [''a'', ''b''] []"
  let ?r = "\<lparr>rt_factories = [const_factory (const_handler ?c (\<lambda>_. Inl (wrong_kind []))) :: unit Factory],
    rt_cached_name = None\<rparr>"
  have "list_all2 steady (rt_factories ?r) [?c]"
    "\<forall>c \<in> set [?c]. \<exists>k. c = Cfg_ProcessManager k \<and> set (pc_sync_targets k) \<subseteq> set (pc_targets k)"
    by (simp_all add: pm_example_def)
  from pm_outputs_reported [OF this, of "()"] show ?thesis
    by (simp add: targets_of_def pm_example_def)
qed

text \<open>facts and replays go to the first command handler. \<open>dispatch_fact\<close> and
  \<open>dispatch_replay\<close> hand the request to the first registered command handler, whatever its
  domain and whether or not it opted in, while \<open>supports_handle_fact\<close> and \<open>supports_replay\<close>
  hold as soon as any handler opted in.\<close>

theorem fact_goes_to_first_handler:
  assumes "list_all2 answers (rt_factories r) as"
  shows "fst (dispatch_fact r fq w) =
       (case find (\<lambda>a. is_command_handler (fst a)) as of
          None \<Rightarrow> Inr default_EventBook | Some a \<Rightarrow> as_fact (snd a (Req_HandleFact fq)))
    \<and> fst (dispatch_replay r rq w) =
       (case find (\<lambda>a. is_command_handler (fst a)) as of
          None \<Rightarrow> Inr default_ReplayResponse | Some a \<Rightarrow> as_replay (snd a (Req_Replay rq)))
    \<and> fst (supports_handle_fact r w) =
       (\<exists>a \<in> set as. \<exists>c. fst a = Cfg_CommandHandler c \<and> ch_handles_fact c \<noteq> [])
    \<and> fst (supports_replay r w) =
       (\<exists>a \<in> set as. \<exists>c. fst a = Cfg_CommandHandler c \<and> ch_supports_replay c)"
  unfolding dispatch_fact_def dispatch_replay_def
  by (intro conjI fact_loop_answers [OF assms] replay_loop_answers [OF assms]
      supports_answers [OF assms])

theorem fact_goes_to_first_handler_witness:
  "let other = const_factory (const_handler (ch_example ''order'' []) (\<lambda>_. Inl (wrong_kind ''no facts'')));
       opted = const_factory (const_handler (Cfg_CommandHandler
         \<lparr>ch_domain = ''stock'', ch_handled = [], ch_rejected = [], ch_applies = [],
          ch_state_factory = None, ch_handles_fact = [paid_url], ch_supports_replay = True\<rparr>)
         (\<lambda>_. Inr (Resp_HandleFact paid_book)));
       r = \<lparr>rt_factories = [other, opted], rt_cached_name = None\<rparr>
   in fst (supports_handle_fact r ()) \<and>
      fst (dispatch_fact r \<lparr>fr_facts = Some paid_book, fr_prior_events = None\<rparr> ())
        = Inl (wrong_kind ''no facts'')"
proof -
  let ?c = "Cfg_CommandHandler
         \<lparr>ch_domain = ''stock'', ch_handled = [], ch_rejected = [], ch_applies = [],
          ch_state_factory = None, ch_handles_fact = [paid_url], ch_supports_replay = True\<rparr>"
  let ?g = "\<lambda>_. Inr (Resp_HandleFact paid_book)" and ?h = "\<lambda>_. Inl (wrong_kind ''no facts'')"
  let ?r = "\<lparr>rt_factories = [const_factory (const_handler (ch_example ''order'' []) ?h) :: unit Factory,
       const_factory (const_handler ?c ?g)], rt_cached_name = None\<rparr>"
  have "list_all2 answers (rt_factories ?r) [(ch_example ''order'' [], ?h), (?c, ?g)]" by simp
  from fact_goes_to_first_handler [OF this, of _ "()"] show ?thesis
    by (simp add: Let_def is_command_handler_def ch_example_def as_fact_def)
qed

end
