(* ===== verification/Macro_Args.thy ===== *)
theory Macro_Args
  imports Router_Info
begin

text \<open>
  \<^verbatim>\<open>angzarr-macros/src/lib.rs\<close>, what the kind macros read: the attribute arguments of
  \<open>#[command_handler]\<close>, \<open>#[saga]\<close>, \<open>#[process_manager]\<close>, \<open>#[projector]\<close>, \<open>#[upcaster]\<close> and of
  the method markers, and the metadata collected from the marked methods.

  The input of a macro is a list of token trees, as \<open>syn\<close> delivers it: a bracketed group is one
  tree. \<open>Ident\<close>, \<open>LitStr\<close> and \<open>LitBool\<close> parse one tree of that form. A compile error is
  \<open>ME_Parse\<close> when \<open>syn\<close> words it, and otherwise the message of the code; spans are left out.
\<close>

section \<open>Tokens\<close>

datatype token =
    T_Ident string | T_Eq | T_Comma | T_Str string | T_Bool bool | T_Bracket "token list"
  | T_Other string

datatype macro_error =
    ME_Parse
  | ME_Message string
  | ME_Sync_Targets "string list" "string list"

fun expect_str :: "token option \<Rightarrow> macro_error + string" where
  "expect_str (Some (T_Str s)) = Inr s"
| "expect_str t = Inl ME_Parse"

fun expect_ident :: "token option \<Rightarrow> macro_error + string" where
  "expect_ident (Some (T_Ident s)) = Inr s"
| "expect_ident t = Inl ME_Parse"

fun expect_bool :: "token option \<Rightarrow> macro_error + bool" where
  "expect_bool (Some (T_Bool b)) = Inr b"
| "expect_bool t = Inl ME_Parse"

text \<open>\<open>if input.peek(Token![,]) { input.parse::<Token![,]>()?; }\<close>\<close>

fun drop_comma :: "token list \<Rightarrow> token list" where
  "drop_comma (T_Comma # ts) = ts"
| "drop_comma ts = ts"

lemma length_drop_comma [termination_simp]: "length (drop_comma ts) \<le> length ts"
  by (cases ts rule: drop_comma.cases) auto

fun str_items :: "token list \<Rightarrow> macro_error + string list" where
  "str_items [] = Inr []"
| "str_items (T_Str s # ts) = map_ok (Cons s) (str_items (drop_comma ts))"
| "str_items ts = Inl ME_Parse"

fun parse_str_list :: "token option \<Rightarrow> macro_error + string list" where
  "parse_str_list (Some (T_Bracket content)) = str_items content"
| "parse_str_list t = Inl ME_Parse"

text \<open>
  The loop of every argument parser: an identifier, \<open>=\<close>, what the match on the identifier does
  with the next tree (\<open>None\<close> at the end of the input), and an optional comma.
\<close>

fun attr_loop ::
  "(string \<Rightarrow> token option \<Rightarrow> 's \<Rightarrow> macro_error + 's) \<Rightarrow> 's \<Rightarrow> token list \<Rightarrow> macro_error + 's"
where
  "attr_loop step s [] = Inr s"
| "attr_loop step s (T_Ident k # T_Eq # []) = step k None s"
| "attr_loop step s (T_Ident k # T_Eq # v # rest) =
     bindR (step k (Some v) s) (\<lambda>s'. attr_loop step s' (drop_comma rest))"
| "attr_loop step s ts = Inl ME_Parse"

section \<open>Required values\<close>

definition require_non_empty_str :: "string option \<Rightarrow> string \<Rightarrow> macro_error + string" where
  "require_non_empty_str opt field =
     (case opt of
        None \<Rightarrow> Inl (ME_Message (field @ '' is required''))
      | Some s \<Rightarrow>
          if s = [] then Inl (ME_Message (field @ '' must be a non-empty string''))
          else Inr s)"

definition require_non_empty_str_list ::
  "string list option \<Rightarrow> string \<Rightarrow> macro_error + string list" where
  "require_non_empty_str_list opt field =
     (case opt of
        None \<Rightarrow> Inl (ME_Message (field @ '' is required''))
      | Some v \<Rightarrow>
          if v = [] then Inl (ME_Message (field @ '' must be a non-empty list''))
          else if list_ex (\<lambda>s. s = []) v
          then Inl (ME_Message (field @ '' must not contain empty strings''))
          else Inr v)"

definition required_ident :: "string option \<Rightarrow> string \<Rightarrow> macro_error + string" where
  "required_ident opt field = ok_or (ME_Message (field @ '' is required'')) opt"

definition unknown_attribute :: macro_error where
  "unknown_attribute = ME_Message ''unknown attribute''"

section \<open>Arguments of the kind macros\<close>

record AggregateArgs =
  aa_domain :: string
  aa_state :: string
  aa_supports_replay :: bool

record AggregateParse =
  ap_domain :: "string option"
  ap_state :: "string option"
  ap_supports_replay :: bool

definition aggregate_step ::
  "string \<Rightarrow> token option \<Rightarrow> AggregateParse \<Rightarrow> macro_error + AggregateParse" where
  "aggregate_step k v s =
     (if k = ''domain'' then map_ok (\<lambda>x. s\<lparr>ap_domain := Some x\<rparr>) (expect_str v)
      else if k = ''state'' then map_ok (\<lambda>x. s\<lparr>ap_state := Some x\<rparr>) (expect_ident v)
      else if k = ''supports_replay''
      then map_ok (\<lambda>x. s\<lparr>ap_supports_replay := x\<rparr>) (expect_bool v)
      else Inl unknown_attribute)"

definition parse_aggregate_args :: "token list \<Rightarrow> macro_error + AggregateArgs" where
  "parse_aggregate_args ts =
     bindR (attr_loop aggregate_step
              \<lparr>ap_domain = None, ap_state = None, ap_supports_replay = False\<rparr> ts) (\<lambda>p.
     bindR (require_non_empty_str (ap_domain p) ''domain'') (\<lambda>domain.
     bindR (required_ident (ap_state p) ''state'') (\<lambda>state.
     Inr \<lparr>aa_domain = domain, aa_state = state,
          aa_supports_replay = ap_supports_replay p\<rparr>)))"

record SagaArgs =
  sa_name :: string
  sa_source :: string
  sa_target :: string
  sa_sync :: bool

record SagaParse =
  sp_name :: "string option"
  sp_source :: "string option"
  sp_target :: "string option"
  sp_sync :: "bool option"

definition saga_step :: "string \<Rightarrow> token option \<Rightarrow> SagaParse \<Rightarrow> macro_error + SagaParse" where
  "saga_step k v s =
     (if k = ''name'' then map_ok (\<lambda>x. s\<lparr>sp_name := Some x\<rparr>) (expect_str v)
      else if k = ''source'' then map_ok (\<lambda>x. s\<lparr>sp_source := Some x\<rparr>) (expect_str v)
      else if k = ''target'' then map_ok (\<lambda>x. s\<lparr>sp_target := Some x\<rparr>) (expect_str v)
      else if k = ''sync'' then map_ok (\<lambda>x. s\<lparr>sp_sync := Some x\<rparr>) (expect_bool v)
      else Inl unknown_attribute)"

definition parse_saga_args :: "token list \<Rightarrow> macro_error + SagaArgs" where
  "parse_saga_args ts =
     bindR (attr_loop saga_step
              \<lparr>sp_name = None, sp_source = None, sp_target = None, sp_sync = None\<rparr> ts) (\<lambda>p.
     bindR (require_non_empty_str (sp_name p) ''name'') (\<lambda>name.
     bindR (require_non_empty_str (sp_source p) ''source'') (\<lambda>source.
     bindR (require_non_empty_str (sp_target p) ''target'') (\<lambda>target.
     Inr \<lparr>sa_name = name, sa_source = source, sa_target = target,
          sa_sync = unwrap_or False (sp_sync p)\<rparr>))))"

record ProcessManagerArgs =
  pa_name :: string
  pa_pm_domain :: string
  pa_state :: string
  pa_sources :: "string list"
  pa_targets :: "string list"
  pa_sync_targets :: "string list"

record PMParse =
  pp_name :: "string option"
  pp_pm_domain :: "string option"
  pp_state :: "string option"
  pp_sources :: "string list option"
  pp_targets :: "string list option"
  pp_sync_targets :: "string list option"

definition pm_step :: "string \<Rightarrow> token option \<Rightarrow> PMParse \<Rightarrow> macro_error + PMParse" where
  "pm_step k v s =
     (if k = ''name'' then map_ok (\<lambda>x. s\<lparr>pp_name := Some x\<rparr>) (expect_str v)
      else if k = ''pm_domain'' then map_ok (\<lambda>x. s\<lparr>pp_pm_domain := Some x\<rparr>) (expect_str v)
      else if k = ''state'' then map_ok (\<lambda>x. s\<lparr>pp_state := Some x\<rparr>) (expect_ident v)
      else if k = ''sources'' then map_ok (\<lambda>x. s\<lparr>pp_sources := Some x\<rparr>) (parse_str_list v)
      else if k = ''targets'' then map_ok (\<lambda>x. s\<lparr>pp_targets := Some x\<rparr>) (parse_str_list v)
      else if k = ''sync_targets''
      then map_ok (\<lambda>x. s\<lparr>pp_sync_targets := Some x\<rparr>) (parse_str_list v)
      else Inl unknown_attribute)"

definition parse_pm_args :: "token list \<Rightarrow> macro_error + ProcessManagerArgs" where
  "parse_pm_args ts =
     bindR (attr_loop pm_step
              \<lparr>pp_name = None, pp_pm_domain = None, pp_state = None, pp_sources = None,
               pp_targets = None, pp_sync_targets = None\<rparr> ts) (\<lambda>p.
     bindR (require_non_empty_str_list (pp_targets p) ''targets'') (\<lambda>targets.
     let sync_targets = unwrap_or [] (pp_sync_targets p);
         extra = filter (\<lambda>t. t \<notin> set targets) sync_targets
     in if extra \<noteq> [] then Inl (ME_Sync_Targets extra targets)
        else
     bindR (require_non_empty_str (pp_name p) ''name'') (\<lambda>name.
     bindR (require_non_empty_str (pp_pm_domain p) ''pm_domain'') (\<lambda>pm_domain.
     bindR (required_ident (pp_state p) ''state'') (\<lambda>state.
     bindR (require_non_empty_str_list (pp_sources p) ''sources'') (\<lambda>sources.
     Inr \<lparr>pa_name = name, pa_pm_domain = pm_domain, pa_state = state, pa_sources = sources,
          pa_targets = targets, pa_sync_targets = sync_targets\<rparr>))))))"

record ProjectorArgs =
  ja_name :: string
  ja_domains :: "string list"

definition projector_step ::
  "string \<Rightarrow> token option \<Rightarrow> string option \<times> string list option \<Rightarrow>
     macro_error + string option \<times> string list option" where
  "projector_step k v s =
     (if k = ''name'' then map_ok (\<lambda>x. (Some x, snd s)) (expect_str v)
      else if k = ''domains'' then map_ok (\<lambda>x. (fst s, Some x)) (parse_str_list v)
      else Inl unknown_attribute)"

definition parse_projector_args :: "token list \<Rightarrow> macro_error + ProjectorArgs" where
  "parse_projector_args ts =
     bindR (attr_loop projector_step (None, None) ts) (\<lambda>p.
     bindR (require_non_empty_str (fst p) ''name'') (\<lambda>name.
     bindR (require_non_empty_str_list (snd p) ''domains'') (\<lambda>ds.
     Inr \<lparr>ja_name = name, ja_domains = ds\<rparr>)))"

record UpcasterArgs =
  ua_name :: string
  ua_domain :: string

definition upcaster_step ::
  "string \<Rightarrow> token option \<Rightarrow> string option \<times> string option \<Rightarrow>
     macro_error + string option \<times> string option" where
  "upcaster_step k v s =
     (if k = ''name'' then map_ok (\<lambda>x. (Some x, snd s)) (expect_str v)
      else if k = ''domain'' then map_ok (\<lambda>x. (fst s, Some x)) (expect_str v)
      else Inl (ME_Message ''unknown attribute: expected `name` or `domain`''))"

definition parse_upcaster_args :: "token list \<Rightarrow> macro_error + UpcasterArgs" where
  "parse_upcaster_args ts =
     bindR (attr_loop upcaster_step (None, None) ts) (\<lambda>p.
     bindR (require_non_empty_str (fst p) ''name'') (\<lambda>name.
     bindR (require_non_empty_str (snd p) ''domain'') (\<lambda>domain.
     Inr \<lparr>ua_name = name, ua_domain = domain\<rparr>)))"

section \<open>Arguments of the method markers\<close>

text \<open>Here the value is parsed before the identifier is looked at.\<close>

definition rejected_step ::
  "string \<Rightarrow> token option \<Rightarrow> string option \<times> string option \<Rightarrow>
     macro_error + string option \<times> string option" where
  "rejected_step k v s =
     bindR (expect_str v) (\<lambda>x.
       if k = ''domain'' then Inr (Some x, snd s)
       else if k = ''command'' then Inr (fst s, Some x)
       else Inl unknown_attribute)"

definition parse_rejected_args :: "token list \<Rightarrow> macro_error + string \<times> string" where
  "parse_rejected_args ts =
     bindR (attr_loop rejected_step (None, None) ts) (\<lambda>p.
     bindR (require_non_empty_str (fst p) ''domain'') (\<lambda>domain.
     bindR (require_non_empty_str (snd p) ''command'') (\<lambda>command.
     Inr (domain, command))))"

definition upcasts_step ::
  "string \<Rightarrow> token option \<Rightarrow> string option \<times> string option \<Rightarrow>
     macro_error + string option \<times> string option" where
  "upcasts_step k v s =
     bindR (expect_ident v) (\<lambda>x.
       if k = ''from'' then Inr (Some x, snd s)
       else if k = ''to'' then Inr (fst s, Some x)
       else Inl unknown_attribute)"

definition parse_upcasts_args :: "token list \<Rightarrow> macro_error + string \<times> string" where
  "parse_upcasts_args ts =
     bindR (attr_loop upcasts_step (None, None) ts) (\<lambda>p.
     bindR (required_ident (fst p) ''from'') (\<lambda>from_ty.
     bindR (required_ident (snd p) ''to'') (\<lambda>to_ty.
     Inr (from_ty, to_ty))))"

text \<open>
  The standalone macro \<open>#[upcasts]\<close> checks the same arguments with a parser of its own, and
  gives its item back.
\<close>

definition upcasts_marker_step ::
  "string \<Rightarrow> token option \<Rightarrow> string option \<times> string option \<Rightarrow>
     macro_error + string option \<times> string option" where
  "upcasts_marker_step k v s =
     (if k = ''from'' then map_ok (\<lambda>x. (Some x, snd s)) (expect_ident v)
      else if k = ''to'' then map_ok (\<lambda>x. (fst s, Some x)) (expect_ident v)
      else Inl (ME_Message ''unknown attribute: expected `from` or `to`''))"

definition parse_upcasts_marker_args :: "token list \<Rightarrow> macro_error + string \<times> string" where
  "parse_upcasts_marker_args ts =
     bindR (attr_loop upcasts_marker_step (None, None) ts) (\<lambda>p.
     bindR (required_ident (fst p) ''from'') (\<lambda>from_ty.
     bindR (required_ident (snd p) ''to'') (\<lambda>to_ty.
     Inr (from_ty, to_ty))))"

definition upcasts_macro :: "token list \<Rightarrow> 'item \<Rightarrow> macro_error + 'item" where
  "upcasts_macro attr item = bindR (parse_upcasts_marker_args attr) (\<lambda>args. Inr item)"

section \<open>Impl blocks\<close>

text \<open>An attribute: the segments of its path, and its argument form.\<close>

datatype attr_meta = Meta_Path | Meta_List "token list" | Meta_NameValue "token list"

record attribute =
  at_path :: "string list"
  at_meta :: attr_meta

record impl_method =
  im_ident :: string
  im_attrs :: "attribute list"

datatype impl_item = Item_Fn impl_method | Item_Other

record ItemImpl =
  ii_attrs :: "attribute list"
  ii_items :: "impl_item list"

definition is_ident :: "attribute \<Rightarrow> string \<Rightarrow> bool" where
  "is_ident a k \<longleftrightarrow> at_path a = [k]"

definition KIND_ATTRS :: "string list" where
  "KIND_ATTRS = [''command_handler'', ''saga'', ''process_manager'', ''projector'', ''upcaster'']"

text \<open>The message of the compile error, if a sibling kind is stacked on the impl.\<close>

fun reject_stacked_kinds :: "string \<Rightarrow> attribute list \<Rightarrow> string option" where
  "reject_stacked_kinds this_kind [] = None"
| "reject_stacked_kinds this_kind (a # as) =
     (case find (is_ident a) KIND_ATTRS of
        Some kind \<Rightarrow> Some (''#['' @ this_kind @ ''] cannot coexist with #['' @ kind @
          ''] on the same impl; exactly one of #[command_handler] / #[saga] / '' @
          ''#[process_manager] / #[projector] / #[upcaster] is allowed'')
      | None \<Rightarrow> reject_stacked_kinds this_kind as)"

definition get_attr_ident :: "attribute \<Rightarrow> macro_error + string" where
  "get_attr_ident a =
     (case at_meta a of
        Meta_List [T_Ident s] \<Rightarrow> Inr s
      | Meta_List _ \<Rightarrow> Inl ME_Parse
      | _ \<Rightarrow> Inl (ME_Message ''expected #[attr(Type)]''))"

definition get_rejected_args :: "attribute \<Rightarrow> macro_error + string \<times> string" where
  "get_rejected_args a =
     (case at_meta a of
        Meta_List ts \<Rightarrow> parse_rejected_args ts
      | _ \<Rightarrow> Inl (ME_Message ''expected #[rejected(domain = \"...\", command = \"...\")]''))"

definition get_upcasts_args :: "attribute \<Rightarrow> macro_error + string \<times> string" where
  "get_upcasts_args a =
     (case at_meta a of
        Meta_List ts \<Rightarrow> parse_upcasts_args ts
      | _ \<Rightarrow> Inl (ME_Message ''expected #[upcasts(from = FromType, to = ToType)]''))"

record MethodMetadata =
  mm_handled :: "string list"
  mm_handled_with_methods :: "(string \<times> string) list"
  mm_rejected :: "(string \<times> string) list"
  mm_rejected_with_methods :: "(string \<times> string \<times> string) list"
  mm_applies :: "string list"
  mm_applies_with_methods :: "(string \<times> string) list"
  mm_state_factory :: "string option"
  mm_upcasts_with_methods :: "(string \<times> string \<times> string) list"
  mm_handles_fact :: "string list"
  mm_handles_fact_with_methods :: "(string \<times> string) list"

definition no_metadata :: MethodMetadata where
  "no_metadata = \<lparr>mm_handled = [], mm_handled_with_methods = [], mm_rejected = [],
     mm_rejected_with_methods = [], mm_applies = [], mm_applies_with_methods = [],
     mm_state_factory = None, mm_upcasts_with_methods = [], mm_handles_fact = [],
     mm_handles_fact_with_methods = []\<rparr>"

text \<open>One attribute of one method: a malformed marker is skipped (\<open>if let Ok(..)\<close>).\<close>

definition collect_attr :: "string \<Rightarrow> attribute \<Rightarrow> MethodMetadata \<Rightarrow> MethodMetadata" where
  "collect_attr ident a m =
     (if is_ident a ''handles'' then
        (case get_attr_ident a of
           Inr ty \<Rightarrow> m\<lparr>mm_handled := mm_handled m @ [ty],
                      mm_handled_with_methods := mm_handled_with_methods m @ [(ident, ty)]\<rparr>
         | Inl _ \<Rightarrow> m)
      else if is_ident a ''handles_fact'' then
        (case get_attr_ident a of
           Inr ty \<Rightarrow> m\<lparr>mm_handles_fact := mm_handles_fact m @ [ty],
                      mm_handles_fact_with_methods :=
                        mm_handles_fact_with_methods m @ [(ident, ty)]\<rparr>
         | Inl _ \<Rightarrow> m)
      else if is_ident a ''applies'' then
        (case get_attr_ident a of
           Inr ty \<Rightarrow> m\<lparr>mm_applies := mm_applies m @ [ty],
                      mm_applies_with_methods := mm_applies_with_methods m @ [(ident, ty)]\<rparr>
         | Inl _ \<Rightarrow> m)
      else if is_ident a ''rejected'' then
        (case get_rejected_args a of
           Inr (d, c) \<Rightarrow> m\<lparr>mm_rejected := mm_rejected m @ [(d, c)],
                          mm_rejected_with_methods :=
                            mm_rejected_with_methods m @ [(ident, d, c)]\<rparr>
         | Inl _ \<Rightarrow> m)
      else if is_ident a ''state_factory'' then m\<lparr>mm_state_factory := Some ident\<rparr>
      else if is_ident a ''upcasts'' then
        (case get_upcasts_args a of
           Inr (f, t) \<Rightarrow> m\<lparr>mm_upcasts_with_methods := mm_upcasts_with_methods m @ [(ident, f, t)]\<rparr>
         | Inl _ \<Rightarrow> m)
      else m)"

definition collect_item :: "impl_item \<Rightarrow> MethodMetadata \<Rightarrow> MethodMetadata" where
  "collect_item item m =
     (case item of
        Item_Other \<Rightarrow> m
      | Item_Fn f \<Rightarrow> fold (collect_attr (im_ident f)) (im_attrs f) m)"

definition collect_method_metadata :: "ItemImpl \<Rightarrow> MethodMetadata" where
  "collect_method_metadata input = fold collect_item (ii_items input) no_metadata"

definition is_marker :: "attribute \<Rightarrow> bool" where
  "is_marker a \<longleftrightarrow> is_ident a ''handles'' \<or> is_ident a ''handles_fact'' \<or> is_ident a ''rejected''
     \<or> is_ident a ''applies'' \<or> is_ident a ''state_factory'' \<or> is_ident a ''upcasts''"

definition strip_item :: "impl_item \<Rightarrow> impl_item" where
  "strip_item item =
     (case item of
        Item_Fn f \<Rightarrow> Item_Fn (f\<lparr>im_attrs := filter (\<lambda>a. \<not> is_marker a) (im_attrs f)\<rparr>)
      | Item_Other \<Rightarrow> Item_Other)"

definition strip_method_markers :: "ItemImpl \<Rightarrow> ItemImpl" where
  "strip_method_markers input = input\<lparr>ii_items := map strip_item (ii_items input)\<rparr>"

section \<open>Lemmas on the parsers\<close>

text \<open>Writing arguments back, with a trailing comma.\<close>

definition attr_tokens :: "(string \<times> token) list \<Rightarrow> token list" where
  "attr_tokens kvs = concat (map (\<lambda>(k, v). [T_Ident k, T_Eq, v, T_Comma]) kvs)"

definition str_tokens :: "string list \<Rightarrow> token list" where
  "str_tokens xs = concat (map (\<lambda>s. [T_Str s, T_Comma]) xs)"

lemma attr_loop_tokens [simp]:
  "attr_loop step s (attr_tokens kvs) = foldR (\<lambda>s (k, v). step k (Some v) s) kvs s"
proof (induction kvs arbitrary: s)
  case Nil
  then show ?case by (simp add: attr_tokens_def)
next
  case (Cons kv kvs)
  obtain k v where "kv = (k, v)" by fastforce
  with Cons show ?case by (cases "step k (Some v) s") (simp_all add: attr_tokens_def)
qed

lemma attr_loop_agree:
  assumes "\<And>k v s r. step k v s = Inr r \<longleftrightarrow> step' k v s = Inr r"
  shows "attr_loop step s ts = Inr r \<longleftrightarrow> attr_loop step' s ts = Inr r"
  using assms
proof (induction step s ts rule: attr_loop.induct)
  case (3 step s k v rest)
  then show ?case by (auto simp: bindR_eq_Inr)
qed simp_all

lemma upcasts_steps_agree: "upcasts_marker_step k v s = Inr r \<longleftrightarrow> upcasts_step k v s = Inr r"
  by (cases "expect_ident v") (auto simp: upcasts_marker_step_def upcasts_step_def)

text \<open>The standalone macro accepts what the collection of an upcaster's methods accepts.\<close>

lemma upcasts_parsers_agree:
  "parse_upcasts_marker_args ts = Inr p \<longleftrightarrow> parse_upcasts_args ts = Inr p"
  by (simp add: parse_upcasts_marker_args_def parse_upcasts_args_def bindR_eq_Inr
      attr_loop_agree [OF upcasts_steps_agree])

lemma upcasts_macro_accepts:
  "upcasts_macro ts item = Inr item' \<longleftrightarrow> item' = item \<and> (\<exists>p. parse_upcasts_args ts = Inr p)"
  by (auto simp: upcasts_macro_def bindR_eq_Inr upcasts_parsers_agree)

lemma str_items_tokens [simp]: "str_items (str_tokens xs) = Inr xs"
  by (induction xs) (simp_all add: str_tokens_def)

lemma require_non_empty_str_Inr [simp]:
  "require_non_empty_str x field = Inr s \<longleftrightarrow> x = Some s \<and> s \<noteq> []"
  by (auto simp: require_non_empty_str_def split: option.splits)

lemma require_non_empty_str_list_Inr [simp]:
  "require_non_empty_str_list x field = Inr v \<longleftrightarrow> x = Some v \<and> v \<noteq> [] \<and> [] \<notin> set v"
  by (auto simp: require_non_empty_str_list_def list_ex_iff split: option.splits)

lemma required_ident_Inr [simp]: "required_ident x field = Inr s \<longleftrightarrow> x = Some s"
  by (simp add: required_ident_def)

lemma filter_notin_empty: "filter (\<lambda>t. t \<notin> set ts) ss = [] \<longleftrightarrow> set ss \<subseteq> set ts"
  by (auto simp: filter_empty_conv)

text \<open>The arguments a kind macro goes on with.\<close>

definition valid_aggregate :: "AggregateArgs \<Rightarrow> bool" where
  "valid_aggregate a \<longleftrightarrow> aa_domain a \<noteq> []"

definition valid_saga :: "SagaArgs \<Rightarrow> bool" where
  "valid_saga a \<longleftrightarrow> sa_name a \<noteq> [] \<and> sa_source a \<noteq> [] \<and> sa_target a \<noteq> []"

definition valid_pm :: "ProcessManagerArgs \<Rightarrow> bool" where
  "valid_pm a \<longleftrightarrow> pa_name a \<noteq> [] \<and> pa_pm_domain a \<noteq> []
     \<and> pa_sources a \<noteq> [] \<and> [] \<notin> set (pa_sources a)
     \<and> pa_targets a \<noteq> [] \<and> [] \<notin> set (pa_targets a)
     \<and> set (pa_sync_targets a) \<subseteq> set (pa_targets a)"

definition valid_projector :: "ProjectorArgs \<Rightarrow> bool" where
  "valid_projector a \<longleftrightarrow> ja_name a \<noteq> [] \<and> ja_domains a \<noteq> [] \<and> [] \<notin> set (ja_domains a)"

definition valid_upcaster :: "UpcasterArgs \<Rightarrow> bool" where
  "valid_upcaster a \<longleftrightarrow> ua_name a \<noteq> [] \<and> ua_domain a \<noteq> []"

lemma parse_aggregate_valid: "(\<exists>ts. parse_aggregate_args ts = Inr a) \<longleftrightarrow> valid_aggregate a"
proof
  assume "\<exists>ts. parse_aggregate_args ts = Inr a"
  then show "valid_aggregate a"
    by (auto simp: parse_aggregate_args_def bindR_eq_Inr valid_aggregate_def)
next
  assume v: "valid_aggregate a"
  show "\<exists>ts. parse_aggregate_args ts = Inr a"
    by (rule exI [of _ "attr_tokens [(''domain'', T_Str (aa_domain a)),
          (''state'', T_Ident (aa_state a)), (''supports_replay'', T_Bool (aa_supports_replay a))]"])
      (use v in \<open>simp add: parse_aggregate_args_def aggregate_step_def valid_aggregate_def
        require_non_empty_str_def required_ident_def\<close>)
qed

lemma parse_saga_valid: "(\<exists>ts. parse_saga_args ts = Inr a) \<longleftrightarrow> valid_saga a"
proof
  assume "\<exists>ts. parse_saga_args ts = Inr a"
  then show "valid_saga a"
    by (auto simp: parse_saga_args_def bindR_eq_Inr valid_saga_def)
next
  assume v: "valid_saga a"
  show "\<exists>ts. parse_saga_args ts = Inr a"
    by (rule exI [of _ "attr_tokens [(''name'', T_Str (sa_name a)), (''source'', T_Str (sa_source a)),
          (''target'', T_Str (sa_target a)), (''sync'', T_Bool (sa_sync a))]"])
      (use v in \<open>simp add: parse_saga_args_def saga_step_def valid_saga_def
        require_non_empty_str_def\<close>)
qed

lemma parse_pm_valid: "(\<exists>ts. parse_pm_args ts = Inr a) \<longleftrightarrow> valid_pm a"
proof
  assume "\<exists>ts. parse_pm_args ts = Inr a"
  then show "valid_pm a"
    by (auto simp: parse_pm_args_def bindR_eq_Inr valid_pm_def Let_def filter_notin_empty
        split: if_splits)
next
  assume v: "valid_pm a"
  show "\<exists>ts. parse_pm_args ts = Inr a"
    by (rule exI [of _ "attr_tokens [(''name'', T_Str (pa_name a)),
          (''pm_domain'', T_Str (pa_pm_domain a)), (''state'', T_Ident (pa_state a)),
          (''sources'', T_Bracket (str_tokens (pa_sources a))),
          (''targets'', T_Bracket (str_tokens (pa_targets a))),
          (''sync_targets'', T_Bracket (str_tokens (pa_sync_targets a)))]"])
      (use v in \<open>simp add: parse_pm_args_def pm_step_def valid_pm_def Let_def filter_notin_empty
        require_non_empty_str_def require_non_empty_str_list_def required_ident_def list_ex_iff\<close>)
qed

lemma parse_projector_valid: "(\<exists>ts. parse_projector_args ts = Inr a) \<longleftrightarrow> valid_projector a"
proof
  assume "\<exists>ts. parse_projector_args ts = Inr a"
  then show "valid_projector a"
    by (auto simp: parse_projector_args_def bindR_eq_Inr valid_projector_def)
next
  assume v: "valid_projector a"
  show "\<exists>ts. parse_projector_args ts = Inr a"
    by (rule exI [of _ "attr_tokens [(''name'', T_Str (ja_name a)),
          (''domains'', T_Bracket (str_tokens (ja_domains a)))]"])
      (use v in \<open>simp add: parse_projector_args_def projector_step_def valid_projector_def
        require_non_empty_str_def require_non_empty_str_list_def list_ex_iff\<close>)
qed

lemma parse_upcaster_valid: "(\<exists>ts. parse_upcaster_args ts = Inr a) \<longleftrightarrow> valid_upcaster a"
proof
  assume "\<exists>ts. parse_upcaster_args ts = Inr a"
  then show "valid_upcaster a"
    by (auto simp: parse_upcaster_args_def bindR_eq_Inr valid_upcaster_def)
next
  assume v: "valid_upcaster a"
  show "\<exists>ts. parse_upcaster_args ts = Inr a"
    by (rule exI [of _ "attr_tokens [(''name'', T_Str (ua_name a)), (''domain'', T_Str (ua_domain a))]"])
      (use v in \<open>simp add: parse_upcaster_args_def upcaster_step_def valid_upcaster_def
        require_non_empty_str_def\<close>)
qed

lemma parse_rejected_non_empty: "parse_rejected_args ts = Inr (d, c) \<Longrightarrow> d \<noteq> [] \<and> c \<noteq> []"
  by (auto simp: parse_rejected_args_def bindR_eq_Inr)

section \<open>Lemmas on the metadata\<close>

text \<open>The lists emitted into the configuration and those the dispatch arms are made of agree.\<close>

definition coherent :: "MethodMetadata \<Rightarrow> bool" where
  "coherent m \<longleftrightarrow>
     mm_handled m = map snd (mm_handled_with_methods m)
     \<and> mm_applies m = map snd (mm_applies_with_methods m)
     \<and> mm_handles_fact m = map snd (mm_handles_fact_with_methods m)
     \<and> mm_rejected m = map snd (mm_rejected_with_methods m)
     \<and> (\<forall>(d, c) \<in> set (mm_rejected m). d \<noteq> [] \<and> c \<noteq> [])"

lemma coherent_no_metadata: "coherent no_metadata"
  by (simp add: coherent_def no_metadata_def)

lemma get_rejected_non_empty: "get_rejected_args a = Inr (d, c) \<Longrightarrow> d \<noteq> [] \<and> c \<noteq> []"
  by (auto simp: get_rejected_args_def parse_rejected_non_empty split: attr_meta.splits)

lemma coherent_collect_attr: "coherent m \<Longrightarrow> coherent (collect_attr ident a m)"
  unfolding collect_attr_def coherent_def
  by (auto dest: get_rejected_non_empty split: sum.split prod.split)

lemma coherent_fold: "coherent m \<Longrightarrow> coherent (fold (collect_attr ident) as m)"
  by (induction as arbitrary: m) (simp_all add: coherent_collect_attr)

lemma coherent_collect: "coherent (collect_method_metadata input)"
proof -
  have "coherent m \<Longrightarrow> coherent (fold collect_item items m)" for items m
    by (induction items arbitrary: m)
      (auto simp: collect_item_def coherent_fold split: impl_item.splits)
  then show ?thesis by (simp add: collect_method_metadata_def coherent_no_metadata)
qed

lemma collect_attr_unmarked: "\<not> is_marker a \<Longrightarrow> collect_attr ident a m = m"
  by (auto simp: is_marker_def collect_attr_def)

lemma collect_filtered: "fold (collect_attr ident) (filter (\<lambda>a. \<not> is_marker a) as) m = m"
  by (induction as arbitrary: m) (auto simp: collect_attr_unmarked)

lemma collect_stripped: "collect_method_metadata (strip_method_markers input) = no_metadata"
proof -
  have "fold collect_item (map strip_item items) m = m" for items m
    by (induction items arbitrary: m)
      (auto simp: collect_item_def strip_item_def collect_filtered split: impl_item.splits)
  then show ?thesis by (simp add: collect_method_metadata_def strip_method_markers_def)
qed

text \<open>A marker whose arguments do not parse leaves no trace.\<close>

definition malformed_marker :: "attribute \<Rightarrow> bool" where
  "malformed_marker a \<longleftrightarrow>
     (is_ident a ''handles'' \<or> is_ident a ''handles_fact'' \<or> is_ident a ''applies'')
       \<and> isl (get_attr_ident a)
     \<or> is_ident a ''rejected'' \<and> isl (get_rejected_args a)
     \<or> is_ident a ''upcasts'' \<and> isl (get_upcasts_args a)"

lemma collect_attr_malformed: "malformed_marker a \<Longrightarrow> collect_attr ident a m = m"
proof -
  assume "malformed_marker a"
  then consider (handles) e where "at_path a = [''handles'']" "get_attr_ident a = Inl e"
    | (fact) e where "at_path a = [''handles_fact'']" "get_attr_ident a = Inl e"
    | (applies) e where "at_path a = [''applies'']" "get_attr_ident a = Inl e"
    | (rejected) e where "at_path a = [''rejected'']" "get_rejected_args a = Inl e"
    | (upcasts) e where "at_path a = [''upcasts'']" "get_upcasts_args a = Inl e"
    unfolding malformed_marker_def is_ident_def isl_def by blast
  then show ?thesis
    by cases (simp_all add: collect_attr_def is_ident_def)
qed

lemma collect_with_malformed:
  assumes "malformed_marker a"
  shows "fold collect_item (pre @ Item_Fn (f\<lparr>im_attrs := as @ a # bs\<rparr>) # post) m =
     fold collect_item (pre @ Item_Fn (f\<lparr>im_attrs := as @ bs\<rparr>) # post) m"
  by (simp add: collect_item_def collect_attr_malformed [OF assms])

section \<open>Properties\<close>

text \<open>C33: the kind macros accept exactly the valid arguments. For each of the five kinds, the
  values the argument parser can return are those with non-empty names, domains and lists
  (without empty elements), and, for a process manager, sync targets among the targets: every
  such value is the parse of some input, and nothing else is.\<close>

theorem macro_args_exactly_valid:
  "((\<exists>ts. parse_aggregate_args ts = Inr a) \<longleftrightarrow> valid_aggregate a)
   \<and> ((\<exists>ts. parse_saga_args ts = Inr s) \<longleftrightarrow> valid_saga s)
   \<and> ((\<exists>ts. parse_pm_args ts = Inr p) \<longleftrightarrow> valid_pm p)
   \<and> ((\<exists>ts. parse_projector_args ts = Inr j) \<longleftrightarrow> valid_projector j)
   \<and> ((\<exists>ts. parse_upcaster_args ts = Inr u) \<longleftrightarrow> valid_upcaster u)"
  by (intro conjI parse_aggregate_valid parse_saga_valid parse_pm_valid parse_projector_valid
      parse_upcaster_valid)

text \<open>C34: markers and metadata. What the macros collect from an impl block is coherent (the
  types in the configuration are those of the dispatch arms, in order, and no rejection key has
  an empty part), stripping leaves an impl without any marker to collect, and a marker whose
  arguments do not parse is as if it were not there: the method silently handles nothing.\<close>

theorem metadata_coherent:
  "coherent (collect_method_metadata input)
   \<and> collect_method_metadata (strip_method_markers input) = no_metadata
   \<and> (malformed_marker a \<longrightarrow>
        collect_method_metadata \<lparr>ii_attrs = x,
          ii_items = pre @ Item_Fn (f\<lparr>im_attrs := as @ a # bs\<rparr>) # post\<rparr> =
        collect_method_metadata \<lparr>ii_attrs = x,
          ii_items = pre @ Item_Fn (f\<lparr>im_attrs := as @ bs\<rparr>) # post\<rparr>)"
  using coherent_collect collect_stripped collect_with_malformed
  by (simp add: collect_method_metadata_def)

text \<open>A qualified type name is such a marker.\<close>

theorem metadata_coherent_witness:
  "collect_method_metadata \<lparr>ii_attrs = [], ii_items = [Item_Fn \<lparr>im_ident = ''register'',
     im_attrs = [\<lparr>at_path = [''handles''],
       at_meta = Meta_List [T_Ident ''pkg'', T_Other ''::'', T_Ident ''Register'']\<rparr>]\<rparr>]\<rparr>
   = no_metadata"
proof -
  let ?a = "\<lparr>at_path = [''handles''],
    at_meta = Meta_List [T_Ident ''pkg'', T_Other ''::'', T_Ident ''Register'']\<rparr>"
  have "malformed_marker ?a"
    by (simp add: malformed_marker_def is_ident_def get_attr_ident_def)
  then show ?thesis
    using metadata_coherent [where a = ?a and x = "[]" and pre = "[]" and as = "[]" and bs = "[]"
        and f = "\<lparr>im_ident = ''register'', im_attrs = []\<rparr>" and post = "[]"]
    by (simp add: collect_method_metadata_def collect_item_def)
qed

end
