(* ===== verification/Macro_Expand.thy ===== *)
theory Macro_Expand
  imports Macro_Args
begin

text \<open>
  \<^verbatim>\<open>angzarr-macros/src/lib.rs\<close>, what the kind macros generate: for each kind the \<open>config\<close> and
  the \<open>dispatch\<close> of the \<open>Handler\<close> they implement, as functions of the parsed arguments and the
  collected metadata.

  The types an impl names are generated protobuf messages: \<open>ty_codec\<close> gives the codec of a type
  by its identifier, over one type \<open>'m\<close> of messages; the state type \<open>'s\<close> has its codec and its
  \<open>Default\<close>. The bodies of the marked methods are user code, gathered in \<open>UserImpl\<close> by method
  name: the ones that take \<open>&self\<close> act on the world, the static ones (\<open>applies\<close>,
  \<open>state_factory\<close>, \<open>upcasts\<close>) are functions.
\<close>

section \<open>User types and methods\<close>

record ('s, 'm) Types =
  ty_codec :: "string \<Rightarrow> 'm Codec"
  ty_state :: "'s Codec"
  ty_default :: 's

record ('s, 'm, 'w) UserImpl =
  ui_handle :: "string \<Rightarrow> 'm \<Rightarrow> 's \<Rightarrow> u32 \<Rightarrow> 'w \<Rightarrow> (CommandRejectedError + EventBook) \<times> 'w"
  ui_reject :: "string \<Rightarrow> Notification \<Rightarrow> 's \<Rightarrow> 'w \<Rightarrow>
                  (CommandRejectedError + BusinessResponse) \<times> 'w"
  ui_fact :: "string \<Rightarrow> 'm \<Rightarrow> 's \<Rightarrow> 'w \<Rightarrow> (CommandRejectedError + EventBook) \<times> 'w"
  ui_saga :: "string \<Rightarrow> 'm \<Rightarrow> 'w \<Rightarrow> (CommandRejectedError + SagaResponse) \<times> 'w"
  ui_pm :: "string \<Rightarrow> 'm \<Rightarrow> 's \<Rightarrow> 'w \<Rightarrow> (CommandRejectedError + PMHandleResponse) \<times> 'w"
  ui_project :: "string \<Rightarrow> 'm \<Rightarrow> 'w \<Rightarrow> (CommandRejectedError + unit) \<times> 'w"
  ui_apply :: "string \<Rightarrow> 's \<Rightarrow> 'm \<Rightarrow> 's"
  ui_factory :: "string \<Rightarrow> 's"
  ui_upcast :: "string \<Rightarrow> 'm \<Rightarrow> 'm"

section \<open>Shared pieces of the generated code\<close>

definition wrong_request :: "string \<Rightarrow> ClientError" where
  "wrong_request expected =
     inv_arg HANDLER_WRONG_REQUEST_KIND [(keys K_EXPECTED_KIND, expected)]"

definition decode_arm :: "'m Codec \<Rightarrow> Any_msg \<Rightarrow> ClientError + 'm" where
  "decode_arm c any =
     map_err (\<lambda>e. inv_arg ANY_DECODE_FAILED
                [(keys K_TYPE_URL, any_type_url any), (keys K_CAUSE, e)])
       (cd_decode c (any_value any))"

text \<open>\<open>self.method(..).map_err(ClientError::Rejected)?\<close>, then \<open>wrap\<close>.\<close>

definition call_method ::
  "('a \<Rightarrow> 'b) \<Rightarrow> (CommandRejectedError + 'a) \<times> 'w \<Rightarrow> (ClientError + 'b) \<times> 'w" where
  "call_method wrap rw = (map_ok wrap (map_err CE_Rejected (fst rw)), snd rw)"

definition initial_state :: "('s, 'm) Types \<Rightarrow> ('s, 'm, 'w) UserImpl \<Rightarrow> MethodMetadata \<Rightarrow> 's"
where
  "initial_state T U meta =
     (case mm_state_factory meta of Some method \<Rightarrow> ui_factory U method | None \<Rightarrow> ty_default T)"

text \<open>The \<open>applies\<close> arms on one event, and the loop over the pages.\<close>

fun apply_arms ::
  "('s, 'm) Types \<Rightarrow> ('s, 'm, 'w) UserImpl \<Rightarrow> (string \<times> string) list \<Rightarrow> Any_msg \<Rightarrow> 's \<Rightarrow>
     ClientError + 's" where
  "apply_arms T U [] any state = Inr state"
| "apply_arms T U ((method, evt_ty) # arms) any state =
     (if any_type_url any = full_type_url (ty_codec T evt_ty)
      then map_ok (ui_apply U method state) (decode_arm (ty_codec T evt_ty) any)
      else apply_arms T U arms any state)"

fun rebuild_state ::
  "('s, 'm) Types \<Rightarrow> ('s, 'm, 'w) UserImpl \<Rightarrow> (string \<times> string) list \<Rightarrow> EventPage list \<Rightarrow> 's \<Rightarrow>
     ClientError + 's" where
  "rebuild_state T U arms [] state = Inr state"
| "rebuild_state T U arms (page # pages) state =
     (case event_any page of
        None \<Rightarrow> rebuild_state T U arms pages state
      | Some any \<Rightarrow>
          bindR (apply_arms T U arms any state) (rebuild_state T U arms pages))"

section \<open>Command handlers\<close>

definition aggregate_config ::
  "('s, 'm) Types \<Rightarrow> AggregateArgs \<Rightarrow> MethodMetadata \<Rightarrow> HandlerConfig" where
  "aggregate_config T args meta = Cfg_CommandHandler
     \<lparr>ch_domain = aa_domain args,
      ch_handled = map (\<lambda>ty. full_type_url (ty_codec T ty)) (mm_handled meta),
      ch_rejected = mm_rejected meta,
      ch_applies = map (\<lambda>ty. full_type_url (ty_codec T ty)) (mm_applies meta),
      ch_state_factory = mm_state_factory meta,
      ch_handles_fact = map (\<lambda>ty. full_type_url (ty_codec T ty)) (mm_handles_fact meta),
      ch_supports_replay = aa_supports_replay args\<rparr>"

definition events_response :: "EventBook \<Rightarrow> HandlerResponse" where
  "events_response b = Resp_CommandHandler \<lparr>br_result = Some (BR_Events b)\<rparr>"

fun command_arms ::
  "('s, 'm) Types \<Rightarrow> ('s, 'm, 'w) UserImpl \<Rightarrow> (string \<times> string) list \<Rightarrow> Any_msg \<Rightarrow> 's \<Rightarrow> u32 \<Rightarrow>
     'w \<Rightarrow> (ClientError + HandlerResponse) \<times> 'w" where
  "command_arms T U [] payload state seq w =
     (Inl (inv_arg NO_HANDLER_REGISTERED [(keys K_TYPE_URL, any_type_url payload)]), w)"
| "command_arms T U ((method, cmd_ty) # arms) payload state seq w =
     (if any_type_url payload = full_type_url (ty_codec T cmd_ty)
      then (case decode_arm (ty_codec T cmd_ty) payload of
              Inl e \<Rightarrow> (Inl e, w)
            | Inr cmd_val \<Rightarrow>
                call_method events_response (ui_handle U method cmd_val state seq w))
      else command_arms T U arms payload state seq w)"

fun rejection_arms ::
  "('s, 'm, 'w) UserImpl \<Rightarrow> (string \<times> string \<times> string) list \<Rightarrow> string \<times> string \<Rightarrow>
     Notification \<Rightarrow> 's \<Rightarrow> 'w \<Rightarrow> (ClientError + HandlerResponse) \<times> 'w" where
  "rejection_arms U [] key notification state w =
     (Inr (events_response default_EventBook), w)"
| "rejection_arms U ((method, rej_domain, rej_command) # arms) key notification state w =
     (if fst key = rej_domain \<and> snd key = rej_command
      then call_method Resp_CommandHandler (ui_reject U method notification state w)
      else rejection_arms U arms key notification state w)"

definition command_payload :: "ContextualCommand \<Rightarrow> ClientError + Any_msg" where
  "command_payload ctx =
     bindR (ok_or (inv_arg MISSING_COMMAND_BOOK []) (cc_command ctx)) (\<lambda>cmd_book.
     bindR (ok_or (inv_arg MISSING_COMMAND_PAGE []) (first_opt (cb_pages cmd_book))) (\<lambda>cmd_page.
     (case cp_payload cmd_page of
        Some (Cmd_Command c) \<Rightarrow> Inr c
      | _ \<Rightarrow> Inl (inv_arg MISSING_COMMAND_PAYLOAD []))))"

definition decode_rejection :: "Wire \<Rightarrow> Any_msg \<Rightarrow> ClientError + Notification \<times> string \<times> string"
where
  "decode_rejection W payload =
     bindR (map_err (\<lambda>e. inv_arg NOTIFICATION_DECODE_FAILED [(keys K_CAUSE, e)])
              (w_decode_notification W (any_value payload))) (\<lambda>notification.
     bindR (case nt_payload notification of
              Some p \<Rightarrow> map_err
                (\<lambda>e. inv_arg REJECTION_NOTIFICATION_DECODE_FAILED [(keys K_CAUSE, e)])
                (w_decode_rejection W (any_value p))
            | None \<Rightarrow> Inr default_RejectionNotification) (\<lambda>rejection.
     Inr (notification, rejection_key rejection)))"

definition dispatch_command ::
  "('s, 'm) Types \<Rightarrow> ('s, 'm, 'w) UserImpl \<Rightarrow> Wire \<Rightarrow> MethodMetadata \<Rightarrow> ContextualCommand \<Rightarrow> 'w \<Rightarrow>
     (ClientError + HandlerResponse) \<times> 'w" where
  "dispatch_command T U W meta ctx w =
     (case command_payload ctx of
        Inl e \<Rightarrow> (Inl e, w)
      | Inr payload \<Rightarrow>
          (let prior_events = unwrap_or default_EventBook (cc_events ctx);
               seq = eb_next_sequence prior_events
           in case rebuild_state T U (mm_applies_with_methods meta) (eb_pages prior_events)
                     (initial_state T U meta) of
                Inl e \<Rightarrow> (Inl e, w)
              | Inr state \<Rightarrow>
                  if any_type_url payload = notification_url W
                  then (case decode_rejection W payload of
                          Inl e \<Rightarrow> (Inl e, w)
                        | Inr (notification, key) \<Rightarrow>
                            rejection_arms U (mm_rejected_with_methods meta) key notification
                              state w)
                  else command_arms T U (mm_handled_with_methods meta) payload state seq w))"

text \<open>Facts: the first matching arm appends its events; an unmatched fact is skipped.\<close>

fun fact_arms ::
  "('s, 'm) Types \<Rightarrow> ('s, 'm, 'w) UserImpl \<Rightarrow> (string \<times> string) list \<Rightarrow> Any_msg \<Rightarrow> 's \<Rightarrow>
     EventBook \<Rightarrow> 'w \<Rightarrow> (ClientError + EventBook) \<times> 'w" where
  "fact_arms T U [] payload state merged w = (Inr merged, w)"
| "fact_arms T U ((method, evt_ty) # arms) payload state merged w =
     (if any_type_url payload = full_type_url (ty_codec T evt_ty)
      then (case decode_arm (ty_codec T evt_ty) payload of
              Inl e \<Rightarrow> (Inl e, w)
            | Inr evt_val \<Rightarrow>
                call_method (\<lambda>events. merged\<lparr>eb_pages := eb_pages merged @ eb_pages events\<rparr>)
                  (ui_fact U method evt_val state w))
      else fact_arms T U arms payload state merged w)"

fun fact_pages ::
  "('s, 'm) Types \<Rightarrow> ('s, 'm, 'w) UserImpl \<Rightarrow> (string \<times> string) list \<Rightarrow> EventPage list \<Rightarrow> 's \<Rightarrow>
     EventBook \<Rightarrow> 'w \<Rightarrow> (ClientError + EventBook) \<times> 'w" where
  "fact_pages T U arms [] state merged w = (Inr merged, w)"
| "fact_pages T U arms (page # pages) state merged w =
     (case event_any page of
        None \<Rightarrow> fact_pages T U arms pages state merged w
      | Some payload \<Rightarrow>
          (case fact_arms T U arms payload state merged w of
             (Inl e, w1) \<Rightarrow> (Inl e, w1)
           | (Inr merged1, w1) \<Rightarrow> fact_pages T U arms pages state merged1 w1))"

definition dispatch_fact_request ::
  "('s, 'm) Types \<Rightarrow> ('s, 'm, 'w) UserImpl \<Rightarrow> MethodMetadata \<Rightarrow> FactRequest \<Rightarrow> 'w \<Rightarrow>
     (ClientError + HandlerResponse) \<times> 'w" where
  "dispatch_fact_request T U meta req w =
     (let prior = unwrap_or default_EventBook (fr_prior_events req);
          facts = unwrap_or default_EventBook (fr_facts req)
      in case rebuild_state T U (mm_applies_with_methods meta) (eb_pages prior)
                (initial_state T U meta) of
           Inl e \<Rightarrow> (Inl e, w)
         | Inr state \<Rightarrow>
             (case fact_pages T U (mm_handles_fact_with_methods meta) (eb_pages facts) state
                     default_EventBook w of
                (Inl e, w1) \<Rightarrow> (Inl e, w1)
              | (Inr merged, w1) \<Rightarrow> (Inr (Resp_HandleFact merged), w1)))"

text \<open>Replay. Encoding into a growing vector does not fail.\<close>

definition replay_base ::
  "('s, 'm) Types \<Rightarrow> ('s, 'm, 'w) UserImpl \<Rightarrow> MethodMetadata \<Rightarrow> ReplayRequest \<Rightarrow> ClientError + 's"
where
  "replay_base T U meta req =
     (case Option.bind (rq_base_snapshot req) sn_state of
        Some any \<Rightarrow>
          if any_value any \<noteq> []
          then map_err (\<lambda>e. inv_arg ANY_DECODE_FAILED [(keys K_CAUSE, e)])
                 (cd_decode (ty_state T) (any_value any))
          else Inr (initial_state T U meta)
      | None \<Rightarrow> Inr (initial_state T U meta))"

definition dispatch_replay_request ::
  "('s, 'm) Types \<Rightarrow> ('s, 'm, 'w) UserImpl \<Rightarrow> AggregateArgs \<Rightarrow> MethodMetadata \<Rightarrow> ReplayRequest \<Rightarrow>
     ClientError + HandlerResponse" where
  "dispatch_replay_request T U args meta req =
     (if aa_supports_replay args
      then bindR (replay_base T U meta req) (\<lambda>base.
           bindR (rebuild_state T U (mm_applies_with_methods meta) (rq_events req) base) (\<lambda>state.
           Inr (Resp_Replay \<lparr>rp_state = Some
             \<lparr>any_type_url = full_type_url (ty_state T),
              any_value = cd_encode (ty_state T) state\<rparr>\<rparr>)))
      else Inl (wrong_request ''CommandHandler (supports_replay=false)''))"

definition aggregate_handler ::
  "('s, 'm) Types \<Rightarrow> ('s, 'm, 'w) UserImpl \<Rightarrow> Wire \<Rightarrow> AggregateArgs \<Rightarrow> MethodMetadata \<Rightarrow> 'w Handler"
where
  "aggregate_handler T U W args meta =
     \<lparr>h_config = aggregate_config T args meta,
      h_dispatch = (\<lambda>request w.
        case request of
          Req_CommandHandler c \<Rightarrow> dispatch_command T U W meta c w
        | Req_HandleFact req \<Rightarrow> dispatch_fact_request T U meta req w
        | Req_Replay req \<Rightarrow> (dispatch_replay_request T U args meta req, w)
        | _ \<Rightarrow> (Inl (wrong_request ''CommandHandler''), w))\<rparr>"

section \<open>Sagas\<close>

definition saga_config :: "('s, 'm) Types \<Rightarrow> SagaArgs \<Rightarrow> MethodMetadata \<Rightarrow> HandlerConfig" where
  "saga_config T args meta = Cfg_Saga
     \<lparr>sc_name = sa_name args, sc_source = sa_source args, sc_target = sa_target args,
      sc_sync = sa_sync args,
      sc_handled = map (\<lambda>ty. full_type_url (ty_codec T ty)) (mm_handled meta),
      sc_rejected = mm_rejected meta\<rparr>"

fun saga_arms ::
  "('s, 'm) Types \<Rightarrow> ('s, 'm, 'w) UserImpl \<Rightarrow> (string \<times> string) list \<Rightarrow> Any_msg \<Rightarrow> 'w \<Rightarrow>
     (ClientError + HandlerResponse) \<times> 'w" where
  "saga_arms T U [] any w = (Inr (Resp_Saga default_SagaResponse), w)"
| "saga_arms T U ((method, evt_ty) # arms) any w =
     (if any_type_url any = full_type_url (ty_codec T evt_ty)
      then (case decode_arm (ty_codec T evt_ty) any of
              Inl e \<Rightarrow> (Inl e, w)
            | Inr evt \<Rightarrow> call_method Resp_Saga (ui_saga U method evt w))
      else saga_arms T U arms any w)"

definition saga_event :: "SagaHandleRequest \<Rightarrow> ClientError + Any_msg" where
  "saga_event req =
     bindR (ok_or (inv_arg MISSING_SAGA_SOURCE []) (sg_source req)) (\<lambda>source_book.
     bindR (ok_or (inv_arg EMPTY_SAGA_SOURCE []) (last_opt (eb_pages source_book))) (\<lambda>event_page.
     ok_or (inv_arg MISSING_SAGA_EVENT_PAYLOAD []) (event_any event_page)))"

definition saga_handler ::
  "('s, 'm) Types \<Rightarrow> ('s, 'm, 'w) UserImpl \<Rightarrow> SagaArgs \<Rightarrow> MethodMetadata \<Rightarrow> 'w Handler" where
  "saga_handler T U args meta =
     \<lparr>h_config = saga_config T args meta,
      h_dispatch = (\<lambda>request w.
        case request of
          Req_Saga r \<Rightarrow>
            (case saga_event r of
               Inl e \<Rightarrow> (Inl e, w)
             | Inr any \<Rightarrow> saga_arms T U (mm_handled_with_methods meta) any w)
        | _ \<Rightarrow> (Inl (wrong_request ''Saga''), w))\<rparr>"

section \<open>Process managers\<close>

definition pm_config :: "('s, 'm) Types \<Rightarrow> ProcessManagerArgs \<Rightarrow> MethodMetadata \<Rightarrow> HandlerConfig"
where
  "pm_config T args meta = Cfg_ProcessManager
     \<lparr>pc_name = pa_name args, pc_pm_domain = pa_pm_domain args, pc_sources = pa_sources args,
      pc_targets = pa_targets args, pc_sync_targets = pa_sync_targets args,
      pc_handled = map (\<lambda>ty. full_type_url (ty_codec T ty)) (mm_handled meta),
      pc_rejected = mm_rejected meta,
      pc_applies = map (\<lambda>ty. full_type_url (ty_codec T ty)) (mm_applies meta),
      pc_state_factory = mm_state_factory meta\<rparr>"

fun pm_arms ::
  "('s, 'm) Types \<Rightarrow> ('s, 'm, 'w) UserImpl \<Rightarrow> (string \<times> string) list \<Rightarrow> Any_msg \<Rightarrow> 's \<Rightarrow> 'w \<Rightarrow>
     (ClientError + HandlerResponse) \<times> 'w" where
  "pm_arms T U [] any state w = (Inr (Resp_ProcessManager default_PMHandleResponse), w)"
| "pm_arms T U ((method, evt_ty) # arms) any state w =
     (if any_type_url any = full_type_url (ty_codec T evt_ty)
      then (case decode_arm (ty_codec T evt_ty) any of
              Inl e \<Rightarrow> (Inl e, w)
            | Inr evt \<Rightarrow> call_method Resp_ProcessManager (ui_pm U method evt state w))
      else pm_arms T U arms any state w)"

definition pm_event :: "PMHandleRequest \<Rightarrow> ClientError + Any_msg" where
  "pm_event req =
     bindR (ok_or (inv_arg MISSING_PM_TRIGGER []) (pm_trigger req)) (\<lambda>trigger.
     bindR (ok_or (inv_arg EMPTY_PM_TRIGGER []) (last_opt (eb_pages trigger))) (\<lambda>event_page.
     ok_or (inv_arg MISSING_PM_EVENT_PAYLOAD []) (event_any event_page)))"

definition pm_handler ::
  "('s, 'm) Types \<Rightarrow> ('s, 'm, 'w) UserImpl \<Rightarrow> ProcessManagerArgs \<Rightarrow> MethodMetadata \<Rightarrow> 'w Handler"
where
  "pm_handler T U args meta =
     \<lparr>h_config = pm_config T args meta,
      h_dispatch = (\<lambda>request w.
        case request of
          Req_ProcessManager r \<Rightarrow>
            (let process_state = unwrap_or default_EventBook (pm_process_state r)
             in case rebuild_state T U (mm_applies_with_methods meta) (eb_pages process_state)
                       (initial_state T U meta) of
                  Inl e \<Rightarrow> (Inl e, w)
                | Inr state \<Rightarrow>
                    (case pm_event r of
                       Inl e \<Rightarrow> (Inl e, w)
                     | Inr any \<Rightarrow> pm_arms T U (mm_handled_with_methods meta) any state w))
        | _ \<Rightarrow> (Inl (wrong_request ''ProcessManager''), w))\<rparr>"

section \<open>Projectors\<close>

definition projector_config ::
  "('s, 'm) Types \<Rightarrow> ProjectorArgs \<Rightarrow> MethodMetadata \<Rightarrow> HandlerConfig" where
  "projector_config T args meta = Cfg_Projector
     \<lparr>jc_name = ja_name args, jc_domains = ja_domains args,
      jc_handled = map (\<lambda>ty. full_type_url (ty_codec T ty)) (mm_handled meta)\<rparr>"

fun projector_arms ::
  "('s, 'm) Types \<Rightarrow> ('s, 'm, 'w) UserImpl \<Rightarrow> (string \<times> string) list \<Rightarrow> Any_msg \<Rightarrow> 'w \<Rightarrow>
     (ClientError + unit) \<times> 'w" where
  "projector_arms T U [] any w = (Inr (), w)"
| "projector_arms T U ((method, evt_ty) # arms) any w =
     (if any_type_url any = full_type_url (ty_codec T evt_ty)
      then (case decode_arm (ty_codec T evt_ty) any of
              Inl e \<Rightarrow> (Inl e, w)
            | Inr evt \<Rightarrow> call_method (\<lambda>u. u) (ui_project U method evt w))
      else projector_arms T U arms any w)"

fun projector_pages ::
  "('s, 'm) Types \<Rightarrow> ('s, 'm, 'w) UserImpl \<Rightarrow> (string \<times> string) list \<Rightarrow> EventPage list \<Rightarrow> 'w \<Rightarrow>
     (ClientError + unit) \<times> 'w" where
  "projector_pages T U arms [] w = (Inr (), w)"
| "projector_pages T U arms (page # pages) w =
     (case event_any page of
        None \<Rightarrow> projector_pages T U arms pages w
      | Some any \<Rightarrow>
          (case projector_arms T U arms any w of
             (Inl e, w1) \<Rightarrow> (Inl e, w1)
           | (Inr _, w1) \<Rightarrow> projector_pages T U arms pages w1))"

definition projector_handler ::
  "('s, 'm) Types \<Rightarrow> ('s, 'm, 'w) UserImpl \<Rightarrow> ProjectorArgs \<Rightarrow> MethodMetadata \<Rightarrow> 'w Handler" where
  "projector_handler T U args meta =
     \<lparr>h_config = projector_config T args meta,
      h_dispatch = (\<lambda>request w.
        case request of
          Req_Projector book \<Rightarrow>
            (case projector_pages T U (mm_handled_with_methods meta) (eb_pages book) w of
               (Inl e, w1) \<Rightarrow> (Inl e, w1)
             | (Inr _, w1) \<Rightarrow>
                 (Inr (Resp_Projector
                   \<lparr>pj_cover = eb_cover book, pj_projector = ja_name args,
                    pj_sequence = eb_next_sequence book, pj_projection = None\<rparr>), w1))
        | _ \<Rightarrow> (Inl (wrong_request ''Projector''), w))\<rparr>"

section \<open>Upcasters\<close>

definition upcaster_config ::
  "('s, 'm) Types \<Rightarrow> UpcasterArgs \<Rightarrow> MethodMetadata \<Rightarrow> HandlerConfig" where
  "upcaster_config T args meta = Cfg_Upcaster
     \<lparr>uc_name = ua_name args, uc_domain = ua_domain args,
      uc_upcasts = map (\<lambda>(_, f, t). (full_type_url (ty_codec T f), full_type_url (ty_codec T t)))
        (mm_upcasts_with_methods meta)\<rparr>"

fun upcast_arms ::
  "('s, 'm) Types \<Rightarrow> ('s, 'm, 'w) UserImpl \<Rightarrow> (string \<times> string \<times> string) list \<Rightarrow> EventPage \<Rightarrow>
     Any_msg \<Rightarrow> ClientError + EventPage" where
  "upcast_arms T U [] page any = Inr page"
| "upcast_arms T U ((method, from_ty, to_ty) # arms) page any =
     (if any_type_url any = full_type_url (ty_codec T from_ty)
      then bindR (decode_arm (ty_codec T from_ty) any) (\<lambda>old.
             Inr \<lparr>ep_header = ep_header page, ep_created_at = ep_created_at page,
                  ep_payload = Some (Ev_Event
                    \<lparr>any_type_url = full_type_url (ty_codec T to_ty),
                     any_value = cd_encode (ty_codec T to_ty) (ui_upcast U method old)\<rparr>),
                  ep_cascade_id = ep_cascade_id page, ep_no_commit = ep_no_commit page\<rparr>)
      else upcast_arms T U arms page any)"

fun upcast_events ::
  "('s, 'm) Types \<Rightarrow> ('s, 'm, 'w) UserImpl \<Rightarrow> (string \<times> string \<times> string) list \<Rightarrow>
     EventPage list \<Rightarrow> EventPage list \<Rightarrow> ClientError + EventPage list" where
  "upcast_events T U arms [] out_pages = Inr out_pages"
| "upcast_events T U arms (page # pages) out_pages =
     (case event_any page of
        None \<Rightarrow> upcast_events T U arms pages (out_pages @ [page])
      | Some any \<Rightarrow>
          bindR (upcast_arms T U arms page any)
            (\<lambda>page1. upcast_events T U arms pages (out_pages @ [page1])))"

definition upcaster_handler ::
  "('s, 'm) Types \<Rightarrow> ('s, 'm, 'w) UserImpl \<Rightarrow> UpcasterArgs \<Rightarrow> MethodMetadata \<Rightarrow> 'w Handler" where
  "upcaster_handler T U args meta =
     \<lparr>h_config = upcaster_config T args meta,
      h_dispatch = (\<lambda>request w.
        case request of
          Req_Upcaster r \<Rightarrow>
            (map_ok (\<lambda>out. Resp_Upcaster \<lparr>ur_events = out\<rparr>)
               (upcast_events T U (mm_upcasts_with_methods meta) (uq_events r) []), w)
        | _ \<Rightarrow> (Inl (wrong_request ''Upcaster''), w))\<rparr>"

section \<open>The macro entry points\<close>

definition unstacked :: "string \<Rightarrow> ItemImpl \<Rightarrow> 'h \<Rightarrow> macro_error + 'h" where
  "unstacked kind input h =
     (case reject_stacked_kinds kind (ii_attrs input) of
        Some msg \<Rightarrow> Inl (ME_Message msg) | None \<Rightarrow> Inr h)"

definition command_handler_macro ::
  "('s, 'm) Types \<Rightarrow> ('s, 'm, 'w) UserImpl \<Rightarrow> Wire \<Rightarrow> token list \<Rightarrow> ItemImpl \<Rightarrow>
     macro_error + 'w Handler" where
  "command_handler_macro T U W attr input =
     bindR (parse_aggregate_args attr) (\<lambda>args.
       unstacked ''command_handler'' input
         (aggregate_handler T U W args (collect_method_metadata input)))"

definition saga_macro ::
  "('s, 'm) Types \<Rightarrow> ('s, 'm, 'w) UserImpl \<Rightarrow> token list \<Rightarrow> ItemImpl \<Rightarrow> macro_error + 'w Handler"
where
  "saga_macro T U attr input =
     bindR (parse_saga_args attr) (\<lambda>args.
       unstacked ''saga'' input (saga_handler T U args (collect_method_metadata input)))"

definition process_manager_macro ::
  "('s, 'm) Types \<Rightarrow> ('s, 'm, 'w) UserImpl \<Rightarrow> token list \<Rightarrow> ItemImpl \<Rightarrow> macro_error + 'w Handler"
where
  "process_manager_macro T U attr input =
     bindR (parse_pm_args attr) (\<lambda>args.
       unstacked ''process_manager'' input (pm_handler T U args (collect_method_metadata input)))"

definition projector_macro ::
  "('s, 'm) Types \<Rightarrow> ('s, 'm, 'w) UserImpl \<Rightarrow> token list \<Rightarrow> ItemImpl \<Rightarrow> macro_error + 'w Handler"
where
  "projector_macro T U attr input =
     bindR (parse_projector_args attr) (\<lambda>args.
       unstacked ''projector'' input (projector_handler T U args (collect_method_metadata input)))"

definition upcaster_macro ::
  "('s, 'm) Types \<Rightarrow> ('s, 'm, 'w) UserImpl \<Rightarrow> token list \<Rightarrow> ItemImpl \<Rightarrow> macro_error + 'w Handler"
where
  "upcaster_macro T U attr input =
     bindR (parse_upcaster_args attr) (\<lambda>args.
       unstacked ''upcaster'' input (upcaster_handler T U args (collect_method_metadata input)))"

end
