(* ===== verification/Macro_Laws.thy ===== *)
theory Macro_Laws
  imports Macro_Expand
begin

text \<open>
  What the generated handlers promise the routers, and what they do with state.

  \<open>generated_handler\<close> is the contract between a runtime router and a handler: another kind of
  request is refused before anything runs, an accepted one is answered in its own kind, and the
  handler never reports a wrong response kind itself. It is interpreted on the code generated by
  each of the five kind macros, and the routers' \<open>HANDLER_WRONG_RESPONSE_KIND\<close> branches are dead
  for such handlers.
\<close>

section \<open>The contract\<close>

locale generated_handler =
  fixes h :: "'w Handler"
    and expected :: string
    and accepts :: "HandlerRequest \<Rightarrow> bool"
    and proper :: "HandlerRequest \<Rightarrow> HandlerResponse \<Rightarrow> bool"
  assumes refuses: "\<not> accepts req \<Longrightarrow> h_dispatch h req w = (Inl (wrong_request expected), w)"
    and in_kind: "accepts req \<Longrightarrow> fst (h_dispatch h req w) = Inr resp \<Longrightarrow> proper req resp"
    and no_kind_error: "fst (h_dispatch h req w) \<noteq> Inl (wrong_kind k)"
begin

text \<open>An extraction that only refuses improper responses adds no kind error.\<close>

lemma extraction_never_refuses:
  assumes "accepts req" and "\<And>resp. proper req resp \<Longrightarrow> \<exists>x. take_response (Inr resp) = Inr x"
    and "\<And>e. take_response (Inl e) = Inl e"
  shows "take_response (fst (h_dispatch h req w)) \<noteq> Inl (wrong_kind k)"
  using assms(2,3) in_kind [OF assms(1), of w] no_kind_error [of req w]
  by (cases "fst (h_dispatch h req w)") fastforce+

end

section \<open>Lemmas on the generated pieces\<close>

lemma wrong_kind_other [simp]:
  "inv_arg e kvs = wrong_kind k \<longleftrightarrow> e = HANDLER_WRONG_RESPONSE_KIND
     \<and> collect_map kvs = [keys K_EXPECTED_KIND \<mapsto> k]"
  "wrong_kind k = inv_arg e kvs \<longleftrightarrow> e = HANDLER_WRONG_RESPONSE_KIND
     \<and> collect_map kvs = [keys K_EXPECTED_KIND \<mapsto> k]"
  "CE_Rejected r \<noteq> wrong_kind k" "wrong_request x \<noteq> wrong_kind k"
  by (auto simp: wrong_kind_def wrong_request_def)

lemma call_method_sel [simp]:
  "fst (call_method g rw) = map_ok g (map_err CE_Rejected (fst rw))"
  "snd (call_method g rw) = snd rw"
  by (simp_all add: call_method_def)

lemma call_method_not_kind: "fst (call_method g rw) \<noteq> Inl (wrong_kind k)"
  by (cases "fst rw") simp_all

lemma call_method_Inr: "fst (call_method g rw) = Inr x \<Longrightarrow> \<exists>a. fst rw = Inr a \<and> x = g a"
  by (cases "fst rw") auto

lemma decode_arm_not_kind: "decode_arm c any \<noteq> Inl (wrong_kind k)"
  by (cases "cd_decode c (any_value any)") (simp_all add: decode_arm_def)

text \<open>Every list of arms tries the first one whose type URL is the payload's.\<close>

definition first_arm :: "('s, 'm) Types \<Rightarrow> (string \<times> string) list \<Rightarrow> string \<Rightarrow>
    (string \<times> string) option" where
  "first_arm T arms url = find (\<lambda>(method, ty). url = full_type_url (ty_codec T ty)) arms"

lemma first_arm_simps [simp]:
  "first_arm T [] url = None"
  "first_arm T ((m, ty) # arms) url =
     (if url = full_type_url (ty_codec T ty) then Some (m, ty) else first_arm T arms url)"
  by (simp_all add: first_arm_def)

lemma first_arm_None:
  "first_arm T arms url = None \<longleftrightarrow>
     url \<notin> set (map (\<lambda>ty. full_type_url (ty_codec T ty)) (map snd arms))"
proof (induction arms)
  case (Cons arm arms)
  then show ?case by (cases arm) (simp del: full_type_url_inject)
qed simp

lemma apply_arms_first:
  "apply_arms T U arms any s =
     (case first_arm T arms (any_type_url any) of
        None \<Rightarrow> Inr s
      | Some (m, ty) \<Rightarrow> map_ok (ui_apply U m s) (decode_arm (ty_codec T ty) any))"
  by (induction T U arms any s rule: apply_arms.induct) simp_all

lemma command_arms_first:
  "command_arms T U arms any s seq w =
     (case first_arm T arms (any_type_url any) of
        None \<Rightarrow> (Inl (inv_arg NO_HANDLER_REGISTERED [(keys K_TYPE_URL, any_type_url any)]), w)
      | Some (m, ty) \<Rightarrow>
          (case decode_arm (ty_codec T ty) any of
             Inl e \<Rightarrow> (Inl e, w)
           | Inr v \<Rightarrow> call_method events_response (ui_handle U m v s seq w)))"
  by (induction T U arms any s seq w rule: command_arms.induct) simp_all

lemma saga_arms_first:
  "saga_arms T U arms any w =
     (case first_arm T arms (any_type_url any) of
        None \<Rightarrow> (Inr (Resp_Saga default_SagaResponse), w)
      | Some (m, ty) \<Rightarrow>
          (case decode_arm (ty_codec T ty) any of
             Inl e \<Rightarrow> (Inl e, w) | Inr v \<Rightarrow> call_method Resp_Saga (ui_saga U m v w)))"
  by (induction T U arms any w rule: saga_arms.induct) simp_all

lemma pm_arms_first:
  "pm_arms T U arms any s w =
     (case first_arm T arms (any_type_url any) of
        None \<Rightarrow> (Inr (Resp_ProcessManager default_PMHandleResponse), w)
      | Some (m, ty) \<Rightarrow>
          (case decode_arm (ty_codec T ty) any of
             Inl e \<Rightarrow> (Inl e, w)
           | Inr v \<Rightarrow> call_method Resp_ProcessManager (ui_pm U m v s w)))"
  by (induction T U arms any s w rule: pm_arms.induct) simp_all

lemma fact_arms_first:
  "fact_arms T U arms any s merged w =
     (case first_arm T arms (any_type_url any) of
        None \<Rightarrow> (Inr merged, w)
      | Some (m, ty) \<Rightarrow>
          (case decode_arm (ty_codec T ty) any of
             Inl e \<Rightarrow> (Inl e, w)
           | Inr v \<Rightarrow> call_method (\<lambda>ev. merged\<lparr>eb_pages := eb_pages merged @ eb_pages ev\<rparr>)
               (ui_fact U m v s w)))"
  by (induction T U arms any s merged w rule: fact_arms.induct) simp_all

lemma projector_arms_first:
  "projector_arms T U arms any w =
     (case first_arm T arms (any_type_url any) of
        None \<Rightarrow> (Inr (), w)
      | Some (m, ty) \<Rightarrow>
          (case decode_arm (ty_codec T ty) any of
             Inl e \<Rightarrow> (Inl e, w) | Inr v \<Rightarrow> call_method (\<lambda>u. u) (ui_project U m v w)))"
  by (induction T U arms any w rule: projector_arms.induct) simp_all

lemma rejection_arms_first:
  "rejection_arms U arms key n s w =
     (case find (\<lambda>(m, d, c). key = (d, c)) arms of
        None \<Rightarrow> (Inr (events_response default_EventBook), w)
      | Some (m, d, c) \<Rightarrow> call_method Resp_CommandHandler (ui_reject U m n s w))"
  by (induction U arms key n s w rule: rejection_arms.induct) (auto simp: prod_eq_iff)

lemmas arm_kinds = decode_arm_not_kind call_method_not_kind

lemma apply_arms_not_kind: "apply_arms T U arms any s \<noteq> Inl (wrong_kind k)"
  by (auto simp: apply_arms_first map_ok_def decode_arm_not_kind split: option.split sum.split)

lemma rebuild_state_not_kind: "rebuild_state T U arms ps s \<noteq> Inl (wrong_kind k)"
  by (induction T U arms ps s rule: rebuild_state.induct)
    (auto simp: bindR_eq_Inl apply_arms_not_kind split: option.splits)

lemma saga_arms_kind:
  "fst (saga_arms T U arms any w) \<noteq> Inl (wrong_kind k)"
  "fst (saga_arms T U arms any w) = Inr resp \<Longrightarrow> \<exists>sr. resp = Resp_Saga sr"
  by (auto simp: saga_arms_first arm_kinds simp del: call_method_sel
      dest!: call_method_Inr split: option.splits sum.splits)

lemma pm_arms_kind:
  "fst (pm_arms T U arms any s w) \<noteq> Inl (wrong_kind k)"
  "fst (pm_arms T U arms any s w) = Inr resp \<Longrightarrow> \<exists>pr. resp = Resp_ProcessManager pr"
  by (auto simp: pm_arms_first arm_kinds simp del: call_method_sel
      dest!: call_method_Inr split: option.splits sum.splits)

lemma command_arms_kind:
  "fst (command_arms T U arms any s seq w) \<noteq> Inl (wrong_kind k)"
  "fst (command_arms T U arms any s seq w) = Inr resp \<Longrightarrow> \<exists>br. resp = Resp_CommandHandler br"
  by (auto simp: command_arms_first arm_kinds events_response_def simp del: call_method_sel
      dest!: call_method_Inr split: option.splits sum.splits)

lemma rejection_arms_kind:
  "fst (rejection_arms U arms key n s w) \<noteq> Inl (wrong_kind k)"
  "fst (rejection_arms U arms key n s w) = Inr resp \<Longrightarrow> \<exists>br. resp = Resp_CommandHandler br"
  by (auto simp: rejection_arms_first arm_kinds events_response_def simp del: call_method_sel
      dest!: call_method_Inr split: option.splits)

lemma fact_arms_kind: "fst (fact_arms T U arms any s m w) \<noteq> Inl (wrong_kind k)"
  by (auto simp: fact_arms_first arm_kinds simp del: call_method_sel
      split: option.splits sum.splits)

lemma projector_arms_kind: "fst (projector_arms T U arms any w) \<noteq> Inl (wrong_kind k)"
  by (auto simp: projector_arms_first arm_kinds simp del: call_method_sel
      split: option.splits sum.splits)

lemma fact_pages_kind: "fst (fact_pages T U arms ps s m w) \<noteq> Inl (wrong_kind k)"
proof (induction T U arms ps s m w rule: fact_pages.induct)
  case (2 T U arms page pages s m w)
  then show ?case
    using fact_arms_kind [of T U arms _ s m w k]
    by (auto split: option.splits prod.splits sum.splits) (metis fst_conv)
qed simp

lemma projector_pages_kind: "fst (projector_pages T U arms ps w) \<noteq> Inl (wrong_kind k)"
proof (induction T U arms ps w rule: projector_pages.induct)
  case (2 T U arms page pages w)
  then show ?case
    using projector_arms_kind [of T U arms _ w k]
    by (auto split: option.splits prod.splits sum.splits) (metis fst_conv)
qed simp

lemma upcast_arms_kind: "upcast_arms T U arms p any \<noteq> Inl (wrong_kind k)"
  by (induction T U arms p any rule: upcast_arms.induct)
    (auto simp: bindR_eq_Inl decode_arm_not_kind)

lemma upcast_events_kind: "upcast_events T U arms ps out \<noteq> Inl (wrong_kind k)"
  by (induction T U arms ps out rule: upcast_events.induct)
    (auto simp: bindR_eq_Inl upcast_arms_kind split: option.splits)

section \<open>The generated handlers meet the contract\<close>

definition is_saga_request :: "HandlerRequest \<Rightarrow> bool" where
  "is_saga_request req \<longleftrightarrow> (case req of Req_Saga _ \<Rightarrow> True | _ \<Rightarrow> False)"

definition is_pm_request :: "HandlerRequest \<Rightarrow> bool" where
  "is_pm_request req \<longleftrightarrow> (case req of Req_ProcessManager _ \<Rightarrow> True | _ \<Rightarrow> False)"

definition is_projector_request :: "HandlerRequest \<Rightarrow> bool" where
  "is_projector_request req \<longleftrightarrow> (case req of Req_Projector _ \<Rightarrow> True | _ \<Rightarrow> False)"

definition is_upcaster_request :: "HandlerRequest \<Rightarrow> bool" where
  "is_upcaster_request req \<longleftrightarrow> (case req of Req_Upcaster _ \<Rightarrow> True | _ \<Rightarrow> False)"

definition is_aggregate_request :: "HandlerRequest \<Rightarrow> bool" where
  "is_aggregate_request req \<longleftrightarrow>
     (case req of Req_CommandHandler _ \<Rightarrow> True | Req_HandleFact _ \<Rightarrow> True | Req_Replay _ \<Rightarrow> True
      | _ \<Rightarrow> False)"

text \<open>The response kind that belongs to a request.\<close>

definition same_kind :: "HandlerRequest \<Rightarrow> HandlerResponse \<Rightarrow> bool" where
  "same_kind req resp \<longleftrightarrow>
     (case req of
        Req_CommandHandler _ \<Rightarrow> (\<exists>x. resp = Resp_CommandHandler x)
      | Req_HandleFact _ \<Rightarrow> (\<exists>x. resp = Resp_HandleFact x)
      | Req_Replay _ \<Rightarrow> (\<exists>x. resp = Resp_Replay x)
      | Req_Saga _ \<Rightarrow> (\<exists>x. resp = Resp_Saga x)
      | Req_ProcessManager _ \<Rightarrow> (\<exists>x. resp = Resp_ProcessManager x)
      | Req_Projector _ \<Rightarrow> (\<exists>x. resp = Resp_Projector x)
      | Req_Upcaster _ \<Rightarrow> (\<exists>x. resp = Resp_Upcaster x))"

lemma saga_event_not_kind: "saga_event r \<noteq> Inl (wrong_kind k)"
  by (auto simp: saga_event_def bindR_eq_Inl)

lemma pm_event_not_kind: "pm_event r \<noteq> Inl (wrong_kind k)"
  by (auto simp: pm_event_def bindR_eq_Inl)

lemma command_payload_not_kind: "command_payload c \<noteq> Inl (wrong_kind k)"
  by (auto simp: command_payload_def bindR_eq_Inl split: option.split CommandPayload.split)

lemma decode_rejection_not_kind: "decode_rejection W p \<noteq> Inl (wrong_kind k)"
  by (auto simp: decode_rejection_def bindR_eq_Inl map_err_def split: option.split sum.split)

lemma replay_base_not_kind: "replay_base T U meta req \<noteq> Inl (wrong_kind k)"
  by (auto simp: replay_base_def map_err_def split: option.split sum.split)

lemma dispatch_command_kind:
  "fst (dispatch_command T U W meta c w) \<noteq> Inl (wrong_kind k)"
  "fst (dispatch_command T U W meta c w) = Inr resp \<Longrightarrow> \<exists>br. resp = Resp_CommandHandler br"
  using command_payload_not_kind [of c k] decode_rejection_not_kind [of W _ k]
  by (auto simp: dispatch_command_def Let_def rebuild_state_not_kind command_arms_kind
      rejection_arms_kind split: sum.splits if_splits)

lemma dispatch_fact_kind:
  "fst (dispatch_fact_request T U meta req w) \<noteq> Inl (wrong_kind k)"
  "fst (dispatch_fact_request T U meta req w) = Inr resp \<Longrightarrow> \<exists>b. resp = Resp_HandleFact b"
proof -
  have p: "fact_pages T U arms ps s m w \<noteq> (Inl (wrong_kind k), w1)" for arms ps s m w1
    using fact_pages_kind [of T U arms ps s m w k] by (metis fst_conv)
  show "fst (dispatch_fact_request T U meta req w) \<noteq> Inl (wrong_kind k)"
    using p by (auto simp: dispatch_fact_request_def Let_def rebuild_state_not_kind
        split: sum.splits prod.splits)
  show "fst (dispatch_fact_request T U meta req w) = Inr resp \<Longrightarrow> \<exists>b. resp = Resp_HandleFact b"
    by (auto simp: dispatch_fact_request_def Let_def split: sum.splits prod.splits)
qed

lemma dispatch_replay_kind:
  "dispatch_replay_request T U args meta req \<noteq> Inl (wrong_kind k)"
  "dispatch_replay_request T U args meta req = Inr resp \<Longrightarrow> \<exists>b. resp = Resp_Replay b"
  by (auto simp: dispatch_replay_request_def bindR_eq_Inl bindR_eq_Inr replay_base_not_kind
      rebuild_state_not_kind split: if_splits)

interpretation gen_aggregate: generated_handler "aggregate_handler T U W args meta"
  "''CommandHandler''" is_aggregate_request same_kind
  for T U W args meta
  by unfold_locales
    (auto simp: aggregate_handler_def is_aggregate_request_def same_kind_def dispatch_command_kind
      dispatch_fact_kind dispatch_replay_kind split: HandlerRequest.splits)

interpretation gen_saga: generated_handler "saga_handler T U args meta" "''Saga''"
  is_saga_request same_kind
  for T U args meta
  by unfold_locales
    (auto simp: saga_handler_def is_saga_request_def same_kind_def saga_arms_kind
      saga_event_not_kind split: HandlerRequest.splits sum.splits)

interpretation gen_pm: generated_handler "pm_handler T U args meta" "''ProcessManager''"
  is_pm_request same_kind
  for T U args meta
  by unfold_locales
    (auto simp: pm_handler_def is_pm_request_def same_kind_def pm_arms_kind Let_def
      pm_event_not_kind rebuild_state_not_kind split: HandlerRequest.splits sum.splits)

interpretation gen_projector: generated_handler "projector_handler T U args meta" "''Projector''"
  is_projector_request same_kind
  for T U args meta
proof -
  have p: "projector_pages T U arms ps w \<noteq> (Inl (wrong_kind k), w1)" for arms ps w w1 k
    using projector_pages_kind [of T U arms ps w k] by (metis fst_conv)
  then show "generated_handler (projector_handler T U args meta) ''Projector''
      is_projector_request same_kind"
    by unfold_locales
      (auto simp: projector_handler_def is_projector_request_def same_kind_def
        split: HandlerRequest.splits sum.splits prod.splits)
qed

interpretation gen_upcaster: generated_handler "upcaster_handler T U args meta" "''Upcaster''"
  is_upcaster_request same_kind
  for T U args meta
  by unfold_locales
    (auto simp: upcaster_handler_def is_upcaster_request_def same_kind_def map_ok_def
      upcast_events_kind split: HandlerRequest.splits sum.splits)

section \<open>Generated handlers under the routers\<close>

definition all_produce :: "('w Handler \<Rightarrow> bool) \<Rightarrow> 'w RuntimeRouter \<Rightarrow> bool" where
  "all_produce p r \<longleftrightarrow> (\<forall>f \<in> set (rt_factories r). \<forall>w. p (fst (fac_produce f w)))"

definition answers_in_kind ::
  "(ClientError + HandlerResponse \<Rightarrow> ClientError + 'a) \<Rightarrow> (HandlerRequest \<Rightarrow> bool) \<Rightarrow> 'w Handler \<Rightarrow>
     bool" where
  "answers_in_kind read accepts h \<longleftrightarrow>
     (\<forall>req w k. accepts req \<longrightarrow> read (fst (h_dispatch h req w)) \<noteq> Inl (wrong_kind k))"

lemma gen_saga_in_kind: "answers_in_kind as_saga is_saga_request (saga_handler T U args meta)"
  unfolding answers_in_kind_def
  by (intro allI impI gen_saga.extraction_never_refuses)
    (auto simp: same_kind_def is_saga_request_def as_saga_def split: HandlerRequest.splits)

lemma gen_pm_in_kind: "answers_in_kind as_pm is_pm_request (pm_handler T U args meta)"
  unfolding answers_in_kind_def
  by (intro allI impI gen_pm.extraction_never_refuses)
    (auto simp: same_kind_def is_pm_request_def as_pm_def split: HandlerRequest.splits)

definition is_command_request :: "HandlerRequest \<Rightarrow> bool" where
  "is_command_request req \<longleftrightarrow> (case req of Req_CommandHandler _ \<Rightarrow> True | _ \<Rightarrow> False)"

lemma gen_command_in_kind:
  "answers_in_kind as_command is_command_request (aggregate_handler T U W args meta)"
  unfolding answers_in_kind_def
proof (intro allI impI)
  fix req w k
  assume r: "is_command_request req"
  then have "is_aggregate_request req"
    by (auto simp: is_command_request_def is_aggregate_request_def split: HandlerRequest.splits)
  then show "as_command (fst (h_dispatch (aggregate_handler T U W args meta) req w))
      \<noteq> Inl (wrong_kind k)"
    by (rule gen_aggregate.extraction_never_refuses)
      (use r in \<open>auto simp: same_kind_def is_command_request_def split: HandlerRequest.splits\<close>)
qed

lemma map_ok_Inl [simp]: "map_ok f m = Inl e \<longleftrightarrow> m = Inl e"
  by (cases m) simp_all

lemma saga_read_error:
  "m = Inl e \<or> (\<exists>resp. m = Inr resp \<and> map_ok g (as_saga (Inr resp)) = Inl e) \<Longrightarrow> as_saga m = Inl e"
  by (auto simp: as_saga_def)

lemma pm_read_error:
  "m = Inl e \<or> (\<exists>resp. m = Inr resp \<and> map_ok g (as_pm (Inr resp)) = Inl e) \<Longrightarrow> as_pm m = Inl e"
  by (auto simp: as_pm_def)

lemma saga_dispatch_in_kind:
  assumes "all_produce (answers_in_kind as_saga is_saga_request) r"
  shows "fst (saga_dispatch r request w) \<noteq> Inl (wrong_kind k)"
proof
  assume err: "fst (saga_dispatch r request w) = Inl (wrong_kind k)"
  show False
  proof (cases "extract_saga_event_type_url request")
    case (Inl e)
    with err have "e = wrong_kind k" by (simp add: saga_dispatch_def)
    with Inl show False
      unfolding extract_saga_event_type_url_def
      by (elim bindR_InlE) (auto split: option.split_asm EventPayload.split_asm if_split_asm)
  next
    case (Inr url)
    with err have "fst (saga_loop (book_domain (sg_source request)) url request (rt_factories r)
        default_SagaResponse w) = Inl (wrong_kind k)"
      by (simp add: saga_dispatch_def)
    from sagas.loop_error [OF this] obtain f w1 w2 where f: "f \<in> set (rt_factories r)"
      and e: "as_saga (fst (h_dispatch (fst (fac_produce f w1)) (Req_Saga request) w2))
          = Inl (wrong_kind k)"
      using saga_read_error by blast
    with assms show False
      by (auto simp: all_produce_def answers_in_kind_def is_saga_request_def)
  qed
qed

lemma pm_dispatch_in_kind:
  assumes "all_produce (answers_in_kind as_pm is_pm_request) r"
  shows "fst (pm_dispatch r request w) \<noteq> Inl (wrong_kind k)"
proof
  assume err: "fst (pm_dispatch r request w) = Inl (wrong_kind k)"
  show False
  proof (cases "extract_pm_event_type_url request")
    case (Inl e)
    with err have "e = wrong_kind k" by (simp add: pm_dispatch_def)
    with Inl show False
      unfolding extract_pm_event_type_url_def
      by (elim bindR_InlE) (auto split: option.split_asm EventPayload.split_asm if_split_asm)
  next
    case (Inr url)
    with err have "fst (pm_loop (book_domain (pm_trigger request)) url request (rt_factories r)
        default_PMHandleResponse w) = Inl (wrong_kind k)"
      by (simp add: pm_dispatch_def)
    from pms.loop_error [OF this] obtain f w1 w2 where f: "f \<in> set (rt_factories r)"
      and e: "as_pm (fst (h_dispatch (fst (fac_produce f w1)) (Req_ProcessManager request) w2))
          = Inl (wrong_kind k)"
      using pm_read_error by blast
    with assms show False
      by (auto simp: all_produce_def answers_in_kind_def is_pm_request_def)
  qed
qed

lemma command_loop_result:
  "command_loop d url cmd fs w = (Some res, w') \<Longrightarrow>
     \<exists>f \<in> set fs. \<exists>w1 w2. res =
       as_command (fst (h_dispatch (fst (fac_produce f w1)) (Req_CommandHandler cmd) w2))"
proof (induction fs arbitrary: w)
  case (Cons f fs)
  obtain h w1 where p: "fac_produce f w = (h, w1)" by fastforce
  show ?case
  proof (cases "claims d url (h_config h)")
    case True
    from Cons.prems command_loop_hit [OF p True] p show ?thesis
      by (intro bexI [of _ f] exI [of _ w] exI [of _ w1]) auto
  next
    case False
    from Cons.prems command_loop_skip [OF p False] Cons.IH [of w1] show ?thesis by auto
  qed
qed simp

lemma rejection_read_error:
  "m = Inl e \<or> (\<exists>resp. m = Inr resp \<and> absorb_rejection acc resp = Inl e) \<Longrightarrow> as_command m = Inl e"
  by (elim disjE exE conjE)
    (auto simp: as_command_def absorb_rejection_def split: HandlerResponse.split_asm)

lemma extract_rejection_not_kind: "extract_rejection_key W cmd \<noteq> Inl (wrong_kind k)"
  by (auto simp: extract_rejection_key_def bindR_eq_Inl map_err_def
      split: option.split CommandPayload.split sum.split)

lemma ch_dispatch_in_kind:
  assumes "all_produce (answers_in_kind as_command is_command_request) r"
  shows "fst (ch_dispatch W r cmd w) \<noteq> Inl (wrong_kind k)"
proof
  assume err: "fst (ch_dispatch W r cmd w) = Inl (wrong_kind k)"
  have no: "as_command (fst (h_dispatch (fst (fac_produce f w1)) (Req_CommandHandler c) w2))
      \<noteq> Inl (wrong_kind k)" if "f \<in> set (rt_factories r)" for f w1 w2 c
    using that assms by (auto simp: all_produce_def answers_in_kind_def is_command_request_def)
  consider e where "extract_command_type_url cmd = Inl e"
    | "extract_command_type_url cmd = Inr (notification_url W)"
    | url where "extract_command_type_url cmd = Inr url" "url \<noteq> notification_url W"
    by (cases "extract_command_type_url cmd") auto
  then show False
  proof cases
    case 1
    with err have "e = wrong_kind k" by (simp add: ch_dispatch_def)
    with 1 show False
      unfolding extract_command_type_url_def
      by (elim bindR_InlE) (auto split: option.split_asm CommandPayload.split_asm)
  next
    case 2
    with err have rej: "fst (dispatch_rejection W r cmd w) = Inl (wrong_kind k)"
      by (simp add: ch_dispatch_def)
    then obtain key where key: "extract_rejection_key W cmd = Inr key"
      using extract_rejection_not_kind [of W cmd k]
      by (cases "extract_rejection_key W cmd") (auto simp: dispatch_rejection_def)
    with rej obtain acc where "fst (rejection_loop key cmd (rt_factories r) acc w) = Inl (wrong_kind k)"
      by (auto simp: dispatch_rejection_def Let_def split: prod.splits sum.splits) (metis fst_conv)
    from rejections.loop_error [OF this] show False
      using rejection_read_error no by blast
  next
    case 3
    with err show False
      using command_loop_result [of "unwrap_or [] (command_domain cmd)" url cmd "rt_factories r" w] no
      by (auto simp: ch_dispatch_def no_handler_def split: prod.splits option.splits) blast
  qed
qed

section \<open>State\<close>


text \<open>The state a book stands for: a fold of the appliers over its events.\<close>

definition state_of ::
  "('s, 'm) Types \<Rightarrow> ('s, 'm, 'w) UserImpl \<Rightarrow> MethodMetadata \<Rightarrow> EventBook option \<Rightarrow> ClientError + 's"
where
  "state_of T U meta b =
     foldR (\<lambda>s any. apply_arms T U (mm_applies_with_methods meta) any s)
       (List.map_filter event_any (eb_pages (unwrap_or default_EventBook b)))
       (initial_state T U meta)"

lemma rebuild_state_fold:
  "rebuild_state T U arms ps s =
     foldR (\<lambda>s any. apply_arms T U arms any s) (List.map_filter event_any ps) s"
proof (induction ps arbitrary: s)
  case Nil
  then show ?case by (simp add: List.map_filter_def)
next
  case (Cons p ps)
  show ?case
  proof (cases "event_any p")
    case (Some any)
    with Cons show ?thesis
      by (cases "apply_arms T U arms any s") (simp_all add: List.map_filter_def)
  qed (use Cons in \<open>simp add: List.map_filter_def\<close>)
qed

lemma rebuild_state_of:
  "rebuild_state T U (mm_applies_with_methods meta)
     (eb_pages (unwrap_or default_EventBook b)) (initial_state T U meta) = state_of T U meta b"
  by (simp add: state_of_def rebuild_state_fold)

lemma command_payload_url:
  "extract_command_type_url cmd = map_ok any_type_url (command_payload cmd)"
proof (cases "command_payload cmd")
  case (Inl e)
  then show ?thesis
    unfolding command_payload_def extract_command_type_url_def
    by (elim bindR_InlE) auto
next
  case (Inr p)
  then show ?thesis
    by (auto simp: command_payload_def extract_command_type_url_def bindR_eq_Inr)
qed



text \<open>Upcasting keeps a page's metadata.\<close>

lemma upcast_arms_meta:
  "upcast_arms T U arms p any = Inr q \<Longrightarrow>
     ep_header q = ep_header p \<and> ep_created_at q = ep_created_at p
     \<and> ep_cascade_id q = ep_cascade_id p \<and> ep_no_commit q = ep_no_commit p"
  by (induction T U arms p any rule: upcast_arms.induct) (auto simp: bindR_eq_Inr split: if_splits)

text \<open>The method that takes a page's event, if any.\<close>

definition upcast_arm_for ::
  "('s, 'm) Types \<Rightarrow> MethodMetadata \<Rightarrow> EventPage \<Rightarrow> (string \<times> string \<times> string) option" where
  "upcast_arm_for T meta p = Option.bind (event_any p) (\<lambda>any.
     find (\<lambda>(m, f, t). any_type_url any = full_type_url (ty_codec T f))
       (mm_upcasts_with_methods meta))"

lemma upcast_arms_unmatched:
  "find (\<lambda>(m, f, t). any_type_url any = full_type_url (ty_codec T f)) arms = None \<Longrightarrow>
     upcast_arms T U arms p any = Inr q \<Longrightarrow> q = p"
  by (induction T U arms p any rule: upcast_arms.induct) (auto split: if_splits)

lemma upcast_events_traverse:
  "upcast_events T U arms ps out =
     map_ok (\<lambda>qs. out @ qs) (traverseR (\<lambda>p. case event_any p of
        None \<Rightarrow> Inr p | Some any \<Rightarrow> upcast_arms T U arms p any) ps)"
proof (induction T U arms ps out rule: upcast_events.induct)
  case (2 T U arms page pages out)
  let ?f = "\<lambda>p. case event_any p of None \<Rightarrow> Inr p | Some any \<Rightarrow> upcast_arms T U arms p any"
  show ?case
  proof (cases "event_any page")
    case None
    with 2 show ?thesis by (cases "traverseR ?f pages") simp_all
  next
    case (Some any)
    with 2 show ?thesis
      by (cases "upcast_arms T U arms page any"; cases "traverseR ?f pages") simp_all
  qed
qed simp

text \<open>Of collected metadata, the handled types are those with an arm, and so the rejected keys.\<close>

lemma handled_arm:
  "first_arm T (mm_handled_with_methods (collect_method_metadata input)) url \<noteq> None \<longleftrightarrow>
     url \<in> set (map (\<lambda>ty. full_type_url (ty_codec T ty)) (mm_handled (collect_method_metadata input)))"
  unfolding first_arm_None using coherent_collect [of input] by (simp add: coherent_def)

lemma rejected_arm:
  "find (\<lambda>(m, d, c). key = (d, c)) (mm_rejected_with_methods (collect_method_metadata input)) \<noteq> None
     \<longleftrightarrow> key \<in> set (mm_rejected (collect_method_metadata input))"
  using coherent_collect [of input] by (force simp: coherent_def find_None_iff)

section \<open>An example type for the witnesses\<close>

definition example_types :: "(bytes, bytes) Types" where
  "example_types = \<lparr>ty_codec = bytes_codec, ty_state = bytes_codec ''State'', ty_default = []\<rparr>"

text \<open>Its state is the concatenation of its events; a command emits the state as an event.\<close>

definition example_impl :: "(bytes, bytes, unit) UserImpl" where
  "example_impl =
     \<lparr>ui_handle = (\<lambda>m v s n w. (Inr (event_book None [event_page n (raw_any ''Bought'' (s @ v))]), w)),
      ui_reject = (\<lambda>m n s w. (Inr \<lparr>br_result = None\<rparr>, w)),
      ui_fact = (\<lambda>m v s w. (Inr (event_book None []), w)),
      ui_saga = (\<lambda>m v w. (Inr default_SagaResponse, w)),
      ui_pm = (\<lambda>m v s w. (Inr default_PMHandleResponse, w)),
      ui_project = (\<lambda>m v w. (Inr (), w)),
      ui_apply = (\<lambda>m s v. s @ v),
      ui_factory = (\<lambda>m. []),
      ui_upcast = (\<lambda>m v. v)\<rparr>"

definition example_meta :: MethodMetadata where
  "example_meta = no_metadata
     \<lparr>mm_handled := [''Buy''], mm_handled_with_methods := [(''buy'', ''Buy'')],
      mm_applies := [''Bought''], mm_applies_with_methods := [(''bought'', ''Bought'')],
      mm_upcasts_with_methods := [(''up'', ''V1'', ''V2'')]\<rparr>"

definition example_args :: AggregateArgs where
  "example_args = \<lparr>aa_domain = ''order'', aa_state = ''State'', aa_supports_replay = True\<rparr>"

section \<open>Properties\<close>

text \<open>Generated handlers never mix kinds up. In a router all of whose handlers are generated
  by the matching kind macro (whatever the user's types, methods and arguments), dispatch of
  commands, rejections, saga and process-manager triggers never ends in
  \<open>HANDLER_WRONG_RESPONSE_KIND\<close>.\<close>

theorem generated_routers_stay_in_kind:
  "(all_produce (\<lambda>h. \<exists>(T :: ('s, 'm) Types) U args meta. h = saga_handler T U args meta) r \<longrightarrow>
      fst (saga_dispatch r sreq w) \<noteq> Inl (wrong_kind k))
   \<and> (all_produce (\<lambda>h. \<exists>(T :: ('s, 'm) Types) U args meta. h = pm_handler T U args meta) r \<longrightarrow>
      fst (pm_dispatch r preq w) \<noteq> Inl (wrong_kind k))
   \<and> (all_produce (\<lambda>h. \<exists>(T :: ('s, 'm) Types) U W args meta. h = aggregate_handler T U W args meta) r
      \<longrightarrow> fst (ch_dispatch V r cmd w) \<noteq> Inl (wrong_kind k))"
proof (intro conjI impI)
  assume "all_produce (\<lambda>h. \<exists>(T :: ('s, 'm) Types) U args meta. h = saga_handler T U args meta) r"
  then have "all_produce (answers_in_kind as_saga is_saga_request) r"
    unfolding all_produce_def by (metis gen_saga_in_kind)
  then show "fst (saga_dispatch r sreq w) \<noteq> Inl (wrong_kind k)" by (rule saga_dispatch_in_kind)
next
  assume "all_produce (\<lambda>h. \<exists>(T :: ('s, 'm) Types) U args meta. h = pm_handler T U args meta) r"
  then have "all_produce (answers_in_kind as_pm is_pm_request) r"
    unfolding all_produce_def by (metis gen_pm_in_kind)
  then show "fst (pm_dispatch r preq w) \<noteq> Inl (wrong_kind k)" by (rule pm_dispatch_in_kind)
next
  assume "all_produce (\<lambda>h. \<exists>(T :: ('s, 'm) Types) U W args meta. h = aggregate_handler T U W args meta) r"
  then have "all_produce (answers_in_kind as_command is_command_request) r"
    unfolding all_produce_def by (metis gen_command_in_kind)
  then show "fst (ch_dispatch V r cmd w) \<noteq> Inl (wrong_kind k)" by (rule ch_dispatch_in_kind)
qed

theorem generated_routers_stay_in_kind_witness:
  "fst (saga_dispatch \<lparr>rt_factories = [const_factory (saga_handler example_types example_impl
       \<lparr>sa_name = ''s'', sa_source = ''order'', sa_target = ''stock'', sa_sync = True\<rparr> example_meta)],
      rt_cached_name = None\<rparr>
     \<lparr>sg_source = Some paid_book, sg_destination_sequences = Map.empty\<rparr> ()) \<noteq> Inl (wrong_kind ''Saga'')"
proof -
  let ?r = "\<lparr>rt_factories = [const_factory (saga_handler example_types example_impl
       \<lparr>sa_name = ''s'', sa_source = ''order'', sa_target = ''stock'', sa_sync = True\<rparr> example_meta)],
      rt_cached_name = None\<rparr>"
  have "all_produce (\<lambda>h. \<exists>(T :: (bytes, bytes) Types) U args meta. h = saga_handler T U args meta) ?r"
    by (auto simp: all_produce_def)
  then show ?thesis
    using generated_routers_stay_in_kind [where 's = bytes and 'm = bytes and r = ?r] by blast
qed

text \<open>The generated dispatch of a command whose type has an arm.\<close>

lemma generated_command:
  assumes "command_payload ctx = Inr payload" and "any_type_url payload \<noteq> notification_url W"
    and "first_arm T (mm_handled_with_methods meta) (any_type_url payload) = Some (method, ty)"
    and "cd_decode (ty_codec T ty) (any_value payload) = Inr cmd"
    and "cc_events ctx = Some book"
  shows "h_dispatch (aggregate_handler T U W args meta) (Req_CommandHandler ctx) w =
      (case state_of T U meta (Some book) of
         Inl e \<Rightarrow> (Inl e, w)
       | Inr state \<Rightarrow> call_method events_response
           (ui_handle U method cmd state (eb_next_sequence book) w))"
  using assms rebuild_state_of [of T U meta "Some book"]
  by (cases "state_of T U meta (Some book)")
    (simp_all add: aggregate_handler_def dispatch_command_def command_arms_first decode_arm_def)

text \<open>A generated command handler. On a command whose type URL is that of a handled type, the
  state is rebuilt by applying the appliers to the events of the prior book in order, from the
  initial state; the first method for the type gets the decoded command, that state and the
  book's next sequence, and its events are the answer, its rejection the error. The book's
  snapshot plays no part: a book with another snapshot is dispatched the same.\<close>

theorem command_runs_on_rebuilt_state:
  assumes "command_payload ctx = Inr payload" and "any_type_url payload \<noteq> notification_url W"
    and "first_arm T (mm_handled_with_methods meta) (any_type_url payload) = Some (method, ty)"
    and "cd_decode (ty_codec T ty) (any_value payload) = Inr cmd"
    and "cc_events ctx = Some book"
  shows "h_dispatch (aggregate_handler T U W args meta) (Req_CommandHandler ctx) w =
      (case state_of T U meta (Some book) of
         Inl e \<Rightarrow> (Inl e, w)
       | Inr state \<Rightarrow> call_method events_response
           (ui_handle U method cmd state (eb_next_sequence book) w))
    \<and> h_dispatch (aggregate_handler T U W args meta)
        (Req_CommandHandler (ctx\<lparr>cc_events := Some (book\<lparr>eb_snapshot := snap\<rparr>)\<rparr>)) w =
      h_dispatch (aggregate_handler T U W args meta) (Req_CommandHandler ctx) w"
proof -
  let ?ctx = "ctx\<lparr>cc_events := Some (book\<lparr>eb_snapshot := snap\<rparr>)\<rparr>"
  have "command_payload ?ctx = Inr payload"
    using assms(1) by (simp add: command_payload_def)
  moreover have "state_of T U meta (Some (book\<lparr>eb_snapshot := snap\<rparr>)) = state_of T U meta (Some book)"
    by (simp add: state_of_def)
  ultimately show ?thesis
    using generated_command [OF assms, of U args w]
      generated_command [OF _ assms(2-4), of ?ctx _ U args w] by (simp cong: sum.case_cong)
qed

theorem command_runs_on_rebuilt_state_witness:
  "h_dispatch (aggregate_handler example_types example_impl example_wire example_args example_meta)
     (Req_CommandHandler \<lparr>cc_events = Some \<lparr>eb_cover = None,
         eb_pages = [event_page 0 (raw_any ''Bought'' [1]), event_page 1 (raw_any ''Bought'' [2])],
         eb_snapshot = None, eb_next_sequence = 2\<rparr>,
       cc_command = Some \<lparr>cb_cover = None, cb_pages = [command_page 2 (raw_any ''Buy'' [3])]\<rparr>\<rparr>) ()
   = (Inr (events_response (event_book None [event_page 2 (raw_any ''Bought'' [1, 2, 3])])), ())"
proof -
  let ?b = "\<lparr>eb_cover = None,
      eb_pages = [event_page 0 (raw_any ''Bought'' [1]), event_page 1 (raw_any ''Bought'' [2])],
      eb_snapshot = None, eb_next_sequence = 2\<rparr> :: EventBook"
  let ?c = "\<lparr>cc_events = Some ?b,
      cc_command = Some \<lparr>cb_cover = None, cb_pages = [command_page 2 (raw_any ''Buy'' [3])]\<rparr>\<rparr>"
  have payload: "command_payload ?c = Inr (raw_any ''Buy'' [3])"
    by (simp add: command_payload_def command_page_def)
  have notif: "any_type_url (raw_any ''Buy'' [3]) \<noteq> notification_url example_wire"
    by (simp add: raw_any_def notification_url_def example_wire_def)
  have arm: "first_arm example_types (mm_handled_with_methods example_meta)
      (any_type_url (raw_any ''Buy'' [3])) = Some (''buy'', ''Buy'')"
    by (simp add: example_meta_def example_types_def raw_any_def full_type_url_def bytes_codec_def)
  have dec: "cd_decode (ty_codec example_types ''Buy'') (any_value (raw_any ''Buy'' [3])) = Inr [3]"
    by (simp add: example_types_def bytes_codec_def raw_any_def)
  have ev: "cc_events ?c = Some ?b" by simp
  have state: "state_of example_types example_impl example_meta (Some ?b) = Inr [1, 2]"
    by (simp add: state_of_def List.map_filter_def event_page_def event_any_def example_meta_def
        no_metadata_def example_types_def example_impl_def raw_any_def full_type_url_def
        bytes_codec_def decode_arm_def initial_state_def)
  show ?thesis
    using command_runs_on_rebuilt_state [OF payload notif arm dec ev, where U = example_impl
        and args = example_args and w = "()"] state
    by (simp add: call_method_def example_impl_def)
qed

text \<open>The outcome is that of the method of an arm for the type URL, or the error of its decoding.\<close>

definition runs_arm ::
  "('s, 'm) Types \<Rightarrow> (string \<times> string) list \<Rightarrow> Any_msg \<Rightarrow>
     (string \<Rightarrow> 'm \<Rightarrow> 'w \<Rightarrow> (ClientError + 'r) \<times> 'w) \<Rightarrow> 'w \<Rightarrow> (ClientError + 'r) \<times> 'w \<Rightarrow> bool" where
  "runs_arm T arms any run w out \<longleftrightarrow>
     (\<exists>m ty. (m, ty) \<in> set arms \<and> any_type_url any = full_type_url (ty_codec T ty)
        \<and> out = (case decode_arm (ty_codec T ty) any of Inl e \<Rightarrow> (Inl e, w) | Inr v \<Rightarrow> run m v w))"

lemma first_arm_Some:
  "first_arm T arms url = Some (m, ty) \<Longrightarrow> (m, ty) \<in> set arms \<and> url = full_type_url (ty_codec T ty)"
  by (induction arms) (auto simp del: full_type_url_inject split: if_splits)

lemma trigger_urlE:
  assumes "trigger_url b = Some url"
  obtains book page any where "b = Some book" "last_opt (eb_pages book) = Some page"
    "event_any page = Some any" "any_type_url any = url"
  using assms by (auto simp: trigger_url_def bind_eq_Some_conv opt_filter_def split: option.splits if_splits)

text \<open>Of an arm list coherent with the handled types, either way of the dispatch.\<close>

lemma arm_selection:
  assumes "out = (case first_arm T (mm_handled_with_methods meta) (any_type_url any) of
      None \<Rightarrow> other
    | Some (m, ty) \<Rightarrow>
        (case decode_arm (ty_codec T ty) any of Inl e \<Rightarrow> (Inl e, w) | Inr v \<Rightarrow> run m v w))"
    and "meta = collect_method_metadata input"
  shows "if any_type_url any \<in> set (map (\<lambda>ty. full_type_url (ty_codec T ty)) (mm_handled meta))
    then runs_arm T (mm_handled_with_methods meta) any run w out else out = other"
proof (cases "first_arm T (mm_handled_with_methods meta) (any_type_url any)")
  case None
  with handled_arm [of T input "any_type_url any"] assms(1) show ?thesis
    unfolding assms(2) [symmetric] by simp
next
  case (Some arm)
  obtain m ty where "arm = (m, ty)" by (cases arm)
  with Some handled_arm [of T input "any_type_url any"] first_arm_Some [of T _ "any_type_url any" m ty]
    assms(1) show ?thesis
    unfolding assms(2) [symmetric] by (auto simp: runs_arm_def simp del: full_type_url_inject)
qed

lemma map_ok_bindR: "map_ok f (bindR m g) = bindR m (\<lambda>a. map_ok f (g a))"
  by (cases m) simp_all

lemma rejection_key_of:
  assumes "command_payload cmd = Inr payload"
  shows "extract_rejection_key W cmd = map_ok snd (decode_rejection W payload)"
proof -
  from assms obtain book page where "cc_command cmd = Some book" "first_opt (cb_pages book) = Some page"
    "cp_payload page = Some (Cmd_Command payload)"
    by (cases "cc_command cmd"; cases "first_opt (cb_pages (the (cc_command cmd)))";
        cases "cp_payload (the (first_opt (cb_pages (the (cc_command cmd)))))")
      (auto simp: command_payload_def split: CommandPayload.split_asm)
  then show ?thesis
    by (simp add: extract_rejection_key_def decode_rejection_def map_ok_bindR)
qed

text \<open>What the routers extract is what the generated dispatch reads.\<close>

lemma saga_reads:
  assumes "extract_saga_event_type_url r = Inr url"
  obtains any where "saga_event r = Inr any" "any_type_url any = url"
    "h_dispatch (saga_handler T U args meta) (Req_Saga r) w =
       saga_arms T U (mm_handled_with_methods meta) any w"
  using assms by (auto simp: extract_saga_trigger saga_event_def saga_handler_def elim!: trigger_urlE)

lemma pm_reads:
  assumes "extract_pm_event_type_url r = Inr url" and "state_of T U meta (pm_process_state r) = Inr state"
  obtains any where "pm_event r = Inr any" "any_type_url any = url"
    "h_dispatch (pm_handler T U args meta) (Req_ProcessManager r) w =
       pm_arms T U (mm_handled_with_methods meta) any state w"
  using assms
  by (auto simp: extract_pm_trigger pm_event_def pm_handler_def rebuild_state_of elim!: trigger_urlE)

lemma command_reads:
  assumes "extract_command_type_url c = Inr url" and "url \<noteq> notification_url W"
    and "state_of T U meta (cc_events c) = Inr state"
  obtains any where "command_payload c = Inr any" "any_type_url any = url"
    "h_dispatch (aggregate_handler T U W args meta) (Req_CommandHandler c) w =
       command_arms T U (mm_handled_with_methods meta) any state
         (eb_next_sequence (unwrap_or default_EventBook (cc_events c))) w"
  using assms
  by (cases "command_payload c")
    (auto simp: command_payload_url aggregate_handler_def dispatch_command_def Let_def rebuild_state_of)

lemma rejection_reads:
  assumes "extract_command_type_url c = Inr (notification_url W)"
    and "extract_rejection_key W c = Inr key" and "state_of T U meta (cc_events c) = Inr state"
  obtains any n where "command_payload c = Inr any" "decode_rejection W any = Inr (n, key)"
    "h_dispatch (aggregate_handler T U W args meta) (Req_CommandHandler c) w =
       rejection_arms U (mm_rejected_with_methods meta) key n state w"
proof -
  obtain any where any: "command_payload c = Inr any" "any_type_url any = notification_url W"
    using assms(1) by (cases "command_payload c") (auto simp: command_payload_url)
  moreover obtain n where "decode_rejection W any = Inr (n, key)"
    using assms(2) rejection_key_of [OF any(1), of W] by (cases "decode_rejection W any") auto
  ultimately show thesis
    using assms(3) that
    by (simp add: aggregate_handler_def dispatch_command_def Let_def rebuild_state_of)
qed

text \<open>C31: configuration and dispatch agree. Take the handlers generated from an impl block, of
  any of the three kinds that routers select by type URL. What a router selects by the
  configuration runs one of the block's methods: an event or a command for which the handler is
  selected is dispatched to a method marked for its type (or is the error of decoding it as that
  type), on the rebuilt state, and a rejection to a method marked for its key. What the routers
  would not select in the handler's own domain runs none: an event is answered with the empty
  response, a command with \<open>NO_HANDLER_REGISTERED\<close>, a rejection with no events, and the world
  is as it was. The type URLs and the key are the ones the routers extract.\<close>

theorem config_agrees_with_arms:
  fixes T :: "('s, 'm) Types" and U :: "('s, 'm, 'w) UserImpl"
  assumes "meta = collect_method_metadata input"
    and "ha = aggregate_handler T U W aargs meta" and "hs = saga_handler T U sargs meta"
    and "hp = pm_handler T U pargs meta"
  shows "(extract_saga_event_type_url sr = Inr url \<longrightarrow>
      (\<exists>any. saga_event sr = Inr any \<and> any_type_url any = url
        \<and> (if saga_listens (sa_source sargs) url (h_config hs)
           then runs_arm T (mm_handled_with_methods meta) any
                  (\<lambda>m v w. call_method Resp_Saga (ui_saga U m v w)) w (h_dispatch hs (Req_Saga sr) w)
           else h_dispatch hs (Req_Saga sr) w = (Inr (Resp_Saga default_SagaResponse), w))))
    \<and> (extract_pm_event_type_url pr = Inr url \<and> d \<in> set (pa_sources pargs)
        \<and> state_of T U meta (pm_process_state pr) = Inr state \<longrightarrow>
      (\<exists>any. pm_event pr = Inr any \<and> any_type_url any = url
        \<and> (if pm_listens d url (h_config hp)
           then runs_arm T (mm_handled_with_methods meta) any
                  (\<lambda>m v w. call_method Resp_ProcessManager (ui_pm U m v state w)) w
                  (h_dispatch hp (Req_ProcessManager pr) w)
           else h_dispatch hp (Req_ProcessManager pr) w =
                  (Inr (Resp_ProcessManager default_PMHandleResponse), w))))
    \<and> (extract_command_type_url c = Inr url \<and> url \<noteq> notification_url W
        \<and> state_of T U meta (cc_events c) = Inr state \<longrightarrow>
      (\<exists>any. command_payload c = Inr any \<and> any_type_url any = url
        \<and> (if claims (aa_domain aargs) url (h_config ha)
           then runs_arm T (mm_handled_with_methods meta) any
                  (\<lambda>m v w. call_method events_response (ui_handle U m v state
                     (eb_next_sequence (unwrap_or default_EventBook (cc_events c))) w))
                  w (h_dispatch ha (Req_CommandHandler c) w)
           else h_dispatch ha (Req_CommandHandler c) w =
                  (Inl (inv_arg NO_HANDLER_REGISTERED [(keys K_TYPE_URL, url)]), w))))
    \<and> (extract_command_type_url c = Inr (notification_url W) \<and> extract_rejection_key W c = Inr key
        \<and> state_of T U meta (cc_events c) = Inr state \<longrightarrow>
      (\<exists>any n. command_payload c = Inr any \<and> decode_rejection W any = Inr (n, key)
        \<and> (if rejects key (h_config ha)
           then \<exists>m. (m, fst key, snd key) \<in> set (mm_rejected_with_methods meta)
                  \<and> h_dispatch ha (Req_CommandHandler c) w =
                      call_method Resp_CommandHandler (ui_reject U m n state w)
           else h_dispatch ha (Req_CommandHandler c) w =
                  (Inr (events_response default_EventBook), w))))
    \<and> (saga_listens d url (h_config hs) \<longrightarrow> d = sa_source sargs)
    \<and> (pm_listens d url (h_config hp) \<longrightarrow> d \<in> set (pa_sources pargs))
    \<and> (claims d url (h_config ha) \<longrightarrow> d = aa_domain aargs)"
proof (intro conjI impI, goal_cases)
  case 1
  then obtain any where any: "saga_event sr = Inr any" "any_type_url any = url"
    "h_dispatch hs (Req_Saga sr) w = saga_arms T U (mm_handled_with_methods meta) any w"
    unfolding assms(3) by (rule saga_reads)
  from arm_selection [where w = w and run = "\<lambda>m v w. call_method Resp_Saga (ui_saga U m v w)",
      OF any(3) [unfolded saga_arms_first] assms(1)] any(1,2) show ?case
    by (intro exI [of _ any]) (simp add: assms(3) saga_handler_def saga_config_def saga_listens_def)
next
  case 2
  then obtain any where any: "pm_event pr = Inr any" "any_type_url any = url"
    "h_dispatch hp (Req_ProcessManager pr) w = pm_arms T U (mm_handled_with_methods meta) any state w"
    unfolding assms(4) by (auto intro: pm_reads)
  from arm_selection [where w = w and
      run = "\<lambda>m v w. call_method Resp_ProcessManager (ui_pm U m v state w)",
      OF any(3) [unfolded pm_arms_first] assms(1)] any(1,2) 2 show ?case
    by (intro exI [of _ any]) (simp add: assms(4) pm_handler_def pm_config_def pm_listens_def)
next
  case 3
  then obtain any where any: "command_payload c = Inr any" "any_type_url any = url"
    "h_dispatch ha (Req_CommandHandler c) w = command_arms T U (mm_handled_with_methods meta)
       any state (eb_next_sequence (unwrap_or default_EventBook (cc_events c))) w"
    unfolding assms(2) by (auto intro: command_reads)
  from arm_selection [where w = w and run = "\<lambda>m v w. call_method events_response
        (ui_handle U m v state (eb_next_sequence (unwrap_or default_EventBook (cc_events c))) w)",
      OF any(3) [unfolded command_arms_first] assms(1)]
  have arm: "if url \<in> set (map (\<lambda>ty. full_type_url (ty_codec T ty)) (mm_handled meta))
    then runs_arm T (mm_handled_with_methods meta) any (\<lambda>m v w. call_method events_response
        (ui_handle U m v state (eb_next_sequence (unwrap_or default_EventBook (cc_events c))) w))
      w (h_dispatch ha (Req_CommandHandler c) w)
    else h_dispatch ha (Req_CommandHandler c) w =
      (Inl (inv_arg NO_HANDLER_REGISTERED [(keys K_TYPE_URL, url)]), w)"
    by (simp only: any(2))
  have "claims (aa_domain aargs) url (h_config ha) \<longleftrightarrow>
      url \<in> set (map (\<lambda>ty. full_type_url (ty_codec T ty)) (mm_handled meta))"
    by (simp add: assms(2) aggregate_handler_def aggregate_config_def)
  with arm any(1,2) show ?case
    by (intro exI [of _ any] conjI) (simp_all only:)
next
  case 4
  then obtain any n where any: "command_payload c = Inr any" "decode_rejection W any = Inr (n, key)"
    "h_dispatch ha (Req_CommandHandler c) w =
       rejection_arms U (mm_rejected_with_methods meta) key n state w"
    unfolding assms(2) by (auto intro: rejection_reads)
  have key: "rejects key (h_config ha) \<longleftrightarrow>
      find (\<lambda>(m, d, c). key = (d, c)) (mm_rejected_with_methods meta) \<noteq> None"
    using rejected_arm [of key input]
    by (simp add: assms(1,2) aggregate_handler_def aggregate_config_def rejects_def)
  show ?case
  proof (cases "find (\<lambda>(m, d, c). key = (d, c)) (mm_rejected_with_methods meta)")
    case None
    with any key show ?thesis by (simp add: rejection_arms_first)
  next
    case (Some arm)
    then have "(fst arm, fst key, snd key) \<in> set (mm_rejected_with_methods meta)"
      "arm = (fst arm, fst key, snd key)"
      by (auto simp: find_Some_iff in_set_conv_nth)
    with any key Some show ?thesis by (auto simp: rejection_arms_first split: prod.split)
  qed
qed (simp_all add: assms(2-4) saga_handler_def pm_handler_def aggregate_handler_def
    saga_config_def pm_config_def aggregate_config_def saga_listens_def pm_listens_def)

text \<open>An impl block with one method for a type.\<close>

definition buy_impl :: ItemImpl where
  "buy_impl = \<lparr>ii_attrs = [], ii_items =
     [Item_Fn \<lparr>im_ident = ''buy'',
        im_attrs = [\<lparr>at_path = [''handles''], at_meta = Meta_List [T_Ident ''Buy'']\<rparr>]\<rparr>]\<rparr>"

lemma buy_metadata:
  "collect_method_metadata buy_impl = no_metadata
     \<lparr>mm_handled := [''Buy''], mm_handled_with_methods := [(''buy'', ''Buy'')]\<rparr>"
  by (simp add: buy_impl_def collect_method_metadata_def collect_item_def collect_attr_def
      is_ident_def get_attr_ident_def no_metadata_def)

theorem config_agrees_with_arms_witness:
  "h_dispatch (aggregate_handler example_types example_impl example_wire example_args
      (collect_method_metadata buy_impl)) (Req_CommandHandler (example_command ''Buy'')) () =
   (Inr (events_response (event_book None [event_page 0 (raw_any ''Bought'' [])])), ())"
proof -
  let ?meta = "collect_method_metadata buy_impl" and ?c = "example_command ''Buy''"
  let ?ha = "aggregate_handler example_types example_impl example_wire example_args ?meta"
  define out where "out = h_dispatch ?ha (Req_CommandHandler ?c) ()"
  have pay: "command_payload ?c = Inr (raw_any ''Buy'' [])"
    by (simp add: command_payload_def example_command_def command_page_def)
  have ne: "TYPE_URL_PREFIX @ ''Buy'' \<noteq> notification_url example_wire"
    by (simp add: notification_url_def example_wire_def)
  have state: "state_of example_types example_impl ?meta (cc_events ?c) = Inr []"
    by (simp add: state_of_def example_command_def event_book_def initial_state_def buy_metadata
        no_metadata_def example_types_def List.map_filter_def)
  have claims: "claims (aa_domain example_args) (TYPE_URL_PREFIX @ ''Buy'') (h_config ?ha)"
    by (simp add: aggregate_handler_def aggregate_config_def buy_metadata example_types_def
        full_type_url_def bytes_codec_def)
  have "runs_arm example_types (mm_handled_with_methods ?meta) (raw_any ''Buy'' [])
      (\<lambda>m v w. call_method events_response (ui_handle example_impl m v []
         (eb_next_sequence (unwrap_or default_EventBook (cc_events ?c))) w))
      () out"
    unfolding out_def using config_agrees_with_arms [OF refl refl refl refl, where input = buy_impl and T = example_types
        and U = example_impl and W = example_wire and aargs = example_args and c = ?c
        and url = "TYPE_URL_PREFIX @ ''Buy''" and state = "[]" and w = "()"]
      extract_example_command [of "''Buy''"] ne state claims pay
    by simp
  then have "out = (Inr (events_response (event_book None [event_page 0 (raw_any ''Bought'' [])])), ())"
    by (simp add: runs_arm_def buy_metadata decode_arm_def example_types_def bytes_codec_def
        raw_any_def call_method_def example_impl_def example_command_def event_book_def)
  then show ?thesis by (simp only: out_def)
qed



text \<open>Upcasting keeps everything but the payload. A generated upcaster answers with as many
  pages as it got, in order, each with the header, timestamp, cascade id and commit flag of the
  page it came from; pages without an event, or with one no method takes, come back as they
  are.\<close>

theorem upcaster_keeps_metadata:
  assumes "fst (h_dispatch (upcaster_handler T U args meta) (Req_Upcaster req) w) =
             Inr (Resp_Upcaster resp)"
  shows "list_all2 (\<lambda>p q. ep_header q = ep_header p \<and> ep_created_at q = ep_created_at p
      \<and> ep_cascade_id q = ep_cascade_id p \<and> ep_no_commit q = ep_no_commit p
      \<and> (upcast_arm_for T meta p = None \<longrightarrow> q = p))
     (uq_events req) (ur_events resp)"
proof -
  let ?f = "\<lambda>p. case event_any p of
      None \<Rightarrow> Inr p | Some any \<Rightarrow> upcast_arms T U (mm_upcasts_with_methods meta) p any"
  from assms have "traverseR ?f (uq_events req) = Inr (ur_events resp)"
    by (cases "traverseR ?f (uq_events req)")
      (auto simp: upcaster_handler_def upcast_events_traverse)
  then have "list_all2 (\<lambda>p q. ?f p = Inr q) (uq_events req) (ur_events resp)"
    by (simp only: traverseR_Inr)
  then show ?thesis
    by (rule list_all2_mono)
      (auto dest: upcast_arms_meta upcast_arms_unmatched [rotated] simp: upcast_arm_for_def
        split: option.splits)
qed

theorem upcaster_keeps_metadata_witness:
  "list_all2 (\<lambda>p q. ep_header q = ep_header p)
     [event_page 4 (raw_any ''V1'' [7])] [event_page 4 (raw_any ''V2'' [7])]"
proof -
  let ?h = "upcaster_handler example_types example_impl
      \<lparr>ua_name = ''up'', ua_domain = ''order''\<rparr> example_meta :: unit Handler"
  have "fst (h_dispatch ?h (Req_Upcaster \<lparr>uq_domain = ''order'',
        uq_events = [event_page 4 (raw_any ''V1'' [7])]\<rparr>) ()) =
      Inr (Resp_Upcaster \<lparr>ur_events = [event_page 4 (raw_any ''V2'' [7])]\<rparr>)"
    by (simp add: upcaster_handler_def example_meta_def example_types_def example_impl_def
        event_page_def event_any_def raw_any_def bytes_codec_def full_type_url_def decode_arm_def)
  from upcaster_keeps_metadata [OF this] show ?thesis by simp
qed

end
