(* ===== verification/Grpc_Adapters.thy ===== *)
theory Grpc_Adapters
  imports Router_Info
begin

text \<open>
  \<^verbatim>\<open>src/src/handler.rs\<close>: the gRPC services that wrap the runtime routers.

  A \<open>tonic::Request\<close> or \<open>Response\<close> around a message is the message: the adapters read and
  write no metadata. The routers are shared through \<open>Arc\<close>, which a clone of the service does
  not copy, so a service is its router. A service method returns \<open>Result<_, Status>\<close>.
\<close>

section \<open>Services\<close>

text \<open>\<open>.map_err(client_error_to_status)?\<close> on a dispatch.\<close>

definition to_response :: "(ClientError + 'a) \<times> 'w \<Rightarrow> (Status + 'a) \<times> 'w" where
  "to_response x = (map_err client_error_to_status (fst x), snd x)"

definition status_unimplemented :: "string \<Rightarrow> Status" where
  "status_unimplemented message =
     \<lparr>status_code_of = Code_Unimplemented, status_message = message\<rparr>"

definition ch_grpc_handle ::
  "Wire \<Rightarrow> 'w RuntimeRouter \<Rightarrow> ContextualCommand \<Rightarrow> 'w \<Rightarrow> (Status + BusinessResponse) \<times> 'w" where
  "ch_grpc_handle W router cmd w = to_response (ch_dispatch W router cmd w)"

definition ch_grpc_handle_fact ::
  "'w RuntimeRouter \<Rightarrow> FactRequest \<Rightarrow> 'w \<Rightarrow> (Status + EventBook) \<times> 'w" where
  "ch_grpc_handle_fact router request w =
     (let (supported, w1) = supports_handle_fact router w
      in if \<not> supported
         then (Inl (status_unimplemented
                 ''no #[handles_fact] methods declared on registered command_handler''), w1)
         else to_response (dispatch_fact router request w1))"

definition ch_grpc_replay ::
  "'w RuntimeRouter \<Rightarrow> ReplayRequest \<Rightarrow> 'w \<Rightarrow> (Status + ReplayResponse) \<times> 'w" where
  "ch_grpc_replay router request w =
     (let (supported, w1) = supports_replay router w
      in if \<not> supported
         then (Inl (status_unimplemented
                 ''command_handler did not opt in via #[command_handler(supports_replay = true)]''), w1)
         else to_response (dispatch_replay router request w1))"

definition saga_grpc_handle ::
  "'w RuntimeRouter \<Rightarrow> SagaHandleRequest \<Rightarrow> 'w \<Rightarrow> (Status + SagaResponse) \<times> 'w" where
  "saga_grpc_handle router req w = to_response (saga_dispatch router req w)"

definition pm_grpc_handle ::
  "'w RuntimeRouter \<Rightarrow> PMHandleRequest \<Rightarrow> 'w \<Rightarrow> (Status + PMHandleResponse) \<times> 'w" where
  "pm_grpc_handle router req w = to_response (pm_dispatch router req w)"

definition projector_grpc_handle ::
  "'w RuntimeRouter \<Rightarrow> EventBook \<Rightarrow> 'w \<Rightarrow> (Status + Projection) \<times> 'w" where
  "projector_grpc_handle router book w = to_response (projector_dispatch router book w)"

definition projector_grpc_handle_speculative ::
  "'w RuntimeRouter \<Rightarrow> EventBook \<Rightarrow> 'w \<Rightarrow> (Status + Projection) \<times> 'w" where
  "projector_grpc_handle_speculative router book w = projector_grpc_handle router book w"

definition upcaster_grpc_upcast ::
  "'w RuntimeRouter \<Rightarrow> UpcastRequest \<Rightarrow> 'w \<Rightarrow> (Status + UpcastResponse) \<times> 'w" where
  "upcaster_grpc_upcast router req w = to_response (upcaster_dispatch router req w)"

section \<open>The contract of a service\<close>

text \<open>
  A service method answers what its router answers, with the error translated, and does to
  the world what its router does.
\<close>

locale service =
  fixes route :: "'q \<Rightarrow> 'w \<Rightarrow> (ClientError + 'a) \<times> 'w"
    and serve :: "'q \<Rightarrow> 'w \<Rightarrow> (Status + 'a) \<times> 'w"
  assumes serve_result: "fst (serve q w) = map_err client_error_to_status (fst (route q w))"
    and serve_world: "snd (serve q w) = snd (route q w)"
begin

lemma serves_ok: "fst (serve q w) = Inr a \<longleftrightarrow> fst (route q w) = Inr a"
  by (cases "fst (route q w)") (simp_all add: serve_result)

lemma serves_rejection:
  "fst (route q w) = Inl (CE_Rejected r) \<Longrightarrow> fst (serve q w) = Inl (rejected_to_status r)"
  by (simp add: serve_result)

lemma serves_upstream: "fst (route q w) = Inl (CE_Grpc s) \<Longrightarrow> fst (serve q w) = Inl s"
  by (simp add: serve_result)

lemma serves_invalid:
  "fst (route q w) = Inl (inv_arg e kvs) \<Longrightarrow>
   fst (serve q w) = Inl \<lparr>status_code_of = Code_InvalidArgument, status_message = messages e\<rparr>"
  by (simp add: serve_result invalid_argument_def)

end

lemma to_response_sel [simp]:
  "fst (to_response x) = map_err client_error_to_status (fst x)" "snd (to_response x) = snd x"
  by (simp_all add: to_response_def)

interpretation commands: service "ch_dispatch W r" "ch_grpc_handle W r" for W r
  by unfold_locales (simp_all add: ch_grpc_handle_def)

interpretation saga_service: service "saga_dispatch r" "saga_grpc_handle r" for r
  by unfold_locales (simp_all add: saga_grpc_handle_def)

interpretation pm_service: service "pm_dispatch r" "pm_grpc_handle r" for r
  by unfold_locales (simp_all add: pm_grpc_handle_def)

interpretation projections: service "projector_dispatch r" "projector_grpc_handle r" for r
  by unfold_locales (simp_all add: projector_grpc_handle_def)

interpretation upcasting: service "upcaster_dispatch r" "upcaster_grpc_upcast r" for r
  by unfold_locales (simp_all add: upcaster_grpc_upcast_def)

section \<open>Commands over the wire\<close>

lemma ch_dispatch_answers:
  assumes "list_all2 answers (rt_factories r) as"
    and "extract_command_type_url cmd = Inr url" and "url \<noteq> notification_url W"
  shows "fst (ch_dispatch W r cmd w) =
     (case find (\<lambda>a. claims (unwrap_or [] (command_domain cmd)) url (fst a)) as of
        Some a \<Rightarrow> as_command (snd a (Req_CommandHandler cmd))
      | None \<Rightarrow> Inl (no_handler (unwrap_or ''<missing>'' (command_domain cmd)) url))"
proof -
  obtain res w2 where l: "command_loop (unwrap_or [] (command_domain cmd)) url cmd (rt_factories r) w = (res, w2)"
    by fastforce
  with command_loop_answers [OF assms(1), of "unwrap_or [] (command_domain cmd)" url cmd w]
  have "res = map_option (\<lambda>a. as_command (snd a (Req_CommandHandler cmd)))
      (find (\<lambda>a. claims (unwrap_or [] (command_domain cmd)) url (fst a)) as)" by simp
  with l assms(2,3) show ?thesis by (simp add: ch_dispatch_def split: option.split)
qed

text \<open>C20: A business rejection reaches the caller of the service as what it is. When the
  handler that claims a command rejects it, the service answers with a status that carries the
  rejection's message and the code of its class, so the caller's own library classifies it as
  the handler did; its code and details do not cross.
  Stated for handlers whose answers depend on the request alone, whatever the state of the
  world (\<open>answers\<close>).\<close>

theorem rejection_reaches_caller:
  assumes "list_all2 answers (rt_factories r) as"
    and "extract_command_type_url cmd = Inr url" and "url \<noteq> notification_url W"
    and "find (\<lambda>a. claims (unwrap_or [] (command_domain cmd)) url (fst a)) as = Some (c, g)"
    and "g (Req_CommandHandler cmd) = Inl (CE_Rejected rej)" and "rejection_class rej"
  shows "\<exists>status. fst (ch_grpc_handle W r cmd w) = Inl status
    \<and> status_message status = cr_message rej
    \<and> is_not_found (client_error_from_status status) = rej_is_not_found rej
    \<and> is_precondition_failed (client_error_from_status status) = rej_is_precondition_failed rej
    \<and> is_invalid_argument (client_error_from_status status) = rej_is_invalid_argument rej
    \<and> \<not> is_connection_error (client_error_from_status status)"
proof -
  have "fst (ch_dispatch W r cmd w) = Inl (CE_Rejected rej)"
    unfolding ch_dispatch_answers [OF assms(1-3)] assms(4) by (simp add: assms(5) as_command_def)
  then have "fst (ch_grpc_handle W r cmd w) = Inl (rejected_to_status rej)"
    by (rule commands.serves_rejection)
  moreover have "status_message (rejected_to_status rej) = cr_message rej"
    by (simp add: rejected_to_status_def)
  ultimately show ?thesis
    using rejected_to_status_code [OF assms(6)]
    by (auto simp: client_error_from_status_def is_not_found_def is_precondition_failed_def
        is_invalid_argument_def is_connection_error_def grpc_code_def)
qed

theorem rejection_reaches_caller_witness:
  "\<exists>status. fst (ch_grpc_handle example_wire
       \<lparr>rt_factories = [const_factory (const_handler (ch_example ''order'' [TYPE_URL_PREFIX @ ''shop.Buy''])
          (\<lambda>_. Inl (CE_Rejected (rej_not_found ''C'' ''no order'' []))))], rt_cached_name = None\<rparr>
       (example_command ''shop.Buy'') ()) = Inl status \<and> is_not_found (client_error_from_status status)"
proof -
  let ?rej = "rej_not_found ''C'' ''no order'' []"
  let ?g = "\<lambda>_. Inl (CE_Rejected ?rej)"
  let ?c = "ch_example ''order'' [TYPE_URL_PREFIX @ ''shop.Buy'']"
  let ?r = "\<lparr>rt_factories = [const_factory (const_handler ?c ?g) :: unit Factory], rt_cached_name = None\<rparr>"
  have a: "list_all2 answers (rt_factories ?r) [(?c, ?g)]" by simp
  have n: "TYPE_URL_PREFIX @ ''shop.Buy'' \<noteq> notification_url example_wire"
    by (simp add: notification_url_def example_wire_def)
  have f: "find (\<lambda>a. claims (unwrap_or [] (command_domain (example_command ''shop.Buy'')))
      (TYPE_URL_PREFIX @ ''shop.Buy'') (fst a)) [(?c, ?g)] = Some (?c, ?g)"
    by (simp add: claims_def ch_example_def command_domain_def example_command_def order_cover_def)
  have "rej_is_not_found ?rej" by (simp add: rej_is_not_found_def rej_not_found_def)
  with rejection_reaches_caller [OF a extract_example_command n f refl, of "()"] show ?thesis
    by auto
qed

text \<open>Facts and replays are gated by the declared metadata. When no registered handler
  opted in, the service answers \<open>Unimplemented\<close> without handing the request to any handler
  (the coordinator's sign to fall back); otherwise it answers what the first command handler
  answers, an error as its status.\<close>

theorem fact_and_replay_are_gated:
  assumes "list_all2 answers (rt_factories r) as"
  shows "fst (ch_grpc_handle_fact r fq w) =
       (if \<exists>a \<in> set as. \<exists>c. fst a = Cfg_CommandHandler c \<and> ch_handles_fact c \<noteq> []
        then map_err client_error_to_status
               (as_fact (snd (the (find (\<lambda>a. is_command_handler (fst a)) as)) (Req_HandleFact fq)))
        else Inl \<lparr>status_code_of = Code_Unimplemented, status_message =
               ''no #[handles_fact] methods declared on registered command_handler''\<rparr>)
    \<and> fst (ch_grpc_replay r rq w) =
       (if \<exists>a \<in> set as. \<exists>c. fst a = Cfg_CommandHandler c \<and> ch_supports_replay c
        then map_err client_error_to_status
               (as_replay (snd (the (find (\<lambda>a. is_command_handler (fst a)) as)) (Req_Replay rq)))
        else Inl \<lparr>status_code_of = Code_Unimplemented, status_message =
               ''command_handler did not opt in via #[command_handler(supports_replay = true)]''\<rparr>)"
proof -
  let ?find = "find (\<lambda>a. is_command_handler (fst a)) as"
  have found: "?find = Some (the ?find)"
    if "\<exists>a \<in> set as. \<exists>c. fst a = Cfg_CommandHandler c \<and> p c" for p
    using that by (cases ?find) (auto simp: find_None_iff is_command_handler_def)
  have fact: "fst (dispatch_fact r fq w1) = as_fact (snd (the ?find) (Req_HandleFact fq))"
    if "?find = Some (the ?find)" for w1
    unfolding dispatch_fact_def fact_loop_answers [OF assms] by (subst that) simp
  have rep: "fst (dispatch_replay r rq w1) = as_replay (snd (the ?find) (Req_Replay rq))"
    if "?find = Some (the ?find)" for w1
    unfolding dispatch_replay_def replay_loop_answers [OF assms] by (subst that) simp
  have gate: "fst (ch_grpc_handle_fact r fq w) =
      (if fst (supports_handle_fact r w)
       then map_err client_error_to_status (fst (dispatch_fact r fq (snd (supports_handle_fact r w))))
       else Inl (status_unimplemented
              ''no #[handles_fact] methods declared on registered command_handler''))"
    "fst (ch_grpc_replay r rq w) =
      (if fst (supports_replay r w)
       then map_err client_error_to_status (fst (dispatch_replay r rq (snd (supports_replay r w))))
       else Inl (status_unimplemented
              ''command_handler did not opt in via #[command_handler(supports_replay = true)]''))"
    by (simp_all add: ch_grpc_handle_fact_def ch_grpc_replay_def case_prod_unfold Let_def)
  show ?thesis
    unfolding gate supports_answers [OF assms] status_unimplemented_def
    by (intro conjI if_cong refl arg_cong [of _ _ "map_err client_error_to_status"] fact rep)
      (rule found, assumption)+
qed

theorem fact_and_replay_are_gated_witness:
  "fst (ch_grpc_handle_fact
     \<lparr>rt_factories = [const_factory (const_handler (ch_example ''order'' []) (\<lambda>_. Inr (Resp_HandleFact paid_book)))],
      rt_cached_name = None\<rparr> \<lparr>fr_facts = None, fr_prior_events = None\<rparr> ())
   = Inl \<lparr>status_code_of = Code_Unimplemented, status_message =
       ''no #[handles_fact] methods declared on registered command_handler''\<rparr>"
proof -
  let ?g = "\<lambda>_. Inr (Resp_HandleFact paid_book)"
  let ?r = "\<lparr>rt_factories = [const_factory (const_handler (ch_example ''order'' []) ?g) :: unit Factory],
    rt_cached_name = None\<rparr>"
  have "list_all2 answers (rt_factories ?r) [(ch_example ''order'' [], ?g)]" by simp
  from fact_and_replay_are_gated [OF this, of _ "()"] show ?thesis
    by (simp add: ch_example_def)
qed

end
