(* ===== verification/Compensation.thy ===== *)
theory Compensation
  imports Dispatch_Command Destinations
begin

text \<open>
  \<^verbatim>\<open>src/src/compensation.rs\<close>: what a \<open>#[rejected]\<close> method reads from a rejection notification
  and the responses it builds. The decoder of \<open>RejectionNotification\<close> is the one of the routers,
  in \<open>Wire\<close>.
\<close>

definition NOTIFICATION_TYPE_NAME :: string where
  "NOTIFICATION_TYPE_NAME = ''angzarr_client.proto.angzarr.Notification''"

section \<open>Context of a rejection\<close>

record CompensationContext =
  cctx_source_event_sequence :: u32
  cctx_rejection_reason :: string
  cctx_rejected_command :: "CommandBook option"
  cctx_source_aggregate :: "Cover option"

text \<open>The \<open>if let\<close> chain down to the deferred sequence of the first page.\<close>

definition deferred_source :: "CommandBook \<Rightarrow> AngzarrDeferredSequence option" where
  "deferred_source cmd =
     Option.bind (first_opt (cb_pages cmd)) (\<lambda>page.
     Option.bind (cp_header page) (\<lambda>header.
       case ph_sequence_type header of
         Some (AngzarrDeferred deferred) \<Rightarrow> Some deferred
       | _ \<Rightarrow> None))"

definition from_notification :: "Wire \<Rightarrow> Notification \<Rightarrow> CompensationContext" where
  "from_notification W notification =
     (let ctx = \<lparr>cctx_source_event_sequence = 0, cctx_rejection_reason = [],
                 cctx_rejected_command = None, cctx_source_aggregate = None\<rparr>
      in case nt_payload notification of
           None \<Rightarrow> ctx
         | Some payload \<Rightarrow>
             (case w_decode_rejection W (any_value payload) of
                Inl _ \<Rightarrow> ctx
              | Inr rejection \<Rightarrow>
                  let ctx1 = ctx\<lparr>cctx_rejection_reason := rn_rejection_reason rejection,
                                 cctx_rejected_command := rn_rejected_command rejection\<rparr>
                  in case Option.bind (rn_rejected_command rejection) deferred_source of
                       None \<Rightarrow> ctx1
                     | Some deferred \<Rightarrow>
                         ctx1\<lparr>cctx_source_aggregate := ads_source deferred,
                              cctx_source_event_sequence := ads_source_seq deferred\<rparr>))"

definition rejected_command_type :: "CompensationContext \<Rightarrow> string" where
  "rejected_command_type ctx =
     unwrap_or []
       (Option.bind (cctx_rejected_command ctx) (\<lambda>cmd.
        Option.bind (first_opt (cb_pages cmd)) (\<lambda>page.
          case cp_payload page of
            Some (Cmd_Command c) \<Rightarrow> Some (any_type_url c)
          | _ \<Rightarrow> None)))"

definition dispatch_key :: "CompensationContext \<Rightarrow> string" where
  "dispatch_key ctx =
     (case opt_filter (\<lambda>d. d \<noteq> [])
             (map_option cv_domain (Option.bind (cctx_rejected_command ctx) cb_cover)) of
        None \<Rightarrow> []
      | Some domain \<Rightarrow>
          let cmd_type = rejected_command_type ctx
          in if cmd_type = [] then []
             else domain @ ''/'' @ type_name_from_url cmd_type)"

section \<open>Responses\<close>

record DelegationOptions =
  do_emit_system_event :: bool
  do_send_to_dead_letter :: bool
  do_escalate :: bool
  do_abort :: bool

definition DelegationOptions_default :: DelegationOptions where
  "DelegationOptions_default =
     \<lparr>do_emit_system_event = True, do_send_to_dead_letter = False, do_escalate = False,
      do_abort = False\<rparr>"

definition revocation_of :: "string \<Rightarrow> DelegationOptions \<Rightarrow> RevocationResponse" where
  "revocation_of reason options =
     \<lparr>rv_emit_system_revocation = do_emit_system_event options,
      rv_send_to_dead_letter_queue = do_send_to_dead_letter options,
      rv_escalate = do_escalate options, rv_abort = do_abort options, rv_reason = reason\<rparr>"

definition delegate_to_framework :: "string \<Rightarrow> DelegationOptions \<Rightarrow> BusinessResponse" where
  "delegate_to_framework reason options =
     \<lparr>br_result = Some (BR_Revocation (revocation_of reason options))\<rparr>"

definition emit_compensation_events :: "EventBook \<Rightarrow> BusinessResponse" where
  "emit_compensation_events events = \<lparr>br_result = Some (BR_Events events)\<rparr>"

record PMRevocationResponse =
  pmr_process_events :: "EventBook option"
  pmr_revocation :: RevocationResponse

definition pm_delegate_to_framework :: "string \<Rightarrow> DelegationOptions \<Rightarrow> PMRevocationResponse" where
  "pm_delegate_to_framework reason options =
     \<lparr>pmr_process_events = None, pmr_revocation = revocation_of reason options\<rparr>"

definition pm_emit_compensation_events ::
  "EventBook \<Rightarrow> bool \<Rightarrow> string \<Rightarrow> PMRevocationResponse" where
  "pm_emit_compensation_events events also_emit_system_event reason =
     \<lparr>pmr_process_events = Some events,
      pmr_revocation =
        \<lparr>rv_emit_system_revocation = also_emit_system_event, rv_send_to_dead_letter_queue = False,
         rv_escalate = False, rv_abort = False, rv_reason = reason\<rparr>\<rparr>"

definition is_notification :: "string \<Rightarrow> bool" where
  "is_notification url \<longleftrightarrow> url = TYPE_URL_PREFIX @ NOTIFICATION_TYPE_NAME"

section \<open>Laws\<close>

lemma from_notification_of_rejection:
  assumes "w_decode_rejection W (any_value payload) = Inr rejection"
  shows "from_notification W \<lparr>nt_other = other, nt_payload = Some payload\<rparr> =
     \<lparr>cctx_source_event_sequence =
        unwrap_or 0 (map_option ads_source_seq (Option.bind (rn_rejected_command rejection) deferred_source)),
      cctx_rejection_reason = rn_rejection_reason rejection,
      cctx_rejected_command = rn_rejected_command rejection,
      cctx_source_aggregate =
        Option.bind (Option.bind (rn_rejected_command rejection) deferred_source) ads_source\<rparr>"
  using assms by (cases "rn_rejected_command rejection")
    (auto simp: from_notification_def Let_def split: option.split)

lemma deferred_source_header:
  "first_opt (cb_pages cmd) = Some page \<Longrightarrow> cp_header page = Some (deferred_header cover seq) \<Longrightarrow>
   deferred_source cmd = Some \<lparr>ads_source = Some cover, ads_source_seq = seq\<rparr>"
  by (simp add: deferred_source_def deferred_header_def)

lemma deferred_source_stamped:
  "cb_pages cmd = map (stamp_page seq) pages \<Longrightarrow> deferred_source cmd = None"
  by (cases pages) (simp_all add: deferred_source_def stamp_page_def)

text \<open>The first command's type URL as both the context and the routers read it.\<close>

definition first_command_url :: "CommandBook \<Rightarrow> string option" where
  "first_command_url cmd = Option.bind (first_opt (cb_pages cmd)) (\<lambda>page.
     case cp_payload page of Some (Cmd_Command c) \<Rightarrow> Some (any_type_url c) | _ \<Rightarrow> None)"

text \<open>C26: The context of a rejection. A command sent with a deferred header tells the aggregate
  that receives its rejection where it came from: the context read from the notification has the
  source's cover, the sequence of the triggering event and the reason. A command whose pages
  were stamped with an explicit sequence has lost that: its context has no source and sequence
  zero. The context's key is the domain of the router's rejection key, a slash, and the type
  name whose last dotted part is the router's: the two agree only for types without a package.\<close>

theorem rejection_context:
  assumes "w_decode_rejection W (any_value payload) = Inr \<lparr>rn_rejected_command = Some cmd, rn_rejection_reason = reason\<rparr>"
    and "ctx = from_notification W \<lparr>nt_other = other, nt_payload = Some payload\<rparr>"
  shows "(cb_pages cmd = page # pages \<and> cp_header page = Some (deferred_header cover seq) \<longrightarrow>
       cctx_source_aggregate ctx = Some cover \<and> cctx_source_event_sequence ctx = seq)
    \<and> (stamp_command M dst original d = (Inr (), cmd) \<longrightarrow>
         cctx_source_aggregate ctx = None \<and> cctx_source_event_sequence ctx = 0)
    \<and> cctx_rejection_reason ctx = reason
    \<and> (cb_cover cmd = Some cv \<and> cv_domain cv \<noteq> [] \<and> first_command_url cmd = Some url \<and> url \<noteq> [] \<longrightarrow>
         (let key = rejection_key \<lparr>rn_rejected_command = Some cmd, rn_rejection_reason = reason\<rparr>
          in dispatch_key ctx = fst key @ ''/'' @ type_name_from_url url
             \<and> snd key = rsplit_next (CHR ''.'') (type_name_from_url url)))"
proof -
  have ctx: "ctx = \<lparr>cctx_source_event_sequence = unwrap_or 0 (map_option ads_source_seq (deferred_source cmd)),
      cctx_rejection_reason = reason, cctx_rejected_command = Some cmd,
      cctx_source_aggregate = Option.bind (deferred_source cmd) ads_source\<rparr>"
    unfolding assms(2) from_notification_of_rejection [OF assms(1)] by simp
  have "deferred_source cmd = None" if "stamp_command M dst original d = (Inr (), cmd)"
    using that by (intro deferred_source_stamped [of cmd "the (im_get M (dst_sequences dst) d)" "cb_pages original"])
      (auto simp: stamp_command_def split: option.split_asm)
  moreover have "deferred_source cmd = Some \<lparr>ads_source = Some cover, ads_source_seq = seq\<rparr>"
    if "cb_pages cmd = page # pages" "cp_header page = Some (deferred_header cover seq)"
    using that by (intro deferred_source_header) simp_all
  moreover have "dispatch_key ctx = cv_domain cv @ ''/'' @ type_name_from_url url"
    if "cb_cover cmd = Some cv" "cv_domain cv \<noteq> []" "first_command_url cmd = Some url" "url \<noteq> []"
    using that by (simp add: ctx dispatch_key_def rejected_command_type_def first_command_url_def)
  moreover have "rejection_key \<lparr>rn_rejected_command = Some cmd, rn_rejection_reason = reason\<rparr>
      = (cv_domain cv, command_suffix url)"
    if "cb_cover cmd = Some cv" "first_command_url cmd = Some url"
    using that by (simp add: rejection_key_def first_command_url_def)
  ultimately show ?thesis
    by (simp add: ctx Let_def command_suffix_def type_name_from_url_def)
qed

text \<open>Delegating from an aggregate or from a process manager sets the same flags.\<close>

lemma delegation_agrees:
  "br_result (delegate_to_framework reason options) =
     Some (BR_Revocation (pmr_revocation (pm_delegate_to_framework reason options)))"
  by (simp add: delegate_to_framework_def pm_delegate_to_framework_def)

lemma is_notification_router:
  "w_notification_name W = NOTIFICATION_TYPE_NAME \<Longrightarrow> is_notification url \<longleftrightarrow> url = notification_url W"
  by (simp add: is_notification_def notification_url_def)

section \<open>Example\<close>

definition deferred_command :: CommandBook where
  "deferred_command =
     \<lparr>cb_cover = Some order_cover,
      cb_pages = [(command_page 0 (raw_any ''shop.Reserve'' []))
        \<lparr>cp_header := Some (deferred_header order_cover 42)\<rparr>]\<rparr>"

definition deferred_wire :: Wire where
  "deferred_wire = example_wire\<lparr>w_decode_rejection :=
     (\<lambda>b. Inr \<lparr>rn_rejected_command = Some deferred_command, rn_rejection_reason = ''out of stock''\<rparr>)\<rparr>"

theorem rejection_context_witness:
  "cctx_source_event_sequence (from_notification deferred_wire
     \<lparr>nt_other = [], nt_payload = Some (raw_any ''r'' [])\<rparr>) = 42
   \<and> dispatch_key (from_notification deferred_wire
     \<lparr>nt_other = [], nt_payload = Some (raw_any ''r'' [])\<rparr>) = ''order/shop.Reserve''"
proof -
  have d: "w_decode_rejection deferred_wire (any_value (raw_any ''r'' [])) =
      Inr \<lparr>rn_rejected_command = Some deferred_command, rn_rejection_reason = ''out of stock''\<rparr>"
    by (simp add: deferred_wire_def)
  have cmd: "cb_pages deferred_command = [(command_page 0 (raw_any ''shop.Reserve'' []))
        \<lparr>cp_header := Some (deferred_header order_cover 42)\<rparr>]" "cb_cover deferred_command = Some order_cover"
    by (simp_all add: deferred_command_def)
  have u: "first_command_url deferred_command = Some (TYPE_URL_PREFIX @ ''shop.Reserve'')"
    by (simp add: first_command_url_def cmd command_page_def raw_any_def)
  have n: "type_name_from_url (TYPE_URL_PREFIX @ ''shop.Reserve'') = ''shop.Reserve''"
    by (simp add: type_name_from_url_def rsplit_next_def TYPE_URL_PREFIX_def)
  note r = rejection_context [OF d refl, where page = "hd (cb_pages deferred_command)" and pages = "[]"
      and cover = order_cover and seq = 42 and cv = order_cover and url = "TYPE_URL_PREFIX @ ''shop.Reserve''"]
  have "cv_domain order_cover = ''order''"
    by (simp add: order_cover_def)
  then show ?thesis
    using conjunct1 [OF r] r [THEN conjunct2, THEN conjunct2, THEN conjunct2] u n
    by (simp add: Let_def rejection_key_def cmd)
qed

end
