(* ===== verification/Generated_Routers.thy ===== *)
theory Generated_Routers
  imports Effects Macro_Laws Grpc_Adapters Compensation
begin

text \<open>
  The routers of \<^verbatim>\<open>src/src/router\<close> over the handlers \<^verbatim>\<open>angzarr-macros/src/lib.rs\<close> generates,
  behind the services of \<^verbatim>\<open>src/src/handler.rs\<close>: what an incoming event, rejection or page does
  to the marked methods of the registered impl blocks.

  A registered impl block is a record \<open>Marked\<close>: its macro arguments, its items, its method bodies
  and the effect its factory closure has on the world when it makes an instance. For each kind,
  one step function says what a block contributes, in terms of its marked methods only, and a
  property says that the service is the fold of these steps in registration order.
\<close>

section \<open>Registered impl blocks\<close>

record ('a, 's, 'm, 'w) Marked =
  mk_args :: 'a
  mk_input :: ItemImpl
  mk_types :: "('s, 'm) Types"
  mk_impl :: "('s, 'm, 'w) UserImpl"
  mk_open :: "'w \<Rightarrow> 'w"

abbreviation mk_meta :: "('a, 's, 'm, 'w) Marked \<Rightarrow> MethodMetadata" where
  "mk_meta g \<equiv> collect_method_metadata (mk_input g)"

text \<open>The method marked for a type URL, with its type.\<close>

definition method_for ::
  "('a, 's, 'm, 'w) Marked \<Rightarrow> string \<Rightarrow> (string \<times> string) option" where
  "method_for g url = first_arm (mk_types g) (mm_handled_with_methods (mk_meta g)) url"

text \<open>The method marked for a rejected command.\<close>

definition compensation_for :: "('a, 's, 'm, 'w) Marked \<Rightarrow> string \<times> string \<Rightarrow> string option" where
  "compensation_for g key =
     map_option fst (find (\<lambda>(m, d, c). key = (d, c)) (mm_rejected_with_methods (mk_meta g)))"

definition made_saga :: "(SagaArgs, 's, 'm, 'w) Marked \<Rightarrow> 'w Handler \<times> ('w \<Rightarrow> 'w)" where
  "made_saga g = (saga_handler (mk_types g) (mk_impl g) (mk_args g) (mk_meta g), mk_open g)"

definition made_pm :: "(ProcessManagerArgs, 's, 'm, 'w) Marked \<Rightarrow> 'w Handler \<times> ('w \<Rightarrow> 'w)" where
  "made_pm g = (pm_handler (mk_types g) (mk_impl g) (mk_args g) (mk_meta g), mk_open g)"

definition made_aggregate ::
  "Wire \<Rightarrow> (AggregateArgs, 's, 'm, 'w) Marked \<Rightarrow> 'w Handler \<times> ('w \<Rightarrow> 'w)" where
  "made_aggregate W g =
     (aggregate_handler (mk_types g) (mk_impl g) W (mk_args g) (mk_meta g), mk_open g)"

definition made_projector :: "(ProjectorArgs, 's, 'm, 'w) Marked \<Rightarrow> 'w Handler \<times> ('w \<Rightarrow> 'w)" where
  "made_projector g =
     (projector_handler (mk_types g) (mk_impl g) (mk_args g) (mk_meta g), mk_open g)"

definition made_upcaster :: "(UpcasterArgs, 's, 'm, 'w) Marked \<Rightarrow> 'w Handler \<times> ('w \<Rightarrow> 'w)" where
  "made_upcaster g =
     (upcaster_handler (mk_types g) (mk_impl g) (mk_args g) (mk_meta g), mk_open g)"

text \<open>The event a saga or process manager is triggered by, with a standard type URL.\<close>

definition trigger_any :: "EventBook option \<Rightarrow> Any_msg option" where
  "trigger_any b = opt_filter (\<lambda>any. starts_with (any_type_url any) TYPE_URL_PREFIX)
     (Option.bind b (\<lambda>b. Option.bind (last_opt (eb_pages b)) event_any))"

lemma trigger_url_any: "trigger_url b = map_option any_type_url (trigger_any b)"
  by (cases "Option.bind b (\<lambda>b. Option.bind (last_opt (eb_pages b)) event_any)")
    (simp_all add: trigger_url_def trigger_any_def)

lemma opt_filter_Some: "opt_filter p x = Some a \<longleftrightarrow> x = Some a \<and> p a"
  by (cases x) auto

lemma invalid_argument_status:
  "is_invalid_argument e \<Longrightarrow> status_code_of (client_error_to_status e) = Code_InvalidArgument"
  by (cases e) (auto simp: is_invalid_argument_def grpc_code_def rejected_to_status_def
      rej_is_invalid_argument_def)

text \<open>A method's response, absorbed.\<close>

lemma bindR_map_ok: "bindR (map_ok g m) f = bindR m (\<lambda>a. f (g a))"
  by (cases m) simp_all

lemma bindR_Inr_map: "bindR m (\<lambda>a. Inr (f a)) = map_ok f m"
  by (cases m) simp_all

lemma as_read [simp]:
  "as_saga (Inr (Resp_Saga sr)) = Inr sr" "as_pm (Inr (Resp_ProcessManager pr)) = Inr pr"
  by (simp_all add: as_saga_def as_pm_def)

lemma map_ok_map_ok: "map_ok f (map_ok g m) = map_ok (\<lambda>a. f (g a)) m"
  by (cases m) simp_all

lemmas absorbs = bindR_map_ok bindR_Inr_map map_ok_map_ok call_method_def

section \<open>Sagas\<close>

text \<open>What a block contributes to the answer to an event: nothing unless its source is the domain
  and it marks a method for the event's type; else that method's response to the decoded event.\<close>

definition saga_answer ::
  "string \<Rightarrow> Any_msg \<Rightarrow> SagaResponse \<Rightarrow> (SagaArgs, 's, 'm, 'w) Marked \<Rightarrow> 'w \<Rightarrow>
     (ClientError + SagaResponse) \<times> 'w" where
  "saga_answer d any acc g w =
     (let w1 = mk_open g w
      in case (if sa_source (mk_args g) = d then method_for g (any_type_url any) else None) of
           None \<Rightarrow> (Inr acc, w1)
         | Some (method, ty) \<Rightarrow>
             (case decode_arm (ty_codec (mk_types g) ty) any of
                Inl e \<Rightarrow> (Inl e, w1)
              | Inr evt \<Rightarrow> call_method ((+) acc) (ui_saga (mk_impl g) method evt w1)))"

lemma saga_visit:
  assumes "saga_event request = Inr any"
  shows "visit (saga_listens d (any_type_url any)) (\<lambda>_. Req_Saga request)
     (\<lambda>acc resp. map_ok ((+) acc) (as_saga (Inr resp))) acc (made_saga g) w = saga_answer d any acc g w"
proof -
  let ?m = "method_for g (any_type_url any)"
  let ?h = "saga_handler (mk_types g) (mk_impl g) (mk_args g) (mk_meta g)"
  have c: "saga_listens d (any_type_url any) (h_config ?h) \<longleftrightarrow>
      (if sa_source (mk_args g) = d then ?m else None) \<noteq> None"
    using handled_arm [of "mk_types g" "mk_input g" "any_type_url any"]
    by (auto simp: saga_handler_def method_for_def saga_config_def saga_listens_def
        simp del: full_type_url_inject)
  show ?thesis
  proof (cases "if sa_source (mk_args g) = d then ?m else None")
    case None
    with c have "\<not> saga_listens d (any_type_url any) (h_config ?h)" by simp
    with None show ?thesis by (simp add: made_saga_def saga_answer_def Let_def visit_skip)
  next
    case (Some arm)
    obtain mth ty where arm: "arm = (mth, ty)" by fastforce
    from c Some have l: "saga_listens d (any_type_url any) (h_config ?h)" by simp
    from Some arm have "first_arm (mk_types g) (mm_handled_with_methods (mk_meta g)) (any_type_url any)
        = Some (mth, ty)" by (simp add: method_for_def split: if_splits)
    with assms have "h_dispatch ?h (Req_Saga request) w1 =
        (case decode_arm (ty_codec (mk_types g) ty) any of
           Inl e \<Rightarrow> (Inl e, w1)
         | Inr evt \<Rightarrow> call_method Resp_Saga (ui_saga (mk_impl g) mth evt w1))" for w1
      by (simp add: saga_handler_def saga_arms_first)
    with l Some arm show ?thesis
      by (simp add: made_saga_def saga_answer_def Let_def visit_run absorbs split: sum.split)
  qed
qed

text \<open>C3: From an event to the marked saga methods. A saga service whose router holds generated
  sagas answers an event with the sum of what their marked methods answer to it, in order of
  registration, each factory called once: only the sagas whose source is the domain of the book
  and which mark a method for the event's type take part, the event is decoded as that type, and
  the first event that does not decode or rejection by a method ends the call as a status. A
  request without an event of a standard type URL runs nothing. What a method gets is its event
  alone: the request's destination sequences reach no method.\<close>

theorem saga_event_reaches_methods:
  assumes "list_all2 makes (rt_factories r) (map made_saga sagas)"
  shows "(case trigger_any (sg_source request) of
       Some any \<Rightarrow> saga_grpc_handle r request w = to_response
         (foldW (saga_answer (book_domain (sg_source request)) any) sagas default_SagaResponse w)
     | None \<Rightarrow> \<exists>e. saga_grpc_handle r request w = (Inl e, w) \<and> status_code_of e = Code_InvalidArgument)
    \<and> saga_grpc_handle r (request\<lparr>sg_destination_sequences := seqs\<rparr>) w = saga_grpc_handle r request w"
proof -
  let ?with = "\<lambda>any. to_response
      (foldW (saga_answer (book_domain (sg_source request)) any) sagas default_SagaResponse w)"
  have run: "saga_grpc_handle r req w = ?with any"
    if "trigger_any (sg_source req) = Some any" and src: "sg_source req = sg_source request" for req any
  proof -
    from that have "saga_event req = Inr any"
      by (auto simp: trigger_any_def saga_event_def opt_filter_Some bind_eq_Some_conv)
    note visits = saga_visit [OF this]
    have "foldW (visit (saga_listens d (any_type_url any)) (\<lambda>_. Req_Saga req)
        (\<lambda>acc resp. map_ok ((+) acc) (as_saga (Inr resp)))) (map made_saga sagas) acc w =
        foldW (saga_answer d any) sagas acc w" for d acc
      unfolding foldW_map by (rule foldW_cong) (rule visits)
    with sagas.loop_visits [OF assms] that show ?thesis
      by (simp add: saga_grpc_handle_def saga_dispatch_def extract_saga_trigger [THEN iffD2]
          trigger_url_any del: default_zero)
  qed
  show ?thesis
  proof (cases "trigger_any (sg_source request)")
    case None
    then obtain e where e: "extract_saga_event_type_url request = Inl e"
      using extract_saga_trigger [of request]
      by (cases "extract_saga_event_type_url request") (auto simp: trigger_url_any)
    moreover have "extract_saga_event_type_url (request\<lparr>sg_destination_sequences := seqs\<rparr>) =
        extract_saga_event_type_url request"
      by (simp add: extract_saga_event_type_url_def)
    moreover have "is_invalid_argument e"
      using saga_malformed [of request r w] e None by (auto simp: trigger_url_any saga_dispatch_def)
    ultimately show ?thesis
      using None
      by (simp add: saga_grpc_handle_def saga_dispatch_def to_response_def invalid_argument_status)
  next
    case (Some any)
    with run [of request any] run [of "request\<lparr>sg_destination_sequences := seqs\<rparr>" any]
    show ?thesis by simp
  qed
qed

section \<open>Process managers\<close>

text \<open>As for a saga, with the state rebuilt from the process's own events before the method runs.\<close>

definition pm_answer ::
  "string \<Rightarrow> Any_msg \<Rightarrow> EventBook option \<Rightarrow> PMHandleResponse \<Rightarrow>
     (ProcessManagerArgs, 's, 'm, 'w) Marked \<Rightarrow> 'w \<Rightarrow> (ClientError + PMHandleResponse) \<times> 'w" where
  "pm_answer d any process_state acc g w =
     (let w1 = mk_open g w
      in case (if d \<in> set (pa_sources (mk_args g)) then method_for g (any_type_url any) else None) of
           None \<Rightarrow> (Inr acc, w1)
         | Some (method, ty) \<Rightarrow>
             (case bindR (state_of (mk_types g) (mk_impl g) (mk_meta g) process_state) (\<lambda>state.
                     map_ok (Pair state) (decode_arm (ty_codec (mk_types g) ty) any)) of
                Inl e \<Rightarrow> (Inl e, w1)
              | Inr (state, evt) \<Rightarrow>
                  call_method ((+) acc) (ui_pm (mk_impl g) method evt state w1)))"

lemma pm_visit:
  assumes "pm_event request = Inr any"
  shows "visit (pm_listens d (any_type_url any)) (\<lambda>_. Req_ProcessManager request)
     (\<lambda>acc resp. map_ok ((+) acc) (as_pm (Inr resp))) acc (made_pm g) w =
     pm_answer d any (pm_process_state request) acc g w"
proof -
  let ?m = "method_for g (any_type_url any)"
  let ?h = "pm_handler (mk_types g) (mk_impl g) (mk_args g) (mk_meta g)"
  have c: "pm_listens d (any_type_url any) (h_config ?h) \<longleftrightarrow>
      (if d \<in> set (pa_sources (mk_args g)) then ?m else None) \<noteq> None"
    using handled_arm [of "mk_types g" "mk_input g" "any_type_url any"]
    by (auto simp: pm_handler_def method_for_def pm_config_def pm_listens_def
        simp del: full_type_url_inject)
  show ?thesis
  proof (cases "if d \<in> set (pa_sources (mk_args g)) then ?m else None")
    case None
    with c have "\<not> pm_listens d (any_type_url any) (h_config ?h)" by simp
    with None show ?thesis by (simp add: made_pm_def pm_answer_def Let_def visit_skip)
  next
    case (Some arm)
    obtain mth ty where arm: "arm = (mth, ty)" by fastforce
    from c Some have l: "pm_listens d (any_type_url any) (h_config ?h)" by simp
    from Some arm have "first_arm (mk_types g) (mm_handled_with_methods (mk_meta g)) (any_type_url any)
        = Some (mth, ty)" by (simp add: method_for_def split: if_splits)
    with assms have "h_dispatch ?h (Req_ProcessManager request) w1 =
        (case state_of (mk_types g) (mk_impl g) (mk_meta g) (pm_process_state request) of
           Inl e \<Rightarrow> (Inl e, w1)
         | Inr state \<Rightarrow>
             (case decode_arm (ty_codec (mk_types g) ty) any of
                Inl e \<Rightarrow> (Inl e, w1)
              | Inr evt \<Rightarrow> call_method Resp_ProcessManager (ui_pm (mk_impl g) mth evt state w1)))" for w1
      by (simp add: pm_handler_def pm_arms_first rebuild_state_of cong: sum.case_cong)
    with l Some arm show ?thesis
      by (simp add: made_pm_def pm_answer_def Let_def visit_run absorbs split: sum.split)
  qed
qed

text \<open>C4: From an event to the marked process-manager methods. A process-manager service whose
  router holds generated process managers answers an event with the sum of what their marked
  methods answer, in order of registration: those that list the domain of the trigger among their
  sources and mark a method for the event's type, each on the state rebuilt by its own appliers
  from the process's events. An own event or a trigger that does not decode, or a rejection, ends
  the call as a status; a request without an event of a standard type URL runs nothing. As for
  sagas, the request's destination sequences reach no method.\<close>

theorem pm_event_reaches_methods:
  assumes "list_all2 makes (rt_factories r) (map made_pm pms)"
  shows "(case trigger_any (pm_trigger request) of
       Some any \<Rightarrow> pm_grpc_handle r request w = to_response
         (foldW (pm_answer (book_domain (pm_trigger request)) any (pm_process_state request)) pms
            default_PMHandleResponse w)
     | None \<Rightarrow> \<exists>e. pm_grpc_handle r request w = (Inl e, w) \<and> status_code_of e = Code_InvalidArgument)
    \<and> pm_grpc_handle r (request\<lparr>pm_destination_sequences := seqs\<rparr>) w = pm_grpc_handle r request w"
proof -
  let ?with = "\<lambda>any. to_response
      (foldW (pm_answer (book_domain (pm_trigger request)) any (pm_process_state request)) pms
         default_PMHandleResponse w)"
  have run: "pm_grpc_handle r req w = ?with any"
    if "trigger_any (pm_trigger req) = Some any" and src: "pm_trigger req = pm_trigger request"
      and state: "pm_process_state req = pm_process_state request" for req any
  proof -
    from that have "pm_event req = Inr any"
      by (auto simp: trigger_any_def pm_event_def opt_filter_Some bind_eq_Some_conv)
    note visits = pm_visit [OF this]
    have "foldW (visit (pm_listens d (any_type_url any)) (\<lambda>_. Req_ProcessManager req)
        (\<lambda>acc resp. map_ok ((+) acc) (as_pm (Inr resp)))) (map made_pm pms) acc w =
        foldW (pm_answer d any (pm_process_state req)) pms acc w" for d acc
      unfolding foldW_map by (rule foldW_cong) (rule visits)
    with pms.loop_visits [OF assms] that show ?thesis
      by (simp add: pm_grpc_handle_def pm_dispatch_def extract_pm_trigger [THEN iffD2]
          trigger_url_any del: default_zero)
  qed
  show ?thesis
  proof (cases "trigger_any (pm_trigger request)")
    case None
    then obtain e where e: "extract_pm_event_type_url request = Inl e"
      using extract_pm_trigger [of request]
      by (cases "extract_pm_event_type_url request") (auto simp: trigger_url_any)
    moreover have "extract_pm_event_type_url (request\<lparr>pm_destination_sequences := seqs\<rparr>) =
        extract_pm_event_type_url request"
      by (simp add: extract_pm_event_type_url_def)
    moreover have "is_invalid_argument e"
      using pm_malformed [of request r w] e None by (auto simp: trigger_url_any pm_dispatch_def)
    ultimately show ?thesis
      using None
      by (simp add: pm_grpc_handle_def pm_dispatch_def to_response_def invalid_argument_status)
  next
    case (Some any)
    with run [of request any] run [of "request\<lparr>pm_destination_sequences := seqs\<rparr>" any]
    show ?thesis by simp
  qed
qed

section \<open>Rejections\<close>

text \<open>What an aggregate contributes to the compensation of a rejected command: the pages its marked
  method emits, on the state rebuilt from the prior events.\<close>

definition compensation_answer ::
  "string \<times> string \<Rightarrow> Notification \<Rightarrow> EventBook option \<Rightarrow> EventPage list \<Rightarrow>
     (AggregateArgs, 's, 'm, 'w) Marked \<Rightarrow> 'w \<Rightarrow> (ClientError + EventPage list) \<times> 'w" where
  "compensation_answer key notification prior pages g w =
     (let w1 = mk_open g w
      in case compensation_for g key of
           None \<Rightarrow> (Inr pages, w1)
         | Some method \<Rightarrow>
             (case state_of (mk_types g) (mk_impl g) (mk_meta g) prior of
                Inl e \<Rightarrow> (Inl e, w1)
              | Inr state \<Rightarrow>
                  call_method (\<lambda>br. pages @ emitted_pages br)
                    (ui_reject (mk_impl g) method notification state w1)))"

lemma scoped_parts [simp]:
  "command_payload (scoped_command cmd n) = command_payload cmd"
  "state_of T U meta (cc_events (scoped_command cmd n)) = state_of T U meta (cc_events cmd)"
  by (simp_all add: scoped_command_def command_payload_def state_of_def split: option.split)

text \<open>The accumulator of the rejection loop after some pages.\<close>

definition rejection_acc :: "ContextualCommand \<Rightarrow> EventPage list \<Rightarrow> u32 \<times> EventBook" where
  "rejection_acc cmd pages =
     (initial_sequence cmd + of_nat (length pages),
      default_EventBook\<lparr>eb_next_sequence := initial_sequence cmd, eb_pages := pages\<rparr>)"

lemma absorb_rejection_acc:
  "absorb_rejection (rejection_acc cmd pages) (Resp_CommandHandler br) =
     Inr (rejection_acc cmd (pages @ emitted_pages br))"
  by (simp add: absorb_rejection_def rejection_acc_def add.assoc)

lemma rejection_visit:
  assumes "command_payload cmd = Inr payload" and "any_type_url payload = notification_url W"
    and "decode_rejection W payload = Inr (notification, key)"
  shows "visit (rejects key) (\<lambda>acc. Req_CommandHandler (scoped_command cmd (fst acc)))
     absorb_rejection (rejection_acc cmd pages) (made_aggregate W g) w =
     map_prod (map_ok (rejection_acc cmd)) id
       (compensation_answer key notification (cc_events cmd) pages g w)"
proof -
  let ?arm = "find (\<lambda>(m, d, c). key = (d, c)) (mm_rejected_with_methods (mk_meta g))"
  let ?h = "aggregate_handler (mk_types g) (mk_impl g) W (mk_args g) (mk_meta g)"
  have c: "rejects key (h_config ?h) \<longleftrightarrow> ?arm \<noteq> None"
    using rejected_arm [of key "mk_input g"]
    by (simp add: aggregate_handler_def aggregate_config_def rejects_def)
  show ?thesis
  proof (cases ?arm)
    case None
    with c have "\<not> rejects key (h_config ?h)" by simp
    with None show ?thesis
      by (simp add: made_aggregate_def compensation_answer_def compensation_for_def Let_def visit_skip)
  next
    case (Some arm)
    obtain mth d k where arm: "arm = (mth, d, k)" by (cases arm)
    have l: "rejects key (h_config ?h)" unfolding c Some by simp
    have "h_dispatch ?h (Req_CommandHandler (scoped_command cmd n)) w1 =
        (case state_of (mk_types g) (mk_impl g) (mk_meta g) (cc_events cmd) of
           Inl e \<Rightarrow> (Inl e, w1)
         | Inr state \<Rightarrow> call_method Resp_CommandHandler
             (ui_reject (mk_impl g) mth notification state w1))" for n w1
      using assms Some arm
      by (simp add: aggregate_handler_def dispatch_command_def Let_def rebuild_state_of
          rejection_arms_first cong: sum.case_cong)
    with l Some arm show ?thesis
      by (simp add: made_aggregate_def compensation_answer_def compensation_for_def Let_def visit_run
          absorbs absorb_rejection_acc split: sum.split)
  qed
qed

text \<open>The bare name of a message type, as \<open>#[rejected(domain = .., command = ..)]\<close> names it.\<close>

definition bare_name :: "'m Codec \<Rightarrow> string" where
  "bare_name c = rsplit_next (CHR ''.'') (cd_name c)"

lemma command_suffix_name:
  assumes "CHR ''/'' \<notin> set (cd_name c)"
  shows "command_suffix (full_type_url c) = bare_name c"
proof -
  have url: "full_type_url c = ''type.googleapis.com'' @ CHR ''/'' # cd_name c"
    by (simp add: full_type_url_def TYPE_URL_PREFIX_def)
  show ?thesis
    by (simp only: command_suffix_def bare_name_def url rsplit_next_append [OF assms])
qed

lemma decode_rejected:
  assumes "w_decode_notification W (any_value payload) = Inr notification"
    and "nt_payload notification = Some p"
    and "w_decode_rejection W (any_value p) =
           Inr \<lparr>rn_rejected_command = Some rejected, rn_rejection_reason = reason\<rparr>"
    and "cb_cover rejected = Some cover" and "first_command_url rejected = Some url"
  shows "decode_rejection W payload = Inr (notification, cv_domain cover, command_suffix url)"
  using assms by (simp add: decode_rejection_def rejection_key_def first_command_url_def)

text \<open>C2: From a rejected command to the marked compensation methods. When a command of type \<open>c\<close>
  for a domain was rejected and the notification of it comes to a command-handler service, whose
  router holds generated aggregates, every aggregate with a method marked for that domain and the
  bare name of the type runs it, in order of registration, on the notification and the state
  rebuilt by its own appliers from the prior events. The answer holds the pages of all events the
  methods emit, in order, and the next sequence advanced by their number; answers other than events,
  such as a revocation, add nothing. The first own event that does not decode or the first
  rejection by a method ends the call as a status. The sequence that the router hands on from
  aggregate to aggregate reaches no method.\<close>

theorem rejection_reaches_methods:
  assumes "list_all2 makes (rt_factories r) (map (made_aggregate W) aggregates)"
    and "command_payload cmd = Inr payload" and "any_type_url payload = notification_url W"
    and "w_decode_notification W (any_value payload) = Inr notification"
    and "nt_payload notification = Some p"
    and "w_decode_rejection W (any_value p) =
           Inr \<lparr>rn_rejected_command = Some rejected, rn_rejection_reason = reason\<rparr>"
    and "cb_cover rejected = Some cover" and "first_command_url rejected = Some (full_type_url c)"
    and "CHR ''/'' \<notin> set (cd_name c)"
  shows "ch_grpc_handle W r cmd w = to_response (map_prod
     (map_ok (\<lambda>pages. \<lparr>br_result = Some (BR_Events (book_of_pages (initial_sequence cmd) pages))\<rparr>)) id
     (foldW (compensation_answer (cv_domain cover, bare_name c) notification (cc_events cmd))
        aggregates [] w))"
proof -
  let ?key = "(cv_domain cover, bare_name c)"
  let ?fold = "foldW (compensation_answer ?key notification (cc_events cmd)) aggregates [] w"
  have dec: "decode_rejection W payload = Inr (notification, ?key)"
    using decode_rejected [OF assms(4-8)] command_suffix_name [OF assms(9)] by simp
  then have key: "extract_rejection_key W cmd = Inr ?key"
    using rejection_key_of [OF assms(2), of W] by simp
  have start: "(initial_sequence cmd, default_EventBook\<lparr>eb_next_sequence := initial_sequence cmd\<rparr>) =
      rejection_acc cmd []"
    by (simp add: rejection_acc_def default_EventBook_def)
  have "rejection_loop ?key cmd (rt_factories r)
      (initial_sequence cmd, default_EventBook\<lparr>eb_next_sequence := initial_sequence cmd\<rparr>) w =
      map_prod (map_ok (rejection_acc cmd)) id ?fold"
    unfolding start rejections.loop_visits [OF assms(1)] foldW_map
    by (rule foldW_abs) (rule rejection_visit [OF assms(2,3) dec])
  moreover have "extract_command_type_url cmd = Inr (notification_url W)"
    using command_payload_url [of cmd] assms(2,3) by simp
  ultimately show ?thesis
    using key
    by (cases ?fold; cases "fst ?fold")
      (simp_all add: ch_grpc_handle_def ch_dispatch_def dispatch_rejection_def Let_def
        initial_sequence_def [symmetric] rejection_acc_def book_of_pages_def)
qed

section \<open>Projectors\<close>

text \<open>A projector that takes books of a domain, and what it does with one page.\<close>

definition takes_domain :: "string option \<Rightarrow> (ProjectorArgs, 's, 'm, 'w) Marked \<Rightarrow> bool" where
  "takes_domain incoming g \<longleftrightarrow>
     (case incoming of
        None \<Rightarrow> True
      | Some d \<Rightarrow> d \<in> set (ja_domains (mk_args g)) \<or> ''*'' \<in> set (ja_domains (mk_args g)))"

definition projector_answer ::
  "unit \<Rightarrow> EventPage \<times> (ProjectorArgs, 's, 'm, 'w) Marked \<Rightarrow> 'w \<Rightarrow> (ClientError + unit) \<times> 'w" where
  "projector_answer u pg w =
     (let (page, g) = pg
      in case event_any page of
           None \<Rightarrow> (Inr (), w)
         | Some any \<Rightarrow>
             (case method_for g (any_type_url any) of
                None \<Rightarrow> (Inr (), w)
              | Some (method, ty) \<Rightarrow>
                  (case decode_arm (ty_codec (mk_types g) ty) any of
                     Inl e \<Rightarrow> (Inl e, w)
                   | Inr evt \<Rightarrow> call_method (\<lambda>v. v) (ui_project (mk_impl g) method evt w))))"

lemma projector_page:
  "h_dispatch (fst (made_projector g)) (Req_Projector (book\<lparr>eb_pages := [page]\<rparr>)) w =
     map_prod (map_ok (\<lambda>_. Resp_Projector \<lparr>pj_cover = eb_cover book, pj_projector = ja_name (mk_args g),
         pj_sequence = eb_next_sequence book, pj_projection = None\<rparr>)) id (projector_answer () (page, g) w)"
  by (auto simp: made_projector_def projector_handler_def projector_answer_def projector_arms_first
      method_for_def split: option.split sum.split prod.split)

lemma deliver_answers:
  assumes "\<And>w. \<exists>resp. h_dispatch h (Req_Projector b) w = map_prod (map_ok (\<lambda>_. Resp_Projector resp)) id (f w)"
  shows "deliver ((h, b) # ds) w = (case f w of (Inl e, w1) \<Rightarrow> (Inl e, w1) | (Inr _, w1) \<Rightarrow> deliver ds w1)"
proof -
  obtain resp where r: "h_dispatch h (Req_Projector b) w = map_prod (map_ok (\<lambda>_. Resp_Projector resp)) id (f w)"
    using assms by blast
  obtain v w1 where "f w = (v, w1)" by fastforce
  with r show ?thesis by (cases v) simp_all
qed

lemma deliver_pages:
  "deliver (map (\<lambda>(page, g). (fst (made_projector g), book\<lparr>eb_pages := [page]\<rparr>)) pgs) w =
     foldW projector_answer pgs () w"
proof (induction pgs arbitrary: w)
  case (Cons pg pgs)
  obtain page g where pg: "pg = (page, g)" by fastforce
  have "\<exists>resp. h_dispatch (fst (made_projector g)) (Req_Projector (book\<lparr>eb_pages := [page]\<rparr>)) w =
      map_prod (map_ok (\<lambda>_. Resp_Projector resp)) id (projector_answer () (page, g) w)" for w
    by (rule exI, rule projector_page)
  note step = deliver_answers [OF this]
  show ?case
    by (simp add: pg step Cons.IH del: deliver.simps(2) split: prod.split sum.split)
qed simp

lemma product_deliveries:
  "concat (map (\<lambda>p. map (\<lambda>h. (h, b p)) (map m gs)) ps) =
     map (\<lambda>(p, g). (m g, b p)) (List.product ps gs)"
  by (induction ps) simp_all

lemma collect_made:
  assumes "list_all2 makes fs (map made_projector projectors)"
  shows "collect_projectors d fs matched w =
     (matched @ map (\<lambda>g. fst (made_projector g)) (filter (takes_domain d) projectors),
      fold mk_open projectors w)"
  using assms
proof (induction fs arbitrary: projectors matched w)
  case (Cons f fs)
  then obtain g gs where g: "projectors = g # gs" "makes f (made_projector g)"
    "list_all2 makes fs (map made_projector gs)" by (auto simp: list_all2_Cons1)
  have "projector_matches d c = takes_domain d g" if "jc_domains c = ja_domains (mk_args g)" for c
    using that by (auto simp: projector_matches_def takes_domain_def list_ex_iff split: option.split)
  with g Cons.IH [OF g(3)] show ?case
    by (simp add: makes_def made_projector_def projector_handler_def projector_config_def)
qed simp

text \<open>C5: From a book to the marked projector methods. A projector service whose router holds
  generated projectors makes each of them once, then goes through the pages of the book in order,
  and for each page through the projectors that take the book's domain (all of them for a book
  without a cover) in order of registration: the method marked for the type of the page's event
  runs on the decoded event, a page without an event or of another type is passed over. The first
  event that does not decode or rejection by a method ends the call as a status, with the pages
  after it undelivered. Otherwise the answer names the book's cover and next sequence, and no
  projector.\<close>

theorem book_reaches_projector_methods:
  assumes "list_all2 makes (rt_factories r) (map made_projector projectors)"
  shows "projector_grpc_handle r book w = to_response (map_prod
     (map_ok (\<lambda>_. \<lparr>pj_cover = eb_cover book, pj_projector = [],
        pj_sequence = eb_next_sequence book, pj_projection = None\<rparr>)) id
     (foldW projector_answer
        (List.product (eb_pages book)
           (filter (takes_domain (map_option cv_domain (eb_cover book))) projectors))
        () (fold mk_open projectors w)))"
proof -
  let ?gs = "filter (takes_domain (map_option cv_domain (eb_cover book))) projectors"
  have "project_pages book (map (\<lambda>g. fst (made_projector g)) ?gs) (eb_pages book) w1 =
      foldW projector_answer (List.product (eb_pages book) ?gs) () w1" for w1
    unfolding project_pages_deliver product_deliveries by (rule deliver_pages)
  then show ?thesis
    by (simp add: projector_grpc_handle_def projector_dispatch_def collect_made [OF assms]
        split: prod.split sum.split)
qed

section \<open>Upcasters\<close>

text \<open>The method marked for a type of event, with the types it goes from and to, and the page an
  upcaster makes of a page.\<close>

definition upcast_for ::
  "('a, 's, 'm, 'w) Marked \<Rightarrow> string \<Rightarrow> (string \<times> string \<times> string) option" where
  "upcast_for g url = find (\<lambda>(m, f, t). url = full_type_url (ty_codec (mk_types g) f))
     (mm_upcasts_with_methods (mk_meta g))"

definition upcast_answer ::
  "string \<Rightarrow> EventPage \<Rightarrow> (UpcasterArgs, 's, 'm, 'w) Marked \<Rightarrow> 'w \<Rightarrow>
     (ClientError + EventPage) \<times> 'w" where
  "upcast_answer d page g w =
     (case event_any page of
        None \<Rightarrow> Inr page
      | Some any \<Rightarrow>
          (case (if ua_domain (mk_args g) = d then upcast_for g (any_type_url any) else None) of
             None \<Rightarrow> Inr page
           | Some (method, from_ty, to_ty) \<Rightarrow>
               map_ok (\<lambda>old. page\<lparr>ep_payload := Some (Ev_Event
                   \<lparr>any_type_url = full_type_url (ty_codec (mk_types g) to_ty),
                    any_value = cd_encode (ty_codec (mk_types g) to_ty) (ui_upcast (mk_impl g) method old)\<rparr>)\<rparr>)
                 (decode_arm (ty_codec (mk_types g) from_ty) any)),
      mk_open g w)"

text \<open>One event through all upcasters, and the events of a request.\<close>

definition upcast_all ::
  "string \<Rightarrow> (UpcasterArgs, 's, 'm, 'w) Marked list \<Rightarrow> EventPage list \<Rightarrow> EventPage \<Rightarrow> 'w \<Rightarrow>
     (ClientError + EventPage list) \<times> 'w" where
  "upcast_all d upcasters out page w =
     (if event_any page = None then (Inr (out @ [page]), w)
      else map_prod (map_ok (\<lambda>q. out @ [q])) id (foldW (upcast_answer d) upcasters page w))"

lemma rebuilt_page:
  "\<lparr>ep_header = ep_header page, ep_created_at = ep_created_at page, ep_payload = x,
    ep_cascade_id = ep_cascade_id page, ep_no_commit = ep_no_commit page\<rparr> = page\<lparr>ep_payload := x\<rparr>"
  by (cases page) simp

lemma upcast_arms_find:
  "upcast_arms T U arms page any =
     (case find (\<lambda>(m, f, t). any_type_url any = full_type_url (ty_codec T f)) arms of
        None \<Rightarrow> Inr page
      | Some (method, from_ty, to_ty) \<Rightarrow>
          map_ok (\<lambda>old. page\<lparr>ep_payload := Some (Ev_Event
              \<lparr>any_type_url = full_type_url (ty_codec T to_ty),
               any_value = cd_encode (ty_codec T to_ty) (ui_upcast U method old)\<rparr>)\<rparr>)
            (decode_arm (ty_codec T from_ty) any))"
  by (induction T U arms page any rule: upcast_arms.induct) (auto simp: absorbs rebuilt_page)

lemma upcast_visit:
  "visit (upcasts_for d) (single_upcast d) absorb_upcast page (made_upcaster g) w =
     upcast_answer d page g w"
proof (cases "ua_domain (mk_args g) = d")
  case False
  then show ?thesis
    by (simp add: made_upcaster_def visit_skip upcast_answer_def upcaster_handler_def
        upcaster_config_def upcasts_for_def split: option.split)
next
  case True
  then show ?thesis
    by (simp add: made_upcaster_def visit_run upcast_answer_def upcaster_handler_def
        upcaster_config_def upcasts_for_def single_upcast_def absorb_upcast_def absorbs
        upcast_arms_find upcast_for_def split: option.split)
qed

lemma upcast_answer_keeps:
  assumes "fst (upcast_answer d page g w) = Inr q"
  shows "ep_header q = ep_header page \<and> ep_created_at q = ep_created_at page
     \<and> ep_cascade_id q = ep_cascade_id page \<and> ep_no_commit q = ep_no_commit page"
  using assms
  by (auto simp: upcast_answer_def map_ok_def split: option.split_asm sum.split_asm if_split_asm)

text \<open>What no upcaster changes of a page.\<close>

definition same_envelope :: "EventPage \<Rightarrow> EventPage \<Rightarrow> bool" where
  "same_envelope p q \<longleftrightarrow> ep_header q = ep_header p \<and> ep_created_at q = ep_created_at p
     \<and> ep_cascade_id q = ep_cascade_id p \<and> ep_no_commit q = ep_no_commit p
     \<and> (event_any p = None \<longrightarrow> q = p)"

lemma upcast_all_keeps:
  assumes "fst (upcast_all d upcasters out page w) = Inr res"
  shows "\<exists>q. res = out @ [q] \<and> same_envelope page q"
proof (cases "event_any page")
  case None
  with assms show ?thesis by (simp add: upcast_all_def same_envelope_def)
next
  case (Some any)
  with assms obtain q where "fst (foldW (upcast_answer d) upcasters page w) = Inr q" "res = out @ [q]"
    by (cases "fst (foldW (upcast_answer d) upcasters page w)") (auto simp: upcast_all_def)
  moreover from this(1) have "ep_header q = ep_header page \<and> ep_created_at q = ep_created_at page
     \<and> ep_cascade_id q = ep_cascade_id page \<and> ep_no_commit q = ep_no_commit page"
    by (rule foldW_keeps [rotated 2]) (auto dest: upcast_answer_keeps)
  ultimately show ?thesis using Some by (simp add: same_envelope_def)
qed

lemma upcast_events_keep:
  "fst (foldW (upcast_all d upcasters) ps out w) = Inr res \<Longrightarrow>
     \<exists>qs. res = out @ qs \<and> list_all2 same_envelope ps qs"
proof (induction ps arbitrary: out w)
  case (Cons p ps)
  obtain r w1 where r: "upcast_all d upcasters out p w = (r, w1)" by fastforce
  with Cons.prems obtain out1 where out1: "r = Inr out1"
    "fst (foldW (upcast_all d upcasters) ps out1 w1) = Inr res" by (cases r) auto
  from upcast_all_keeps [of d upcasters out p w out1] r out1(1)
  obtain q where "out1 = out @ [q]" "same_envelope p q" by auto
  with Cons.IH [OF out1(2)] show ?case by force
qed simp

lemma upcast_pages_made:
  assumes "list_all2 makes fs (map made_upcaster upcasters)"
  shows "upcast_pages d fs ps out w = foldW (upcast_all d upcasters) ps out w"
proof (induction ps arbitrary: out w)
  case (Cons p ps)
  have "upcast_page d fs p w = foldW (upcast_answer d) upcasters p w"
    unfolding upcasts.loop_visits [OF assms] foldW_map by (rule foldW_cong) (rule upcast_visit)
  then show ?case
    by (auto simp: upcast_all_def event_any_def Cons.IH
        split: option.split EventPayload.split prod.split sum.split)
qed simp

text \<open>C6: From an old event to the newest version. An upcaster service whose router holds
  generated upcasters sends every event of a request through all upcasters of the request's
  domain in order of registration, each one taking up what the one before it left: where it marks
  a method for the type the event then has, the event is decoded as that type and replaced by
  what the method makes of it, under the URL of the method's target type, so that a chain of
  versions registered in ascending order is run to its end. The answer has as many pages as the
  request, in order, each with the header, timestamp, cascade id and commit flag it came with, and
  pages without an event unchanged; the first event that does not decode ends the call.\<close>

theorem event_reaches_upcast_methods:
  assumes "list_all2 makes (rt_factories r) (map made_upcaster upcasters)"
  shows "upcaster_grpc_upcast r request w = to_response (map_prod
       (map_ok (\<lambda>out. \<lparr>ur_events = out\<rparr>)) id
       (foldW (upcast_all (uq_domain request) upcasters) (uq_events request) [] w))
    \<and> (\<forall>resp. fst (upcaster_grpc_upcast r request w) = Inr resp \<longrightarrow>
         list_all2 same_envelope (uq_events request) (ur_events resp))"
proof -
  let ?fold = "foldW (upcast_all (uq_domain request) upcasters) (uq_events request) [] w"
  have eq: "upcaster_grpc_upcast r request w =
      to_response (map_prod (map_ok (\<lambda>out. \<lparr>ur_events = out\<rparr>)) id ?fold)"
    by (simp add: upcaster_grpc_upcast_def upcaster_dispatch_def upcast_pages_made [OF assms]
        split: prod.split sum.split)
  moreover have "list_all2 same_envelope (uq_events request) (ur_events resp)"
    if "fst (upcaster_grpc_upcast r request w) = Inr resp" for resp
  proof -
    from that eq obtain out where "fst ?fold = Inr out" "resp = \<lparr>ur_events = out\<rparr>"
      by (cases "fst ?fold") auto
    with upcast_events_keep [OF this(1)] show ?thesis by simp
  qed
  ultimately show ?thesis by blast
qed

section \<open>An example impl block\<close>

definition marked_fn :: "string \<Rightarrow> string \<Rightarrow> token list \<Rightarrow> impl_item" where
  "marked_fn name marker args =
     Item_Fn \<lparr>im_ident = name, im_attrs = [\<lparr>at_path = [marker], at_meta = Meta_List args\<rparr>]\<rparr>"

definition stock_impl :: ItemImpl where
  "stock_impl = \<lparr>ii_attrs = [], ii_items =
     [marked_fn ''paid'' ''handles'' [T_Ident ''Paid''],
      marked_fn ''seen'' ''applies'' [T_Ident ''Seen''],
      marked_fn ''release'' ''rejected''
        [T_Ident ''domain'', T_Eq, T_Str ''order'', T_Comma, T_Ident ''command'', T_Eq, T_Str ''Reserve''],
      marked_fn ''up'' ''upcasts'' [T_Ident ''from'', T_Eq, T_Ident ''V1'', T_Comma, T_Ident ''to'', T_Eq, T_Ident ''V2'']]\<rparr>"

lemma stock_metadata:
  "collect_method_metadata stock_impl = no_metadata
     \<lparr>mm_handled := [''Paid''], mm_handled_with_methods := [(''paid'', ''Paid'')],
      mm_applies := [''Seen''], mm_applies_with_methods := [(''seen'', ''Seen'')],
      mm_rejected := [(''order'', ''Reserve'')],
      mm_rejected_with_methods := [(''release'', ''order'', ''Reserve'')],
      mm_upcasts_with_methods := [(''up'', ''V1'', ''V2'')]\<rparr>"
  by (simp add: stock_impl_def marked_fn_def collect_method_metadata_def collect_item_def collect_attr_def
      is_ident_def get_attr_ident_def no_metadata_def get_rejected_args_def parse_rejected_args_def rejected_step_def
      get_upcasts_args_def
      parse_upcasts_args_def upcasts_step_def require_non_empty_str_def required_ident_def)

text \<open>Its types are byte strings; its methods log what they get, and so do its factories.\<close>

definition stock_user :: "(bytes, bytes, bytes list) UserImpl" where
  "stock_user =
     \<lparr>ui_handle = (\<lambda>m v s n w. (Inr (event_book None []), w)),
      ui_reject = (\<lambda>m n s w. (Inr \<lparr>br_result = Some (BR_Events
         (event_book None [event_page 0 (raw_any ''Released'' s)]))\<rparr>, s # w)),
      ui_fact = (\<lambda>m v s w. (Inr (event_book None []), w)),
      ui_saga = (\<lambda>m v w. (Inr \<lparr>sr_commands =
         [\<lparr>cb_cover = None, cb_pages = [command_page 0 (raw_any ''Reserve'' v)]\<rparr>], sr_events = []\<rparr>, v # w)),
      ui_pm = (\<lambda>m v s w. (Inr \<lparr>pr_commands =
         [\<lparr>cb_cover = None, cb_pages = [command_page 0 (raw_any ''Reserve'' (s @ v))]\<rparr>],
         pr_process_events = [], pr_facts = []\<rparr>, v # w)),
      ui_project = (\<lambda>m v w. (Inr (), v # w)),
      ui_apply = (\<lambda>m s v. s @ v),
      ui_factory = (\<lambda>m. []),
      ui_upcast = (\<lambda>m v. v @ [2])\<rparr>"

definition stock :: "'a \<Rightarrow> ('a, bytes, bytes, bytes list) Marked" where
  "stock args = \<lparr>mk_args = args, mk_input = stock_impl, mk_types = example_types,
     mk_impl = stock_user, mk_open = Cons [0]\<rparr>"

definition stock_router :: "('w Handler \<times> ('w \<Rightarrow> 'w)) list \<Rightarrow> 'w RuntimeRouter" where
  "stock_router hks = \<lparr>rt_factories = map (\<lambda>hk. \<lparr>fac_kind = config_kind (h_config (fst hk)),
       fac_produce = (\<lambda>w. (fst hk, snd hk w))\<rparr>) hks, rt_cached_name = None\<rparr>"

lemma stock_makes: "list_all2 makes (rt_factories (stock_router hks)) hks"
  by (simp add: stock_router_def list_all2_conv_all_nth makes_def)

lemma stock_sel [simp]:
  "mk_args (stock args) = args" "mk_open (stock args) = Cons [0]"
  "ui_saga (mk_impl (stock args)) = ui_saga stock_user" "ui_pm (mk_impl (stock args)) = ui_pm stock_user"
  "ui_reject (mk_impl (stock args)) = ui_reject stock_user"
  "ui_project (mk_impl (stock args)) = ui_project stock_user"
  "ui_upcast (mk_impl (stock args)) = ui_upcast stock_user"
  by (simp_all add: stock_def)

lemma stock_types [simp]:
  "decode_arm (ty_codec (mk_types (stock args)) ty) any = Inr (any_value any)"
  "full_type_url (ty_codec (mk_types (stock args)) ty) = TYPE_URL_PREFIX @ ty"
  "cd_encode (ty_codec (mk_types (stock args)) ty) v = v"
  by (simp_all add: stock_def example_types_def decode_arm_def bytes_codec_def full_type_url_def)

lemma raw_any_sel [simp]:
  "any_type_url (raw_any name v) = TYPE_URL_PREFIX @ name" "any_value (raw_any name v) = v"
  by (simp_all add: raw_any_def)

lemma stock_methods [simp]:
  "method_for (stock args) (TYPE_URL_PREFIX @ name) = (if name = ''Paid'' then Some (''paid'', ''Paid'') else None)"
  "compensation_for (stock args) key = (if key = (''order'', ''Reserve'') then Some ''release'' else None)"
  "upcast_for (stock args) (TYPE_URL_PREFIX @ name) = (if name = ''V1'' then Some (''up'', ''V1'', ''V2'') else None)"
  "state_of (mk_types (stock args)) (mk_impl (stock args)) (mk_meta (stock args))
     (Some (event_book c [event_page n (raw_any ''Seen'' v)])) = Inr v"
  by (auto simp: method_for_def compensation_for_def upcast_for_def stock_def stock_metadata example_types_def
      bytes_codec_def full_type_url_def no_metadata_def state_of_def event_book_def event_page_def event_any_def
      raw_any_def List.map_filter_def initial_state_def decode_arm_def stock_user_def)

definition stock_event :: "string \<Rightarrow> EventBook" where
  "stock_event name = event_book (Some order_cover) [event_page 0 (raw_any name [7])]"

lemma stock_trigger [simp]:
  "trigger_any (Some (stock_event name)) = Some (raw_any name [7])"
  "book_domain (Some (stock_event name)) = ''order''"
  by (simp_all add: stock_event_def trigger_any_def event_book_def event_page_def event_any_def
      raw_any_def book_domain_def order_cover_def)

theorem saga_event_reaches_methods_witness:
  "saga_grpc_handle
     (stock_router (map made_saga
        [stock \<lparr>sa_name = ''a'', sa_source = ''other'', sa_target = ''t'', sa_sync = True\<rparr>,
         stock \<lparr>sa_name = ''b'', sa_source = ''order'', sa_target = ''t'', sa_sync = True\<rparr>]))
     \<lparr>sg_source = Some (stock_event ''Paid''), sg_destination_sequences = Map.empty\<rparr> [] =
   (Inr \<lparr>sr_commands = [\<lparr>cb_cover = None, cb_pages = [command_page 0 (raw_any ''Reserve'' [7])]\<rparr>],
         sr_events = []\<rparr>, [[7], [0], [0]])"
proof -
  let ?sagas = "[stock \<lparr>sa_name = ''a'', sa_source = ''other'', sa_target = ''t'', sa_sync = True\<rparr>,
      stock \<lparr>sa_name = ''b'', sa_source = ''order'', sa_target = ''t'', sa_sync = True\<rparr>]"
  let ?r = "\<lparr>sg_source = Some (stock_event ''Paid''), sg_destination_sequences = Map.empty\<rparr>"
  from saga_event_reaches_methods [OF stock_makes, where sagas = ?sagas and request = ?r and w = "[]"]
  have "saga_grpc_handle (stock_router (map made_saga ?sagas)) ?r [] = to_response
      (foldW (saga_answer ''order'' (raw_any ''Paid'' [7])) ?sagas default_SagaResponse [])"
    by simp
  then show ?thesis
    by (simp add: saga_answer_def call_method_def stock_user_def plus_SagaResponse_ext_def
        zero_SagaResponse_ext_def to_response_def)
qed

theorem pm_event_reaches_methods_witness:
  "pm_grpc_handle
     (stock_router (map made_pm
        [stock \<lparr>pa_name = ''p'', pa_pm_domain = ''flow'', pa_state = ''State'', pa_sources = [''order''],
                pa_targets = [''t''], pa_sync_targets = []\<rparr>]))
     \<lparr>pm_trigger = Some (stock_event ''Paid''),
      pm_process_state = Some (event_book None [event_page 0 (raw_any ''Seen'' [5])]),
      pm_destination_sequences = Map.empty\<rparr> [] =
   (Inr \<lparr>pr_commands = [\<lparr>cb_cover = None, cb_pages = [command_page 0 (raw_any ''Reserve'' [5, 7])]\<rparr>],
         pr_process_events = [], pr_facts = []\<rparr>, [[7], [0]])"
proof -
  let ?p = "stock \<lparr>pa_name = ''p'', pa_pm_domain = ''flow'', pa_state = ''State'', pa_sources = [''order''],
      pa_targets = [''t''], pa_sync_targets = []\<rparr>"
  let ?r = "\<lparr>pm_trigger = Some (stock_event ''Paid''),
      pm_process_state = Some (event_book None [event_page 0 (raw_any ''Seen'' [5])]),
      pm_destination_sequences = Map.empty\<rparr>"
  from pm_event_reaches_methods [OF stock_makes, where pms = "[?p]" and request = ?r and w = "[]"]
  have "pm_grpc_handle (stock_router (map made_pm [?p])) ?r [] = to_response
      (foldW (pm_answer ''order'' (raw_any ''Paid'' [7]) (pm_process_state ?r)) [?p] default_PMHandleResponse [])"
    by simp
  then show ?thesis
    by (simp add: pm_answer_def call_method_def stock_user_def plus_PMHandleResponse_ext_def
        zero_PMHandleResponse_ext_def to_response_def)
qed

theorem rejection_reaches_methods_witness:
  "ch_grpc_handle example_wire (stock_router (map (made_aggregate example_wire)
       [stock example_args, stock example_args]))
     \<lparr>cc_events = Some (event_book None [event_page 0 (raw_any ''Seen'' [5])]),
      cc_command = Some \<lparr>cb_cover = None,
        cb_pages = [command_page 0 (raw_any ''angzarr.Notification'' [])]\<rparr>\<rparr> [] =
   (Inr \<lparr>br_result = Some (BR_Events (book_of_pages 0
       [event_page 0 (raw_any ''Released'' [5]), event_page 0 (raw_any ''Released'' [5])]))\<rparr>,
    [[5], [0], [5], [0]])"
proof -
  let ?gs = "[stock example_args, stock example_args]"
  let ?cmd = "\<lparr>cc_events = Some (event_book None [event_page 0 (raw_any ''Seen'' [5])]),
      cc_command = Some \<lparr>cb_cover = None,
        cb_pages = [command_page 0 (raw_any ''angzarr.Notification'' [])]\<rparr>\<rparr>"
  let ?rejected = "\<lparr>cb_cover = Some order_cover, cb_pages = [command_page 0 (raw_any ''shop.Reserve'' [])]\<rparr>"
  have payload: "command_payload ?cmd = Inr (raw_any ''angzarr.Notification'' [])"
    by (simp add: command_payload_def command_page_def)
  have url: "any_type_url (raw_any ''angzarr.Notification'' []) = notification_url example_wire"
    by (simp add: notification_url_def example_wire_def)
  have first: "first_command_url ?rejected = Some (full_type_url (bytes_codec ''shop.Reserve''))"
    by (simp add: first_command_url_def command_page_def full_type_url_def bytes_codec_def)
  have name: "CHR ''/'' \<notin> set (cd_name (bytes_codec ''shop.Reserve''))"
    by (simp add: bytes_codec_def)
  have bare: "bare_name (bytes_codec ''shop.Reserve'') = ''Reserve''"
    by (simp add: bare_name_def bytes_codec_def rsplit_next_def)
  have domain: "cv_domain order_cover = ''order''" by (simp add: order_cover_def)
  have start: "initial_sequence ?cmd = 0" by (simp add: initial_sequence_def event_book_def)
  have "ch_grpc_handle example_wire (stock_router (map (made_aggregate example_wire) ?gs)) ?cmd [] =
      to_response (map_prod (map_ok (\<lambda>pages. \<lparr>br_result =
          Some (BR_Events (book_of_pages (initial_sequence ?cmd) pages))\<rparr>)) id
        (foldW (compensation_answer (cv_domain order_cover, bare_name (bytes_codec ''shop.Reserve''))
            \<lparr>nt_other = [], nt_payload = Some (raw_any ''angzarr.RejectionNotification'' [])\<rparr>
            (cc_events ?cmd)) ?gs [] []))"
    by (rule rejection_reaches_methods [where reason = "''no stock''"
          and p = "raw_any ''angzarr.RejectionNotification'' []",
        OF stock_makes payload url _ _ _ _ first name])
      (simp_all add: example_wire_def)
  then show ?thesis
    unfolding start domain bare
    by (simp add: compensation_answer_def call_method_def stock_user_def emitted_pages_def to_response_def)
      (simp add: event_book_def)
qed

theorem book_reaches_projector_methods_witness:
  "projector_grpc_handle
     (stock_router (map made_projector
        [stock \<lparr>ja_name = ''j'', ja_domains = [''order'']\<rparr>, stock \<lparr>ja_name = ''k'', ja_domains = [''other'']\<rparr>]))
     (event_book (Some order_cover) [event_page 0 (raw_any ''Paid'' [7]), event_page 1 (raw_any ''Sent'' [8]),
        event_page 2 (raw_any ''Paid'' [9])]) [] =
   (Inr \<lparr>pj_cover = Some order_cover, pj_projector = [], pj_sequence = 0, pj_projection = None\<rparr>,
    [[9], [7], [0], [0]])"
proof -
  let ?gs = "[stock \<lparr>ja_name = ''j'', ja_domains = [''order'']\<rparr>, stock \<lparr>ja_name = ''k'', ja_domains = [''other'']\<rparr>]"
  have any: "event_any (event_page n a) = Some a" for n a by (simp add: event_any_def event_page_def)
  show ?thesis
    unfolding book_reaches_projector_methods [OF stock_makes]
    by (simp add: projector_answer_def takes_domain_def any call_method_def stock_user_def to_response_def
        event_book_def order_cover_def)
qed

theorem event_reaches_upcast_methods_witness:
  "upcaster_grpc_upcast
     (stock_router (map made_upcaster [stock \<lparr>ua_name = ''u'', ua_domain = ''order''\<rparr>]))
     \<lparr>uq_domain = ''order'', uq_events = [event_page 4 (raw_any ''V1'' [7]), event_page 5 (raw_any ''Paid'' [7])]\<rparr> [] =
   (Inr \<lparr>ur_events = [event_page 4 (raw_any ''V2'' [7, 2]), event_page 5 (raw_any ''Paid'' [7])]\<rparr>, [[0], [0]])"
proof -
  let ?u = "stock \<lparr>ua_name = ''u'', ua_domain = ''order''\<rparr>"
  let ?r = "\<lparr>uq_domain = ''order'', uq_events = [event_page 4 (raw_any ''V1'' [7]), event_page 5 (raw_any ''Paid'' [7])]\<rparr>"
  have any: "event_any (event_page n a) = Some a" for n a by (simp add: event_any_def event_page_def)
  from event_reaches_upcast_methods [OF stock_makes, where upcasters = "[?u]" and request = ?r and w = "[]"]
  show ?thesis
    by (simp add: upcast_all_def upcast_answer_def any stock_user_def to_response_def)
      (simp add: event_page_def raw_any_def)
qed

end
