(* ===== verification/Generated_Facts.thy ===== *)
theory Generated_Facts
  imports Generated_Routers
begin

text \<open>
  Facts and replays of generated aggregates: the services \<open>handle_fact\<close> and \<open>replay\<close> of
  \<^verbatim>\<open>src/src/handler.rs\<close> over the router and the dispatch
  \<^verbatim>\<open>angzarr-macros/src/lib.rs\<close> generates, in terms of the marked methods.

  Both services first ask the factories whether any aggregate opted in, making one after the
  other until one did, and then hand the request to the first aggregate, made anew.
\<close>

section \<open>The gate\<close>

text \<open>The world after the aggregates were made up to the first that opted in.\<close>

fun opened_until :: "(('a, 's, 'm, 'w) Marked \<Rightarrow> bool) \<Rightarrow> ('a, 's, 'm, 'w) Marked list \<Rightarrow> 'w \<Rightarrow> 'w" where
  "opened_until p [] w = w"
| "opened_until p (g # gs) w =
     (if p g then mk_open g w else opened_until p gs (mk_open g w))"

definition takes_facts :: "('a, 's, 'm, 'w) Marked \<Rightarrow> bool" where
  "takes_facts g \<longleftrightarrow> mm_handles_fact (mk_meta g) \<noteq> []"

definition takes_replays :: "(AggregateArgs, 's, 'm, 'w) Marked \<Rightarrow> bool" where
  "takes_replays g \<longleftrightarrow> aa_supports_replay (mk_args g)"

lemma config_any_made:
  assumes "list_all2 makes fs (map m gs)" and "\<And>g. p (h_config (fst (m g))) = q g"
    and "\<And>g. snd (m g) = mk_open g"
  shows "config_any p fs w = (\<exists>g \<in> set gs. q g, opened_until q gs w)"
  using assms(1)
proof (induction fs arbitrary: gs w)
  case (Cons f fs)
  then obtain g hs where g: "gs = g # hs" "makes f (m g)" "list_all2 makes fs (map m hs)"
    by (auto simp: list_all2_Cons1)
  obtain h k where h: "m g = (h, k)" by fastforce
  with g(2) have made: "fac_produce f w = (h, k w)" by (simp add: makes_def)
  have k: "k = mk_open g" and p: "p (h_config h) = q g" using h assms(2,3) [of g] by simp_all
  show ?case
    using made Cons.IH [OF g(3), of "k w"] unfolding g(1) by (simp add: k p)
qed simp

lemma made_aggregate_sel [simp]:
  "h_config (fst (made_aggregate W g)) = aggregate_config (mk_types g) (mk_args g) (mk_meta g)"
  "snd (made_aggregate W g) = mk_open g"
  by (simp_all add: made_aggregate_def aggregate_handler_def)

lemma facts_gate:
  "list_all2 makes (rt_factories r) (map (made_aggregate W) gs) \<Longrightarrow>
   supports_handle_fact r w = (\<exists>g \<in> set gs. takes_facts g, opened_until takes_facts gs w)"
  unfolding supports_handle_fact_def
  by (rule config_any_made, assumption)
    (simp_all add: aggregate_config_def takes_facts_def)

lemma replays_gate:
  "list_all2 makes (rt_factories r) (map (made_aggregate W) gs) \<Longrightarrow>
   supports_replay r w = (\<exists>g \<in> set gs. takes_replays g, opened_until takes_replays gs w)"
  unfolding supports_replay_def
  by (rule config_any_made, assumption)
    (simp_all add: aggregate_config_def takes_replays_def)

section \<open>Facts\<close>

text \<open>What an aggregate adds to the answer for one page of facts: the events its method marked for
  the fact's type emits, on the state before all facts.\<close>

definition fact_answer ::
  "(AggregateArgs, 's, 'm, 'w) Marked \<Rightarrow> 's \<Rightarrow> EventPage list \<Rightarrow> EventPage \<Rightarrow> 'w \<Rightarrow>
     (ClientError + EventPage list) \<times> 'w" where
  "fact_answer g state pages page w =
     (case event_any page of
        None \<Rightarrow> (Inr pages, w)
      | Some any \<Rightarrow>
          (case first_arm (mk_types g) (mm_handles_fact_with_methods (mk_meta g)) (any_type_url any) of
             None \<Rightarrow> (Inr pages, w)
           | Some (method, ty) \<Rightarrow>
               (case decode_arm (ty_codec (mk_types g) ty) any of
                  Inl e \<Rightarrow> (Inl e, w)
                | Inr evt \<Rightarrow> call_method (\<lambda>events. pages @ eb_pages events)
                    (ui_fact (mk_impl g) method evt state w))))"

definition facts_answer ::
  "(AggregateArgs, 's, 'm, 'w) Marked \<Rightarrow> FactRequest \<Rightarrow> 'w \<Rightarrow> (ClientError + EventBook) \<times> 'w" where
  "facts_answer g request w =
     (let w1 = mk_open g w
      in case state_of (mk_types g) (mk_impl g) (mk_meta g) (fr_prior_events request) of
           Inl e \<Rightarrow> (Inl e, w1)
         | Inr state \<Rightarrow>
             map_prod (map_ok (\<lambda>pages. default_EventBook\<lparr>eb_pages := pages\<rparr>)) id
               (foldW (fact_answer g state) (eb_pages (unwrap_or default_EventBook (fr_facts request)))
                  [] w1))"

abbreviation book_with :: "EventPage list \<Rightarrow> EventBook" where
  "book_with pages \<equiv> default_EventBook\<lparr>eb_pages := pages\<rparr>"

lemma fact_page:
  "fact_arms (mk_types g) (mk_impl g) (mm_handles_fact_with_methods (mk_meta g)) any state
     (book_with pages) w =
   (case first_arm (mk_types g) (mm_handles_fact_with_methods (mk_meta g)) (any_type_url any) of
      None \<Rightarrow> (Inr (book_with pages), w)
    | Some (method, ty) \<Rightarrow>
        (case decode_arm (ty_codec (mk_types g) ty) any of
           Inl e \<Rightarrow> (Inl e, w)
         | Inr evt \<Rightarrow> map_prod (map_ok book_with) id (call_method (\<lambda>events. pages @ eb_pages events)
             (ui_fact (mk_impl g) method evt state w))))"
  by (simp add: fact_arms_first absorbs split: option.split sum.split prod.split)

lemma fact_pages_answers:
  "fact_pages (mk_types g) (mk_impl g) (mm_handles_fact_with_methods (mk_meta g)) ps state
     (book_with pages) w =
   map_prod (map_ok book_with) id (foldW (fact_answer g state) ps pages w)"
proof (induction ps arbitrary: pages w)
  case (Cons p ps)
  show ?case
  proof (cases "event_any p")
    case None
    with Cons.IH show ?thesis by (simp add: fact_answer_def)
  next
    case (Some any)
    have "fact_arms (mk_types g) (mk_impl g) (mm_handles_fact_with_methods (mk_meta g)) any state
        (book_with pages) w = map_prod (map_ok book_with) id (fact_answer g state pages p w)"
      unfolding fact_page by (simp add: fact_answer_def Some split: option.split sum.split)
    with Some Cons.IH show ?thesis
      by (cases "fact_answer g state pages p w"; cases "fst (fact_answer g state pages p w)") simp_all
  qed
qed simp

lemma dispatch_facts:
  assumes "list_all2 makes (rt_factories r) (map (made_aggregate W) (g # gs))"
  shows "dispatch_fact r request w = facts_answer g request w"
proof -
  obtain f fs where fs: "rt_factories r = f # fs" "makes f (made_aggregate W g)"
    using assms by (auto simp: list_all2_Cons2)
  have start: "default_EventBook = book_with []" by (simp add: default_EventBook_def)
  have book: "fact_pages (mk_types g) (mk_impl g) (mm_handles_fact_with_methods (mk_meta g)) ps state
      default_EventBook w1 = map_prod (map_ok book_with) id (foldW (fact_answer g state) ps [] w1)"
    for ps state w1 by (subst start) (rule fact_pages_answers)
  have "is_command_handler (aggregate_config (mk_types g) (mk_args g) (mk_meta g))"
    by (simp add: is_command_handler_def aggregate_config_def)
  with fs show ?thesis
    by (simp add: dispatch_fact_def makes_def made_aggregate_def aggregate_handler_def
        dispatch_fact_request_def facts_answer_def Let_def rebuild_state_of book
        split: sum.split prod.split)
qed

section \<open>Replays\<close>

text \<open>The state a replay computes: the base, the snapshot's state or the initial one, with the
  events of the request applied.\<close>

definition replayed ::
  "(AggregateArgs, 's, 'm, 'w) Marked \<Rightarrow> ReplayRequest \<Rightarrow> ClientError + 's" where
  "replayed g request =
     bindR (replay_base (mk_types g) (mk_impl g) (mk_meta g) request)
       (foldR (\<lambda>s any. apply_arms (mk_types g) (mk_impl g) (mm_applies_with_methods (mk_meta g)) any s)
          (List.map_filter event_any (rq_events request)))"

definition packed_state :: "('s, 'm) Types \<Rightarrow> 's \<Rightarrow> Any_msg" where
  "packed_state T s = \<lparr>any_type_url = full_type_url (ty_state T), any_value = cd_encode (ty_state T) s\<rparr>"

lemma replayed_from_start:
  "rq_base_snapshot request = None \<Longrightarrow>
   replayed g request = state_of (mk_types g) (mk_impl g) (mk_meta g) (Some (book_with (rq_events request)))"
  by (simp add: replayed_def replay_base_def state_of_def)

lemma replay_request:
  "dispatch_replay_request (mk_types g) (mk_impl g) (mk_args g) (mk_meta g) request =
     (if takes_replays g
      then map_ok (\<lambda>s. Resp_Replay \<lparr>rp_state = Some (packed_state (mk_types g) s)\<rparr>) (replayed g request)
      else Inl (wrong_request ''CommandHandler (supports_replay=false)''))"
  by (simp add: dispatch_replay_request_def replayed_def packed_state_def takes_replays_def
      rebuild_state_fold map_ok_bindR bindR_Inr_map)

lemma dispatch_replays:
  assumes "list_all2 makes (rt_factories r) (map (made_aggregate W) (g # gs))"
  shows "dispatch_replay r request w =
     (if takes_replays g
      then map_ok (\<lambda>s. \<lparr>rp_state = Some (packed_state (mk_types g) s)\<rparr>) (replayed g request)
      else Inl (wrong_request ''CommandHandler (supports_replay=false)''), mk_open g w)"
proof -
  obtain f fs where fs: "rt_factories r = f # fs" "makes f (made_aggregate W g)"
    using assms by (auto simp: list_all2_Cons2)
  have "is_command_handler (aggregate_config (mk_types g) (mk_args g) (mk_meta g))"
    by (simp add: is_command_handler_def aggregate_config_def)
  with fs show ?thesis
    by (cases "replayed g request")
      (simp_all add: dispatch_replay_def makes_def made_aggregate_def aggregate_handler_def
        replay_request)
qed

section \<open>The services\<close>

text \<open>C7: From a fact or a replay to the marked methods. A command-handler service whose router
  holds generated aggregates makes them one after the other until one has opted in (to facts by a
  method marked \<open>#[handles_fact]\<close>, to replays by \<open>supports_replay\<close>); if none has, the call is
  unimplemented and nothing else runs. Otherwise the first aggregate registered, made anew,
  answers, whether or not it is the one that opted in: to facts with the events its methods emit,
  fact by fact, on the state rebuilt from the prior events and without the facts themselves; to a
  replay with its packed state after the events, on top of the base snapshot, and an error when it
  did not opt in itself. The router's other aggregates see neither.\<close>

theorem facts_and_replays_reach_first_aggregate:
  assumes "list_all2 makes (rt_factories r) (map (made_aggregate W) (g # gs))"
  shows "ch_grpc_handle_fact r fq w =
       (let w1 = opened_until takes_facts (g # gs) w
        in if \<exists>h \<in> set (g # gs). takes_facts h then to_response (facts_answer g fq w1)
           else (Inl (status_unimplemented
                   ''no #[handles_fact] methods declared on registered command_handler''), w1))
    \<and> ch_grpc_replay r rq w =
       (let w1 = opened_until takes_replays (g # gs) w
        in if \<exists>h \<in> set (g # gs). takes_replays h
           then to_response
             (if takes_replays g
              then map_ok (\<lambda>s. \<lparr>rp_state = Some (packed_state (mk_types g) s)\<rparr>) (replayed g rq)
              else Inl (wrong_request ''CommandHandler (supports_replay=false)''), mk_open g w1)
           else (Inl (status_unimplemented
                   ''command_handler did not opt in via #[command_handler(supports_replay = true)]''), w1))"
proof -
  have "ch_grpc_handle_fact r fq w =
      (let (supported, w1) = supports_handle_fact r w
       in if supported then to_response (dispatch_fact r fq w1)
          else (Inl (status_unimplemented
                  ''no #[handles_fact] methods declared on registered command_handler''), w1))"
    by (simp add: ch_grpc_handle_fact_def split: prod.split)
  moreover have "ch_grpc_replay r rq w =
      (let (supported, w1) = supports_replay r w
       in if supported then to_response (dispatch_replay r rq w1)
          else (Inl (status_unimplemented
                  ''command_handler did not opt in via #[command_handler(supports_replay = true)]''), w1))"
    by (simp add: ch_grpc_replay_def split: prod.split)
  ultimately show ?thesis
    unfolding facts_gate [OF assms] replays_gate [OF assms] dispatch_facts [OF assms]
      dispatch_replays [OF assms] by (simp only: Let_def prod.case)
qed

section \<open>An example\<close>

text \<open>An impl block that counts facts and one that marks nothing.\<close>

definition count_impl :: ItemImpl where
  "count_impl = \<lparr>ii_attrs = [], ii_items =
     [marked_fn ''seen'' ''applies'' [T_Ident ''Seen''],
      marked_fn ''count'' ''handles_fact'' [T_Ident ''Arrived'']]\<rparr>"

lemma count_metadata:
  "collect_method_metadata count_impl = no_metadata
     \<lparr>mm_applies := [''Seen''], mm_applies_with_methods := [(''seen'', ''Seen'')],
      mm_handles_fact := [''Arrived''], mm_handles_fact_with_methods := [(''count'', ''Arrived'')]\<rparr>"
  by (simp add: count_impl_def marked_fn_def collect_method_metadata_def collect_item_def
      collect_attr_def is_ident_def get_attr_ident_def no_metadata_def)

definition count_user :: "(bytes, bytes, bytes list) UserImpl" where
  "count_user = stock_user
     \<lparr>ui_fact := (\<lambda>m v s w. (Inr (event_book None [event_page 0 (raw_any ''Counted'' (s @ v))]), v # w))\<rparr>"

definition counter :: "(AggregateArgs, bytes, bytes, bytes list) Marked" where
  "counter = \<lparr>mk_args = example_args, mk_input = count_impl, mk_types = example_types,
     mk_impl = count_user, mk_open = Cons [0]\<rparr>"

lemmas counter_defs = counter_def count_metadata count_user_def stock_user_def example_types_def
  example_args_def bytes_codec_def full_type_url_def no_metadata_def raw_any_def event_page_def
  event_any_def decode_arm_def initial_state_def List.map_filter_def

theorem facts_and_replays_reach_first_aggregate_witness:
  "ch_grpc_handle_fact (stock_router (map (made_aggregate example_wire) [counter, stock example_args]))
     \<lparr>fr_facts = Some (event_book None [event_page 0 (raw_any ''Arrived'' [7]),
        event_page 1 (raw_any ''Other'' [8]), event_page 2 (raw_any ''Arrived'' [9])]),
      fr_prior_events = Some (event_book None [event_page 0 (raw_any ''Seen'' [5])])\<rparr> [] =
     (Inr (event_book None [event_page 0 (raw_any ''Counted'' [5, 7]),
        event_page 0 (raw_any ''Counted'' [5, 9])]), [[9], [7], [0], [0]])
   \<and> fst (ch_grpc_replay (stock_router (map (made_aggregate example_wire) [counter, stock example_args]))
       \<lparr>rq_base_snapshot = None, rq_events = [event_page 0 (raw_any ''Seen'' [5]),
          event_page 1 (raw_any ''Seen'' [6])]\<rparr> []) =
     Inr \<lparr>rp_state = Some (packed_state example_types [5, 6])\<rparr>"
proof -
  let ?gs = "[stock example_args]"
  let ?fq = "\<lparr>fr_facts = Some (event_book None [event_page 0 (raw_any ''Arrived'' [7]),
        event_page 1 (raw_any ''Other'' [8]), event_page 2 (raw_any ''Arrived'' [9])]),
      fr_prior_events = Some (event_book None [event_page 0 (raw_any ''Seen'' [5])])\<rparr>"
  let ?rq = "\<lparr>rq_base_snapshot = None, rq_events = [event_page 0 (raw_any ''Seen'' [5]),
      event_page 1 (raw_any ''Seen'' [6])]\<rparr>"
  have opted: "takes_facts counter" "takes_replays counter"
    by (simp_all add: takes_facts_def takes_replays_def counter_defs)
  have opens: "mk_open counter = Cons [0]" "mk_types counter = example_types"
    by (simp_all add: counter_def)
  have facts: "facts_answer counter ?fq w1 =
      (Inr (event_book None [event_page 0 (raw_any ''Counted'' [5, 7]),
        event_page 0 (raw_any ''Counted'' [5, 9])]), [9] # [7] # [0] # w1)" for w1
    by (simp add: facts_answer_def fact_answer_def state_of_def call_method_def counter_defs
        event_book_def default_EventBook_def)
  have replay: "replayed counter ?rq = Inr [5, 6]"
    by (simp add: replayed_def replay_base_def counter_defs)
  show ?thesis
    using facts_and_replays_reach_first_aggregate [OF stock_makes, where g = counter and gs = ?gs
        and fq = ?fq and rq = ?rq and w = "[]"]
    by (simp add: opted opens facts replay to_response_def)
qed

end
