(* ===== verification/Transport.thy ===== *)
theory Transport
  imports Errors
begin

text \<open>
  \<^verbatim>\<open>src/src/transport.rs\<close>: the transport mode and the endpoint of a command handler
  coordinator, resolved from the environment, the arguments and the defaults.

  The process environment is a map from variable names to values, where \<open>None\<close> is every case
  in which \<open>env::var\<close> returns \<open>Err\<close> (unset, or not Unicode).
\<close>

type_synonym environment = "string \<Rightarrow> string option"

datatype TransportMode = Standalone | Distributed

definition DEFAULT_UDS_BASE :: string where "DEFAULT_UDS_BASE = ''/tmp/angzarr''"
definition DEFAULT_NAMESPACE :: string where "DEFAULT_NAMESPACE = ''angzarr''"
definition DEFAULT_CH_PORT :: u16 where "DEFAULT_CH_PORT = 1310"
definition DEFAULT_TRANSPORT_MODE :: TransportMode where "DEFAULT_TRANSPORT_MODE = Distributed"
definition ENV_MODE :: string where "ENV_MODE = ''ANGZARR_MODE''"
definition ENV_UDS_BASE :: string where "ENV_UDS_BASE = ''ANGZARR_UDS_BASE''"
definition ENV_NAMESPACE :: string where "ENV_NAMESPACE = ''ANGZARR_NAMESPACE''"
definition ENV_CH_PORT :: string where "ENV_CH_PORT = ''ANGZARR_CH_PORT''"

text \<open>\<open>s.parse::<u16>().ok()\<close> and the \<open>Display\<close> of a \<open>u16\<close>.\<close>

definition parse_u16 :: "string \<Rightarrow> u16 option" where
  "parse_u16 s = map_option of_nat (parse_uint 65536 s)"

definition show_u16 :: "u16 \<Rightarrow> string" where
  "show_u16 p = show_nat (unat p)"

definition mode_from_env :: "environment \<Rightarrow> ClientError + TransportMode" where
  "mode_from_env env =
     (case env ENV_MODE of
        Some s \<Rightarrow>
          if s = ''standalone'' then Inr Standalone
          else if s = ''distributed'' then Inr Distributed
          else Inl (inv_arg INVALID_TRANSPORT_MODE
                 [(keys K_INPUT, s), (keys K_ENV_VAR, ENV_MODE)])
      | None \<Rightarrow> Inr DEFAULT_TRANSPORT_MODE)"

definition or_else :: "'a option \<Rightarrow> 'a option \<Rightarrow> 'a option" where
  "or_else x y = (case x of None \<Rightarrow> y | Some a \<Rightarrow> Some a)"

definition ch_port :: "environment \<Rightarrow> u16 option \<Rightarrow> ClientError + u16" where
  "ch_port env port =
     (case env ENV_CH_PORT of
        Some s \<Rightarrow> ok_or (inv_arg INVALID_PORT [(keys K_INPUT, s), (keys K_ENV_VAR, ENV_CH_PORT)])
                    (parse_u16 s)
      | None \<Rightarrow> Inr (unwrap_or DEFAULT_CH_PORT port))"

definition resolve_ch_endpoint ::
  "environment \<Rightarrow> string \<Rightarrow> TransportMode option \<Rightarrow> string option \<Rightarrow> string option \<Rightarrow> u16 option \<Rightarrow>
     ClientError + string" where
  "resolve_ch_endpoint env domain mode uds_base namespace port =
     bindR (case mode of Some m \<Rightarrow> Inr m | None \<Rightarrow> mode_from_env env) (\<lambda>m.
       case m of
         Standalone \<Rightarrow>
           let base = unwrap_or DEFAULT_UDS_BASE (or_else (env ENV_UDS_BASE) uds_base)
           in Inr (base @ ''/ch-'' @ domain @ ''.sock'')
       | Distributed \<Rightarrow>
           let ns = unwrap_or DEFAULT_NAMESPACE (or_else (env ENV_NAMESPACE) namespace)
           in map_ok (\<lambda>p. ''ch-'' @ domain @ ''.'' @ ns @ ''.svc:'' @ show_u16 p)
                (ch_port env port))"

section \<open>Laws\<close>

lemma or_else_simps [simp]: "or_else None y = y" "or_else (Some a) y = Some a"
  by (simp_all add: or_else_def)

lemma parse_show_u16: "parse_u16 (show_u16 p) = Some p"
proof -
  have "unat p < 65536" using unsigned_less [of p, where ?'a = nat] by simp
  then show ?thesis by (simp add: parse_u16_def show_u16_def parse_uint_show_nat)
qed

lemma show_u16_inject [simp]: "show_u16 p = show_u16 q \<longleftrightarrow> p = q"
  by (metis option.inject parse_show_u16)

lemma show_u16_no_colon: "CHR '':'' \<notin> set (show_u16 p)"
  by (simp add: show_u16_def not_digit_notin_show_nat is_digit_def)

lemma map_ok_eq_Inl: "map_ok f m = Inl e \<longleftrightarrow> m = Inl e"
  by (cases m) simp_all

lemma map_ok_eq_Inr: "map_ok f m = Inr b \<longleftrightarrow> (\<exists>a. m = Inr a \<and> b = f a)"
  by (cases m) auto

definition effective_mode :: "environment \<Rightarrow> TransportMode option \<Rightarrow> TransportMode option" where
  "effective_mode env mode =
     (case mode of Some m \<Rightarrow> Some m
      | None \<Rightarrow> (case env ENV_MODE of None \<Rightarrow> Some DEFAULT_TRANSPORT_MODE
          | Some s \<Rightarrow> if s = ''standalone'' then Some Standalone
              else if s = ''distributed'' then Some Distributed else None))"

lemma mode_resolution:
  "(case mode of Some m \<Rightarrow> Inr m | None \<Rightarrow> mode_from_env env) =
     ok_or (inv_arg INVALID_TRANSPORT_MODE
       [(keys K_INPUT, the (env ENV_MODE)), (keys K_ENV_VAR, ENV_MODE)]) (effective_mode env mode)"
  by (auto simp: mode_from_env_def effective_mode_def split: option.split)

text \<open>C37: Resolving the endpoint of a command handler fails in exactly two cases, each loud and
  naming the offending value and its variable: no mode was given and \<open>ANGZARR_MODE\<close> is set to
  neither mode, or the mode is distributed and \<open>ANGZARR_CH_PORT\<close> is set to something that is
  not a 16-bit number. A misspelt mode is reported before a bad port; in standalone mode, the
  port variable is not consulted.\<close>

theorem endpoint_errors_are_loud:
  "resolve_ch_endpoint env domain mode uds_base namespace port = Inl e \<longleftrightarrow>
     (case effective_mode env mode of
        None \<Rightarrow> e = inv_arg INVALID_TRANSPORT_MODE
                  [(keys K_INPUT, the (env ENV_MODE)), (keys K_ENV_VAR, ENV_MODE)]
      | Some Standalone \<Rightarrow> False
      | Some Distributed \<Rightarrow>
          (\<exists>s. env ENV_CH_PORT = Some s \<and> parse_u16 s = None \<and>
             e = inv_arg INVALID_PORT [(keys K_INPUT, s), (keys K_ENV_VAR, ENV_CH_PORT)]))"
  by (auto simp: resolve_ch_endpoint_def mode_resolution ch_port_def Let_def map_ok_eq_Inl
      split: option.splits TransportMode.splits)

definition effective_port :: "environment \<Rightarrow> u16 option \<Rightarrow> u16 option" where
  "effective_port env port =
     (case env ENV_CH_PORT of Some s \<Rightarrow> parse_u16 s | None \<Rightarrow> Some (unwrap_or DEFAULT_CH_PORT port))"

lemma ch_port_Inr [simp]: "ch_port env port = Inr p \<longleftrightarrow> effective_port env port = Some p"
  by (auto simp: ch_port_def effective_port_def split: option.split)

lemma resolved_cases:
  assumes "resolve_ch_endpoint env domain mode uds_base namespace port = Inr ep"
  obtains (standalone) base where "effective_mode env mode = Some Standalone"
      "base = unwrap_or DEFAULT_UDS_BASE (or_else (env ENV_UDS_BASE) uds_base)"
      "ep = base @ ''/ch-'' @ domain @ ''.sock''"
    | (distributed) ns p where "effective_mode env mode = Some Distributed"
      "ns = unwrap_or DEFAULT_NAMESPACE (or_else (env ENV_NAMESPACE) namespace)"
      "effective_port env port = Some p"
      "ep = ''ch-'' @ domain @ ''.'' @ ns @ ''.svc:'' @ show_u16 p"
proof -
  from assms obtain m where m: "effective_mode env mode = Some m"
    by (auto simp: resolve_ch_endpoint_def mode_resolution bindR_eq_Inr)
  show thesis
    using assms m standalone distributed
    by (cases m) (auto simp: resolve_ch_endpoint_def mode_resolution map_ok_eq_Inr Let_def)
qed

lemma resolved_standalone:
  "effective_mode env mode = Some Standalone \<Longrightarrow>
   resolve_ch_endpoint env domain mode uds_base namespace port =
     Inr (unwrap_or DEFAULT_UDS_BASE (or_else (env ENV_UDS_BASE) uds_base) @ ''/ch-'' @ domain @ ''.sock'')"
  by (simp add: resolve_ch_endpoint_def mode_resolution)

lemma resolved_distributed:
  assumes "effective_mode env mode = Some Distributed" "effective_port env port = Some p"
  shows "resolve_ch_endpoint env domain mode uds_base namespace port =
     Inr (''ch-'' @ domain @ ''.'' @ unwrap_or DEFAULT_NAMESPACE (or_else (env ENV_NAMESPACE) namespace)
       @ ''.svc:'' @ show_u16 p)"
proof -
  from assms(2) have "ch_port env port = Inr p" by simp
  with assms(1) show ?thesis
    by (simp add: resolve_ch_endpoint_def mode_resolution del: ch_port_Inr)
qed

lemma endpoint_port: "rsplit_next (CHR '':'') (x @ '':'' @ show_u16 p) = show_u16 p"
  using rsplit_next_append [OF show_u16_no_colon, of x p] by simp

text \<open>A resolved endpoint identifies its domain: with the same environment and arguments,
  another domain resolves to another endpoint. In distributed mode the number after the last
  colon is the port in effect: the environment's, else the argument, else 1310. Variables that
  are set win over the arguments: with all of them set, the arguments do not matter.\<close>

theorem endpoint_identifies_domain:
  assumes "resolve_ch_endpoint env domain mode uds_base namespace port = Inr ep"
  shows "(resolve_ch_endpoint env domain' mode uds_base namespace port = Inr ep \<longleftrightarrow> domain' = domain)
    \<and> (effective_mode env mode = Some Distributed \<longrightarrow>
         parse_u16 (rsplit_next (CHR '':'') ep) = effective_port env port)
    \<and> (env ENV_UDS_BASE \<noteq> None \<and> env ENV_NAMESPACE \<noteq> None \<and> env ENV_CH_PORT \<noteq> None \<longrightarrow>
         resolve_ch_endpoint env domain mode uds_base' namespace' port' = Inr ep)"
  using assms
proof (cases rule: resolved_cases)
  case (standalone base)
  then show ?thesis by (auto simp: resolved_standalone)
next
  case (distributed ns p)
  have "effective_port env port' = Some p" if "env ENV_CH_PORT \<noteq> None"
    using that distributed(3) by (auto simp: effective_port_def split: option.splits)
  moreover have "rsplit_next (CHR '':'') ep = show_u16 p"
    using endpoint_port [of "''ch-'' @ domain @ ''.'' @ ns @ ''.svc''" p] distributed(4) by simp
  ultimately show ?thesis
    using distributed by (auto simp: resolved_distributed parse_show_u16)
qed

section \<open>Examples\<close>

definition standalone_env :: environment where
  "standalone_env = [''ANGZARR_MODE'' \<mapsto> ''standalone'', ''ANGZARR_UDS_BASE'' \<mapsto> ''/env/base'']"

lemma number_examples: "show_u16 1310 = ''1310''" "parse_u16 ''1310 '' = None"
proof -
  have "show_nat 1310 = ''1310''" by code_simp
  then show "show_u16 1310 = ''1310''" by (simp add: show_u16_def)
  show "parse_u16 ''1310 '' = None" by (simp add: parse_u16_def parse_uint_def is_digit_def)
qed

lemmas transport_defs = resolve_ch_endpoint_def mode_from_env_def standalone_env_def ch_port_def
  ENV_MODE_def ENV_UDS_BASE_def ENV_NAMESPACE_def ENV_CH_PORT_def DEFAULT_UDS_BASE_def
  DEFAULT_NAMESPACE_def DEFAULT_CH_PORT_def DEFAULT_TRANSPORT_MODE_def

lemma transport_examples:
  "resolve_ch_endpoint standalone_env ''player'' None (Some ''/arg/base'') None None
     = Inr ''/env/base/ch-player.sock''"
  "resolve_ch_endpoint Map.empty ''player'' None None None None
     = Inr ''ch-player.angzarr.svc:1310''"
  "resolve_ch_endpoint [''ANGZARR_CH_PORT'' \<mapsto> ''1310 ''] ''player'' None None None (Some 7)
     = Inl (inv_arg INVALID_PORT [(keys K_INPUT, ''1310 ''), (keys K_ENV_VAR, ''ANGZARR_CH_PORT'')])"
  by (simp_all add: transport_defs number_examples)

theorem endpoint_identifies_domain_witness:
  "resolve_ch_endpoint Map.empty ''table'' None None None None \<noteq> Inr ''ch-player.angzarr.svc:1310''"
proof -
  have "resolve_ch_endpoint Map.empty ''player'' None None None None
          = Inr ''ch-player.angzarr.svc:1310''"
    by (rule transport_examples(2))
  from endpoint_identifies_domain [OF this, of "''table''"] show ?thesis by simp
qed

end
