(* ===== verification/Retry.thy ===== *)
theory Retry
  imports Prelude
begin

text \<open>
  \<^verbatim>\<open>src/src/retry.rs\<close>: the exponential-backoff retry policy.

  A \<open>std::time::Duration\<close> is its seconds and nanoseconds. The jitter is computed in \<open>f64\<close>:
  \<open>f64_round\<close> is rounding to the 53 significant bits of a double (to nearest, ties to even),
  on natural numbers; a double in the unit interval is kept as its numerator over \<open>2 ^ 54\<close>,
  where the scaling is exact. \<open>rand::random::<f64>()\<close> is a parameter: the draw \<open>k\<close> stands for
  the value \<open>k / 2 ^ 53\<close>.

  \<open>execute\<close> runs an \<open>FnMut\<close> operation, so the operation acts on a state; the calls, the
  callback and the sleeps are recorded in order as a trace.
\<close>

section \<open>Durations\<close>

type_synonym u128 = "128 word"

record Duration =
  dur_secs :: u64
  dur_nanos :: u32

definition valid_duration :: "Duration \<Rightarrow> bool" where
  "valid_duration d \<longleftrightarrow> unat (dur_nanos d) < 1000000000"

definition from_secs :: "u64 \<Rightarrow> Duration" where
  "from_secs s = \<lparr>dur_secs = s, dur_nanos = 0\<rparr>"

definition from_millis :: "u64 \<Rightarrow> Duration" where
  "from_millis ms = \<lparr>dur_secs = ms div 1000, dur_nanos = ucast (ms mod 1000) * 1000000\<rparr>"

definition from_nanos :: "u64 \<Rightarrow> Duration" where
  "from_nanos n = \<lparr>dur_secs = n div 1000000000, dur_nanos = ucast (n mod 1000000000)\<rparr>"

definition as_nanos :: "Duration \<Rightarrow> u128" where
  "as_nanos d = ucast (dur_secs d) * 1000000000 + ucast (dur_nanos d)"

text \<open>The duration in nanoseconds, as a number.\<close>

definition nanos :: "Duration \<Rightarrow> nat" where
  "nanos d = unat (dur_secs d) * 1000000000 + unat (dur_nanos d)"

section \<open>Policy\<close>

record ExponentialBackoffRetry =
  ebr_min_delay :: Duration
  ebr_max_delay :: Duration
  ebr_max_attempts :: u32
  ebr_jitter :: bool
  ebr_on_retry :: bool

definition ExponentialBackoffRetry_default :: ExponentialBackoffRetry where
  "ExponentialBackoffRetry_default =
     \<lparr>ebr_min_delay = from_millis 100, ebr_max_delay = from_secs 5, ebr_max_attempts = 10,
      ebr_jitter = True, ebr_on_retry = False\<rparr>"

definition exponential_backoff :: ExponentialBackoffRetry where
  "exponential_backoff = ExponentialBackoffRetry_default"

definition default_retry_policy :: ExponentialBackoffRetry where
  "default_retry_policy = ExponentialBackoffRetry_default"

definition with_min_delay :: "Duration \<Rightarrow> ExponentialBackoffRetry \<Rightarrow> ExponentialBackoffRetry" where
  "with_min_delay d p = p\<lparr>ebr_min_delay := d\<rparr>"

definition with_max_delay :: "Duration \<Rightarrow> ExponentialBackoffRetry \<Rightarrow> ExponentialBackoffRetry" where
  "with_max_delay d p = p\<lparr>ebr_max_delay := d\<rparr>"

definition with_max_attempts :: "u32 \<Rightarrow> ExponentialBackoffRetry \<Rightarrow> ExponentialBackoffRetry" where
  "with_max_attempts n p = p\<lparr>ebr_max_attempts := n\<rparr>"

definition with_jitter :: "bool \<Rightarrow> ExponentialBackoffRetry \<Rightarrow> ExponentialBackoffRetry" where
  "with_jitter j p = p\<lparr>ebr_jitter := j\<rparr>"

text \<open>The callback is any closure; the trace shows its calls, the policy that it is there.\<close>

definition with_on_retry :: "ExponentialBackoffRetry \<Rightarrow> ExponentialBackoffRetry" where
  "with_on_retry p = p\<lparr>ebr_on_retry := True\<rparr>"

section \<open>Double precision\<close>

fun bit_len :: "nat \<Rightarrow> nat" where
  "bit_len n = (if n = 0 then 0 else Suc (bit_len (n div 2)))"

declare bit_len.simps [simp del]

lemma bit_len_0 [simp]: "bit_len 0 = 0"
  by (simp add: bit_len.simps)

definition f64_round :: "nat \<Rightarrow> nat" where
  "f64_round n =
     (if bit_len n \<le> 53 then n
      else let s = bit_len n - 53; q = n div 2 ^ s; r = n mod 2 ^ s
           in if 2 ^ s < 2 * r \<or> (2 ^ s = 2 * r \<and> odd q) then (q + 1) * 2 ^ s else q * 2 ^ s)"

text \<open>\<open>0.5 + frac * 0.5\<close> for \<open>frac = k / 2 ^ 53\<close>, as a numerator over \<open>2 ^ 54\<close>.\<close>

definition jitter_scale :: "nat \<Rightarrow> nat" where
  "jitter_scale k = f64_round (2 ^ 53 + k)"

text \<open>\<open>(capped as f64 * scale) as u128\<close>: the cast truncates and saturates.\<close>

definition jittered :: "u128 \<Rightarrow> nat \<Rightarrow> u128" where
  "jittered capped k =
     of_nat (min (f64_round (f64_round (unat capped) * jitter_scale k) div 2 ^ 54) (2 ^ 128 - 1))"

section \<open>Delays\<close>

definition raw_nanos :: "ExponentialBackoffRetry \<Rightarrow> u32 \<Rightarrow> u128" where
  "raw_nanos p attempt = as_nanos (ebr_min_delay p) * push_bit (unat (min attempt 30)) 1"

definition compute_delay :: "ExponentialBackoffRetry \<Rightarrow> nat \<Rightarrow> u32 \<Rightarrow> Duration" where
  "compute_delay p k attempt =
     (let cap_nanos = as_nanos (ebr_max_delay p);
          capped = min (raw_nanos p attempt) cap_nanos;
          result = (if ebr_jitter p then jittered capped k else capped)
      in from_nanos (ucast (min result (2 ^ 64 - 1))))"

section \<open>Retrying\<close>

datatype RetryEvent = Called u32 | On_retry u32 string | Slept Duration

type_synonym ('s, 'e, 'a) fn_mut = "'s \<Rightarrow> ('e + 'a) \<times> 's"

text \<open>
  The \<open>for\<close> loop over the attempts left; \<open>show\<close> is the \<open>Display\<close> of the error, \<open>draw\<close> the
  random draw of each attempt's delay. A pass that falls off the end of the range has
  \<open>last_err\<close> for \<open>expect\<close>, which panics when no attempt was made.
\<close>

fun execute_loop ::
  "ExponentialBackoffRetry \<Rightarrow> ('e \<Rightarrow> string) \<Rightarrow> (u32 \<Rightarrow> nat) \<Rightarrow> ('s, 'e, 'a) fn_mut \<Rightarrow> 'e option \<Rightarrow>
     u32 list \<Rightarrow> 's \<Rightarrow> ('e + 'a) panicking \<times> RetryEvent list \<times> 's" where
  "execute_loop p display draw op last_err [] s =
     ((case last_err of
         None \<Rightarrow> Panicked ''max_attempts >= 1 implies last_err is Some''
       | Some e \<Rightarrow> Returned (Inl e)), [], s)"
| "execute_loop p display draw op last_err (attempt # rest) s =
     (case op s of
        (Inr v, s') \<Rightarrow> (Returned (Inr v), [Called attempt], s')
      | (Inl e, s') \<Rightarrow>
          let is_last = ebr_max_attempts p \<le> attempt + 1;
              pause = (if is_last then []
                       else (if ebr_on_retry p then [On_retry attempt (display e)] else [])
                         @ [Slept (compute_delay p (draw attempt) attempt)]);
              (result, trace, s'') = execute_loop p display draw op (Some e) rest s'
          in (result, Called attempt # pause @ trace, s''))"

definition execute ::
  "ExponentialBackoffRetry \<Rightarrow> ('e \<Rightarrow> string) \<Rightarrow> (u32 \<Rightarrow> nat) \<Rightarrow> ('s, 'e, 'a) fn_mut \<Rightarrow> 's \<Rightarrow>
     ('e + 'a) panicking \<times> RetryEvent list \<times> 's" where
  "execute p display draw op s =
     execute_loop p display draw op None
       (map of_nat [0..<unat (ebr_max_attempts p)]) s"

section \<open>Widths\<close>

lemma unat_of_nat_small: "n < 2 ^ LENGTH('a) \<Longrightarrow> unat (of_nat n :: 'a::len word) = n"
  by (simp add: unat_of_nat)

lemma unat_ucast_small:
  "unat x < 2 ^ LENGTH('b) \<Longrightarrow> unat (ucast (x :: 'a::len word) :: 'b::len word) = unat x"
  by (simp add: unsigned_ucast_eq take_bit_nat_eq_self)

section \<open>Rounding\<close>

text \<open>
  What the delay bounds use of a floating-point rounding: it never crosses a representable
  number. \<open>f64_round\<close> provides it for the numbers of at most 53 significant bits.
\<close>

locale rounding =
  fixes rnd :: "nat \<Rightarrow> nat" and rep :: "nat \<Rightarrow> bool"
  assumes rnd_le: "rep m \<Longrightarrow> n \<le> m \<Longrightarrow> rnd n \<le> m"
    and rnd_ge: "rep m \<Longrightarrow> m \<le> n \<Longrightarrow> m \<le> rnd n"
begin

lemma rnd_exact: "rep m \<Longrightarrow> rnd m = m"
  by (simp add: rnd_ge rnd_le order_antisym)

lemma rnd_between: "rep a \<Longrightarrow> rep b \<Longrightarrow> a \<le> n \<Longrightarrow> n \<le> b \<Longrightarrow> a \<le> rnd n \<and> rnd n \<le> b"
  by (simp add: rnd_ge rnd_le)

lemma rnd_scaled:
  assumes "rep (c * u)" "rep (c * v)" "u \<le> w" "w \<le> v"
  shows "c * u \<le> rnd (c * w) \<and> rnd (c * w) \<le> c * v"
  using assms by (intro rnd_between) simp_all

end

definition f64_rep :: "nat \<Rightarrow> bool" where
  "f64_rep m \<longleftrightarrow> (\<exists>c t. m = c * 2 ^ t \<and> c \<le> 2 ^ 53)"

lemma bit_len_bounds: "n < 2 ^ bit_len n \<and> (0 < n \<longrightarrow> 2 ^ (bit_len n - 1) \<le> n \<and> 0 < bit_len n)"
proof (induction n rule: bit_len.induct)
  case (1 n)
  show ?case
  proof (cases "n = 0")
    case False
    with 1 have IH: "n div 2 < 2 ^ bit_len (n div 2)"
      "0 < n div 2 \<longrightarrow> 2 ^ (bit_len (n div 2) - 1) \<le> n div 2 \<and> 0 < bit_len (n div 2)"
      by blast+
    have len: "bit_len n = Suc (bit_len (n div 2))"
      using False by (subst bit_len.simps) simp
    have "n < 2 ^ bit_len n" using IH(1) len by simp
    moreover have "2 ^ bit_len (n div 2) \<le> n"
    proof (cases "n div 2 = 0")
      case True
      then have "bit_len (n div 2) = 0" by (simp add: bit_len.simps)
      then show ?thesis using False by simp
    next
      case nz: False
      then obtain b where "bit_len (n div 2) = Suc b" using IH(2) by (cases "bit_len (n div 2)") auto
      then show ?thesis using IH(2) nz by simp
    qed
    ultimately show ?thesis using len by simp
  qed (simp add: bit_len.simps)
qed

lemma f64_round_small: "n < 2 ^ 53 \<Longrightarrow> f64_round n = n"
proof -
  assume n: "n < 2 ^ 53"
  have "\<not> 53 < bit_len n"
  proof
    assume "53 < bit_len n"
    then have "n \<noteq> 0" by (rule contrapos_pn) simp
    then have "2 ^ (bit_len n - 1) \<le> n" using bit_len_bounds [of n] by simp
    moreover have "(2::nat) ^ 53 \<le> 2 ^ (bit_len n - 1)"
      using \<open>53 < bit_len n\<close> by (intro power_increasing) simp_all
    ultimately show False using n by linarith
  qed
  then show ?thesis by (simp add: f64_round_def)
qed

lemma f64_rep_grid:
  assumes "f64_rep m" and "0 < s"
  shows "m \<le> 2 ^ (52 + s) \<or> 2 ^ s dvd m"
proof -
  obtain c t where m: "m = c * 2 ^ t" "c \<le> 2 ^ 53" using assms(1) by (auto simp: f64_rep_def)
  show ?thesis
  proof (cases "s \<le> t")
    case True
    then have "(2::nat) ^ s dvd 2 ^ t" by (rule le_imp_power_dvd)
    then show ?thesis using m by (simp add: dvd_mult)
  next
    case False
    then have "(2::nat) ^ t \<le> 2 ^ (s - 1)" by (intro power_increasing) simp_all
    then have "m \<le> 2 ^ 53 * 2 ^ (s - 1)" using m by (simp add: mult_le_mono)
    also have "\<dots> = 2 ^ (52 + s)" using \<open>0 < s\<close> by (cases s) (simp_all add: power_add)
    finally show ?thesis by simp
  qed
qed

lemma f64_round_cases:
  assumes "53 < bit_len n"
  obtains s q r where "0 < s" "n = q * 2 ^ s + r" "r < 2 ^ s" "2 ^ 52 \<le> q"
    "f64_round n = q * 2 ^ s \<or> 0 < r \<and> f64_round n = (q + 1) * 2 ^ s"
proof
  let ?s = "bit_len n - 53"
  show "0 < ?s" using assms by simp
  show "n = n div 2 ^ ?s * 2 ^ ?s + n mod 2 ^ ?s"
    by (rule div_mult_mod_eq [symmetric])
  show "n mod 2 ^ ?s < 2 ^ ?s" by simp
  have "n \<noteq> 0" using assms by (rule contrapos_pn) simp
  then have "2 ^ (bit_len n - 1) \<le> n" using bit_len_bounds [of n] by simp
  moreover have "bit_len n - 1 = 52 + ?s" using assms by simp
  ultimately have "2 ^ 52 * 2 ^ ?s \<le> n" by (metis power_add)
  then show "2 ^ 52 \<le> n div 2 ^ ?s" by (simp add: less_eq_div_iff_mult_less_eq)
  show "f64_round n = n div 2 ^ ?s * 2 ^ ?s \<or>
     0 < n mod 2 ^ ?s \<and> f64_round n = (n div 2 ^ ?s + 1) * 2 ^ ?s"
    using assms by (auto simp: f64_round_def Let_def intro: ccontr)
qed

lemma f64_round_le: "f64_rep m \<Longrightarrow> n \<le> m \<Longrightarrow> f64_round n \<le> m"
proof (cases "53 < bit_len n")
  case True
  assume rep: "f64_rep m" and le: "n \<le> m"
  from True obtain s q r where *: "0 < s" "n = q * 2 ^ s + r" "r < 2 ^ s" "2 ^ 52 \<le> q"
    "f64_round n = q * 2 ^ s \<or> 0 < r \<and> f64_round n = (q + 1) * 2 ^ s"
    by (rule f64_round_cases)
  show ?thesis
  proof (cases "f64_round n = q * 2 ^ s")
    case False
    with * have up: "0 < r" "f64_round n = (q + 1) * 2 ^ s" by auto
    have "2 ^ 52 * 2 ^ s \<le> q * 2 ^ s" using *(4) by (rule mult_le_mono1)
    then have "2 ^ 52 * 2 ^ s < m" using *(2) le up(1) by linarith
    then have "2 ^ (52 + s) < m" by (simp only: power_add)
    then have "2 ^ s dvd m" using f64_rep_grid [OF rep *(1)] by simp
    then obtain j where j: "m = j * 2 ^ s" by (metis dvd_def mult.commute)
    have "q * 2 ^ s < j * 2 ^ s" using *(2) le up(1) unfolding j by linarith
    then have "q + 1 \<le> j" by simp
    then show ?thesis unfolding up(2) j by (rule mult_le_mono1)
  qed (use * le in simp)
qed (simp add: f64_round_def)

lemma f64_round_ge: "f64_rep m \<Longrightarrow> m \<le> n \<Longrightarrow> m \<le> f64_round n"
proof (cases "53 < bit_len n")
  case True
  assume rep: "f64_rep m" and le: "m \<le> n"
  from True obtain s q r where *: "0 < s" "n = q * 2 ^ s + r" "r < 2 ^ s" "2 ^ 52 \<le> q"
    "f64_round n = q * 2 ^ s \<or> 0 < r \<and> f64_round n = (q + 1) * 2 ^ s"
    by (rule f64_round_cases)
  have "m \<le> q * 2 ^ s"
  proof (cases "2 ^ s dvd m")
    case True
    then obtain j where j: "m = j * 2 ^ s" by (metis dvd_def mult.commute)
    have "j * 2 ^ s < (q + 1) * 2 ^ s" using le j *(2,3) by simp
    then have "j \<le> q" by (simp only: mult_less_cancel2) simp
    then show ?thesis unfolding j by (rule mult_le_mono1)
  next
    case False
    then have "m \<le> 2 ^ 52 * 2 ^ s" using f64_rep_grid [OF rep *(1)] by (simp add: power_add)
    also have "\<dots> \<le> q * 2 ^ s" using *(4) by simp
    finally show ?thesis .
  qed
  then show ?thesis using *(5) by auto
qed (simp add: f64_round_def)

interpretation f64: rounding f64_round f64_rep
  by unfold_locales (simp_all add: f64_round_le f64_round_ge)

lemma f64_rep_small: "n \<le> 2 ^ 53 \<Longrightarrow> f64_rep n"
  unfolding f64_rep_def by (intro exI [of _ n] exI [of _ 0]) simp

lemma f64_rep_shift: "c \<le> 2 ^ 53 \<Longrightarrow> f64_rep (c * 2 ^ t)"
  unfolding f64_rep_def by blast

text \<open>The jitter factor is between one half and one, both included.\<close>

lemma jitter_scale_bounds: "k < 2 ^ 53 \<Longrightarrow> 2 ^ 53 \<le> jitter_scale k \<and> jitter_scale k \<le> 2 ^ 54"
  unfolding jitter_scale_def
  using f64_rep_shift [of 1 53] f64_rep_shift [of 1 54] by (intro f64.rnd_between) simp_all

lemma jittered_bounds:
  assumes "unat c \<le> 2 ^ 53" and "k < 2 ^ 53"
  shows "unat c div 2 \<le> unat (jittered c k)" and "unat (jittered c k) \<le> unat c"
proof -
  let ?n = "f64_round (f64_round (unat c) * jitter_scale k)"
  have "f64_round (unat c) = unat c" by (intro f64.rnd_exact f64_rep_small assms(1))
  then have "unat c * 2 ^ 53 \<le> ?n \<and> ?n \<le> unat c * 2 ^ 54"
    using jitter_scale_bounds [OF assms(2)] f64.rnd_scaled [OF f64_rep_shift f64_rep_shift, OF assms(1) assms(1)]
    by metis
  then have b: "unat c div 2 \<le> ?n div 2 ^ 54" "?n div 2 ^ 54 \<le> unat c" by auto
  have "?n div 2 ^ 54 < 2 ^ 128" using b(2) assms(1) by simp
  then have "unat (jittered c k) = ?n div 2 ^ 54"
    by (simp add: jittered_def unat_of_nat_small)
  with b show "unat c div 2 \<le> unat (jittered c k)" "unat (jittered c k) \<le> unat c" by simp_all
qed

section \<open>Bounds of the delays\<close>

lemma unat_as_nanos: "valid_duration d \<Longrightarrow> unat (as_nanos d) = nanos d"
proof -
  assume "valid_duration d"
  then have n: "unat (dur_nanos d) < 1000000000" by (simp add: valid_duration_def)
  have s: "unat (dur_secs d) < 2 ^ 64" using unsigned_less [of "dur_secs d", where ?'a = nat] by simp
  have us: "unat (ucast (dur_secs d) :: u128) = unat (dur_secs d)"
    "unat (ucast (dur_nanos d) :: u128) = unat (dur_nanos d)"
    using s n by (simp_all add: unat_ucast_small)
  show ?thesis
    using s n by (simp add: as_nanos_def nanos_def unat_word_ariths us)
qed

lemma nanos_bound: "valid_duration d \<Longrightarrow> nanos d < 2 ^ 64 * 1000000000"
  using unsigned_less [of "dur_secs d", where ?'a = nat] by (simp add: valid_duration_def nanos_def)

lemma unat_subsec: "unat (ucast (n mod 1000000000 :: u64) :: u32) = unat n mod 1000000000"
proof -
  have "unat (n mod 1000000000) < 1000000000" by (simp add: unat_mod_distrib)
  then show ?thesis by (subst unat_ucast_small) (simp_all add: unat_mod_distrib)
qed

lemma nanos_from_nanos: "nanos (from_nanos n) = unat n"
  by (simp add: nanos_def from_nanos_def unat_div_distrib unat_subsec)

lemma valid_from_nanos: "valid_duration (from_nanos n)"
  by (simp add: valid_duration_def from_nanos_def unat_subsec)

text \<open>The product of the delay and the power of two stays inside \<open>u128\<close>.\<close>

definition growth :: "u32 \<Rightarrow> nat" where
  "growth attempt = 2 ^ min (unat attempt) 30"

lemma unat_raw_nanos:
  assumes "valid_duration (ebr_min_delay p)"
  shows "unat (raw_nanos p attempt) = nanos (ebr_min_delay p) * growth attempt"
proof -
  have e: "unat (min attempt 30) = min (unat attempt) 30"
    by (simp add: min_def word_le_nat_alt)
  have "(2::nat) ^ min (unat attempt) 30 \<le> 2 ^ 30" by (intro power_increasing) simp_all
  then have g: "growth attempt \<le> 2 ^ 30" by (simp add: growth_def)
  have "push_bit (unat (min attempt 30)) (1 :: u128) = of_nat (growth attempt)"
    by (simp add: e growth_def push_bit_eq_mult)
  moreover have "unat (of_nat (growth attempt) :: u128) = growth attempt"
    using g by (intro unat_of_nat_small) simp
  moreover have "nanos (ebr_min_delay p) * growth attempt < 2 ^ 128"
    using mult_le_mono [OF less_imp_le [OF nanos_bound [OF assms]] g] by simp
  ultimately show ?thesis
    by (simp add: raw_nanos_def unat_word_ariths unat_as_nanos [OF assms])
qed

definition capped_delay :: "ExponentialBackoffRetry \<Rightarrow> u32 \<Rightarrow> nat" where
  "capped_delay p attempt =
     min (nanos (ebr_min_delay p) * growth attempt) (nanos (ebr_max_delay p))"

lemma unat_capped:
  assumes "valid_duration (ebr_min_delay p)" "valid_duration (ebr_max_delay p)"
  shows "unat (min (raw_nanos p attempt) (as_nanos (ebr_max_delay p))) = capped_delay p attempt"
  using assms by (simp add: capped_delay_def min_def word_le_nat_alt unat_raw_nanos unat_as_nanos)

lemma nanos_clamped: "unat r < 2 ^ 64 \<Longrightarrow> nanos (from_nanos (ucast (min (r :: u128) (2 ^ 64 - 1)))) = unat r"
proof -
  assume r: "unat r < 2 ^ 64"
  then have "min r (2 ^ 64 - 1) = r" by (simp add: min_def word_le_nat_alt)
  then show ?thesis using r by (simp add: nanos_from_nanos unat_ucast_small)
qed

text \<open>C35: The delay before the next attempt is the minimum delay doubled once per failed
  attempt (at most thirty times), capped at the maximum delay; with jitter it lies between half
  of that and all of it. It never exceeds the configured maximum and is always a well-formed
  duration: neither the doubling in \<open>u128\<close> nor the narrowing to \<open>u64\<close> nor the \<open>f64\<close> rounding
  loses anything, for maximum delays up to \<open>2 ^ 53\<close> nanoseconds (about 104 days).\<close>

theorem delay_is_capped_backoff:
  assumes "valid_duration (ebr_min_delay p)" and "valid_duration (ebr_max_delay p)"
    and "nanos (ebr_max_delay p) \<le> 2 ^ 53" and "k < 2 ^ 53"
  shows "capped_delay p attempt div 2 \<le> nanos (compute_delay p k attempt)
    \<and> nanos (compute_delay p k attempt) \<le> capped_delay p attempt
    \<and> capped_delay p attempt \<le> nanos (ebr_max_delay p)
    \<and> valid_duration (compute_delay p k attempt)
    \<and> (\<not> ebr_jitter p \<longrightarrow> nanos (compute_delay p k attempt) = capped_delay p attempt)"
proof -
  let ?c = "min (raw_nanos p attempt) (as_nanos (ebr_max_delay p))"
  let ?r = "if ebr_jitter p then jittered ?c k else ?c"
  have c: "unat ?c = capped_delay p attempt" using assms(1,2) by (rule unat_capped)
  have cap: "capped_delay p attempt \<le> nanos (ebr_max_delay p)" by (simp add: capped_delay_def)
  with assms(3) have small: "unat ?c \<le> 2 ^ 53" by (simp add: c)
  have b: "unat ?c div 2 \<le> unat ?r" "unat ?r \<le> unat ?c"
    using jittered_bounds [OF small assms(4)] by simp_all
  have "unat ?r < 2 ^ 64" using b(2) small by simp
  then have "nanos (compute_delay p k attempt) = unat ?r"
    unfolding compute_delay_def Let_def by (rule nanos_clamped)
  with b cap c show ?thesis by (auto simp: compute_delay_def Let_def valid_from_nanos)
qed

section \<open>Attempts\<close>

text \<open>The state before the \<open>i\<close>-th call when the earlier ones all ran, and its answer.\<close>

primrec before_call :: "('s, 'e, 'a) fn_mut \<Rightarrow> 's \<Rightarrow> nat \<Rightarrow> 's" where
  "before_call op s 0 = s"
| "before_call op s (Suc i) = snd (op (before_call op s i))"

definition answer :: "('s, 'e, 'a) fn_mut \<Rightarrow> 's \<Rightarrow> nat \<Rightarrow> 'e + 'a" where
  "answer op s i = fst (op (before_call op s i))"

definition is_ok :: "'e + 'a \<Rightarrow> bool" where
  "is_ok r \<longleftrightarrow> (case r of Inl _ \<Rightarrow> False | Inr _ \<Rightarrow> True)"

text \<open>What a failed attempt leaves in the trace: the last one is not followed by a pause.\<close>

definition failed_attempt ::
  "ExponentialBackoffRetry \<Rightarrow> ('e \<Rightarrow> string) \<Rightarrow> (u32 \<Rightarrow> nat) \<Rightarrow> ('e + 'a) \<Rightarrow> nat \<Rightarrow> RetryEvent list" where
  "failed_attempt p display draw r i =
     Called (of_nat i) #
       (if Suc i < unat (ebr_max_attempts p)
        then (if ebr_on_retry p then [On_retry (of_nat i) (display (projl r))] else [])
          @ [Slept (compute_delay p (draw (of_nat i)) (of_nat i))]
        else [])"

lemma is_ok_simps [simp]: "\<not> is_ok (Inl e)" "is_ok (Inr a)"
  by (simp_all add: is_ok_def)

lemma is_last_iff:
  "i < unat (m :: u32) \<Longrightarrow> m \<le> of_nat i + 1 \<longleftrightarrow> \<not> Suc i < unat m"
proof -
  assume i: "i < unat m"
  have "unat m < 2 ^ 32" using unsigned_less [of m, where ?'a = nat] by simp
  then have "unat (of_nat (Suc i) :: u32) = Suc i" using i by (intro unat_of_nat_small) simp
  then show ?thesis by (simp add: word_le_nat_alt add.commute not_less)
qed

lemma execute_loop_from:
  assumes n: "n = unat (ebr_max_attempts p)" and "j \<le> n"
  shows "execute_loop p display draw op last_err (map of_nat [j..<n]) (before_call op s j) =
     (case find (\<lambda>i. is_ok (answer op s i)) [j..<n] of
        Some i \<Rightarrow> (Returned (answer op s i),
          concat (map (\<lambda>i. failed_attempt p display draw (answer op s i) i) [j..<i])
            @ [Called (of_nat i)], before_call op s (Suc i))
      | None \<Rightarrow>
          (if j < n then Returned (answer op s (n - 1))
           else fst (execute_loop p display draw op last_err [] s),
           concat (map (\<lambda>i. failed_attempt p display draw (answer op s i) i) [j..<n]),
           before_call op s n))"
  using assms(2)
proof (induction "n - j" arbitrary: j last_err)
  case 0
  then show ?case by simp
next
  case (Suc x)
  then have j: "j < n" and x: "x = n - Suc j" by simp_all
  have up: "[j..<n] = j # [Suc j..<n]" using j by (simp add: upt_conv_Cons)
  show ?case
  proof (cases "op (before_call op s j)")
    case (Pair r s')
    then have r: "answer op s j = r" and s': "before_call op s (Suc j) = s'"
      by (simp_all add: answer_def)
    show ?thesis
    proof (cases r)
      case (Inr v)
      then show ?thesis using Pair r s' by (simp add: up)
    next
      case (Inl e)
      note IH = Suc.hyps(1) [OF x, of "Some e", simplified s' Suc_le_eq, OF j]
      have last: "(ebr_max_attempts p \<le> of_nat j + 1) = (\<not> Suc j < n)"
        using j is_last_iff [of j "ebr_max_attempts p"] by (simp add: n)
      have ge: "i \<ge> Suc j" if "find (\<lambda>i. is_ok (answer op s i)) [Suc j..<n] = Some i" for i
        using that by (auto simp: find_Some_iff)
      have split_at: "[j..<i] = j # [Suc j..<i]" if "Suc j \<le> i" for i
        using that by (simp add: upt_conv_Cons)
      have end_at: "n - Suc 0 = j" if "\<not> Suc j < n" using that j by simp
      show ?thesis
        using Pair r Inl j IH last end_at
        by (auto simp: up failed_attempt_def n [symmetric] Let_def split_at ge split: option.split
            intro: le_antisym)
    qed
  qed
qed

text \<open>C19: Retrying calls the operation until its first success, which it returns, and never
  more than \<open>max_attempts\<close> times; when every attempt fails it returns the last error. The
  operation sees the state its previous calls left, each failed attempt but the last is
  followed by the callback (when installed) with its number and message and by one sleep of
  that attempt's delay, and nothing follows a success or the last failure. A policy of zero
  attempts panics without calling the operation.\<close>

theorem execute_tries_until_success:
  "execute p display draw op s =
     (let n = unat (ebr_max_attempts p); run = answer op s;
          failures = (\<lambda>m. concat (map (\<lambda>i. failed_attempt p display draw (run i) i) [0..<m]))
      in case find (\<lambda>i. is_ok (run i)) [0..<n] of
           Some i \<Rightarrow> (Returned (run i), failures i @ [Called (of_nat i)], before_call op s (Suc i))
         | None \<Rightarrow>
             (if n = 0 then Panicked ''max_attempts >= 1 implies last_err is Some''
              else Returned (run (n - 1)), failures n, before_call op s n))"
  using execute_loop_from [of "unat (ebr_max_attempts p)" p 0 display draw op None s]
  by (simp add: execute_def Let_def)

section \<open>Examples\<close>

definition example_policy :: ExponentialBackoffRetry where
  "example_policy = with_on_retry (with_max_attempts 3 default_retry_policy)"

lemma default_policy_delays:
  "ebr_min_delay default_retry_policy = \<lparr>dur_secs = 0, dur_nanos = 100000000\<rparr>"
  "ebr_max_delay default_retry_policy = \<lparr>dur_secs = 5, dur_nanos = 0\<rparr>"
  by (simp_all add: default_retry_policy_def ExponentialBackoffRetry_default_def
      from_millis_def from_secs_def)

lemma default_policy_valid:
  "valid_duration (ebr_min_delay default_retry_policy)"
  "valid_duration (ebr_max_delay default_retry_policy)"
  "nanos (ebr_max_delay default_retry_policy) \<le> 2 ^ 53"
  by (simp_all add: default_policy_delays valid_duration_def nanos_def)

theorem delay_is_capped_backoff_witness:
  "nanos (compute_delay default_retry_policy (2 ^ 52) 3) \<le> 5000000000
     \<and> 400000000 \<le> nanos (compute_delay default_retry_policy (2 ^ 52) 3)"
proof -
  have "capped_delay default_retry_policy 3 = 800000000"
    by (simp add: capped_delay_def default_policy_delays nanos_def growth_def)
  moreover have "(2::nat) ^ 52 < 2 ^ 53" by simp
  ultimately show ?thesis
    using delay_is_capped_backoff [OF default_policy_valid, of "2 ^ 52" 3] by simp
qed

text \<open>An operation that succeeds at its third call: two pauses, three calls.\<close>

lemma execute_example:
  "execute example_policy (\<lambda>e. e) (\<lambda>_. 0) (\<lambda>c. (if c < (2::nat) then Inl ''busy'' else Inr c, Suc c)) 0 =
     (Returned (Inr 2),
      [Called 0, On_retry 0 ''busy'', Slept (compute_delay example_policy 0 0),
       Called 1, On_retry 1 ''busy'', Slept (compute_delay example_policy 0 1), Called 2], 3)"
proof -
  have "ebr_max_attempts example_policy = 3" "ebr_on_retry example_policy"
    by (simp_all add: example_policy_def with_on_retry_def with_max_attempts_def)
  moreover have "[0..<3] = [0, 1, 2]" by (simp add: upt_rec)
  ultimately show ?thesis by (simp add: execute_def word_le_nat_alt)
qed

text \<open>
  Beyond 53 bits the conversion to \<open>f64\<close> rounds, and the top of the jitter range rounds the
  factor up to one: a delay can exceed the configured maximum by that rounding.
\<close>

lemma jitter_rounds_above_cap: "unat (jittered (2 ^ 53 + 3) (2 ^ 53 - 1)) = 2 ^ 53 + 4"
  by (simp add: jittered_def jitter_scale_def f64_round_def bit_len.simps Let_def)

end
