(* ===== verification/Readiness.thy ===== *)
theory Readiness
  imports Transport Retry
begin

text \<open>
  \<^verbatim>\<open>src/src/readiness.rs\<close>: the readiness probes and the supervisor that turns their answers
  into the health status of the server.

  Whether an endpoint accepts a connect is the network's answer, so it is a parameter
  (\<open>Network\<close>), and a poll of a probe ends in one of three ways under \<open>catch_unwind\<close> and
  \<open>timeout\<close> (\<open>CheckOutcome\<close>). The
  \<open>HealthReporter\<close> of the \<open>tonic_health\<close> crate is the record \<open>HealthCrate\<close> over an abstract
  registry \<open>'h\<close>, with its documented contract as \<open>lawful_health\<close>: setting a service's status
  changes what a check of that service answers, and of no other.
\<close>

section \<open>Configuration\<close>

definition DEFAULT_PROBE_INTERVAL :: Duration where "DEFAULT_PROBE_INTERVAL = from_secs 30"
definition DEFAULT_PROBE_TIMEOUT :: Duration where "DEFAULT_PROBE_TIMEOUT = from_secs 2"
definition ENV_INTERVAL :: string where "ENV_INTERVAL = ''ANGZARR_READINESS_PROBE_INTERVAL''"
definition ENV_TIMEOUT :: string where "ENV_TIMEOUT = ''ANGZARR_READINESS_PROBE_TIMEOUT''"
definition ENV_BUS_ENDPOINT :: string where "ENV_BUS_ENDPOINT = ''ANGZARR_BUS_ENDPOINT''"

definition parse_u64 :: "string \<Rightarrow> u64 option" where
  "parse_u64 s = map_option of_nat (parse_uint (2 ^ 64) s)"

definition secs_from_env :: "environment \<Rightarrow> string \<Rightarrow> Duration \<Rightarrow> Duration" where
  "secs_from_env env var fallback =
     unwrap_or fallback (map_option from_secs (Option.bind (env var) parse_u64))"

definition probe_config_from_env :: "environment \<Rightarrow> Duration \<times> Duration" where
  "probe_config_from_env env =
     (secs_from_env env ENV_INTERVAL DEFAULT_PROBE_INTERVAL,
      secs_from_env env ENV_TIMEOUT DEFAULT_PROBE_TIMEOUT)"

section \<open>Probes\<close>

datatype Endpoint = Tcp string | Uds string

datatype Probe =
    TransportProbe
  | OutputDomainProbe string Endpoint
  | BusProbe Endpoint

primrec probe_name :: "Probe \<Rightarrow> string" where
  "probe_name TransportProbe = ''transport''"
| "probe_name (OutputDomainProbe domain endpoint) = domain"
| "probe_name (BusProbe endpoint) = ''bus''"

definition from_endpoint :: "string \<Rightarrow> Endpoint" where
  "from_endpoint raw =
     (case strip_prefix raw ''unix:'' of
        Some path \<Rightarrow> Uds path
      | None \<Rightarrow> if starts_with raw ''/'' then Uds raw else Tcp raw)"

definition for_domain :: "environment \<Rightarrow> string \<Rightarrow> Probe panicking" where
  "for_domain env domain =
     (case resolve_ch_endpoint env domain None None None None of
        Inl e \<Rightarrow> Panicked
          ''readiness probe: ANGZARR_MODE / ANGZARR_CH_PORT env config invalid''
      | Inr raw \<Rightarrow> Returned (OutputDomainProbe domain (from_endpoint raw)))"

definition bus_from_env :: "environment \<Rightarrow> Probe option" where
  "bus_from_env env =
     map_option (\<lambda>raw. BusProbe (from_endpoint raw))
       (opt_filter (\<lambda>s. s \<noteq> []) (env ENV_BUS_ENDPOINT))"

text \<open>
  A check that comes back within the timeout, over what the network answers to a connect:
  the transport probe reads its flag, the two others connect to their endpoint.
\<close>

record Network =
  nw_tcp :: "string \<Rightarrow> bool"
  nw_unix :: "string \<Rightarrow> bool"

primrec endpoint_connects :: "Network \<Rightarrow> Endpoint \<Rightarrow> bool" where
  "endpoint_connects net (Tcp addr) = nw_tcp net addr"
| "endpoint_connects net (Uds path) = nw_unix net path"

primrec probe_check :: "Network \<Rightarrow> bool \<Rightarrow> Probe \<Rightarrow> bool" where
  "probe_check net bound TransportProbe = bound"
| "probe_check net bound (OutputDomainProbe domain endpoint) = endpoint_connects net endpoint"
| "probe_check net bound (BusProbe endpoint) = endpoint_connects net endpoint"

section \<open>Supervisor\<close>

datatype CheckOutcome = is_Checked: Checked bool | Check_panicked string | Timed_out

primrec probe_ok :: "CheckOutcome \<Rightarrow> bool" where
  "probe_ok (Checked b) = b"
| "probe_ok (Check_panicked payload) = False"
| "probe_ok Timed_out = False"

text \<open>The accumulator of a tick, over the outcomes of the probes in order.\<close>

fun tick_loop :: "bool \<Rightarrow> CheckOutcome list \<Rightarrow> bool" where
  "tick_loop all_ok [] = all_ok"
| "tick_loop all_ok (r # outcomes) = tick_loop (if \<not> probe_ok r then False else all_ok) outcomes"

definition supervisor_tick :: "(Probe \<Rightarrow> CheckOutcome) \<Rightarrow> Probe list \<Rightarrow> bool" where
  "supervisor_tick poll probes = tick_loop True (map poll probes)"

datatype ServingStatus = Serving | NotServing

record 'h HealthCrate =
  hc_new :: 'h
  hc_set :: "'h \<Rightarrow> string \<Rightarrow> ServingStatus \<Rightarrow> 'h"
  hc_check :: "'h \<Rightarrow> string \<Rightarrow> ServingStatus option"

definition lawful_health :: "'h HealthCrate \<Rightarrow> bool" where
  "lawful_health H \<longleftrightarrow>
     (\<forall>h name status name'.
        hc_check H (hc_set H h name status) name' =
          (if name' = name then Some status else hc_check H h name'))"

definition publish_status :: "'h HealthCrate \<Rightarrow> ServingStatus \<Rightarrow> string list \<Rightarrow> 'h \<Rightarrow> 'h" where
  "publish_status H status service_names h = foldl (\<lambda>h name. hc_set H h name status) h service_names"

definition verdict :: "bool \<Rightarrow> ServingStatus" where
  "verdict all_ok = (if all_ok then Serving else NotServing)"

text \<open>One pass of the loop of \<open>run_supervisor\<close>, and the first \<open>n\<close> passes: it never returns.\<close>

definition supervisor_round ::
  "'h HealthCrate \<Rightarrow> (Probe \<Rightarrow> CheckOutcome) \<Rightarrow> Probe list \<Rightarrow> string list \<Rightarrow> 'h \<Rightarrow> 'h" where
  "supervisor_round H poll probes service_names h =
     publish_status H (verdict (supervisor_tick poll probes)) service_names h"

primrec run_supervisor ::
  "'h HealthCrate \<Rightarrow> (nat \<Rightarrow> Probe \<Rightarrow> CheckOutcome) \<Rightarrow> Probe list \<Rightarrow> string list \<Rightarrow> nat \<Rightarrow> 'h \<Rightarrow> 'h" where
  "run_supervisor H polls probes service_names 0 h = h"
| "run_supervisor H polls probes service_names (Suc n) h =
     supervisor_round H (polls n) probes service_names
       (run_supervisor H polls probes service_names n h)"

section \<open>Laws\<close>

lemma tick_loop_all: "tick_loop b outcomes \<longleftrightarrow> b \<and> list_all probe_ok outcomes"
  by (induction b outcomes rule: tick_loop.induct) auto

lemma supervisor_tick_all: "supervisor_tick poll probes \<longleftrightarrow> (\<forall>p \<in> set probes. probe_ok (poll p))"
  by (auto simp: supervisor_tick_def tick_loop_all list_all_iff)

lemma verdict_Serving [simp]: "verdict b = Serving \<longleftrightarrow> b" "verdict b = NotServing \<longleftrightarrow> \<not> b"
  by (simp_all add: verdict_def)

lemma hc_check_set [simp]:
  "lawful_health H \<Longrightarrow> hc_check H (hc_set H h name status) name' =
     (if name' = name then Some status else hc_check H h name')"
  unfolding lawful_health_def by blast

lemma check_publish:
  assumes "lawful_health H"
  shows "hc_check H (publish_status H status names h) name =
     (if name \<in> set names then Some status else hc_check H h name)"
  unfolding publish_status_def using assms
  by (induction names arbitrary: h) auto

text \<open>After each round of the supervisor, every registered service reports \<open>SERVING\<close> when
  all probes of that round passed and \<open>NOT_SERVING\<close> otherwise: a probe that failed, panicked or
  timed out is enough, earlier rounds leave no trace, and no other service changes.\<close>

theorem supervisor_reports_latest_round:
  assumes "lawful_health H"
  shows "hc_check H (run_supervisor H polls probes names (Suc n) h) name =
     (if name \<in> set names
      then Some (if \<forall>p \<in> set probes. polls n p = Checked True then Serving else NotServing)
      else hc_check H h name)"
proof -
  have ok: "probe_ok r \<longleftrightarrow> r = Checked True" for r by (cases r) auto
  have "name \<notin> set names \<Longrightarrow> hc_check H (run_supervisor H polls probes names m h) name = hc_check H h name" for m
    by (induction m) (simp_all add: supervisor_round_def check_publish [OF assms])
  then show ?thesis
    by (simp add: supervisor_round_def check_publish [OF assms] verdict_def supervisor_tick_all ok)
qed

text \<open>An instance of the crate's contract: the registry as a map.\<close>

definition map_health :: "(string \<Rightarrow> ServingStatus option) HealthCrate" where
  "map_health =
     \<lparr>hc_new = [[] \<mapsto> Serving], hc_set = (\<lambda>h name status. h(name \<mapsto> status)), hc_check = (\<lambda>h. h)\<rparr>"

lemma lawful_map_health [simp]: "lawful_health map_health"
  by (simp add: lawful_health_def map_health_def)

theorem supervisor_reports_latest_round_witness:
  "hc_check map_health
     (run_supervisor map_health
        (\<lambda>n p. if n = 0 then Checked True else if p = TransportProbe then Check_panicked ''down'' else Timed_out)
        [TransportProbe] [''svc''] (Suc 1) Map.empty) ''svc'' = Some NotServing"
  by (subst supervisor_reports_latest_round) simp_all

end
