(* ===== verification/Files.thy ===== *)
theory Files
  imports Prelude
begin

text \<open>
  The part of \<^verbatim>\<open>std::fs\<close>, \<^verbatim>\<open>std::path\<close> and \<open>UnixListener::bind\<close> that \<^verbatim>\<open>src/src/server.rs\<close> uses to
  put its Unix socket in place, over a file system that maps paths to nodes. The empty path is
  the working directory; it and the root are always directories.

  What the host decides is the record \<open>Host\<close>: which addresses parse as a \<open>SocketAddr\<close>, which
  entries the process may create or remove, and any other reason to refuse a bind. A call
  returns its outcome and the file system it leaves, on failure too.
\<close>

section \<open>Paths\<close>

text \<open>\<open>Path::parent\<close> on Unix, for paths without a \<open>.\<close> component: without the last component and
  the slashes around it.\<close>

definition path_parent :: "string \<Rightarrow> string option" where
  "path_parent p =
     (let last = dropWhile (\<lambda>c. c = CHR ''/'') (rev p);
          rest = dropWhile (\<lambda>c. c \<noteq> CHR ''/'') last;
          dir = dropWhile (\<lambda>c. c = CHR ''/'') rest
      in if last = [] then None
         else if rest = [] then Some []
         else if dir = [] then Some ''/''
         else Some (rev dir))"

text \<open>\<open>PathBuf::join\<close> on Unix: an absolute second path replaces the first.\<close>

definition path_join :: "string \<Rightarrow> string \<Rightarrow> string" where
  "path_join base p =
     (if starts_with p ''/'' then p
      else if base = [] \<or> last base = CHR ''/'' then base @ p
      else base @ ''/'' @ p)"

lemma drop_slashes: "dropWhile (\<lambda>c. c = CHR ''/'') xs = c # cs \<Longrightarrow> c \<noteq> CHR ''/''"
  using hd_dropWhile [of "\<lambda>c. c = CHR ''/''" xs] by simp

lemma path_parent_shorter:
  assumes "path_parent p = Some q"
  shows "length q < length p"
proof -
  define last where "last = dropWhile (\<lambda>c. c = CHR ''/'') (rev p)"
  define rest where "rest = dropWhile (\<lambda>c. c \<noteq> CHR ''/'') last"
  define dir where "dir = dropWhile (\<lambda>c. c = CHR ''/'') rest"
  note parent = assms [unfolded path_parent_def Let_def, folded last_def, folded rest_def, folded dir_def]
  from parent obtain c cs where l: "last = c # cs" by (cases last) simp_all
  then have "c \<noteq> CHR ''/''" unfolding last_def by (rule drop_slashes)
  with l have "rest = dropWhile (\<lambda>c. c \<noteq> CHR ''/'') cs" by (simp add: rest_def)
  then have rest: "length rest \<le> length cs" by (simp only: length_dropWhile_le)
  have dir: "length dir \<le> length rest" unfolding dir_def by (rule length_dropWhile_le)
  have "length last \<le> length (rev p)" unfolding last_def by (rule length_dropWhile_le)
  with l have p: "length cs < length p" by simp
  consider "q = []" | "rest \<noteq> []" "q = ''/''" | "q = rev dir"
    using parent l by (cases "rest = []"; cases "dir = []") simp_all
  then show ?thesis
  proof cases
    case 2
    then have "1 \<le> length rest" by (cases rest) simp_all
    with 2(2) rest p show ?thesis by simp
  next
    case 3
    with dir rest p show ?thesis by simp
  qed (use p in auto)
qed

section \<open>Nodes\<close>

datatype node = Dir | File | Socket

type_synonym filesystem = "string \<Rightarrow> node option"

record Host =
  ho_parses_addr :: "string \<Rightarrow> bool"
  ho_permits :: "string \<Rightarrow> bool"
  ho_refuses :: "string \<Rightarrow> string option"

datatype io_error = Already_exists | Not_found | Permission_denied | Is_directory | Addr_in_use
  | Refused string

definition is_dir :: "filesystem \<Rightarrow> string \<Rightarrow> bool" where
  "is_dir fs p \<longleftrightarrow> p = [] \<or> p = ''/'' \<or> fs p = Some Dir"

definition path_exists :: "filesystem \<Rightarrow> string \<Rightarrow> bool" where
  "path_exists fs p \<longleftrightarrow> is_dir fs p \<or> fs p \<noteq> None"

definition parent_is_dir :: "filesystem \<Rightarrow> string \<Rightarrow> bool" where
  "parent_is_dir fs p \<longleftrightarrow> (case path_parent p of None \<Rightarrow> False | Some q \<Rightarrow> is_dir fs q)"

text \<open>Making a new entry: what \<open>mkdir\<close> and a bind have in common.\<close>

definition make_entry ::
  "Host \<Rightarrow> io_error \<Rightarrow> node \<Rightarrow> filesystem \<Rightarrow> string \<Rightarrow> (io_error + unit) \<times> filesystem" where
  "make_entry N taken n fs p =
     (if path_exists fs p then (Inl taken, fs)
      else if \<not> parent_is_dir fs p then (Inl Not_found, fs)
      else if \<not> ho_permits N p then (Inl Permission_denied, fs)
      else (Inr (), fs(p \<mapsto> n)))"

definition mkdir :: "Host \<Rightarrow> filesystem \<Rightarrow> string \<Rightarrow> (io_error + unit) \<times> filesystem" where
  "mkdir N fs p = make_entry N Already_exists Dir fs p"

text \<open>\<open>fs::create_dir_all\<close>: the parents first where the directory cannot be made at once.\<close>

function create_dir_all :: "Host \<Rightarrow> filesystem \<Rightarrow> string \<Rightarrow> (io_error + unit) \<times> filesystem" where
  "create_dir_all N fs p =
     (if p = [] then (Inr (), fs)
      else case mkdir N fs p of
             (Inr _, fs1) \<Rightarrow> (Inr (), fs1)
           | (Inl e, fs1) \<Rightarrow>
               if e \<noteq> Not_found then (if is_dir fs p then Inr () else Inl e, fs)
               else (case path_parent p of
                       None \<Rightarrow> (Inl e, fs)
                     | Some q \<Rightarrow>
                         (case create_dir_all N fs q of
                            (Inl e1, fs2) \<Rightarrow> (Inl e1, fs2)
                          | (Inr _, fs2) \<Rightarrow>
                              (case mkdir N fs2 p of
                                 (Inr _, fs3) \<Rightarrow> (Inr (), fs3)
                               | (Inl e2, fs3) \<Rightarrow> (if is_dir fs2 p then Inr () else Inl e2, fs2)))))"
  by pat_completeness auto

termination
  by (relation "measure (\<lambda>(N, fs, p). length p)") (auto dest: path_parent_shorter)

declare create_dir_all.simps [simp del]

text \<open>\<open>fs::remove_file\<close>: not for a directory.\<close>

definition remove_file :: "Host \<Rightarrow> filesystem \<Rightarrow> string \<Rightarrow> (io_error + unit) \<times> filesystem" where
  "remove_file N fs p =
     (if \<not> path_exists fs p then (Inl Not_found, fs)
      else if is_dir fs p then (Inl Is_directory, fs)
      else if \<not> ho_permits N p then (Inl Permission_denied, fs)
      else (Inr (), fs(p := None)))"

definition bind_unix :: "Host \<Rightarrow> filesystem \<Rightarrow> string \<Rightarrow> (io_error + unit) \<times> filesystem" where
  "bind_unix N fs p =
     (case ho_refuses N p of
        Some e \<Rightarrow> (Inl (Refused e), fs)
      | None \<Rightarrow> make_entry N Addr_in_use Socket fs p)"

section \<open>Laws\<close>

lemma make_entry_ok:
  "fst (make_entry N taken n fs p) = Inr () \<longleftrightarrow>
     \<not> path_exists fs p \<and> parent_is_dir fs p \<and> ho_permits N p"
  "snd (make_entry N taken n fs p) =
     (if fst (make_entry N taken n fs p) = Inr () then fs(p \<mapsto> n) else fs)"
  by (simp_all add: make_entry_def)

lemma is_dir_update [simp]: "q \<noteq> p \<Longrightarrow> is_dir (fs(p := n)) q = is_dir fs q"
  by (simp add: is_dir_def)

text \<open>Making directories changes nothing but missing entries, which become directories.\<close>

definition only_dirs_added :: "filesystem \<Rightarrow> filesystem \<Rightarrow> bool" where
  "only_dirs_added fs fs' \<longleftrightarrow> (\<forall>p. fs' p = fs p \<or> (fs p = None \<and> fs' p = Some Dir))"

lemma only_dirs_refl [simp]: "only_dirs_added fs fs"
  by (simp add: only_dirs_added_def)

lemma only_dirs_trans: "only_dirs_added a b \<Longrightarrow> only_dirs_added b c \<Longrightarrow> only_dirs_added a c"
  unfolding only_dirs_added_def by metis

lemma mkdir_adds: "only_dirs_added fs (snd (mkdir N fs p))"
  by (auto simp: mkdir_def make_entry_def only_dirs_added_def path_exists_def)

lemma only_dirs_is_dir: "only_dirs_added fs fs' \<Longrightarrow> is_dir fs p \<Longrightarrow> is_dir fs' p"
  unfolding only_dirs_added_def is_dir_def by metis

lemma make_entry_elsewhere: "q \<noteq> p \<Longrightarrow> snd (make_entry N taken n fs p) q = fs q"
  by (simp add: make_entry_def)

lemma create_dir_all_adds:
  "only_dirs_added fs (snd (create_dir_all N fs p)) \<and>
   (\<forall>q. length p < length q \<longrightarrow> snd (create_dir_all N fs p) q = fs q)"
proof (induction N fs p rule: create_dir_all.induct)
  case (1 N fs p)
  have sub: "path_parent p = Some q \<Longrightarrow> length p < length r \<Longrightarrow> length q < length r" for q r
    using path_parent_shorter [of p q] by simp
  show ?case
  proof (cases "p \<noteq> [] \<and> (\<exists>fs1 q. mkdir N fs p = (Inl Not_found, fs1) \<and> path_parent p = Some q)")
    case False
    have "only_dirs_added fs (snd (mkdir N fs p))" by (rule mkdir_adds)
    then show ?thesis using False
      by (auto simp: create_dir_all.simps [of N fs p] mkdir_def make_entry_def
          split: prod.splits sum.splits option.splits)
  next
    case True
    then obtain fs1 q where q: "p \<noteq> []" "mkdir N fs p = (Inl Not_found, fs1)" "path_parent p = Some q"
      by blast
    let ?fs2 = "snd (create_dir_all N fs q)"
    from q have ih: "only_dirs_added fs ?fs2" "\<forall>r. length q < length r \<longrightarrow> ?fs2 r = fs r"
      using "1.IH" by auto
    have "snd (create_dir_all N fs p) = ?fs2 \<or>
        snd (create_dir_all N fs p) = snd (mkdir N ?fs2 p)"
      using q by (auto simp: create_dir_all.simps [of N fs p] split: prod.splits sum.splits)
    then show ?thesis
    proof
      assume "snd (create_dir_all N fs p) = ?fs2"
      then show ?thesis using ih sub [OF q(3)] by auto
    next
      assume eq: "snd (create_dir_all N fs p) = snd (mkdir N ?fs2 p)"
      have "only_dirs_added fs (snd (mkdir N ?fs2 p))"
        using ih(1) mkdir_adds by (rule only_dirs_trans)
      moreover have "snd (mkdir N ?fs2 p) r = fs r" if "length p < length r" for r
      proof -
        from that have "r \<noteq> p" by auto
        then have "snd (mkdir N ?fs2 p) r = ?fs2 r" by (simp add: mkdir_def make_entry_elsewhere)
        with ih(2) sub [OF q(3) that] show ?thesis by simp
      qed
      ultimately show ?thesis by (simp add: eq)
    qed
  qed
qed

lemma create_dir_all_keeps:
  "path_parent p = Some q \<Longrightarrow> snd (create_dir_all N fs q) p = fs p"
  "only_dirs_added fs (snd (create_dir_all N fs q))"
  using create_dir_all_adds [of fs N q] path_parent_shorter [of p q] by blast+

lemma path_parent_other: "path_parent p = Some q \<Longrightarrow> q \<noteq> p"
  using path_parent_shorter [of p q] by auto

lemma parent_is_dir_update [simp]: "parent_is_dir (fs(p := n)) p = parent_is_dir fs p"
  by (auto simp: parent_is_dir_def dest: path_parent_other split: option.split)

lemma parent_is_dir_mono: "only_dirs_added fs fs' \<Longrightarrow> parent_is_dir fs p \<Longrightarrow> parent_is_dir fs' p"
  by (auto simp: parent_is_dir_def intro: only_dirs_is_dir split: option.splits)

lemma parent_not_root: "parent_is_dir fs p \<Longrightarrow> p \<noteq> [] \<and> p \<noteq> ''/''"
  by (auto simp: parent_is_dir_def path_parent_def)

text \<open>A bound socket is in the file system, under a directory, and nobody else can bind it.\<close>

definition has_socket :: "filesystem \<Rightarrow> string \<Rightarrow> bool" where
  "has_socket fs p \<longleftrightarrow> fs p = Some Socket \<and> parent_is_dir fs p"

lemma bind_unix_ok:
  assumes "bind_unix N fs p = (Inr (), fs')"
  shows "has_socket fs' p"
proof -
  from assms have ok: "parent_is_dir fs p" "fs' = fs(p \<mapsto> Socket)"
    by (auto simp: bind_unix_def make_entry_def split: option.split_asm if_split_asm)
  then show ?thesis by (simp add: has_socket_def)
qed

lemma bind_unix_taken: "path_exists fs p \<Longrightarrow> fst (bind_unix N fs p) \<noteq> Inr ()"
  by (simp add: bind_unix_def make_entry_def split: option.split)

lemma bind_unix_free:
  "fs p = None \<Longrightarrow> parent_is_dir fs p \<Longrightarrow> ho_permits N p \<Longrightarrow> ho_refuses N p = None \<Longrightarrow>
   bind_unix N fs p = (Inr (), fs(p \<mapsto> Socket))"
  using parent_not_root [of fs p]
  by (simp add: bind_unix_def make_entry_def path_exists_def is_dir_def)

end
