(* ===== verification/Server.thy ===== *)
theory Server
  imports Readiness Router_Info Files
begin

text \<open>
  \<^verbatim>\<open>src/src/server.rs\<close>: the configuration of a runner, the per-kind runners, and \<open>run_kind\<close>,
  the body they share.

  \<open>run_kind\<close> spawns the readiness supervisor as a task of its own, so it is a step relation
  over the two tasks: the supervisor advances from one \<open>await\<close> to the next (a check, a status
  update, the sleep), the runner likewise, in any interleaving. What the environment decides
  (the outcome of a connect, when serving ends) is nondeterministic; the host a run is on is a
  parameter, and the socket file lives in the file system of \<open>Files\<close>, which is part of the
  state. The steps the code does in sequence without an \<open>await\<close> before the supervisor exists
  are the function \<open>run_start\<close>.
\<close>

section \<open>Configuration\<close>

record ServerConfig =
  sv_port :: u16
  sv_uds_path :: "string option"

definition server_config_from_env :: "environment \<Rightarrow> u16 \<Rightarrow> ServerConfig" where
  "server_config_from_env env default_port =
     (case (env ''UDS_BASE_PATH'', env ''SERVICE_NAME'', env ''DOMAIN'') of
        (Some base_path, Some service_name, Some domain) \<Rightarrow>
          let socket_name = service_name @ ''-'' @ domain @ ''.sock''
          in \<lparr>sv_port = default_port, sv_uds_path = Some (path_join base_path socket_name)\<rparr>
      | _ \<Rightarrow>
          let port = unwrap_or default_port
                (Option.bind (or_else (env ''PORT'') (env ''GRPC_PORT'')) parse_u16)
          in \<lparr>sv_port = port, sv_uds_path = None\<rparr>)"

definition get_transport_config :: "environment \<Rightarrow> u16 \<Rightarrow> ServerConfig" where
  "get_transport_config env default_port = server_config_from_env env default_port"

definition ENV_BIND_ADDRESS :: string where "ENV_BIND_ADDRESS = ''ANGZARR_BIND_ADDRESS''"
definition DEFAULT_BIND_HOST :: string where "DEFAULT_BIND_HOST = ''[::]''"

definition resolve_bind_address :: "environment \<Rightarrow> u16 \<Rightarrow> string" where
  "resolve_bind_address env default_port =
     (case env ENV_BIND_ADDRESS of
        Some s \<Rightarrow> s
      | None \<Rightarrow> DEFAULT_BIND_HOST @ '':'' @ show_u16 default_port)"

section \<open>Runners\<close>

definition HEALTH_NAME_COMMAND_HANDLER :: string where
  "HEALTH_NAME_COMMAND_HANDLER = ''angzarr_client.proto.angzarr.CommandHandlerService''"
definition HEALTH_NAME_SAGA :: string where
  "HEALTH_NAME_SAGA = ''angzarr_client.proto.angzarr.SagaService''"
definition HEALTH_NAME_PROCESS_MANAGER :: string where
  "HEALTH_NAME_PROCESS_MANAGER = ''angzarr_client.proto.angzarr.ProcessManagerService''"
definition HEALTH_NAME_PROJECTOR :: string where
  "HEALTH_NAME_PROJECTOR = ''angzarr_client.proto.angzarr.ProjectorService''"
definition HEALTH_NAME_UPCASTER :: string where
  "HEALTH_NAME_UPCASTER = ''angzarr_client.proto.angzarr.UpcasterService''"

text \<open>The arguments a per-kind runner passes to \<open>run_kind\<close>, the service aside.\<close>

record RunArgs =
  ra_name :: string
  ra_config :: ServerConfig
  ra_sync_outputs :: "string list"
  ra_has_async :: bool
  ra_health_name :: string

definition run_command_handler_server ::
  "environment \<Rightarrow> 'w RuntimeRouter \<Rightarrow> u16 \<Rightarrow> 'w \<Rightarrow> RunArgs \<times> 'w" where
  "run_command_handler_server env router default_port w =
     (let (name, router', w1) = ch_name router w
      in (\<lparr>ra_name = name, ra_config = get_transport_config env default_port,
           ra_sync_outputs = [], ra_has_async = False,
           ra_health_name = HEALTH_NAME_COMMAND_HANDLER\<rparr>, w1))"

definition run_saga_server ::
  "environment \<Rightarrow> 'w RuntimeRouter \<Rightarrow> u16 \<Rightarrow> 'w \<Rightarrow> RunArgs \<times> 'w" where
  "run_saga_server env router default_port w =
     (let (name, router', w1) = saga_name router w;
          (sync_outputs, w2) = saga_sync_output_domains router' w1;
          (has_async_outputs, w3) = saga_has_async_outputs router' w2
      in (\<lparr>ra_name = name, ra_config = get_transport_config env default_port,
           ra_sync_outputs = sync_outputs, ra_has_async = has_async_outputs,
           ra_health_name = HEALTH_NAME_SAGA\<rparr>, w3))"

definition run_projector_server ::
  "environment \<Rightarrow> 'w RuntimeRouter \<Rightarrow> u16 \<Rightarrow> 'w \<Rightarrow> RunArgs \<times> 'w" where
  "run_projector_server env router default_port w =
     (let (name, router', w1) = projector_name router w
      in (\<lparr>ra_name = name, ra_config = get_transport_config env default_port,
           ra_sync_outputs = [], ra_has_async = False,
           ra_health_name = HEALTH_NAME_PROJECTOR\<rparr>, w1))"

definition run_process_manager_server ::
  "environment \<Rightarrow> 'w RuntimeRouter \<Rightarrow> u16 \<Rightarrow> 'w \<Rightarrow> RunArgs \<times> 'w" where
  "run_process_manager_server env router default_port w =
     (let (name, router', w1) = pm_name router w;
          (sync_outputs, w2) = pm_sync_output_domains router' w1;
          (has_async_outputs, w3) = pm_has_async_outputs router' w2
      in (\<lparr>ra_name = name, ra_config = get_transport_config env default_port,
           ra_sync_outputs = sync_outputs, ra_has_async = has_async_outputs,
           ra_health_name = HEALTH_NAME_PROCESS_MANAGER\<rparr>, w3))"

definition run_upcaster_server ::
  "environment \<Rightarrow> 'w RuntimeRouter \<Rightarrow> u16 \<Rightarrow> 'w \<Rightarrow> RunArgs \<times> 'w" where
  "run_upcaster_server env router default_port w =
     (let (name, router', w1) = upcaster_name router w
      in (\<lparr>ra_name = name, ra_config = get_transport_config env default_port,
           ra_sync_outputs = [], ra_has_async = False,
           ra_health_name = HEALTH_NAME_UPCASTER\<rparr>, w1))"

definition run_server :: "environment \<Rightarrow> u16 \<Rightarrow> 'w Built \<Rightarrow> 'w \<Rightarrow> RunArgs \<times> 'w" where
  "run_server env default_port built w =
     (case built of
        Built_CommandHandler router \<Rightarrow> run_command_handler_server env router default_port w
      | Built_Saga router \<Rightarrow> run_saga_server env router default_port w
      | Built_ProcessManager router \<Rightarrow> run_process_manager_server env router default_port w
      | Built_Projector router \<Rightarrow> run_projector_server env router default_port w
      | Built_Upcaster router \<Rightarrow> run_upcaster_server env router default_port w)"

section \<open>Start of a run\<close>

fun domain_probes :: "environment \<Rightarrow> string list \<Rightarrow> Probe list panicking" where
  "domain_probes env [] = Returned []"
| "domain_probes env (d # ds) =
     (case for_domain env d of
        Panicked msg \<Rightarrow> Panicked msg
      | Returned p \<Rightarrow>
          (case domain_probes env ds of Panicked msg \<Rightarrow> Panicked msg | Returned ps \<Rightarrow> Returned (p # ps)))"

definition bus_probes :: "environment \<Rightarrow> bool \<Rightarrow> Probe list" where
  "bus_probes env has_async_outputs =
     (if has_async_outputs then (case bus_from_env env of Some bus \<Rightarrow> [bus] | None \<Rightarrow> []) else [])"

definition build_probes :: "environment \<Rightarrow> string list \<Rightarrow> bool \<Rightarrow> Probe list panicking" where
  "build_probes env sync_output_domains has_async_outputs =
     (case domain_probes env sync_output_domains of
        Panicked msg \<Rightarrow> Panicked msg
      | Returned ps \<Rightarrow> Returned (TransportProbe # ps @ bus_probes env has_async_outputs))"

definition service_names :: "string \<Rightarrow> string list" where
  "service_names health_service_name = [[], health_service_name]"

text \<open>
  The supervisor task: \<open>Sup_polling ps outcomes\<close> has the probes \<open>ps\<close> of the tick still to
  poll; \<open>Sup_gone\<close> is after \<open>supervisor.await\<close>. The runner: \<open>Main_listening\<close> is between the
  bind of the UDS listener and \<open>mark_bound\<close>; \<open>Main_aborting\<close> has called \<open>abort\<close> and waits.
\<close>

datatype Supervisor =
    Sup_polling "Probe list" "CheckOutcome list"
  | Sup_publishing ServingStatus "string list"
  | Sup_sleeping
  | Sup_gone

datatype Main =
    Main_starting
  | Main_listening
  | Main_serving
  | Main_aborting "string + unit"
  | Main_publishing "string + unit" "string list"
  | Main_returned "string + unit"
  | Main_panicked string

text \<open>
  Beside the health registry, the transport probe's flag and the file system, the state
  records two facts the code does not keep: whether a listener is bound (it is dropped when
  serving ends), and the outcomes of every finished tick.
\<close>

record 'h RunState =
  rs_health :: 'h
  rs_bound :: bool
  rs_sup :: Supervisor
  rs_main :: Main
  rs_listening :: bool
  rs_fs :: filesystem
  rs_ticks :: "CheckOutcome list list"

text \<open>What a run is given: the transport, its probes and the names it registers.\<close>

datatype Transport = Via_uds string | Via_tcp string

record RunParams =
  rp_transport :: Transport
  rp_probes :: "Probe list"
  rp_names :: "string list"

definition run_params :: "environment \<Rightarrow> RunArgs \<Rightarrow> RunParams panicking" where
  "run_params env args =
     (case build_probes env (ra_sync_outputs args) (ra_has_async args) of
        Panicked msg \<Rightarrow> Panicked msg
      | Returned probes \<Rightarrow> Returned
          \<lparr>rp_transport =
             (case sv_uds_path (ra_config args) of
                Some uds_path \<Rightarrow> Via_uds uds_path
              | None \<Rightarrow> Via_tcp (resolve_bind_address env (sv_port (ra_config args)))),
           rp_probes = probes, rp_names = service_names (ra_health_name args)\<rparr>)"

definition run_start :: "'h HealthCrate \<Rightarrow> RunParams \<Rightarrow> filesystem \<Rightarrow> 'h RunState" where
  "run_start H P fs =
     \<lparr>rs_health = publish_status H NotServing (rp_names P) (hc_new H), rs_bound = False,
      rs_sup = Sup_polling (rp_probes P) [], rs_main = Main_starting, rs_listening = False,
      rs_fs = fs, rs_ticks = []\<rparr>"

section \<open>The socket file\<close>

definition cleanup_socket :: "Host \<Rightarrow> filesystem \<Rightarrow> string \<Rightarrow> filesystem" where
  "cleanup_socket N fs p = (if path_exists fs p then snd (remove_file N fs p) else fs)"

text \<open>What the runner does before it binds; the outcomes are ignored.\<close>

definition prepare_socket :: "Host \<Rightarrow> filesystem \<Rightarrow> string \<Rightarrow> filesystem" where
  "prepare_socket N fs uds_path =
     cleanup_socket N
       (case path_parent uds_path of
          Some parent \<Rightarrow> snd (create_dir_all N fs parent)
        | None \<Rightarrow> fs) uds_path"

section \<open>Steps\<close>

text \<open>
  The outcomes a poll of a probe may have: the check's answer over some network, and for the
  probes that connect also a timeout or a panic. The transport probe's check is ready at once.
\<close>

definition may_check :: "Network \<Rightarrow> bool \<Rightarrow> Probe \<Rightarrow> CheckOutcome \<Rightarrow> bool" where
  "may_check net bound p r \<longleftrightarrow>
     r = Checked (probe_check net bound p) \<or> (p \<noteq> TransportProbe \<and> \<not> is_Checked r)"

lemma may_check_transport: "may_check net bound TransportProbe r \<longleftrightarrow> r = Checked bound"
  by (simp add: may_check_def)

lemma may_check_any:
  assumes "p = TransportProbe \<longrightarrow> r = Checked bound"
  shows "\<exists>net. may_check net bound p r"
proof (cases r)
  case (Checked b)
  have "endpoint_connects \<lparr>nw_tcp = \<lambda>_. b, nw_unix = \<lambda>_. b\<rparr> e = b" for e
    by (cases e) simp_all
  with Checked assms show ?thesis
    by (intro exI [of _ "\<lparr>nw_tcp = \<lambda>_. b, nw_unix = \<lambda>_. b\<rparr>"]) (cases p; simp add: may_check_def)
qed (use assms in \<open>auto simp: may_check_def\<close>)

inductive run_step ::
  "'h HealthCrate \<Rightarrow> Host \<Rightarrow> RunParams \<Rightarrow> 'h RunState \<Rightarrow> 'h RunState \<Rightarrow> bool"
  for H N P where
  sup_check: "rs_sup s = Sup_polling (p # ps) outcomes \<Longrightarrow> may_check net (rs_bound s) p r \<Longrightarrow>
    run_step H N P s (s\<lparr>rs_sup := Sup_polling ps (outcomes @ [r])\<rparr>)"
| sup_decide: "rs_sup s = Sup_polling [] outcomes \<Longrightarrow>
    run_step H N P s
      (s\<lparr>rs_sup := Sup_publishing (verdict (tick_loop True outcomes)) (rp_names P),
         rs_ticks := outcomes # rs_ticks s\<rparr>)"
| sup_publish: "rs_sup s = Sup_publishing status (name # names) \<Longrightarrow>
    run_step H N P s
      (s\<lparr>rs_health := hc_set H (rs_health s) name status, rs_sup := Sup_publishing status names\<rparr>)"
| sup_sleep: "rs_sup s = Sup_publishing status [] \<Longrightarrow>
    run_step H N P s (s\<lparr>rs_sup := Sup_sleeping\<rparr>)"
| sup_wake: "rs_sup s = Sup_sleeping \<Longrightarrow>
    run_step H N P s (s\<lparr>rs_sup := Sup_polling (rp_probes P) []\<rparr>)"
| uds_bind: "rs_main s = Main_starting \<Longrightarrow> rp_transport P = Via_uds path \<Longrightarrow>
    bind_unix N (prepare_socket N (rs_fs s) path) path = (Inr (), fs') \<Longrightarrow>
    run_step H N P s
      (s\<lparr>rs_main := Main_listening, rs_listening := True, rs_fs := fs'\<rparr>)"
| uds_bind_fails: "rs_main s = Main_starting \<Longrightarrow> rp_transport P = Via_uds path \<Longrightarrow>
    bind_unix N (prepare_socket N (rs_fs s) path) path = (Inl e, fs') \<Longrightarrow>
    run_step H N P s
      (s\<lparr>rs_main := Main_panicked ''Failed to bind UDS socket'', rs_fs := fs'\<rparr>)"
| uds_mark_bound: "rs_main s = Main_listening \<Longrightarrow>
    run_step H N P s (s\<lparr>rs_main := Main_serving, rs_bound := True\<rparr>)"
| tcp_mark_bound: "rs_main s = Main_starting \<Longrightarrow> rp_transport P = Via_tcp addr \<Longrightarrow>
    ho_parses_addr N addr \<Longrightarrow>
    run_step H N P s (s\<lparr>rs_main := Main_serving, rs_bound := True\<rparr>)"
| tcp_bad_address: "rs_main s = Main_starting \<Longrightarrow> rp_transport P = Via_tcp addr \<Longrightarrow>
    \<not> ho_parses_addr N addr \<Longrightarrow>
    run_step H N P s (s\<lparr>rs_main := Main_panicked ''invalid TCP bind address''\<rparr>)"
| tcp_serve_binds: "rs_main s = Main_serving \<Longrightarrow> rp_transport P = Via_tcp addr \<Longrightarrow>
    run_step H N P s (s\<lparr>rs_listening := True\<rparr>)"
| serve_ends: "rs_main s = Main_serving \<Longrightarrow>
    run_step H N P s (s\<lparr>rs_main := Main_aborting res, rs_listening := False\<rparr>)"
| supervisor_joined: "rs_main s = Main_aborting res \<Longrightarrow>
    run_step H N P s
      (s\<lparr>rs_main := Main_publishing res (rp_names P), rs_sup := Sup_gone\<rparr>)"
| shutdown_publish: "rs_main s = Main_publishing res (name # names) \<Longrightarrow>
    run_step H N P s
      (s\<lparr>rs_health := hc_set H (rs_health s) name NotServing,
         rs_main := Main_publishing res names\<rparr>)"
| run_returns: "rs_main s = Main_publishing res [] \<Longrightarrow>
    run_step H N P s (s\<lparr>rs_main := Main_returned res\<rparr>)"

inductive_cases run_stepE: "run_step H N P s t"

section \<open>Reachable states\<close>

text \<open>An invariant of a transition system holds in every state a run reaches.\<close>

locale step_invariant =
  fixes step :: "'s \<Rightarrow> 's \<Rightarrow> bool" and start :: 's and inv :: "'s \<Rightarrow> bool"
  assumes inv_start: "inv start"
    and inv_step: "inv s \<Longrightarrow> step s t \<Longrightarrow> inv t"
begin

lemma inv_steps: "step\<^sup>*\<^sup>* s t \<Longrightarrow> inv s \<Longrightarrow> inv t"
  by (induction rule: rtranclp_induct) (auto intro: inv_step)

lemma inv_reachable: "step\<^sup>*\<^sup>* start t \<Longrightarrow> inv t"
  by (rule inv_steps) (auto intro: inv_start)

end

text \<open>A finished tick in which every probe was polled and passed.\<close>

definition passed :: "RunParams \<Rightarrow> CheckOutcome list \<Rightarrow> bool" where
  "passed P t \<longleftrightarrow> length t = length (rp_probes P) \<and> list_all probe_ok t"

text \<open>The outcomes of the tick under way.\<close>

primrec polled :: "Supervisor \<Rightarrow> CheckOutcome list" where
  "polled (Sup_polling ps outcomes) = outcomes"
| "polled (Sup_publishing status names) = []"
| "polled Sup_sleeping = []"
| "polled Sup_gone = []"

definition polls_in_order :: "RunParams \<Rightarrow> 'h RunState \<Rightarrow> bool" where
  "polls_in_order P s \<longleftrightarrow>
     (\<forall>ps os. rs_sup s = Sup_polling ps os \<longrightarrow>
        (\<exists>before. rp_probes P = before @ ps \<and> length before = length os))"

definition bound_when_polled :: "RunParams \<Rightarrow> 'h RunState \<Rightarrow> bool" where
  "bound_when_polled P s \<longleftrightarrow>
     (\<forall>t \<in> insert (polled (rs_sup s)) (set (rs_ticks s)). t \<noteq> [] \<and> probe_ok (hd t) \<longrightarrow> rs_bound s)"

definition serving_justified :: "'h HealthCrate \<Rightarrow> RunParams \<Rightarrow> 'h RunState \<Rightarrow> bool" where
  "serving_justified H P s \<longleftrightarrow>
     ((\<exists>name \<in> set (rp_names P). hc_check H (rs_health s) name = Some Serving) \<or>
      (\<exists>names. rs_sup s = Sup_publishing Serving names) \<longrightarrow> (\<exists>t \<in> set (rs_ticks s). passed P t))"

text \<open>The runner has bound its Unix socket, and its shutdown has begun but not returned.\<close>

primrec past_bind :: "Main \<Rightarrow> bool" where
  "past_bind Main_starting = False"
| "past_bind Main_listening = True"
| "past_bind Main_serving = True"
| "past_bind (Main_aborting res) = True"
| "past_bind (Main_publishing res names) = True"
| "past_bind (Main_returned res) = True"
| "past_bind (Main_panicked msg) = False"

primrec shutting_down :: "Main \<Rightarrow> bool" where
  "shutting_down Main_starting = False"
| "shutting_down Main_listening = False"
| "shutting_down Main_serving = False"
| "shutting_down (Main_aborting res) = True"
| "shutting_down (Main_publishing res names) = True"
| "shutting_down (Main_returned res) = False"
| "shutting_down (Main_panicked msg) = False"

definition listening_when_bound :: "RunParams \<Rightarrow> 'h RunState \<Rightarrow> bool" where
  "listening_when_bound P s \<longleftrightarrow>
     (rs_bound s \<longrightarrow> past_bind (rs_main s) \<and> rs_main s \<noteq> Main_listening)
     \<and> (\<forall>path. rp_transport P = Via_uds path \<longrightarrow>
          (rs_main s = Main_listening \<or> rs_main s = Main_serving \<longrightarrow> rs_listening s))
     \<and> (\<forall>addr. rp_transport P = Via_tcp addr \<longrightarrow> rs_main s \<noteq> Main_listening)"

definition transport_first :: "RunParams \<Rightarrow> bool" where
  "transport_first P \<longleftrightarrow> (\<exists>rest. rp_probes P = TransportProbe # rest)"

definition ready_inv :: "'h HealthCrate \<Rightarrow> RunParams \<Rightarrow> 'h RunState \<Rightarrow> bool" where
  "ready_inv H P s \<longleftrightarrow>
     (lawful_health H \<and> transport_first P \<longrightarrow>
        polls_in_order P s \<and> bound_when_polled P s \<and> serving_justified H P s
        \<and> listening_when_bound P s)"

lemma polls_in_order_step:
  assumes "polls_in_order P s" and "run_step H N P s t"
  shows "polls_in_order P t"
  using assms(2)
proof (cases rule: run_step.cases)
  case (sup_check p ps outcomes net r)
  with assms(1) obtain before where "rp_probes P = before @ p # ps" "length before = length outcomes"
    by (auto simp: polls_in_order_def)
  then have "rp_probes P = (before @ [p]) @ ps" "length (before @ [p]) = length (outcomes @ [r])"
    by simp_all
  then show ?thesis unfolding polls_in_order_def sup_check(1) by auto
qed (use assms(1) in \<open>auto simp: polls_in_order_def\<close>)

lemma bound_when_polled_step:
  "transport_first P \<Longrightarrow> polls_in_order P s \<Longrightarrow> bound_when_polled P s \<Longrightarrow>
   run_step H N P s t \<Longrightarrow> bound_when_polled P t"
  by (erule run_stepE) (auto simp: bound_when_polled_def polls_in_order_def transport_first_def
      may_check_transport hd_append Cons_eq_append_conv split: if_splits)

lemma serving_justified_step:
  "lawful_health H \<Longrightarrow> polls_in_order P s \<Longrightarrow> serving_justified H P s \<Longrightarrow>
   run_step H N P s t \<Longrightarrow> serving_justified H P t"
  by (erule run_stepE) (auto simp: serving_justified_def polls_in_order_def passed_def
      tick_loop_all split: if_splits)

lemma listening_when_bound_step:
  "listening_when_bound P s \<Longrightarrow> run_step H N P s t \<Longrightarrow> listening_when_bound P t"
  by (erule run_stepE) (auto simp: listening_when_bound_def)

lemma ready_inv_start: "ready_inv H P (run_start H P fs)"
  by (auto simp: ready_inv_def polls_in_order_def bound_when_polled_def serving_justified_def
      listening_when_bound_def run_start_def check_publish)

lemma ready_inv_step: "ready_inv H P s \<Longrightarrow> run_step H N P s t \<Longrightarrow> ready_inv H P t"
  unfolding ready_inv_def
  by (blast intro: polls_in_order_step bound_when_polled_step serving_justified_step
      listening_when_bound_step)

interpretation readiness:
  step_invariant "run_step H N P" "run_start H P fs" "ready_inv H P"
  for H :: "'h HealthCrate" and N P fs
  by unfold_locales (auto intro: ready_inv_start ready_inv_step)

text \<open>
  The shutdown: once the supervisor is joined nothing else writes the registry, and the names
  already published stay \<open>NOT_SERVING\<close>.
\<close>

definition shutdown_inv :: "'h HealthCrate \<Rightarrow> RunParams \<Rightarrow> 'h RunState \<Rightarrow> bool" where
  "shutdown_inv H P s \<longleftrightarrow>
     (lawful_health H \<longrightarrow>
        (\<forall>res left. rs_main s = Main_publishing res left \<longrightarrow> rs_sup s = Sup_gone
           \<and> (\<exists>done. rp_names P = done @ left
                \<and> (\<forall>name \<in> set done. hc_check H (rs_health s) name = Some NotServing)))
        \<and> (\<forall>res. rs_main s = Main_returned res \<longrightarrow> rs_sup s = Sup_gone
             \<and> (\<forall>name \<in> set (rp_names P). hc_check H (rs_health s) name = Some NotServing)))"

lemma shutdown_inv_step:
  assumes "shutdown_inv H P s" and "run_step H N P s t"
  shows "shutdown_inv H P t"
  using assms(2)
proof (cases rule: run_step.cases)
  case (shutdown_publish res name names)
  have "\<exists>done'. rp_names P = done' @ names
      \<and> (\<forall>n \<in> set done'. hc_check H (rs_health t) n = Some NotServing)"
    if "lawful_health H"
  proof -
    from that assms(1) shutdown_publish obtain before where before:
      "rp_names P = before @ name # names"
      "\<forall>n \<in> set before. hc_check H (rs_health s) n = Some NotServing"
      by (auto simp: shutdown_inv_def)
    show ?thesis
      by (intro exI [of _ "before @ [name]"]) (use before that shutdown_publish in auto)
  qed
  then show ?thesis using assms(1) shutdown_publish by (auto simp: shutdown_inv_def)
qed (use assms(1) in \<open>auto simp: shutdown_inv_def\<close>)

lemma shutdown_inv_start: "shutdown_inv H P (run_start H P fs)"
  by (simp add: shutdown_inv_def run_start_def)

interpretation shutdown:
  step_invariant "run_step H N P" "run_start H P fs" "shutdown_inv H P"
  for H :: "'h HealthCrate" and N P fs
  by unfold_locales (rule shutdown_inv_start, rule shutdown_inv_step)

section \<open>Readiness of a run\<close>

lemma run_params_shape:
  assumes "run_params env args = Returned P"
  shows "transport_first P" and "rp_names P = [[], ra_health_name args]"
    and "sv_uds_path (ra_config args) = Some path \<Longrightarrow> rp_transport P = Via_uds path"
    and "sv_uds_path (ra_config args) = None \<Longrightarrow>
           rp_transport P = Via_tcp (resolve_bind_address env (sv_port (ra_config args)))"
  using assms
  by (auto simp: run_params_def build_probes_def service_names_def transport_first_def
      split: panicking.split_asm option.split_asm)

text \<open>C13: A runner reports \<open>SERVING\<close>, under the empty name or its kind's, only when it is
  ready: the transport was marked bound, and there was a finished supervisor tick in which every
  one of its probes was polled and passed. The runner is then serving, where over a Unix socket
  the listener is bound, or it is shutting down and has not come to the end of it: there the
  listener is gone already and the report is out of date until the shutdown publishes. This
  holds in every interleaving of the runner and the supervisor task.\<close>

theorem serving_only_when_ready:
  assumes "lawful_health H" and "run_params env args = Returned P"
    and "(run_step H N P)\<^sup>*\<^sup>* (run_start H P fs) s"
    and "name = [] \<or> name = ra_health_name args"
    and "hc_check H (rs_health s) name = Some Serving"
  shows "rs_bound s
    \<and> (rs_main s = Main_serving \<and> (sv_uds_path (ra_config args) \<noteq> None \<longrightarrow> rs_listening s)
       \<or> shutting_down (rs_main s))
    \<and> (\<exists>t \<in> set (rs_ticks s). length t = length (rp_probes P) \<and> list_all probe_ok t)"
proof -
  note shape = run_params_shape [OF assms(2)]
  have "ready_inv H P s" using readiness.inv_reachable [OF assms(3)] .
  then have inv: "bound_when_polled P s" "serving_justified H P s" "listening_when_bound P s"
    using assms(1) shape(1) by (simp_all add: ready_inv_def)
  have "name \<in> set (rp_names P)" using assms(4) shape(2) by auto
  then obtain t where t: "t \<in> set (rs_ticks s)" "passed P t"
    using inv(2) assms(5) by (auto simp: serving_justified_def)
  then have "t \<noteq> []" using shape(1) by (auto simp: passed_def transport_first_def)
  moreover from this t(2) have "probe_ok (hd t)" by (simp add: passed_def list_all_iff)
  ultimately have "t \<noteq> [] \<and> probe_ok (hd t)" by blast
  with inv(1) t(1) have bound: "rs_bound s" by (auto simp: bound_when_polled_def)
  have "rs_main s \<noteq> Main_returned res" for res
    using shutdown.inv_reachable [OF assms(3)] assms(1,5) \<open>name \<in> set (rp_names P)\<close>
    by (auto simp: shutdown_inv_def)
  then have "rs_main s = Main_serving \<or> shutting_down (rs_main s)"
    using bound inv(3) by (cases "rs_main s") (auto simp: listening_when_bound_def)
  then show ?thesis
    using bound t inv(3) shape(3) by (auto simp: passed_def listening_when_bound_def)
qed

text \<open>C14: A runner that has returned reports \<open>NOT_SERVING\<close> under both of its names, and for
  good: nothing of it runs any more, whatever the supervisor was doing when it was cancelled.\<close>

theorem shutdown_is_final:
  assumes "lawful_health H" and "run_params env args = Returned P"
    and "(run_step H N P)\<^sup>*\<^sup>* (run_start H P fs) s" and "rs_main s = Main_returned res"
  shows "hc_check H (rs_health s) [] = Some NotServing
    \<and> hc_check H (rs_health s) (ra_health_name args) = Some NotServing
    \<and> (\<forall>t. (run_step H N P)\<^sup>*\<^sup>* s t \<longrightarrow> t = s)"
proof -
  have inv: "shutdown_inv H P s" using shutdown.inv_reachable [OF assms(3)] .
  with assms(1,4) have gone: "rs_sup s = Sup_gone" by (simp add: shutdown_inv_def)
  have stuck: "\<not> run_step H N P s t" for t
    using gone assms(4) by (auto elim: run_stepE)
  have "t = s" if "(run_step H N P)\<^sup>*\<^sup>* s t" for t
    using that stuck by (cases rule: converse_rtranclpE) auto
  then show ?thesis
    using inv assms(1,4) run_params_shape(2) [OF assms(2)] by (auto simp: shutdown_inv_def)
qed

section \<open>A supervisor round as steps\<close>

lemma rs_sup_same: "rs_sup s = x \<Longrightarrow> s\<lparr>rs_sup := x\<rparr> = s"
  by (cases s) simp

lemma sup_check_steps:
  assumes "rs_sup s = Sup_polling ps outcomes" and "poll TransportProbe = Checked (rs_bound s)"
  shows "(run_step H N P)\<^sup>*\<^sup>* s (s\<lparr>rs_sup := Sup_polling [] (outcomes @ map poll ps)\<rparr>)"
  using assms
proof (induction ps arbitrary: s outcomes)
  case (Cons p ps)
  let ?s = "s\<lparr>rs_sup := Sup_polling ps (outcomes @ [poll p])\<rparr>"
  obtain net where "may_check net (rs_bound s) p (poll p)"
    using may_check_any [of p "poll p" "rs_bound s"] Cons.prems(2) by auto
  with Cons.prems(1) have "run_step H N P s ?s" by (rule sup_check)
  moreover have "(run_step H N P)\<^sup>*\<^sup>* ?s
      (?s\<lparr>rs_sup := Sup_polling [] ((outcomes @ [poll p]) @ map poll ps)\<rparr>)"
    by (rule Cons.IH) (use Cons.prems in simp_all)
  ultimately show ?case by (simp add: converse_rtranclp_into_rtranclp)
qed (simp add: rs_sup_same)

lemma sup_publish_steps:
  "rs_sup s = Sup_publishing status names \<Longrightarrow>
   (run_step H N P)\<^sup>*\<^sup>* s
     (s\<lparr>rs_health := publish_status H status names (rs_health s), rs_sup := Sup_publishing status []\<rparr>)"
proof (induction names arbitrary: s)
  case (Cons name names)
  let ?s = "s\<lparr>rs_health := hc_set H (rs_health s) name status, rs_sup := Sup_publishing status names\<rparr>"
  have "run_step H N P s ?s" using Cons.prems by (rule sup_publish)
  moreover have "(run_step H N P)\<^sup>*\<^sup>* ?s (?s\<lparr>rs_health := publish_status H status names (rs_health ?s),
      rs_sup := Sup_publishing status []\<rparr>)"
    by (rule Cons.IH) simp
  ultimately show ?case
    by (simp add: publish_status_def converse_rtranclp_into_rtranclp)
qed (simp add: publish_status_def rs_sup_same)

lemma supervisor_round_steps:
  assumes "rs_sup s = Sup_polling (rp_probes P) []"
    and "poll TransportProbe = Checked (rs_bound s)"
  shows "(run_step H N P)\<^sup>*\<^sup>* s
     (s\<lparr>rs_health := supervisor_round H poll (rp_probes P) (rp_names P) (rs_health s),
        rs_sup := Sup_sleeping, rs_ticks := map poll (rp_probes P) # rs_ticks s\<rparr>)"
proof -
  let ?st = "verdict (tick_loop True (map poll (rp_probes P)))"
  let ?a = "s\<lparr>rs_sup := Sup_polling [] (map poll (rp_probes P))\<rparr>"
  let ?b = "?a\<lparr>rs_sup := Sup_publishing ?st (rp_names P),
      rs_ticks := map poll (rp_probes P) # rs_ticks ?a\<rparr>"
  let ?c = "?b\<lparr>rs_health := publish_status H ?st (rp_names P) (rs_health ?b),
      rs_sup := Sup_publishing ?st []\<rparr>"
  have "(run_step H N P)\<^sup>*\<^sup>* s ?a"
    using sup_check_steps [of s "rp_probes P" "[]" poll H N P] assms by simp
  moreover have "run_step H N P ?a ?b" by (rule sup_decide) simp
  ultimately have "(run_step H N P)\<^sup>*\<^sup>* s ?b" by (rule rtranclp.rtrancl_into_rtrancl)
  moreover have "(run_step H N P)\<^sup>*\<^sup>* ?b ?c" by (rule sup_publish_steps) simp
  ultimately have "(run_step H N P)\<^sup>*\<^sup>* s ?c" by (rule rtranclp_trans)
  moreover have "run_step H N P ?c (?c\<lparr>rs_sup := Sup_sleeping\<rparr>)"
    by (rule sup_sleep) simp
  ultimately have "(run_step H N P)\<^sup>*\<^sup>* s (?c\<lparr>rs_sup := Sup_sleeping\<rparr>)"
    by (rule rtranclp.rtrancl_into_rtrancl)
  then show ?thesis by (cases s) (simp add: supervisor_round_def supervisor_tick_def)
qed

text \<open>C23: The supervisor task refines its sequential description: from the start of a tick it
  can take its steps one at a time to the end of the round, where the registry is what
  \<open>supervisor_round\<close> computes. So a bound runner whose dependencies have all come back reports
  \<open>SERVING\<close> again after one more round, whatever it reported before.\<close>

theorem supervisor_steps_refine_round:
  assumes "lawful_health H" and "rs_sup s = Sup_sleeping"
    and "poll TransportProbe = Checked (rs_bound s)"
  shows "\<exists>t. (run_step H N P)\<^sup>*\<^sup>* s t
    \<and> rs_health t = supervisor_round H poll (rp_probes P) (rp_names P) (rs_health s)
    \<and> rs_sup t = Sup_sleeping \<and> rs_main t = rs_main s
    \<and> ((\<forall>p \<in> set (rp_probes P). poll p = Checked True) \<longrightarrow>
         (\<forall>name \<in> set (rp_names P). hc_check H (rs_health t) name = Some Serving))"
proof -
  let ?w = "s\<lparr>rs_sup := Sup_polling (rp_probes P) []\<rparr>"
  let ?t = "?w\<lparr>rs_health := supervisor_round H poll (rp_probes P) (rp_names P) (rs_health ?w),
        rs_sup := Sup_sleeping, rs_ticks := map poll (rp_probes P) # rs_ticks ?w\<rparr>"
  have "run_step H N P s ?w" using assms(2) by (rule sup_wake)
  moreover have "(run_step H N P)\<^sup>*\<^sup>* ?w ?t"
    by (rule supervisor_round_steps) (use assms(3) in simp_all)
  ultimately have "(run_step H N P)\<^sup>*\<^sup>* s ?t"
    by (rule converse_rtranclp_into_rtranclp)
  moreover have "verdict (supervisor_tick poll (rp_probes P)) = Serving"
    if "\<forall>p \<in> set (rp_probes P). poll p = Checked True"
    using that by (simp add: supervisor_tick_all)
  ultimately show ?thesis
    by (intro exI [of _ ?t]) (auto simp: supervisor_round_def check_publish [OF assms(1)])
qed

section \<open>A TCP run\<close>

definition tcp_args :: RunArgs where
  "tcp_args =
     \<lparr>ra_name = ''player'', ra_config = \<lparr>sv_port = 50052, sv_uds_path = None\<rparr>,
      ra_sync_outputs = [], ra_has_async = False, ra_health_name = HEALTH_NAME_COMMAND_HANDLER\<rparr>"

definition tcp_params :: RunParams where
  "tcp_params =
     \<lparr>rp_transport = Via_tcp (resolve_bind_address Map.empty 50052), rp_probes = [TransportProbe],
      rp_names = [[], HEALTH_NAME_COMMAND_HANDLER]\<rparr>"

text \<open>A host that accepts everything.\<close>

definition open_host :: Host where
  "open_host = \<lparr>ho_parses_addr = \<lambda>_. True, ho_permits = \<lambda>_. True, ho_refuses = \<lambda>_. None\<rparr>"

definition tcp_marked :: "(string \<Rightarrow> ServingStatus option) RunState" where
  "tcp_marked = (run_start map_health tcp_params Map.empty)\<lparr>rs_main := Main_serving, rs_bound := True\<rparr>"

definition tcp_ready :: "(string \<Rightarrow> ServingStatus option) RunState" where
  "tcp_ready = tcp_marked
     \<lparr>rs_health := supervisor_round map_health (\<lambda>_. Checked True) [TransportProbe]
        (rp_names tcp_params) (rs_health tcp_marked),
      rs_sup := Sup_sleeping, rs_ticks := [[Checked True]]\<rparr>"

lemma tcp_params_run: "run_params Map.empty tcp_args = Returned tcp_params"
  by (simp add: run_params_def tcp_args_def tcp_params_def build_probes_def bus_probes_def
      service_names_def)

lemma tcp_ready_reachable:
  "(run_step map_health open_host tcp_params)\<^sup>*\<^sup>* (run_start map_health tcp_params Map.empty) tcp_ready"
proof -
  have "run_step map_health open_host tcp_params (run_start map_health tcp_params Map.empty) tcp_marked"
    unfolding tcp_marked_def by (rule tcp_mark_bound) (simp_all add: run_start_def tcp_params_def open_host_def)
  moreover have "(run_step map_health open_host tcp_params)\<^sup>*\<^sup>* tcp_marked tcp_ready"
    using supervisor_round_steps [of tcp_marked tcp_params "\<lambda>_. Checked True" map_health open_host]
    by (simp add: tcp_ready_def tcp_marked_def run_start_def tcp_params_def)
  ultimately show ?thesis by (rule converse_rtranclp_into_rtranclp)
qed

lemma tcp_ready_serves: "hc_check map_health (rs_health tcp_ready) [] = Some Serving"
  by (simp add: tcp_ready_def supervisor_round_def supervisor_tick_def check_publish verdict_def
      tcp_params_def)

text \<open>Over TCP the transport is marked bound before \<open>serve\<close> binds the listener, so unlike
  over a Unix socket a run can report \<open>SERVING\<close> while nothing listens; when the bind then
  fails, it goes on from there to the shutdown.\<close>

theorem tcp_reports_before_listening:
  "\<exists>s :: (string \<Rightarrow> ServingStatus option) RunState. run_params Map.empty tcp_args = Returned tcp_params
    \<and> (run_step map_health open_host tcp_params)\<^sup>*\<^sup>* (run_start map_health tcp_params Map.empty) s
    \<and> hc_check map_health (rs_health s) [] = Some Serving \<and> \<not> rs_listening s
    \<and> run_step map_health open_host tcp_params s
        (s\<lparr>rs_main := Main_aborting (Inl ''address in use''), rs_listening := False\<rparr>)"
proof (intro exI [of _ tcp_ready] conjI)
  show "\<not> rs_listening tcp_ready"
    by (simp add: tcp_ready_def tcp_marked_def run_start_def)
  show "run_step map_health open_host tcp_params tcp_ready
      (tcp_ready\<lparr>rs_main := Main_aborting (Inl ''address in use''), rs_listening := False\<rparr>)"
    by (rule serve_ends) (simp add: tcp_ready_def tcp_marked_def)
qed (simp_all add: tcp_params_run tcp_ready_reachable tcp_ready_serves)

theorem serving_only_when_ready_witness: "rs_bound tcp_ready"
  using serving_only_when_ready [OF lawful_map_health tcp_params_run tcp_ready_reachable _
      tcp_ready_serves] by simp

definition tcp_ended :: "(string \<Rightarrow> ServingStatus option) RunState" where
  "tcp_ended = tcp_ready
     \<lparr>rs_listening := False, rs_sup := Sup_gone,
      rs_health := publish_status map_health NotServing (rp_names tcp_params) (rs_health tcp_ready),
      rs_main := Main_returned (Inr ())\<rparr>"

lemma shutdown_publish_steps:
  "rs_main s = Main_publishing res names \<Longrightarrow>
   (run_step H N P)\<^sup>*\<^sup>* s
     (s\<lparr>rs_health := publish_status H NotServing names (rs_health s), rs_main := Main_returned res\<rparr>)"
proof (induction names arbitrary: s)
  case Nil
  then have "run_step H N P s (s\<lparr>rs_main := Main_returned res\<rparr>)" by (rule run_returns)
  then show ?case by (simp add: publish_status_def r_into_rtranclp)
next
  case (Cons name names)
  let ?s = "s\<lparr>rs_health := hc_set H (rs_health s) name NotServing, rs_main := Main_publishing res names\<rparr>"
  have "run_step H N P s ?s" using Cons.prems by (rule shutdown_publish)
  moreover have "(run_step H N P)\<^sup>*\<^sup>* ?s
      (?s\<lparr>rs_health := publish_status H NotServing names (rs_health ?s), rs_main := Main_returned res\<rparr>)"
    by (rule Cons.IH) simp
  ultimately show ?case
    by (simp add: publish_status_def converse_rtranclp_into_rtranclp)
qed

lemma tcp_ended_reachable:
  "(run_step map_health open_host tcp_params)\<^sup>*\<^sup>* (run_start map_health tcp_params Map.empty) tcp_ended"
proof -
  let ?R = "run_step map_health open_host tcp_params"
  let ?a = "tcp_ready\<lparr>rs_main := Main_aborting (Inr ()), rs_listening := False\<rparr>"
  let ?b = "?a\<lparr>rs_main := Main_publishing (Inr ()) (rp_names tcp_params), rs_sup := Sup_gone\<rparr>"
  have "?R tcp_ready ?a" by (rule serve_ends) (simp add: tcp_ready_def tcp_marked_def)
  with tcp_ready_reachable have "?R\<^sup>*\<^sup>* (run_start map_health tcp_params Map.empty) ?a"
    by (rule rtranclp.rtrancl_into_rtrancl)
  moreover have "?R ?a ?b" by (rule supervisor_joined) simp
  ultimately have "?R\<^sup>*\<^sup>* (run_start map_health tcp_params Map.empty) ?b"
    by (rule rtranclp.rtrancl_into_rtrancl)
  moreover have "?R\<^sup>*\<^sup>* ?b (?b\<lparr>rs_health := publish_status map_health NotServing (rp_names tcp_params)
      (rs_health ?b), rs_main := Main_returned (Inr ())\<rparr>)"
    by (rule shutdown_publish_steps) simp
  ultimately have "?R\<^sup>*\<^sup>* (run_start map_health tcp_params Map.empty)
      (?b\<lparr>rs_health := publish_status map_health NotServing (rp_names tcp_params) (rs_health ?b),
        rs_main := Main_returned (Inr ())\<rparr>)"
    by (rule rtranclp_trans)
  then show ?thesis by (simp add: tcp_ended_def)
qed

theorem shutdown_is_final_witness:
  "hc_check map_health (rs_health tcp_ended) [] = Some NotServing"
  using shutdown_is_final [OF lawful_map_health tcp_params_run tcp_ended_reachable]
  by (simp add: tcp_ended_def)

theorem supervisor_steps_refine_round_witness:
  "\<exists>t. (run_step map_health open_host tcp_params)\<^sup>*\<^sup>* tcp_ready t \<and>
     hc_check map_health (rs_health t) HEALTH_NAME_COMMAND_HANDLER = Some Serving"
proof -
  have "rs_sup tcp_ready = Sup_sleeping" "Checked True = Checked (rs_bound tcp_ready)"
    by (simp_all add: tcp_ready_def tcp_marked_def)
  from supervisor_steps_refine_round [OF lawful_map_health this(1), of "\<lambda>_. Checked True", OF this(2)]
  obtain t where t: "(run_step map_health open_host tcp_params)\<^sup>*\<^sup>* tcp_ready t"
    "\<forall>name \<in> set (rp_names tcp_params). hc_check map_health (rs_health t) name = Some Serving"
    by blast
  from t(2) have "hc_check map_health (rs_health t) HEALTH_NAME_COMMAND_HANDLER = Some Serving"
    by (simp add: tcp_params_def)
  with t(1) show ?thesis by blast
qed

section \<open>Configuration and probes of a run\<close>

text \<open>The runner listens on a Unix socket exactly when all three of its variables are set,
  under the base directory unless the service name is absolute; otherwise on TCP, where a set
  \<open>PORT\<close> alone decides even when it is not a number (the default is used, not \<open>GRPC_PORT\<close>),
  and \<open>ANGZARR_BIND_ADDRESS\<close> is taken as it stands.\<close>

theorem server_config_selection:
  "(sv_uds_path (server_config_from_env env p) = None \<longleftrightarrow>
      env ''UDS_BASE_PATH'' = None \<or> env ''SERVICE_NAME'' = None \<or> env ''DOMAIN'' = None)
    \<and> (env ''UDS_BASE_PATH'' = Some base \<and> env ''SERVICE_NAME'' = Some svc \<and> env ''DOMAIN'' = Some d
        \<and> \<not> starts_with svc ''/'' \<and> svc \<noteq> [] \<and> base \<noteq> [] \<longrightarrow>
       (\<exists>sep. (sep = [] \<or> sep = ''/'') \<and> sv_uds_path (server_config_from_env env p)
          = Some (base @ sep @ svc @ ''-'' @ d @ ''.sock'')))
    \<and> (env ''DOMAIN'' = None \<longrightarrow> sv_port (server_config_from_env env p) =
         (case env ''PORT'' of
            Some s \<Rightarrow> unwrap_or p (parse_u16 s)
          | None \<Rightarrow> (case env ''GRPC_PORT'' of Some s \<Rightarrow> unwrap_or p (parse_u16 s) | None \<Rightarrow> p)))
    \<and> (case env ENV_BIND_ADDRESS of
         Some addr \<Rightarrow> resolve_bind_address env p = addr
       | None \<Rightarrow> parse_u16 (rsplit_next (CHR '':'') (resolve_bind_address env p)) = Some p)"
proof -
  have abs: "\<not> starts_with (svc @ x) ''/''" if "\<not> starts_with svc ''/''" "svc \<noteq> []" for x
    using that by (cases svc) (auto simp: starts_with_def)
  have "parse_u16 (rsplit_next (CHR '':'') (resolve_bind_address env p)) = Some p"
    if "env ENV_BIND_ADDRESS = None"
    using that endpoint_port [of DEFAULT_BIND_HOST p] by (simp add: resolve_bind_address_def parse_show_u16)
  then show ?thesis
    using abs [of "''-'' @ d @ ''.sock''"]
    by (auto simp: server_config_from_env_def path_join_def Let_def resolve_bind_address_def
        split: option.split)
qed

theorem server_config_selection_witness:
  "sv_uds_path (server_config_from_env
     [''UDS_BASE_PATH'' \<mapsto> ''/run'', ''SERVICE_NAME'' \<mapsto> ''ch'', ''DOMAIN'' \<mapsto> ''player''] 7) \<noteq> None"
  using server_config_selection [of "[''UDS_BASE_PATH'' \<mapsto> ''/run'', ''SERVICE_NAME'' \<mapsto> ''ch'', ''DOMAIN'' \<mapsto> ''player'']" 7]
  by simp

lemma name_keeps_factories [simp]:
  "rt_factories (fst (snd (saga_name r w))) = rt_factories r"
  "rt_factories (fst (snd (pm_name r w))) = rt_factories r"
  by (simp_all add: saga_name_def pm_name_def get_or_init_def case_prod_unfold Let_def
      split: option.split)

lemma for_domain_Returned:
  "for_domain env d = Returned p \<longleftrightarrow>
     (\<exists>raw. resolve_ch_endpoint env d None None None None = Inr raw
        \<and> p = OutputDomainProbe d (from_endpoint raw))"
  by (auto simp: for_domain_def split: sum.split)

lemma domain_probes_Returned:
  "domain_probes env ds = Returned ps \<Longrightarrow>
   set ps = {OutputDomainProbe d (from_endpoint raw) | d raw.
       d \<in> set ds \<and> resolve_ch_endpoint env d None None None None = Inr raw}
     \<and> (\<forall>d \<in> set ds. \<exists>raw. resolve_ch_endpoint env d None None None None = Inr raw)
     \<and> length ps = length ds"
proof (induction ds arbitrary: ps)
  case (Cons d ds)
  then obtain raw ps' where ps': "domain_probes env ds = Returned ps'"
    "ps = OutputDomainProbe d (from_endpoint raw) # ps'"
    "resolve_ch_endpoint env d None None None None = Inr raw"
    by (auto simp: for_domain_Returned split: panicking.split_asm)
  from Cons.IH [OF ps'(1)] show ?case unfolding ps'(2) using ps'(3) by auto
qed simp

lemma bus_probes_cases:
  "bus_probes env has_async =
     (case env ENV_BUS_ENDPOINT of
        Some raw \<Rightarrow> if has_async \<and> raw \<noteq> [] then [BusProbe (from_endpoint raw)] else []
      | None \<Rightarrow> [])"
  by (simp add: bus_probes_def bus_from_env_def split: option.split)

lemma bus_probes_set:
  "set (bus_probes env has_async) =
     (if has_async then {BusProbe (from_endpoint raw) | raw. env ENV_BUS_ENDPOINT = Some raw \<and> raw \<noteq> []} else {})"
  "length (bus_probes env has_async) = (if bus_probes env has_async = [] then 0 else 1)"
  by (auto simp: bus_probes_cases split: option.split)

lemma run_server_outputs:
  assumes "list_all2 steady (rt_factories r) cfgs"
    and "built = Built_Saga r \<or> built = Built_ProcessManager r"
    and "\<forall>c \<in> set cfgs. config_kind c = built_kind built"
  shows "set (ra_sync_outputs (fst (run_server env port built w))) = (\<Union>c \<in> set cfgs. sync_targets_of c)"
    and "distinct (ra_sync_outputs (fst (run_server env port built w)))"
    and "ra_has_async (fst (run_server env port built w)) \<longleftrightarrow>
           (\<exists>c \<in> set cfgs. \<not> targets_of c \<subseteq> sync_targets_of c)"
proof -
  have "set (ra_sync_outputs (fst (run_server env port built w))) = (\<Union>c \<in> set cfgs. sync_targets_of c)
      \<and> distinct (ra_sync_outputs (fst (run_server env port built w)))
      \<and> (ra_has_async (fst (run_server env port built w)) \<longleftrightarrow>
           (\<exists>c \<in> set cfgs. \<not> targets_of c \<subseteq> sync_targets_of c))"
    using assms(2)
  proof
    assume "built = Built_Saga r"
    then show ?thesis using assms(1,3)
      by (simp add: run_server_def run_saga_server_def case_prod_unfold Let_def saga_outputs_steady)
  next
    assume "built = Built_ProcessManager r"
    then show ?thesis using assms(1,3)
      by (simp add: run_server_def run_process_manager_server_def case_prod_unfold Let_def
          pm_outputs_steady)
  qed
  then show "set (ra_sync_outputs (fst (run_server env port built w))) = (\<Union>c \<in> set cfgs. sync_targets_of c)"
    "distinct (ra_sync_outputs (fst (run_server env port built w)))"
    "ra_has_async (fst (run_server env port built w)) \<longleftrightarrow>
           (\<exists>c \<in> set cfgs. \<not> targets_of c \<subseteq> sync_targets_of c)" by blast+
qed

text \<open>C36: The probes of the server of a saga or process-manager router cover everything it
  sends to synchronously. They are the transport's, exactly one for each
  domain some handler targets synchronously, at the coordinator endpoint the environment resolves
  the domain to, and one at the configured bus endpoint when some handler has a target it reaches
  only through the bus. So a tick whose checks all come back over a network passes exactly when
  the transport is bound, every one of these coordinators accepts a connect, and the bus does
  where it is probed.\<close>

theorem probes_cover_synchronous_targets:
  assumes "list_all2 steady (rt_factories r) cfgs"
    and "built = Built_Saga r \<or> built = Built_ProcessManager r"
    and "\<forall>c \<in> set cfgs. config_kind c = built_kind built"
    and "run_params env (fst (run_server env port built w)) = Returned P"
    and "targets = (\<Union>c \<in> set cfgs. sync_targets_of c)"
    and "by_bus \<longleftrightarrow> (\<exists>c \<in> set cfgs. \<not> targets_of c \<subseteq> sync_targets_of c)"
  shows "hd (rp_probes P) = TransportProbe
    \<and> set (tl (rp_probes P)) =
        {OutputDomainProbe d (from_endpoint raw) | d raw.
           d \<in> targets \<and> resolve_ch_endpoint env d None None None None = Inr raw}
        \<union> {BusProbe (from_endpoint raw) | raw.
           by_bus \<and> env ENV_BUS_ENDPOINT = Some raw \<and> raw \<noteq> []}
    \<and> (\<forall>d \<in> targets. \<exists>raw. resolve_ch_endpoint env d None None None None = Inr raw)
    \<and> length (rp_probes P) = 1 + card targets
        + (if by_bus \<and> env ENV_BUS_ENDPOINT \<noteq> None \<and> env ENV_BUS_ENDPOINT \<noteq> Some [] then 1 else 0)
    \<and> (supervisor_tick (\<lambda>p. Checked (probe_check net bound p)) (rp_probes P) \<longleftrightarrow>
         bound
         \<and> (\<forall>d \<in> targets. \<forall>raw. resolve_ch_endpoint env d None None None None = Inr raw \<longrightarrow>
              endpoint_connects net (from_endpoint raw))
         \<and> (\<forall>raw. by_bus \<and> env ENV_BUS_ENDPOINT = Some raw \<and> raw \<noteq> [] \<longrightarrow>
              endpoint_connects net (from_endpoint raw)))"
proof -
  let ?args = "fst (run_server env port built w)"
  note outputs = run_server_outputs [OF assms(1-3), of env port w, folded assms(5,6)]
  from assms(4) obtain ps where ps: "domain_probes env (ra_sync_outputs ?args) = Returned ps"
    "rp_probes P = TransportProbe # ps @ bus_probes env (ra_has_async ?args)"
    by (auto simp: run_params_def build_probes_def split: panicking.split_asm)
  note domains = domain_probes_Returned [OF ps(1), unfolded outputs(1)]
  have bus: "set (bus_probes env (ra_has_async ?args)) =
      {BusProbe (from_endpoint raw) | raw. by_bus \<and> env ENV_BUS_ENDPOINT = Some raw \<and> raw \<noteq> []}"
    by (simp add: bus_probes_set(1) outputs(3))
  have rest: "set (tl (rp_probes P)) =
      {OutputDomainProbe d (from_endpoint raw) | d raw.
         d \<in> targets \<and> resolve_ch_endpoint env d None None None None = Inr raw}
      \<union> {BusProbe (from_endpoint raw) | raw. by_bus \<and> env ENV_BUS_ENDPOINT = Some raw \<and> raw \<noteq> []}"
    using domains bus by (simp add: ps(2))
  have "card targets = length ps"
    using distinct_card [OF outputs(2)] domains by (simp add: outputs(1))
  moreover have "bus_probes env (ra_has_async ?args) \<noteq> [] \<longleftrightarrow>
      by_bus \<and> env ENV_BUS_ENDPOINT \<noteq> None \<and> env ENV_BUS_ENDPOINT \<noteq> Some []"
    using bus unfolding set_empty [symmetric] by (cases "env ENV_BUS_ENDPOINT") auto
  ultimately have "length (rp_probes P) = 1 + card targets
      + (if by_bus \<and> env ENV_BUS_ENDPOINT \<noteq> None \<and> env ENV_BUS_ENDPOINT \<noteq> Some [] then 1 else 0)"
    using bus_probes_set(2) [of env "ra_has_async ?args"]
    by (cases "bus_probes env (ra_has_async ?args) = []") (simp_all only: ps(2), simp_all)
  moreover have "supervisor_tick (\<lambda>p. Checked (probe_check net bound p)) (rp_probes P) \<longleftrightarrow>
      bound \<and> (\<forall>p \<in> set (tl (rp_probes P)). probe_check net bound p)"
    by (simp add: supervisor_tick_all ps(2))
  moreover have "(\<forall>p \<in> set (tl (rp_probes P)). probe_check net bound p) \<longleftrightarrow>
      (\<forall>d \<in> targets. \<forall>raw. resolve_ch_endpoint env d None None None None = Inr raw \<longrightarrow>
         endpoint_connects net (from_endpoint raw))
      \<and> (\<forall>raw. by_bus \<and> env ENV_BUS_ENDPOINT = Some raw \<and> raw \<noteq> [] \<longrightarrow>
         endpoint_connects net (from_endpoint raw))"
    unfolding rest ball_Un
    by (intro arg_cong2 [where f = conj] iffI allI impI ballI; fastforce)
  ultimately show ?thesis
    using domains rest by (simp add: ps(2))
qed

lemma default_run_params: "\<exists>P. run_params Map.empty args = Returned P"
proof -
  have "\<exists>ps. domain_probes Map.empty ds = Returned ps" for ds
    by (induction ds) (auto simp: for_domain_def transport_defs)
  from this [of "ra_sync_outputs args"] show ?thesis
    by (auto simp: run_params_def build_probes_def)
qed

theorem probes_cover_synchronous_targets_witness:
  "\<exists>P. run_params Map.empty (fst (run_server Map.empty 7
       (Built_Saga \<lparr>rt_factories = [const_factory (const_handler (saga_example ''o'' ''stock'' [] True)
          (\<lambda>_. Inl (wrong_kind [])))], rt_cached_name = None\<rparr>) ())) = Returned P
     \<and> set (tl (rp_probes P)) = {OutputDomainProbe ''stock'' (Tcp ''ch-stock.angzarr.svc:1310'')}
     \<and> \<not> supervisor_tick (\<lambda>p. Checked (probe_check \<lparr>nw_tcp = \<lambda>_. False, nw_unix = \<lambda>_. True\<rparr> True p))
           (rp_probes P)"
proof -
  let ?c = "saga_example ''o'' ''stock'' [] True"
  let ?r = "\<lparr>rt_factories = [const_factory (const_handler ?c (\<lambda>_. Inl (wrong_kind []))) :: unit Factory],
    rt_cached_name = None\<rparr>"
  have steady: "list_all2 steady (rt_factories ?r) [?c]" by simp
  have kind: "\<forall>c \<in> set [?c]. config_kind c = built_kind (Built_Saga ?r)" by (simp add: saga_example_def)
  obtain P where P: "run_params Map.empty (fst (run_server Map.empty 7 (Built_Saga ?r) ())) = Returned P"
    using default_run_params by blast
  have targets: "{''stock''} = (\<Union>c \<in> set [?c]. sync_targets_of c)"
    by (simp add: sync_targets_of_def saga_example_def)
  have bus: "False \<longleftrightarrow> (\<exists>c \<in> set [?c]. \<not> targets_of c \<subseteq> sync_targets_of c)"
    by (simp add: targets_of_def sync_targets_of_def saga_example_def)
  have port: "show_u16 1310 = ''1310''"
    by (rule number_examples)
  have raw: "resolve_ch_endpoint Map.empty ''stock'' None None None None = Inr ''ch-stock.angzarr.svc:1310''"
    by (simp add: transport_defs port)
  have e: "from_endpoint ''ch-stock.angzarr.svc:1310'' = Tcp ''ch-stock.angzarr.svc:1310''"
    by (simp add: from_endpoint_def strip_prefix_def starts_with_def)
  show ?thesis
    using probes_cover_synchronous_targets [OF steady disjI1 [OF refl] kind P targets bus,
        of "\<lparr>nw_tcp = \<lambda>_. False, nw_unix = \<lambda>_. True\<rparr>" True] P raw e
    by (intro exI [of _ P]) simp
qed

section \<open>A Unix socket run\<close>

lemma prepare_clears:
  assumes "parent_is_dir fs p" and "fs p \<noteq> Some Dir" and "ho_permits N p"
  shows "prepare_socket N fs p p = None" and "parent_is_dir (prepare_socket N fs p) p"
proof -
  obtain q where q: "path_parent p = Some q"
    using assms(1) by (auto simp: parent_is_dir_def split: option.splits)
  let ?fs1 = "snd (create_dir_all N fs q)"
  have made: "?fs1 p = fs p" "only_dirs_added fs ?fs1"
    using create_dir_all_keeps(1) [OF q] create_dir_all_keeps(2) by simp_all
  have nodir: "\<not> is_dir ?fs1 p"
    using made(1) assms(2) parent_not_root [OF assms(1)] by (simp add: is_dir_def)
  have "prepare_socket N fs p = (if ?fs1 p = None then ?fs1 else ?fs1(p := None))"
    using q nodir assms(3)
    by (simp add: prepare_socket_def cleanup_socket_def remove_file_def path_exists_def)
  then show "prepare_socket N fs p p = None" "parent_is_dir (prepare_socket N fs p) p"
    using parent_is_dir_mono [OF made(2) assms(1)] by simp_all
qed

lemma uds_can_bind:
  assumes "rp_transport P = Via_uds path" and "parent_is_dir fs path" and "fs path \<noteq> Some Dir"
    and "ho_permits N path" and "ho_refuses N path = None"
  shows "\<exists>t. run_step H N P (run_start H P fs) t \<and> rs_listening t \<and> rs_main t = Main_listening"
proof -
  let ?fs = "prepare_socket N fs path"
  have "bind_unix N ?fs path = (Inr (), ?fs(path \<mapsto> Socket))"
    using prepare_clears [OF assms(2-4)] assms(4,5) by (simp add: bind_unix_free)
  then have "run_step H N P (run_start H P fs)
      ((run_start H P fs)\<lparr>rs_main := Main_listening, rs_listening := True, rs_fs := ?fs(path \<mapsto> Socket)\<rparr>)"
    using assms(1) by (intro uds_bind) (simp_all add: run_start_def)
  then show ?thesis by fastforce
qed

lemma directory_refuses:
  assumes "fs p = Some Dir"
  shows "fst (bind_unix N (prepare_socket N fs p) p) \<noteq> Inr ()"
proof -
  have "prepare_socket N fs p p = Some Dir"
  proof (cases "path_parent p")
    case None
    with assms show ?thesis
      by (simp add: prepare_socket_def cleanup_socket_def remove_file_def is_dir_def)
  next
    case (Some q)
    then have "snd (create_dir_all N fs q) p = Some Dir" using assms create_dir_all_keeps(1) by simp
    with Some show ?thesis
      by (simp add: prepare_socket_def cleanup_socket_def remove_file_def is_dir_def)
  qed
  then show ?thesis by (intro bind_unix_taken) (simp add: path_exists_def)
qed

text \<open>Once bound, the socket file stays where it is; over a directory nothing is bound.\<close>

definition socket_inv :: "RunParams \<Rightarrow> filesystem \<Rightarrow> 'h RunState \<Rightarrow> bool" where
  "socket_inv P fs s \<longleftrightarrow>
     (\<forall>path. rp_transport P = Via_uds path \<longrightarrow>
        (rs_main s = Main_starting \<longrightarrow> rs_fs s = fs)
        \<and> (rs_listening s \<longrightarrow> past_bind (rs_main s))
        \<and> (past_bind (rs_main s) \<longrightarrow> has_socket (rs_fs s) path \<and> fs path \<noteq> Some Dir))"

lemma socket_inv_step:
  assumes "socket_inv P fs s" and "run_step H N P s t"
  shows "socket_inv P fs t"
  using assms(2)
proof (cases rule: run_step.cases)
  case (uds_bind path fs')
  then have "rs_fs s = fs" using assms(1) by (simp add: socket_inv_def)
  with uds_bind have "fs path \<noteq> Some Dir" using directory_refuses [of fs path N] by auto
  with uds_bind show ?thesis by (auto simp: socket_inv_def dest: bind_unix_ok)
qed (use assms(1) in \<open>auto simp: socket_inv_def\<close>)

interpretation socket: step_invariant "run_step H N P" "run_start H P fs" "socket_inv P fs"
  for H :: "'h HealthCrate" and N P fs
  by unfold_locales (simp add: socket_inv_def run_start_def, rule socket_inv_step)

text \<open>C16: A run over a Unix socket leaves its socket file behind, however it ends: from the
  bind on, to its return and after the listener is dropped, the file is there in every state,
  and while it is there a bind of that path is refused. A run that starts over that file system binds nevertheless, because it removes the
  stale file first, as long as the host lets it; with a directory at the path it never listens,
  since the removal fails and its failure is ignored.\<close>

theorem uds_restart_binds:
  assumes "rp_transport P = Via_uds path"
    and "(run_step H N P)\<^sup>*\<^sup>* (run_start H P fs) s" and "past_bind (rs_main s)"
    and "rp_transport P' = Via_uds path" and "ho_permits N' path" and "ho_refuses N' path = None"
  shows "rs_fs s path = Some Socket
    \<and> fst (bind_unix N' (rs_fs s) path) = Inl Addr_in_use
    \<and> (\<exists>t. run_step H N' P' (run_start H P' (rs_fs s)) t \<and> rs_listening t \<and> rs_main t = Main_listening)
    \<and> fs path \<noteq> Some Dir"
proof -
  have "socket_inv P fs s" using socket.inv_reachable [OF assms(2)] .
  with assms(1,3) have inv: "has_socket (rs_fs s) path" "fs path \<noteq> Some Dir"
    by (auto simp: socket_inv_def)
  then have "fst (bind_unix N' (rs_fs s) path) = Inl Addr_in_use"
    using assms(6) by (simp add: has_socket_def bind_unix_def make_entry_def path_exists_def)
  then show ?thesis
    using inv uds_can_bind [OF assms(4) _ _ assms(5,6), of "rs_fs s" H] by (simp add: has_socket_def)
qed

definition uds_params :: RunParams where
  "uds_params = \<lparr>rp_transport = Via_uds ''/run/ch.sock'', rp_probes = [TransportProbe], rp_names = [[]]\<rparr>"

text \<open>The first run finds neither the directory nor the socket.\<close>

definition uds_first :: "(string \<Rightarrow> ServingStatus option) RunState" where
  "uds_first = (run_start map_health uds_params Map.empty)
     \<lparr>rs_main := Main_listening, rs_listening := True,
      rs_fs := [''/run'' \<mapsto> Dir, ''/run/ch.sock'' \<mapsto> Socket]\<rparr>"

theorem uds_restart_binds_witness:
  "\<exists>t. run_step map_health open_host uds_params
      (run_start map_health uds_params (rs_fs uds_first)) t \<and> rs_listening t"
proof -
  have "path_parent ''/run/ch.sock'' = Some ''/run''" "path_parent ''/run'' = Some ''/''"
    by (simp_all add: path_parent_def)
  then have "bind_unix open_host (prepare_socket open_host Map.empty ''/run/ch.sock'') ''/run/ch.sock''
      = (Inr (), rs_fs uds_first)"
    by (simp add: prepare_socket_def cleanup_socket_def create_dir_all.simps [of _ _ "''/run''"]
        mkdir_def make_entry_def path_exists_def is_dir_def parent_is_dir_def open_host_def
        bind_unix_def uds_first_def)
  then have "run_step map_health open_host uds_params (run_start map_health uds_params Map.empty) uds_first"
    unfolding uds_first_def by (intro uds_bind) (simp_all add: run_start_def uds_params_def)
  then have "(run_step map_health open_host uds_params)\<^sup>*\<^sup>*
      (run_start map_health uds_params Map.empty) uds_first" by (rule r_into_rtranclp)
  from uds_restart_binds [OF _ this, of "''/run/ch.sock''" uds_params open_host] show ?thesis
    by (auto simp: uds_params_def open_host_def uds_first_def)
qed

end
