(* ===== verification/Supervision.thy ===== *)
theory Supervision
  imports Readiness
begin

text \<open>
  \<^verbatim>\<open>src/src/readiness.rs\<close>, in time: the supervisor loop with its per-probe timeout, the
  containment of panics, its warnings and its pauses.

  An instant is a number of nanoseconds. What a check does from the instant it starts, and how
  late the executor resumes a task that is due, are the world's (\<open>World\<close>). A suspended
  \<open>tokio::time::timeout\<close> is woken by the check or by the deadline, whichever comes first, and
  looks at the check before the deadline: a check that is done by then answers. The checks of
  the library await their connect, so they always leave the deadline its chance; a check that
  blocks its thread would not. Instants have no upper end here, where tokio replaces a deadline
  beyond the range of its clock by one some thirty years ahead.
\<close>

section \<open>One poll\<close>

type_synonym instant = nat

datatype PanicPayload = Payload_str string | Payload_String string | Payload_other

datatype CheckEnd = Returns bool | Panics PanicPayload

datatype CheckRun = Ends nat CheckEnd | Hangs

record World =
  wo_check :: "Probe \<Rightarrow> instant \<Rightarrow> CheckRun"
  wo_lag :: "instant \<Rightarrow> nat"

definition resumed :: "World \<Rightarrow> instant \<Rightarrow> instant" where
  "resumed W t = t + wo_lag W t"

primrec panic_message :: "PanicPayload \<Rightarrow> string" where
  "panic_message (Payload_str s) = s"
| "panic_message (Payload_String s) = s"
| "panic_message Payload_other = ''<non-string panic>''"

text \<open>What \<open>catch_unwind\<close> makes of the end of a check.\<close>

primrec caught :: "CheckEnd \<Rightarrow> CheckOutcome" where
  "caught (Returns b) = Checked b"
| "caught (Panics payload) = Check_panicked (panic_message payload)"

text \<open>\<open>tokio::time::timeout\<close> around the check of a probe: the outcome, and the instant the
  task goes on.\<close>

fun timeout_check :: "World \<Rightarrow> Duration \<Rightarrow> instant \<Rightarrow> CheckRun \<Rightarrow> CheckOutcome \<times> instant" where
  "timeout_check W timeout t (Ends d e) =
     (let now = resumed W (t + min d (nanos timeout))
      in (if t + d \<le> now then caught e else Timed_out, now))"
| "timeout_check W timeout t Hangs = (Timed_out, resumed W (t + nanos timeout))"

definition timed_poll :: "World \<Rightarrow> Duration \<Rightarrow> Probe \<Rightarrow> instant \<Rightarrow> CheckOutcome \<times> instant" where
  "timed_poll W timeout probe t = timeout_check W timeout t (wo_check W probe t)"

datatype ProbeWarning = Probe_failed string | Probe_panicked string string | Probe_timed_out string

text \<open>The warning of each arm of the \<open>match\<close>, none for a check that passed.\<close>

primrec probe_warning :: "string \<Rightarrow> CheckOutcome \<Rightarrow> ProbeWarning list" where
  "probe_warning name (Checked b) = (if \<not> b then [Probe_failed name] else [])"
| "probe_warning name (Check_panicked msg) = [Probe_panicked name msg]"
| "probe_warning name Timed_out = [Probe_timed_out name]"

section \<open>The loop\<close>

primrec timed_tick_loop ::
  "World \<Rightarrow> Duration \<Rightarrow> Probe list \<Rightarrow> bool \<Rightarrow> ProbeWarning list \<Rightarrow> instant
    \<Rightarrow> bool \<times> ProbeWarning list \<times> instant" where
  "timed_tick_loop W timeout [] all_ok log t = (all_ok, log, t)"
| "timed_tick_loop W timeout (probe # probes) all_ok log t =
     (let (r, t') = timed_poll W timeout probe t
      in timed_tick_loop W timeout probes (if \<not> probe_ok r then False else all_ok)
           (log @ probe_warning (probe_name probe) r) t')"

definition timed_tick ::
  "World \<Rightarrow> Duration \<Rightarrow> Probe list \<Rightarrow> instant \<Rightarrow> bool \<times> ProbeWarning list \<times> instant" where
  "timed_tick W timeout probes t = timed_tick_loop W timeout probes True [] t"

text \<open>Each \<open>set_service_status\<close> is awaited in turn.\<close>

primrec timed_publish ::
  "'h HealthCrate \<Rightarrow> World \<Rightarrow> ServingStatus \<Rightarrow> string list \<Rightarrow> 'h \<Rightarrow> instant \<Rightarrow> 'h \<times> instant" where
  "timed_publish H W status [] h t = (h, t)"
| "timed_publish H W status (name # names) h t =
     timed_publish H W status names (hc_set H h name status) (resumed W t)"

record SupervisorArgs =
  sp_probes :: "Probe list"
  sp_names :: "string list"
  sp_interval :: Duration
  sp_timeout :: Duration

text \<open>A pass up to the end of its publication, and the state before the tick of pass \<open>n\<close>.\<close>

definition timed_round ::
  "'h HealthCrate \<Rightarrow> World \<Rightarrow> SupervisorArgs \<Rightarrow> 'h \<times> instant \<Rightarrow> 'h \<times> instant" where
  "timed_round H W S = (\<lambda>(h, t).
     let (all_ok, log, t') = timed_tick W (sp_timeout S) (sp_probes S) t
     in timed_publish H W (verdict all_ok) (sp_names S) h t')"

definition sleep :: "World \<Rightarrow> Duration \<Rightarrow> instant \<Rightarrow> instant" where
  "sleep W interval t = resumed W (t + nanos interval)"

primrec timed_supervisor ::
  "'h HealthCrate \<Rightarrow> World \<Rightarrow> SupervisorArgs \<Rightarrow> 'h \<times> instant \<Rightarrow> nat \<Rightarrow> 'h \<times> instant" where
  "timed_supervisor H W S s 0 = s"
| "timed_supervisor H W S s (Suc n) =
     map_prod id (sleep W (sp_interval S)) (timed_round H W S (timed_supervisor H W S s n))"

section \<open>A tick in time\<close>

text \<open>The outcomes of the polls of a tick, each from where the one before it ended.\<close>

primrec outcomes :: "World \<Rightarrow> Duration \<Rightarrow> Probe list \<Rightarrow> instant \<Rightarrow> CheckOutcome list" where
  "outcomes W timeout [] t = []"
| "outcomes W timeout (p # ps) t =
     fst (timed_poll W timeout p t) # outcomes W timeout ps (snd (timed_poll W timeout p t))"

lemma length_outcomes [simp]: "length (outcomes W timeout ps t) = length ps"
  by (induction ps arbitrary: t) simp_all

lemma timed_tick_loop_outcomes:
  "fst (timed_tick_loop W timeout ps ok log t) = tick_loop ok (outcomes W timeout ps t)"
  "fst (snd (timed_tick_loop W timeout ps ok log t)) =
     log @ concat (map2 (\<lambda>p. probe_warning (probe_name p)) ps (outcomes W timeout ps t))"
  by (induction ps arbitrary: ok log t) (simp_all add: case_prod_beta)

text \<open>The tick answers what the loop over its outcomes answers, and logs their warnings.\<close>

lemma timed_tick_outcomes:
  "fst (timed_tick W timeout ps t) = tick_loop True (outcomes W timeout ps t)"
  "fst (snd (timed_tick W timeout ps t)) =
     concat (map2 (\<lambda>p. probe_warning (probe_name p)) ps (outcomes W timeout ps t))"
  by (simp_all add: timed_tick_def timed_tick_loop_outcomes)

lemma no_warning [simp]: "probe_warning name r = [] \<longleftrightarrow> probe_ok r"
  by (cases r) simp_all

text \<open>Every cause is logged: a tick is silent exactly when it answers that all is well.\<close>

lemma unhealthy_tick_warns:
  "fst (timed_tick W timeout ps t) \<longleftrightarrow> fst (snd (timed_tick W timeout ps t)) = []"
proof -
  have "list_all2 (\<lambda>p r. probe_warning (probe_name p) r = []) ps (outcomes W timeout ps t)
      \<longleftrightarrow> list_all probe_ok (outcomes W timeout ps t)"
    by (auto simp: list_all2_conv_all_nth list_all_length)
  then show ?thesis
    by (auto simp: timed_tick_outcomes tick_loop_all list_all2_iff split_beta)
qed

subsection \<open>Bounds\<close>

lemma timed_poll_bounds:
  assumes "\<And>t. wo_lag W t \<le> delay"
  shows "t \<le> snd (timed_poll W timeout p t)"
    and "snd (timed_poll W timeout p t) \<le> t + nanos timeout + delay"
proof -
  have "t \<le> snd (timeout_check W timeout t r) \<and> snd (timeout_check W timeout t r) \<le> t + nanos timeout + delay"
    for r
    using assms [of "t + nanos timeout"] assms [of "t + min d (nanos timeout)" for d]
    by (cases r) (fastforce simp: resumed_def Let_def intro: add_mono)+
  then show "t \<le> snd (timed_poll W timeout p t)"
    and "snd (timed_poll W timeout p t) \<le> t + nanos timeout + delay"
    by (simp_all add: timed_poll_def)
qed

definition tick_bound :: "SupervisorArgs \<Rightarrow> nat \<Rightarrow> nat" where
  "tick_bound S delay =
     length (sp_probes S) * (nanos (sp_timeout S) + delay) + length (sp_names S) * delay"

lemma timed_tick_loop_bounds:
  assumes "\<And>t. wo_lag W t \<le> delay"
  shows "t \<le> snd (snd (timed_tick_loop W timeout ps ok log t))
    \<and> snd (snd (timed_tick_loop W timeout ps ok log t)) \<le> t + length ps * (nanos timeout + delay)"
proof (induction ps arbitrary: ok log t)
  case (Cons p ps)
  show ?case
    using timed_poll_bounds [where t = t and timeout = timeout and p = p, OF assms]
      Cons.IH [of "snd (timed_poll W timeout p t)"
        "if \<not> probe_ok (fst (timed_poll W timeout p t)) then False else ok"
        "log @ probe_warning (probe_name p) (fst (timed_poll W timeout p t))"]
    by (simp add: case_prod_beta)
qed simp

lemma timed_publish_bounds:
  assumes "\<And>t. wo_lag W t \<le> delay"
  shows "t \<le> snd (timed_publish H W status names h t)
    \<and> snd (timed_publish H W status names h t) \<le> t + length names * delay"
proof (induction names arbitrary: h t)
  case (Cons name names)
  show ?case
    using Cons.IH [of "resumed W t" "hc_set H h name status"] assms [of t]
    by (simp add: resumed_def)
qed simp

lemma fst_timed_publish: "fst (timed_publish H W status names h t) = publish_status H status names h"
  by (induction names arbitrary: h t) (simp_all add: publish_status_def)

lemma timed_round_health:
  "fst (timed_round H W S (h, t)) =
     publish_status H (verdict (fst (timed_tick W (sp_timeout S) (sp_probes S) t))) (sp_names S) h"
  by (simp add: timed_round_def case_prod_beta fst_timed_publish)

text \<open>A pass in time is the untimed pass over the outcomes its polls had.\<close>

lemma timed_round_refines:
  assumes "map poll (sp_probes S) = outcomes W (sp_timeout S) (sp_probes S) t"
  shows "fst (timed_round H W S (h, t)) = supervisor_round H poll (sp_probes S) (sp_names S) h"
  by (simp add: timed_round_health timed_tick_outcomes supervisor_round_def supervisor_tick_def assms)

lemma timed_round_bounds:
  assumes "\<And>t. wo_lag W t \<le> delay"
  shows "t \<le> snd (timed_round H W S (h, t)) \<and> snd (timed_round H W S (h, t)) \<le> t + tick_bound S delay"
  using timed_tick_loop_bounds [where t = t and timeout = "sp_timeout S" and ps = "sp_probes S"
      and ok = True and log = "[]", OF assms]
    timed_publish_bounds [where H = H and names = "sp_names S" and h = h
      and t = "snd (snd (timed_tick W (sp_timeout S) (sp_probes S) t))"
      and status = "verdict (fst (timed_tick W (sp_timeout S) (sp_probes S) t))", OF assms]
  by (simp add: timed_round_def case_prod_beta timed_tick_def tick_bound_def)

section \<open>Outages and recoveries\<close>

text \<open>From an instant on: every check passes within the timeout, or some probe's never pass
  within the time the timeout leaves them.\<close>

definition dependable :: "World \<Rightarrow> nat \<Rightarrow> Probe list \<Rightarrow> instant \<Rightarrow> bool" where
  "dependable W limit ps t0 \<longleftrightarrow>
     (\<forall>p \<in> set ps. \<forall>t \<ge> t0. \<exists>d \<le> limit. wo_check W p t = Ends d (Returns True))"

definition outage :: "World \<Rightarrow> nat \<Rightarrow> Probe list \<Rightarrow> instant \<Rightarrow> bool" where
  "outage W limit ps t0 \<longleftrightarrow>
     (\<exists>p \<in> set ps. \<forall>t \<ge> t0. \<forall>d \<le> limit. wo_check W p t \<noteq> Ends d (Returns True))"

lemma probe_ok_caught [simp]: "probe_ok (caught e) \<longleftrightarrow> e = Returns True"
  by (cases e) simp_all

lemma probe_ok_timed_poll:
  assumes "\<And>t. wo_lag W t \<le> delay"
  shows "d \<le> nanos timeout \<Longrightarrow> wo_check W p t = Ends d (Returns True) \<Longrightarrow> probe_ok (fst (timed_poll W timeout p t))"
    and "probe_ok (fst (timed_poll W timeout p t)) \<Longrightarrow>
      \<exists>d \<le> nanos timeout + delay. wo_check W p t = Ends d (Returns True)"
proof -
  show "probe_ok (fst (timed_poll W timeout p t))"
    if "d \<le> nanos timeout" "wo_check W p t = Ends d (Returns True)"
    using that by (simp add: timed_poll_def resumed_def Let_def)
  show "\<exists>d \<le> nanos timeout + delay. wo_check W p t = Ends d (Returns True)"
    if ok: "probe_ok (fst (timed_poll W timeout p t))"
  proof (cases "wo_check W p t")
    case (Ends d e)
    with ok have "e = Returns True" "t + d \<le> resumed W (t + min d (nanos timeout))"
      by (auto simp: timed_poll_def Let_def split: if_splits)
    moreover from this have "d \<le> nanos timeout + delay"
      using assms [of "t + min d (nanos timeout)"] by (simp add: resumed_def)
    ultimately show ?thesis using Ends by blast
  qed (use ok in \<open>simp add: timed_poll_def\<close>)
qed

text \<open>Every tick that starts after the instant answers accordingly.\<close>

lemma dependable_tick:
  assumes lag: "\<And>t. wo_lag W t \<le> delay"
    and "dependable W (nanos timeout) ps t0" and "t0 \<le> t"
  shows "fst (timed_tick W timeout ps t)"
proof -
  have "list_all probe_ok (outcomes W timeout ps t)"
    using assms(2,3)
  proof (induction ps arbitrary: t)
    case (Cons p ps)
    then have "probe_ok (fst (timed_poll W timeout p t))"
      unfolding dependable_def by (fastforce intro: probe_ok_timed_poll(1) [OF lag])
    moreover have "t0 \<le> snd (timed_poll W timeout p t)"
      using Cons.prems(2) timed_poll_bounds(1) [OF lag, of t timeout p] by simp
    ultimately show ?case
      using Cons by (simp add: dependable_def)
  qed simp
  then show ?thesis by (simp add: timed_tick_outcomes tick_loop_all)
qed

lemma outage_tick:
  assumes lag: "\<And>t. wo_lag W t \<le> delay"
    and "outage W (nanos timeout + delay) ps t0" and "t0 \<le> t"
  shows "\<not> fst (timed_tick W timeout ps t)"
proof -
  have "\<not> list_all probe_ok (outcomes W timeout ps t)"
    using assms(2,3)
  proof (induction ps arbitrary: t)
    case (Cons p ps)
    have "t0 \<le> snd (timed_poll W timeout p t)"
      using Cons.prems(2) timed_poll_bounds(1) [OF lag, of t timeout p] by simp
    with Cons show ?case
      using probe_ok_timed_poll(2) [OF lag, of timeout p t] by (fastforce simp: outage_def)
  qed (simp add: outage_def)
  then show ?thesis by (simp add: timed_tick_outcomes tick_loop_all)
qed

text \<open>When pass \<open>n\<close> has published, and what a service reports from then to the next pass.\<close>

definition published_at :: "'h HealthCrate \<Rightarrow> World \<Rightarrow> SupervisorArgs \<Rightarrow> 'h \<times> instant \<Rightarrow> nat \<Rightarrow> instant" where
  "published_at H W S s n = snd (timed_round H W S (timed_supervisor H W S s n))"

definition reported ::
  "'h HealthCrate \<Rightarrow> World \<Rightarrow> SupervisorArgs \<Rightarrow> 'h \<times> instant \<Rightarrow> nat \<Rightarrow> string \<Rightarrow> ServingStatus option" where
  "reported H W S s n name = hc_check H (fst (timed_round H W S (timed_supervisor H W S s n))) name"

text \<open>The passes start at growing instants, one within the bound after any given instant.\<close>

lemma pass_starts_in_time:
  assumes lag: "\<And>t. wo_lag W t \<le> delay" and "0 < nanos (sp_interval S)" and "snd s \<le> t0"
  shows "\<exists>n. (\<forall>m \<ge> n. t0 \<le> snd (timed_supervisor H W S s m))
    \<and> snd (timed_supervisor H W S s n) \<le> t0 + tick_bound S delay + nanos (sp_interval S) + delay"
proof -
  let ?start = "\<lambda>n. snd (timed_supervisor H W S s n)"
  have step: "?start n < ?start (Suc n)"
    "?start (Suc n) \<le> ?start n + tick_bound S delay + nanos (sp_interval S) + delay" for n
    using timed_round_bounds [where t = "?start n" and h = "fst (timed_supervisor H W S s n)"
        and H = H and S = S, OF lag] assms(2)
      lag [of "snd (timed_round H W S (timed_supervisor H W S s n)) + nanos (sp_interval S)"]
    by (simp_all add: sleep_def resumed_def)
  have mono: "strict_mono ?start" using step(1) by (simp only: strict_mono_Suc_iff) simp
  define n where "n = (LEAST n. t0 \<le> ?start n)"
  have n: "t0 \<le> ?start n"
    unfolding n_def using strict_mono_imp_increasing [OF mono, of t0] by (rule LeastI)
  have "?start n \<le> t0 + tick_bound S delay + nanos (sp_interval S) + delay"
  proof (cases n)
    case 0
    with assms(3) show ?thesis by simp
  next
    case (Suc k)
    then have "?start k < t0"
      using not_less_Least [of k "\<lambda>n. t0 \<le> ?start n"] by (simp add: n_def)
    with step(2) [of k] Suc show ?thesis by simp
  qed
  moreover have "t0 \<le> ?start m" if "n \<le> m" for m
    using n strict_mono_less_eq [OF mono, of n m] that by (metis order_trans)
  ultimately show ?thesis by blast
qed

text \<open>C15: Readiness follows the dependencies in bounded time. If from some instant on a probe's
  checks fail, panic, hang or pass too late, then within two ticks and an interval every
  registered service reports \<open>NOT_SERVING\<close>, and keeps reporting it; if from some instant on all
  checks pass within the timeout, every service reports \<open>SERVING\<close> within the same bound. A tick
  takes at most the timeout for each probe, whatever the checks do, and the scheduling delay
  for each time the task is resumed.\<close>

theorem readiness_follows_in_time:
  assumes "lawful_health H" and "name \<in> set (sp_names S)"
    and "\<forall>t. wo_lag W t \<le> delay" and "0 < nanos (sp_interval S)" and "snd s \<le> t0"
    and "if up then dependable W (nanos (sp_timeout S)) (sp_probes S) t0
         else outage W (nanos (sp_timeout S) + delay) (sp_probes S) t0"
  shows "\<exists>n. published_at H W S s n \<le> t0 + 2 * tick_bound S delay + nanos (sp_interval S) + delay
    \<and> (\<forall>m \<ge> n. reported H W S s m name = Some (verdict up))"
proof -
  have lag: "wo_lag W t \<le> delay" for t using assms(3) by blast
  have tick: "fst (timed_tick W (sp_timeout S) (sp_probes S) t) = up" if "t0 \<le> t" for t
    using assms(6) dependable_tick [OF lag _ that] outage_tick [OF lag _ that] by (cases up) simp_all
  from pass_starts_in_time [where H = H, OF lag assms(4,5)] obtain n
    where late: "\<And>m. n \<le> m \<Longrightarrow> t0 \<le> snd (timed_supervisor H W S s m)"
      and soon: "snd (timed_supervisor H W S s n)
        \<le> t0 + tick_bound S delay + nanos (sp_interval S) + delay" by blast
  have "reported H W S s m name = Some (verdict up)" if "n \<le> m" for m
    using tick [OF late [OF that]] assms(1,2)
      timed_round_health [of H W S "fst (timed_supervisor H W S s m)" "snd (timed_supervisor H W S s m)"]
    by (simp add: reported_def check_publish)
  moreover have "published_at H W S s n
      \<le> t0 + 2 * tick_bound S delay + nanos (sp_interval S) + delay"
    using soon timed_round_bounds [where t = "snd (timed_supervisor H W S s n)"
        and h = "fst (timed_supervisor H W S s n)" and H = H and S = S, OF lag]
    by (simp add: published_at_def)
  ultimately show ?thesis by blast
qed

text \<open>A coordinator that stops answering at instant 7, probed beside a bound transport: with the
  default interval and timeout the outage is reported within 38 seconds.\<close>

definition silent_coordinator :: World where
  "silent_coordinator =
     \<lparr>wo_check = (\<lambda>p t. if p = TransportProbe then Ends 0 (Returns True)
                  else if t < 7 then Ends 3 (Returns True) else Hangs),
      wo_lag = (\<lambda>t. 0)\<rparr>"

definition two_probes :: SupervisorArgs where
  "two_probes =
     \<lparr>sp_probes = [TransportProbe, OutputDomainProbe ''order'' (Tcp ''order:1310'')],
      sp_names = [''svc''], sp_interval = DEFAULT_PROBE_INTERVAL, sp_timeout = DEFAULT_PROBE_TIMEOUT\<rparr>"

theorem readiness_follows_in_time_witness:
  "\<exists>n. published_at map_health silent_coordinator two_probes (Map.empty, 0) n \<le> 7 + 38000000000
    \<and> (\<forall>m \<ge> n. reported map_health silent_coordinator two_probes (Map.empty, 0) m ''svc'' = Some NotServing)"
proof -
  have config: "nanos (sp_interval two_probes) = 30000000000" "nanos (sp_timeout two_probes) = 2000000000"
    "''svc'' \<in> set (sp_names two_probes)"
    by (simp_all add: two_probes_def DEFAULT_PROBE_INTERVAL_def DEFAULT_PROBE_TIMEOUT_def
        from_secs_def nanos_def)
  then have bound: "2 * tick_bound two_probes 0 + nanos (sp_interval two_probes) = 38000000000"
    unfolding tick_bound_def config by (simp add: two_probes_def)
  have "outage silent_coordinator (nanos (sp_timeout two_probes) + 0) (sp_probes two_probes) 7"
    by (simp add: outage_def silent_coordinator_def two_probes_def)
  moreover have "\<forall>t. wo_lag silent_coordinator t \<le> 0"
    by (simp add: silent_coordinator_def)
  moreover have "verdict False = NotServing" by simp
  ultimately show ?thesis
    using readiness_follows_in_time [OF lawful_map_health config(3), of silent_coordinator 0
        "(Map.empty, 0)" 7 False] config(1) bound
    by (simp only: if_False fst_conv snd_conv add.right_neutral add.assoc) simp
qed

end
