(* ===== verification/Client.thy ===== *)
theory Client
  imports Readiness Cover_Ext
begin

text \<open>
  \<^verbatim>\<open>src/src/client.rs\<close> and \<^verbatim>\<open>src/src/traits.rs\<close>: connecting a channel with
  retries, the clients over it, and the client traits.

  The channel and the generated stubs are third-party. A \<open>Connector\<close> is what \<open>create_channel\<close>
  calls of \<open>tonic\<close> and \<open>tokio\<close>, each with the error's text on failure; \<open>Stubs\<close> is the generated
  client of each service over a channel \<open>'ch\<close>. Every such call acts on the world \<open>'w\<close>. A
  response stream \<open>'s\<close> yields its next message and itself, \<open>None\<close> at its end, or a status. An
  enumeration is its number; the numbers the code names are in \<open>ProtoEnums\<close>. Closing a client
  drops its handle; there is nothing to model.
\<close>

section \<open>Connecting\<close>

definition detect_uds_path :: "string \<Rightarrow> string option" where
  "detect_uds_path endpoint =
     (case strip_prefix endpoint ''unix://'' of
        Some rest \<Rightarrow> Some rest
      | None \<Rightarrow>
          (case strip_prefix endpoint ''unix:'' of
             Some rest \<Rightarrow> Some rest
           | None \<Rightarrow>
               if starts_with endpoint ''/'' \<or> starts_with endpoint ''./'' then Some endpoint
               else None))"

record ('ch, 'w) Connector =
  cn_dummy :: "string + unit"
  cn_uds :: "string \<Rightarrow> 'w \<Rightarrow> (string + 'ch) \<times> 'w"
  cn_shared :: "string \<Rightarrow> string + unit"
  cn_tcp :: "string \<Rightarrow> 'w \<Rightarrow> (string + 'ch) \<times> 'w"

text \<open>One pass: an early return with an error, or the connector's result.\<close>

datatype 'ch attempt = Stopped ClientError | Tried "string + 'ch"

definition connect_once ::
  "('ch, 'w) Connector \<Rightarrow> string \<Rightarrow> 'w \<Rightarrow> 'ch attempt \<times> 'w" where
  "connect_once C endpoint w =
     (case detect_uds_path endpoint of
        Some path \<Rightarrow>
          (case cn_dummy C of
             Inl e \<Rightarrow> (Stopped (connection (codes ENDPOINT_PARSE_FAILED)
                        (messages ENDPOINT_PARSE_FAILED) [(keys K_CAUSE, e)]), w)
           | Inr _ \<Rightarrow> (let (res, w1) = cn_uds C path w in (Tried res, w1)))
      | None \<Rightarrow>
          (case cn_shared C endpoint of
             Inl e \<Rightarrow> (Stopped (connection (codes ENDPOINT_INVALID_URI)
                        (messages ENDPOINT_INVALID_URI)
                        [(keys K_ENDPOINT, endpoint), (keys K_CAUSE, e)]), w)
           | Inr _ \<Rightarrow> (let (res, w1) = cn_tcp C endpoint w in (Tried res, w1))))"

definition connection_failed :: "string \<Rightarrow> string \<Rightarrow> ClientError" where
  "connection_failed endpoint e =
     connection (codes CONNECTION_FAILED) (messages CONNECTION_FAILED)
       [(keys K_ENDPOINT, endpoint), (keys K_CAUSE, e)]"

text \<open>The \<open>for\<close> loop over the attempts left, with its sleeps and attempts as a trace.\<close>

fun connect_loop ::
  "('ch, 'w) Connector \<Rightarrow> (u32 \<Rightarrow> nat) \<Rightarrow> string \<Rightarrow> ExponentialBackoffRetry \<Rightarrow> ClientError option \<Rightarrow>
     u32 list \<Rightarrow> 'w \<Rightarrow> (ClientError + 'ch) \<times> RetryEvent list \<times> 'w" where
  "connect_loop C draw endpoint retry last_error [] w =
     (Inl (unwrap_or (connection (codes CONNECTION_FAILED_MAX_RETRIES)
             (messages CONNECTION_FAILED_MAX_RETRIES) [(keys K_ENDPOINT, endpoint)]) last_error),
      [], w)"
| "connect_loop C draw endpoint retry last_error (attempt # rest) w =
     (let pause = (if 0 < attempt
                   then [Slept (compute_delay retry (draw (attempt - 1)) (attempt - 1))] else [])
      in case connect_once C endpoint w of
           (Stopped e, w1) \<Rightarrow> (Inl e, pause, w1)
         | (Tried (Inr channel), w1) \<Rightarrow> (Inr channel, pause @ [Called attempt], w1)
         | (Tried (Inl e), w1) \<Rightarrow>
             let (result, trace, w2) =
               connect_loop C draw endpoint retry (Some (connection_failed endpoint e)) rest w1
             in (result, pause @ Called attempt # trace, w2))"

definition create_channel ::
  "('ch, 'w) Connector \<Rightarrow> (u32 \<Rightarrow> nat) \<Rightarrow> string \<Rightarrow> ExponentialBackoffRetry \<Rightarrow> 'w \<Rightarrow>
     (ClientError + 'ch) \<times> RetryEvent list \<times> 'w" where
  "create_channel C draw endpoint retry w =
     connect_loop C draw endpoint retry None (map of_nat [0..<unat (ebr_max_attempts retry)]) w"

section \<open>Requests\<close>

record ProtoEnums =
  pe_sync_async :: i32
  pe_cascade_fail_fast :: i32

record SpeculateCommandHandlerRequest =
  spc_command :: "CommandBook option"
  spc_other :: opaque

record SpeculateProjectorRequest =
  spj_events :: "EventBook option"
  spj_other :: opaque

record SpeculateSagaRequest =
  sps_request :: "SagaHandleRequest option"
  sps_other :: opaque

record SpeculatePmRequest =
  spp_request :: "PMHandleRequest option"
  spp_other :: opaque

record ('ch, 's, 'w) Stubs =
  st_ascii :: "string \<Rightarrow> bool"
  st_get_event_book :: "'ch \<Rightarrow> Query Request \<Rightarrow> 'w \<Rightarrow> (Status + EventBook) \<times> 'w"
  st_get_events :: "'ch \<Rightarrow> Query Request \<Rightarrow> 'w \<Rightarrow> (Status + 's) \<times> 'w"
  st_message :: "'s \<Rightarrow> 'w \<Rightarrow> (Status + (EventBook \<times> 's) option) \<times> 'w"
  st_handle_command :: "'ch \<Rightarrow> CommandRequest Request \<Rightarrow> 'w \<Rightarrow> (Status + CommandResponse) \<times> 'w"
  st_handle_sync_speculative ::
    "'ch \<Rightarrow> SpeculateCommandHandlerRequest Request \<Rightarrow> 'w \<Rightarrow> (Status + CommandResponse) \<times> 'w"
  st_projector_speculative ::
    "'ch \<Rightarrow> SpeculateProjectorRequest Request \<Rightarrow> 'w \<Rightarrow> (Status + Projection) \<times> 'w"
  st_saga_speculative ::
    "'ch \<Rightarrow> SpeculateSagaRequest Request \<Rightarrow> 'w \<Rightarrow> (Status + SagaResponse) \<times> 'w"
  st_pm_speculative ::
    "'ch \<Rightarrow> SpeculatePmRequest Request \<Rightarrow> 'w \<Rightarrow> (Status + PMHandleResponse) \<times> 'w"

text \<open>\<open>self.inner.clone().call(correlated_request(msg, &corr_id)).await?.into_inner()\<close>.\<close>

definition call_stub ::
  "(string \<Rightarrow> bool) \<Rightarrow> ('m Request \<Rightarrow> 'w \<Rightarrow> (Status + 'r) \<times> 'w) \<Rightarrow> 'm \<Rightarrow> string \<Rightarrow> 'w \<Rightarrow>
     (ClientError + 'r) \<times> 'w" where
  "call_stub ascii stub msg corr_id w =
     (let (res, w1) = stub (correlated_request ascii msg corr_id) w
      in (map_err client_error_from_status res, w1))"

text \<open>The correlation id at the canonical place of each request.\<close>

definition cover_correlation :: "Cover option \<Rightarrow> string" where
  "cover_correlation c = unwrap_or [] (map_option cv_correlation_id c)"

definition book_correlation :: "EventBook option \<Rightarrow> string" where
  "book_correlation b = cover_correlation (Option.bind b eb_cover)"

definition command_correlation :: "CommandBook option \<Rightarrow> string" where
  "command_correlation b = cover_correlation (Option.bind b cb_cover)"

section \<open>Query client\<close>

record 'ch QueryClient =
  qcl_inner :: 'ch

definition query_get_event_book ::
  "('ch, 's, 'w) Stubs \<Rightarrow> 'ch QueryClient \<Rightarrow> Query \<Rightarrow> 'w \<Rightarrow> (ClientError + EventBook) \<times> 'w" where
  "query_get_event_book S self query w =
     call_stub (st_ascii S) (st_get_event_book S (qcl_inner self)) query
       (cover_correlation (qy_cover query)) w"

text \<open>\<open>while let Some(book) = stream.message().await?\<close>: it returns when the stream ends.\<close>

partial_function (option) drain ::
  "('s \<Rightarrow> 'w \<Rightarrow> (Status + (EventBook \<times> 's) option) \<times> 'w) \<Rightarrow> 's \<Rightarrow> EventBook list \<Rightarrow> 'w \<Rightarrow>
     ((ClientError + EventBook list) \<times> 'w) option" where
  "drain message stream results w =
     (case message stream w of
        (Inl e, w1) \<Rightarrow> Some (Inl (client_error_from_status e), w1)
      | (Inr None, w1) \<Rightarrow> Some (Inr results, w1)
      | (Inr (Some (book, stream1)), w1) \<Rightarrow> drain message stream1 (results @ [book]) w1)"

definition query_get_events ::
  "('ch, 's, 'w) Stubs \<Rightarrow> 'ch QueryClient \<Rightarrow> Query \<Rightarrow> 'w \<Rightarrow>
     ((ClientError + EventBook list) \<times> 'w) option" where
  "query_get_events S self query w =
     (case call_stub (st_ascii S) (st_get_events S (qcl_inner self)) query
             (cover_correlation (qy_cover query)) w of
        (Inl e, w1) \<Rightarrow> Some (Inl e, w1)
      | (Inr stream, w1) \<Rightarrow> drain (st_message S) stream [] w1)"

definition query_from_channel :: "'ch \<Rightarrow> 'ch QueryClient" where
  "query_from_channel channel = \<lparr>qcl_inner = channel\<rparr>"

section \<open>Command-handler client\<close>

record 'ch CommandHandlerClient =
  chc_inner :: 'ch

definition command_handler_from_channel :: "'ch \<Rightarrow> 'ch CommandHandlerClient" where
  "command_handler_from_channel channel = \<lparr>chc_inner = channel\<rparr>"

definition handle_command ::
  "('ch, 's, 'w) Stubs \<Rightarrow> 'ch CommandHandlerClient \<Rightarrow> CommandRequest \<Rightarrow> 'w \<Rightarrow>
     (ClientError + CommandResponse) \<times> 'w" where
  "handle_command S self command w =
     call_stub (st_ascii S) (st_handle_command S (chc_inner self)) command
       (command_correlation (cq_command command)) w"

definition command_request :: "ProtoEnums \<Rightarrow> CommandBook \<Rightarrow> i32 \<Rightarrow> CommandRequest" where
  "command_request E command sync_mode =
     \<lparr>cq_command = Some command, cq_sync_mode = sync_mode,
      cq_cascade_error_mode = pe_cascade_fail_fast E, cq_cascade_id = None\<rparr>"

definition handle_async ::
  "ProtoEnums \<Rightarrow> ('ch, 's, 'w) Stubs \<Rightarrow> 'ch CommandHandlerClient \<Rightarrow> CommandBook \<Rightarrow> 'w \<Rightarrow>
     (ClientError + CommandResponse) \<times> 'w" where
  "handle_async E S self command w =
     handle_command S self (command_request E command (pe_sync_async E)) w"

definition handle_sync_speculative ::
  "('ch, 's, 'w) Stubs \<Rightarrow> 'ch CommandHandlerClient \<Rightarrow> SpeculateCommandHandlerRequest \<Rightarrow> 'w \<Rightarrow>
     (ClientError + CommandResponse) \<times> 'w" where
  "handle_sync_speculative S self request w =
     call_stub (st_ascii S) (st_handle_sync_speculative S (chc_inner self)) request
       (command_correlation (spc_command request)) w"

section \<open>Speculative and domain clients\<close>

record 'ch SpeculativeClient =
  spcl_command_handler :: 'ch
  spcl_projector :: 'ch
  spcl_saga :: 'ch
  spcl_pm :: 'ch

definition speculative_from_channel :: "'ch \<Rightarrow> 'ch SpeculativeClient" where
  "speculative_from_channel channel =
     \<lparr>spcl_command_handler = channel, spcl_projector = channel, spcl_saga = channel,
      spcl_pm = channel\<rparr>"

definition speculate_command_handler ::
  "('ch, 's, 'w) Stubs \<Rightarrow> 'ch SpeculativeClient \<Rightarrow> SpeculateCommandHandlerRequest \<Rightarrow> 'w \<Rightarrow>
     (ClientError + CommandResponse) \<times> 'w" where
  "speculate_command_handler S self request w =
     call_stub (st_ascii S) (st_handle_sync_speculative S (spcl_command_handler self)) request
       (command_correlation (spc_command request)) w"

definition speculate_projector ::
  "('ch, 's, 'w) Stubs \<Rightarrow> 'ch SpeculativeClient \<Rightarrow> SpeculateProjectorRequest \<Rightarrow> 'w \<Rightarrow>
     (ClientError + Projection) \<times> 'w" where
  "speculate_projector S self request w =
     call_stub (st_ascii S) (st_projector_speculative S (spcl_projector self)) request
       (book_correlation (spj_events request)) w"

definition speculate_saga ::
  "('ch, 's, 'w) Stubs \<Rightarrow> 'ch SpeculativeClient \<Rightarrow> SpeculateSagaRequest \<Rightarrow> 'w \<Rightarrow>
     (ClientError + SagaResponse) \<times> 'w" where
  "speculate_saga S self request w =
     call_stub (st_ascii S) (st_saga_speculative S (spcl_saga self)) request
       (book_correlation (Option.bind (sps_request request) sg_source)) w"

definition speculate_process_manager ::
  "('ch, 's, 'w) Stubs \<Rightarrow> 'ch SpeculativeClient \<Rightarrow> SpeculatePmRequest \<Rightarrow> 'w \<Rightarrow>
     (ClientError + PMHandleResponse) \<times> 'w" where
  "speculate_process_manager S self request w =
     call_stub (st_ascii S) (st_pm_speculative S (spcl_pm self)) request
       (book_correlation (Option.bind (spp_request request) pm_trigger)) w"

record 'ch DomainClient =
  dc_command_handler :: "'ch CommandHandlerClient"
  dc_query :: "'ch QueryClient"
  dc_speculative :: "'ch SpeculativeClient"

definition domain_from_channel :: "'ch \<Rightarrow> 'ch DomainClient" where
  "domain_from_channel channel =
     \<lparr>dc_command_handler = command_handler_from_channel channel, dc_query = query_from_channel channel,
      dc_speculative = speculative_from_channel channel\<rparr>"

lemmas client_channel_defs = domain_from_channel_def query_from_channel_def
  command_handler_from_channel_def

definition domain_execute ::
  "ProtoEnums \<Rightarrow> ('ch, 's, 'w) Stubs \<Rightarrow> 'ch DomainClient \<Rightarrow> CommandBook \<Rightarrow> 'w \<Rightarrow>
     (ClientError + CommandResponse) \<times> 'w" where
  "domain_execute E S self command w = handle_async E S (dc_command_handler self) command w"

definition domain_execute_with_mode ::
  "ProtoEnums \<Rightarrow> ('ch, 's, 'w) Stubs \<Rightarrow> 'ch DomainClient \<Rightarrow> CommandBook \<Rightarrow> i32 \<Rightarrow> 'w \<Rightarrow>
     (ClientError + CommandResponse) \<times> 'w" where
  "domain_execute_with_mode E S self command sync_mode w =
     handle_command S (dc_command_handler self) (command_request E command sync_mode) w"

definition domain_get_event_book ::
  "('ch, 's, 'w) Stubs \<Rightarrow> 'ch DomainClient \<Rightarrow> Query \<Rightarrow> 'w \<Rightarrow> (ClientError + EventBook) \<times> 'w" where
  "domain_get_event_book S self query w = query_get_event_book S (dc_query self) query w"

definition domain_get_events ::
  "('ch, 's, 'w) Stubs \<Rightarrow> 'ch DomainClient \<Rightarrow> Query \<Rightarrow> 'w \<Rightarrow>
     ((ClientError + EventBook list) \<times> 'w) option" where
  "domain_get_events S self query w = query_get_events S (dc_query self) query w"

section \<open>Connecting a client\<close>

text \<open>
  \<open>connect_with_retry\<close>, \<open>connect\<close> and \<open>from_env\<close> are the same for each client, over its
  \<open>from_channel\<close>; only \<open>DomainClient\<close> has \<open>for_domain\<close>.
\<close>

definition connect_with_retry ::
  "('ch, 'w) Connector \<Rightarrow> (u32 \<Rightarrow> nat) \<Rightarrow> ('ch \<Rightarrow> 'c) \<Rightarrow> string \<Rightarrow> ExponentialBackoffRetry \<Rightarrow> 'w \<Rightarrow>
     (ClientError + 'c) \<times> RetryEvent list \<times> 'w" where
  "connect_with_retry C draw from_channel endpoint retry w =
     (let (res, trace, w1) = create_channel C draw endpoint retry w
      in (map_ok from_channel res, trace, w1))"

definition connect ::
  "('ch, 'w) Connector \<Rightarrow> (u32 \<Rightarrow> nat) \<Rightarrow> ('ch \<Rightarrow> 'c) \<Rightarrow> string \<Rightarrow> 'w \<Rightarrow>
     (ClientError + 'c) \<times> RetryEvent list \<times> 'w" where
  "connect C draw from_channel endpoint w =
     connect_with_retry C draw from_channel endpoint ExponentialBackoffRetry_default w"

definition client_from_env ::
  "('ch, 'w) Connector \<Rightarrow> (u32 \<Rightarrow> nat) \<Rightarrow> ('ch \<Rightarrow> 'c) \<Rightarrow> environment \<Rightarrow> string \<Rightarrow> string \<Rightarrow> 'w \<Rightarrow>
     (ClientError + 'c) \<times> RetryEvent list \<times> 'w" where
  "client_from_env C draw from_channel env env_var fallback w =
     connect C draw from_channel (unwrap_or fallback (env env_var)) w"

text \<open>The constructors of the three single clients.\<close>

definition QueryClient_from_env ::
  "('ch, 'w) Connector \<Rightarrow> (u32 \<Rightarrow> nat) \<Rightarrow> environment \<Rightarrow> string \<Rightarrow> string \<Rightarrow> 'w \<Rightarrow>
     (ClientError + 'ch QueryClient) \<times> RetryEvent list \<times> 'w" where
  "QueryClient_from_env C draw = client_from_env C draw query_from_channel"

definition CommandHandlerClient_from_env ::
  "('ch, 'w) Connector \<Rightarrow> (u32 \<Rightarrow> nat) \<Rightarrow> environment \<Rightarrow> string \<Rightarrow> string \<Rightarrow> 'w \<Rightarrow>
     (ClientError + 'ch CommandHandlerClient) \<times> RetryEvent list \<times> 'w" where
  "CommandHandlerClient_from_env C draw = client_from_env C draw command_handler_from_channel"

definition SpeculativeClient_from_env ::
  "('ch, 'w) Connector \<Rightarrow> (u32 \<Rightarrow> nat) \<Rightarrow> environment \<Rightarrow> string \<Rightarrow> string \<Rightarrow> 'w \<Rightarrow>
     (ClientError + 'ch SpeculativeClient) \<times> RetryEvent list \<times> 'w" where
  "SpeculativeClient_from_env C draw = client_from_env C draw speculative_from_channel"

definition client_for_domain ::
  "('ch, 'w) Connector \<Rightarrow> (u32 \<Rightarrow> nat) \<Rightarrow> environment \<Rightarrow> string \<Rightarrow> TransportMode option \<Rightarrow> 'w \<Rightarrow>
     (ClientError + 'ch DomainClient) \<times> RetryEvent list \<times> 'w" where
  "client_for_domain C draw env domain mode w =
     (case resolve_ch_endpoint env domain mode None None None of
        Inl e \<Rightarrow> (Inl e, [], w)
      | Inr endpoint \<Rightarrow> connect C draw domain_from_channel endpoint w)"

section \<open>Client traits\<close>

text \<open>The traits the builders call, as the records of their methods.\<close>

record 'w GatewayClient =
  gw_execute :: "CommandBook \<Rightarrow> 'w \<Rightarrow> (ClientError + CommandResponse) \<times> 'w"
  gw_execute_with_sync_mode :: "CommandBook \<Rightarrow> i32 \<Rightarrow> 'w \<Rightarrow> (ClientError + CommandResponse) \<times> 'w"

record 'w QueryApi =
  qa_get_event_book :: "Query \<Rightarrow> 'w \<Rightarrow> (ClientError + EventBook) \<times> 'w"
  qa_get_events :: "Query \<Rightarrow> 'w \<Rightarrow> ((ClientError + EventBook list) \<times> 'w) option"

text \<open>The default methods of the two traits.\<close>

definition default_gateway ::
  "(CommandBook \<Rightarrow> 'w \<Rightarrow> (ClientError + CommandResponse) \<times> 'w) \<Rightarrow> 'w GatewayClient" where
  "default_gateway exec =
     \<lparr>gw_execute = exec, gw_execute_with_sync_mode = (\<lambda>command sync_mode. exec command)\<rparr>"

definition default_query_api ::
  "(Query \<Rightarrow> 'w \<Rightarrow> (ClientError + EventBook) \<times> 'w) \<Rightarrow> 'w QueryApi" where
  "default_query_api get_event_book =
     \<lparr>qa_get_event_book = get_event_book,
      qa_get_events = (\<lambda>query w. let (res, w1) = get_event_book query w
         in Some (map_ok (\<lambda>b. [b]) res, w1))\<rparr>"

definition ch_gateway ::
  "ProtoEnums \<Rightarrow> ('ch, 's, 'w) Stubs \<Rightarrow> 'ch CommandHandlerClient \<Rightarrow> 'w GatewayClient" where
  "ch_gateway E S self =
     \<lparr>gw_execute = handle_async E S self,
      gw_execute_with_sync_mode = (\<lambda>command sync_mode.
         handle_command S self (command_request E command sync_mode))\<rparr>"

definition domain_gateway ::
  "ProtoEnums \<Rightarrow> ('ch, 's, 'w) Stubs \<Rightarrow> 'ch DomainClient \<Rightarrow> 'w GatewayClient" where
  "domain_gateway E S self =
     \<lparr>gw_execute = domain_execute E S self,
      gw_execute_with_sync_mode =
         gw_execute_with_sync_mode (ch_gateway E S (dc_command_handler self))\<rparr>"

definition query_api ::
  "('ch, 's, 'w) Stubs \<Rightarrow> 'ch QueryClient \<Rightarrow> 'w QueryApi" where
  "query_api S self =
     \<lparr>qa_get_event_book = query_get_event_book S self, qa_get_events = query_get_events S self\<rparr>"

definition domain_query_api ::
  "('ch, 's, 'w) Stubs \<Rightarrow> 'ch DomainClient \<Rightarrow> 'w QueryApi" where
  "domain_query_api S self =
     \<lparr>qa_get_event_book = domain_get_event_book S self, qa_get_events = domain_get_events S self\<rparr>"

text \<open>
  What every gateway of the crate promises its callers: plain execution is execution in
  asynchronous mode.
\<close>

locale gateway =
  fixes client :: "'w GatewayClient" and async :: i32
  assumes execute_is_async: "gw_execute client c w = gw_execute_with_sync_mode client c async w"
interpretation ch_client: gateway "ch_gateway E S self" "pe_sync_async E" for E S self
  by unfold_locales (simp add: ch_gateway_def handle_async_def)

interpretation domain_client: gateway "domain_gateway E S self" "pe_sync_async E" for E S self
  by unfold_locales (simp add: domain_gateway_def ch_gateway_def domain_execute_def handle_async_def)

interpretation mock_client: gateway "default_gateway exec" async for exec async
  by unfold_locales (simp add: default_gateway_def)

section \<open>Connection retries\<close>

text \<open>An endpoint the loop can retry: no pass stops it early.\<close>

definition retriable :: "('ch, 'w) Connector \<Rightarrow> string \<Rightarrow> bool" where
  "retriable C endpoint \<longleftrightarrow>
     (case detect_uds_path endpoint of
        Some _ \<Rightarrow> cn_dummy C = Inr () | None \<Rightarrow> cn_shared C endpoint = Inr ())"

text \<open>One connection attempt as the operation \<open>RetryPolicy::execute\<close> would run.\<close>

definition connect_op :: "('ch, 'w) Connector \<Rightarrow> string \<Rightarrow> ('w, ClientError, 'ch) fn_mut" where
  "connect_op C endpoint w =
     (let (res, w1) = (case detect_uds_path endpoint of
          Some path \<Rightarrow> cn_uds C path w | None \<Rightarrow> cn_tcp C endpoint w)
      in (map_err (connection_failed endpoint) res, w1))"

lemma connect_once_retriable:
  "retriable C endpoint \<Longrightarrow> connect_once C endpoint w =
     (let (res, w1) = (case detect_uds_path endpoint of
          Some path \<Rightarrow> cn_uds C path w | None \<Rightarrow> cn_tcp C endpoint w) in (Tried res, w1))"
  by (auto simp: connect_once_def retriable_def split: option.splits)

lemma attempt_positive: "Suc j < unat (m :: u32) \<Longrightarrow> (0 :: u32) < of_nat (Suc j) \<and> of_nat (Suc j) - 1 = (of_nat j :: u32)"
proof -
  assume j: "Suc j < unat m"
  have "unat m < 2 ^ 32" using unsigned_less [of m, where ?'a = nat] by simp
  with j have "unat (of_nat (Suc j) :: u32) = Suc j" by (intro unat_of_nat_small) simp
  then show ?thesis by (simp add: word_less_nat_alt)
qed

definition pause_before :: "(u32 \<Rightarrow> nat) \<Rightarrow> ExponentialBackoffRetry \<Rightarrow> u32 \<Rightarrow> RetryEvent list" where
  "pause_before draw p attempt =
     (if 0 < attempt then [Slept (compute_delay p (draw (attempt - 1)) (attempt - 1))] else [])"

lemma connect_loop_executes:
  assumes "retriable C endpoint" and "j < unat (ebr_max_attempts p)"
  shows "\<exists>r trace w'.
      execute_loop (p\<lparr>ebr_on_retry := False\<rparr>) display draw (connect_op C endpoint) last_err
        (map of_nat [j..<unat (ebr_max_attempts p)]) w = (Returned r, trace, w')
      \<and> connect_loop C draw endpoint p last_err
        (map of_nat [j..<unat (ebr_max_attempts p)]) w
        = (r, pause_before draw p (of_nat j) @ trace, w')"
  using assms(2)
proof (induction "unat (ebr_max_attempts p) - j" arbitrary: j last_err w)
  case (Suc x)
  let ?n = "unat (ebr_max_attempts p)"
  have up: "[j..<?n] = j # [Suc j..<?n]" using Suc.prems by (simp add: upt_conv_Cons)
  obtain res w1 where once: "(case detect_uds_path endpoint of
      Some path \<Rightarrow> cn_uds C path w | None \<Rightarrow> cn_tcp C endpoint w) = (res, w1)" by fastforce
  note steps = connect_once_retriable [OF assms(1), of w] once
  show ?case
  proof (cases res)
    case (Inr ch)
    with steps show ?thesis by (simp add: up connect_op_def pause_before_def)
  next
    case (Inl e)
    have last: "ebr_max_attempts p \<le> of_nat j + 1 \<longleftrightarrow> \<not> Suc j < ?n"
      by (rule is_last_iff [OF Suc.prems])
    show ?thesis
    proof (cases "Suc j < ?n")
      case True
      have "x = ?n - Suc j" using Suc.hyps(2) by simp
      from Suc.hyps(1) [OF this True, of "Some (connection_failed endpoint e)" w1]
      obtain r trace w' where IH:
        "execute_loop (p\<lparr>ebr_on_retry := False\<rparr>) display draw (connect_op C endpoint)
           (Some (connection_failed endpoint e)) (map of_nat [Suc j..<?n]) w1 = (Returned r, trace, w')"
        "connect_loop C draw endpoint p (Some (connection_failed endpoint e))
           (map of_nat [Suc j..<?n]) w1 = (r, pause_before draw p (of_nat (Suc j)) @ trace, w')"
        by blast
      have "pause_before draw p (of_nat (Suc j)) = [Slept (compute_delay p (draw (of_nat j)) (of_nat j))]"
        using attempt_positive [OF True] by (simp add: pause_before_def)
      moreover have "compute_delay (p\<lparr>ebr_on_retry := False\<rparr>) = compute_delay p"
        by (intro ext) (simp add: compute_delay_def raw_nanos_def)
      ultimately show ?thesis
        using steps Inl IH last True
        by (simp add: up connect_op_def pause_before_def [of draw p "of_nat j"])
    next
      case False
      then have "[Suc j..<?n] = []" using Suc.prems by simp
      then show ?thesis
        using steps Inl last False by (simp add: up connect_op_def pause_before_def)
    qed
  qed
qed simp

text \<open>C21: Connecting a client is the crate's own retry policy applied to the connect call. For
  an endpoint that is well formed, \<open>create_channel\<close> makes the attempts, sleeps the delays and
  returns the channel or the last \<open>CONNECTION_FAILED\<close> that \<open>execute\<close> does under the same policy
  and the same random draws, except that the policy's callback is never called; with zero
  attempts it returns \<open>CONNECTION_FAILED_MAX_RETRIES\<close> where \<open>execute\<close> panics. An endpoint that
  is not a URI is reported at once, without a connection attempt or a sleep.\<close>

theorem connect_follows_retry_policy:
  shows "(retriable C endpoint \<and> 0 < unat (ebr_max_attempts p) \<longrightarrow>
      (\<exists>r trace w'.
         execute (p\<lparr>ebr_on_retry := False\<rparr>) display draw (connect_op C endpoint) w = (Returned r, trace, w')
         \<and> create_channel C draw endpoint p w = (r, trace, w')))
    \<and> (ebr_max_attempts p = 0 \<longrightarrow>
        create_channel C draw endpoint p w =
          (Inl (connection (codes CONNECTION_FAILED_MAX_RETRIES)
             (messages CONNECTION_FAILED_MAX_RETRIES) [(keys K_ENDPOINT, endpoint)]), [], w))
    \<and> (detect_uds_path endpoint = None \<and> cn_shared C endpoint = Inl e \<and> ebr_max_attempts p \<noteq> 0 \<longrightarrow>
        create_channel C draw endpoint p w =
          (Inl (connection (codes ENDPOINT_INVALID_URI) (messages ENDPOINT_INVALID_URI)
             [(keys K_ENDPOINT, endpoint), (keys K_CAUSE, e)]), [], w))"
proof (intro conjI impI)
  assume "retriable C endpoint \<and> 0 < unat (ebr_max_attempts p)"
  then have "retriable C endpoint" "0 < unat (ebr_max_attempts p)" by simp_all
  from connect_loop_executes [OF this, of display draw None w]
  show "\<exists>r trace w'.
         execute (p\<lparr>ebr_on_retry := False\<rparr>) display draw (connect_op C endpoint) w = (Returned r, trace, w')
         \<and> create_channel C draw endpoint p w = (r, trace, w')"
    by (auto simp: execute_def create_channel_def pause_before_def)
next
  assume "ebr_max_attempts p = 0"
  then show "create_channel C draw endpoint p w =
          (Inl (connection (codes CONNECTION_FAILED_MAX_RETRIES)
             (messages CONNECTION_FAILED_MAX_RETRIES) [(keys K_ENDPOINT, endpoint)]), [], w)"
    by (simp add: create_channel_def)
next
  assume a: "detect_uds_path endpoint = None \<and> cn_shared C endpoint = Inl e \<and> ebr_max_attempts p \<noteq> 0"
  then have "0 < unat (ebr_max_attempts p)" by (simp add: unat_gt_0)
  then have "[0..<unat (ebr_max_attempts p)] = 0 # [Suc 0..<unat (ebr_max_attempts p)]"
    by (simp add: upt_conv_Cons)
  with a show "create_channel C draw endpoint p w =
          (Inl (connection (codes ENDPOINT_INVALID_URI) (messages ENDPOINT_INVALID_URI)
             [(keys K_ENDPOINT, endpoint), (keys K_CAUSE, e)]), [], w)"
    by (simp add: create_channel_def connect_once_def)
qed

text \<open>A connector that refuses its first two calls: the world counts them.\<close>

definition flaky :: "(string, nat) Connector" where
  "flaky =
     \<lparr>cn_dummy = Inr (), cn_uds = (\<lambda>path c. (if c < 2 then Inl ''refused'' else Inr path, Suc c)),
      cn_shared = (\<lambda>s. if s = [] then Inl ''empty'' else Inr ()),
      cn_tcp = (\<lambda>addr c. (Inl ''unreachable'', Suc c))\<rparr>"

theorem connect_follows_retry_policy_witness:
  "create_channel flaky (\<lambda>_. 0) ''/run/ch.sock'' example_policy 0 =
     (Inr ''/run/ch.sock'',
      [Called 0, Slept (compute_delay example_policy 0 0), Called 1,
       Slept (compute_delay example_policy 0 1), Called 2], 3)"
proof -
  let ?p = "example_policy\<lparr>ebr_on_retry := False\<rparr>"
  have n: "ebr_max_attempts example_policy = 3"
    by (simp add: example_policy_def with_on_retry_def with_max_attempts_def)
  have d: "detect_uds_path ''/run/ch.sock'' = Some ''/run/ch.sock''"
    by (simp add: detect_uds_path_def strip_prefix_def starts_with_def)
  have r: "retriable flaky ''/run/ch.sock''" by (simp add: retriable_def d flaky_def)
  have delay: "compute_delay ?p = compute_delay example_policy"
    by (intro ext) (simp add: compute_delay_def raw_nanos_def)
  have up: "[0..<3] = [0, 1, 2]" by (simp add: upt_rec)
  have "execute ?p ce_message (\<lambda>_. 0) (connect_op flaky ''/run/ch.sock'') 0 =
     (Returned (Inr ''/run/ch.sock''),
      [Called 0, Slept (compute_delay example_policy 0 0), Called 1,
       Slept (compute_delay example_policy 0 1), Called 2], 3)"
    by (simp add: execute_def n up connect_op_def d flaky_def word_le_nat_alt delay)
  with connect_follows_retry_policy [of flaky "''/run/ch.sock''" example_policy ce_message "\<lambda>_. 0" 0]
  show ?thesis by (simp add: n r)
qed

section \<open>Endpoints of probes and clients\<close>

text \<open>Which way a client goes for an endpoint, and with what: a Unix socket to the path, or the
  endpoint as it is to the TCP connector.\<close>

definition client_way :: "string \<Rightarrow> Endpoint" where
  "client_way raw = (case detect_uds_path raw of Some path \<Rightarrow> Uds path | None \<Rightarrow> Tcp raw)"

definition connect_way ::
  "('ch, 'w) Connector \<Rightarrow> Endpoint \<Rightarrow> 'w \<Rightarrow> 'ch attempt \<times> 'w" where
  "connect_way C way w =
     (case way of
        Uds path \<Rightarrow>
          (case cn_dummy C of
             Inl e \<Rightarrow> (Stopped (connection (codes ENDPOINT_PARSE_FAILED)
                        (messages ENDPOINT_PARSE_FAILED) [(keys K_CAUSE, e)]), w)
           | Inr _ \<Rightarrow> map_prod Tried id (cn_uds C path w))
      | Tcp addr \<Rightarrow>
          (case cn_shared C addr of
             Inl e \<Rightarrow> (Stopped (connection (codes ENDPOINT_INVALID_URI)
                        (messages ENDPOINT_INVALID_URI)
                        [(keys K_ENDPOINT, addr), (keys K_CAUSE, e)]), w)
           | Inr _ \<Rightarrow> map_prod Tried id (cn_tcp C addr w)))"

lemma connect_once_way: "connect_once C raw w = connect_way C (client_way raw) w"
  by (simp add: connect_once_def connect_way_def client_way_def case_prod_unfold map_prod_def Let_def
      split: option.split sum.split)

lemma from_endpoint_way:
  "\<not> starts_with raw ''unix://'' \<Longrightarrow> \<not> starts_with raw ''./'' \<Longrightarrow> from_endpoint raw = client_way raw"
  by (auto simp: from_endpoint_def client_way_def detect_uds_path_def strip_prefix_def
      starts_with_def split: option.split)

text \<open>C38: The readiness probe of a domain tells sockets from TCP addresses as a client does. In
  distributed mode both take the endpoint the domain resolves to for a TCP endpoint: the probe
  opens a stream to this text, a client hands the same text to the channel. In any mode both take
  the same way, with the same socket path or text, unless the resolved endpoint starts with
  \<open>./\<close> or \<open>unix://\<close>: the first the client takes for a socket and the probe for a TCP address,
  of the second the probe keeps the two slashes that the client strips. The text is not parsed as
  a URL: of a bus endpoint that starts with \<open>http://\<close>, the whole of it is the address the
  probe opens a stream to.\<close>

theorem probe_and_client_agree:
  fixes C :: "('ch, 'w) Connector"
  assumes "for_domain env domain = Returned (OutputDomainProbe d endpoint)"
  shows "d = domain \<and> (\<exists>raw. resolve_ch_endpoint env domain None None None None = Inr raw
    \<and> connect_once C raw w = connect_way C (client_way raw) w
    \<and> (effective_mode env None = Some Distributed \<longrightarrow> endpoint = Tcp raw \<and> client_way raw = Tcp raw)
    \<and> (\<not> starts_with raw ''unix://'' \<and> \<not> starts_with raw ''./'' \<longrightarrow> endpoint = client_way raw)
    \<and> (\<forall>path. raw = ''./'' @ path \<longrightarrow> endpoint = Tcp raw \<and> client_way raw = Uds raw)
    \<and> (\<forall>path. raw = ''unix://'' @ path \<longrightarrow>
         endpoint = Uds (''//'' @ path) \<and> client_way raw = Uds path))
    \<and> (\<forall>url. env ENV_BUS_ENDPOINT = Some (''http://'' @ url) \<longrightarrow>
         bus_from_env env = Some (BusProbe (Tcp (''http://'' @ url))))"
proof -
  obtain raw where raw: "resolve_ch_endpoint env domain None None None None = Inr raw"
    "d = domain" "endpoint = from_endpoint raw"
    using assms by (auto simp: for_domain_def split: sum.split_asm)
  have "\<not> starts_with raw ''unix://'' \<and> \<not> starts_with raw ''./'' \<and> \<not> starts_with raw ''unix:''
      \<and> \<not> starts_with raw ''/''"
    if "effective_mode env None = Some Distributed"
    using raw(1) by (rule resolved_cases) (use that in \<open>auto simp: starts_with_def\<close>)
  then have "endpoint = Tcp raw \<and> client_way raw = Tcp raw"
    if "effective_mode env None = Some Distributed"
    using that by (simp add: raw(3) from_endpoint_def client_way_def detect_uds_path_def
        strip_prefix_def)
  moreover have "from_endpoint (''./'' @ path) = Tcp (''./'' @ path)"
    "client_way (''./'' @ path) = Uds (''./'' @ path)"
    "from_endpoint (''unix://'' @ path) = Uds (''//'' @ path)"
    "client_way (''unix://'' @ path) = Uds path"
    "from_endpoint (''http://'' @ path) = Tcp (''http://'' @ path)" for path
    by (simp_all add: from_endpoint_def client_way_def detect_uds_path_def strip_prefix_def
        starts_with_def)
  ultimately show ?thesis
    using raw from_endpoint_way [of raw] by (auto simp: bus_from_env_def connect_once_way)
qed

theorem probe_and_client_agree_witness:
  "client_way ''/tmp/angzarr/ch-player.sock'' = Uds ''/tmp/angzarr/ch-player.sock''
    \<and> for_domain [ENV_MODE \<mapsto> ''standalone''] ''player'' =
        Returned (OutputDomainProbe ''player'' (Uds ''/tmp/angzarr/ch-player.sock''))"
proof -
  let ?env = "[ENV_MODE \<mapsto> ''standalone'']"
  have raw: "resolve_ch_endpoint ?env ''player'' None None None None = Inr ''/tmp/angzarr/ch-player.sock''"
    by (simp add: transport_defs)
  then have probe: "for_domain ?env ''player'' =
      Returned (OutputDomainProbe ''player'' (Uds ''/tmp/angzarr/ch-player.sock''))"
    by (simp add: for_domain_def from_endpoint_def strip_prefix_def starts_with_def)
  have "Uds ''/tmp/angzarr/ch-player.sock'' = client_way ''/tmp/angzarr/ch-player.sock''"
    using probe_and_client_agree [OF probe, of flaky 0] raw by (simp add: starts_with_def)
  then have "client_way ''/tmp/angzarr/ch-player.sock'' = Uds ''/tmp/angzarr/ch-player.sock''"
    by (rule sym)
  from this probe show ?thesis by (rule conjI)
qed

section \<open>Streams\<close>

text \<open>The first \<open>n\<close> messages of a stream, when it has that many.\<close>

fun pull ::
  "('s \<Rightarrow> 'w \<Rightarrow> (Status + (EventBook \<times> 's) option) \<times> 'w) \<Rightarrow> nat \<Rightarrow> 's \<Rightarrow> 'w \<Rightarrow>
     (EventBook list \<times> 's \<times> 'w) option" where
  "pull message 0 stream w = Some ([], stream, w)"
| "pull message (Suc n) stream w =
     (case message stream w of
        (Inr (Some (book, stream1)), w1) \<Rightarrow>
          map_option (\<lambda>(books, rest). (book # books, rest)) (pull message n stream1 w1)
      | _ \<Rightarrow> None)"

lemma drain_pull:
  "pull message n stream w = Some (books, stream1, w1) \<Longrightarrow>
   drain message stream acc w = drain message stream1 (acc @ books) w1"
proof (induction message n stream w arbitrary: acc books rule: pull.induct)
  case (2 message n stream w)
  then obtain book stream2 w2 books' where m: "message stream w = (Inr (Some (book, stream2)), w2)"
    "pull message n stream2 w2 = Some (books', stream1, w1)" "books = book # books'"
    by (auto split: prod.split_asm sum.split_asm option.split_asm)
  have "drain message stream acc w = drain message stream2 (acc @ [book]) w2"
    by (subst drain.simps) (simp add: m(1))
  also have "\<dots> = drain message stream1 ((acc @ [book]) @ books') w1"
    by (rule "2.IH" [OF m(1) [symmetric] refl refl refl m(2)])
  finally show ?case by (simp add: m(3))
qed simp

text \<open>The stream comes to an end, after the books \<open>pull\<close> reads.\<close>

definition stream_ends ::
  "('s \<Rightarrow> 'w \<Rightarrow> (Status + (EventBook \<times> 's) option) \<times> 'w) \<Rightarrow> 's \<Rightarrow> 'w \<Rightarrow> bool" where
  "stream_ends message stream w \<longleftrightarrow>
     (\<exists>n books stream1 w1. pull message n stream w = Some (books, stream1, w1)
        \<and> (\<exists>r w2. message stream1 w1 = (r, w2) \<and> (r = Inr None \<or> (\<exists>e. r = Inl e))))"

lemma stream_ends_now:
  "message stream w = (r, w2) \<Longrightarrow> r = Inr None \<or> (\<exists>e. r = Inl e) \<Longrightarrow> stream_ends message stream w"
  unfolding stream_ends_def by (intro exI [of _ 0]) auto

lemma stream_ends_later:
  assumes "message stream w = (Inr (Some (book, stream1)), w1)" and "stream_ends message stream1 w1"
  shows "stream_ends message stream w"
proof -
  from assms(2) obtain n books stream2 w2 where
    p: "pull message n stream1 w1 = Some (books, stream2, w2)"
      "\<exists>r w3. message stream2 w2 = (r, w3) \<and> (r = Inr None \<or> (\<exists>e. r = Inl e))"
    by (auto simp: stream_ends_def)
  then have "pull message (Suc n) stream w = Some (book # books, stream2, w2)"
    by (simp add: assms(1))
  with p(2) show ?thesis unfolding stream_ends_def by blast
qed

lemma drain_returns: "drain message stream acc w = Some y \<Longrightarrow> stream_ends message stream w"
proof (rule drain.raw_induct [of "\<lambda>message stream acc w y. stream_ends message stream w"])
  fix rec_drain and message :: "'s \<Rightarrow> 'w \<Rightarrow> (Status + (EventBook \<times> 's) option) \<times> 'w"
    and stream acc w y
  assume IH: "\<And>message stream acc w y. rec_drain message stream acc w = Some y \<Longrightarrow> stream_ends message stream w"
    and run: "(case message stream w of
        (Inl e, w1) \<Rightarrow> Some (Inl (client_error_from_status e), w1)
      | (Inr None, w1) \<Rightarrow> Some (Inr acc, w1)
      | (Inr (Some (book, stream1)), w1) \<Rightarrow> rec_drain message stream1 (acc @ [book]) w1) = Some y"
  obtain r w2 where r: "message stream w = (r, w2)" by fastforce
  show "stream_ends message stream w"
  proof (cases "\<exists>book stream1. r = Inr (Some (book, stream1))")
    case True
    then obtain book stream1 where m: "message stream w = (Inr (Some (book, stream1)), w2)"
      using r by blast
    with run have "rec_drain message stream1 (acc @ [book]) w2 = Some y" by simp
    then have "stream_ends message stream1 w2" by (rule IH)
    with m show ?thesis by (rule stream_ends_later)
  next
    case False
    then have "r = Inr None \<or> (\<exists>e. r = Inl e)"
      by (cases r) (simp_all, metis option.exhaust surj_pair)
    then show ?thesis using stream_ends_now r by metis
  qed
qed

text \<open>C22: Draining a response stream returns exactly when the stream comes to an end: after
  finitely many books, its close or a status. On a close the answer is all the books received,
  in order; on a status it is that status, and the books received before it are lost.\<close>

theorem get_events_drains_stream:
  shows "(pull message n stream w = Some (books, stream1, w1) \<and> message stream1 w1 = (Inr None, w2) \<longrightarrow>
      drain message stream [] w = Some (Inr books, w2))
    \<and> (pull message n stream w = Some (books, stream1, w1) \<and> message stream1 w1 = (Inl e, w2) \<longrightarrow>
      drain message stream [] w = Some (Inl (client_error_from_status e), w2))
    \<and> (drain message stream [] w \<noteq> None \<longleftrightarrow> stream_ends message stream w)"
proof -
  have ends: "drain message stream [] w = Some (case r of Inl e \<Rightarrow> (Inl (client_error_from_status e), w2) | Inr _ \<Rightarrow> (Inr books, w2))"
    if "pull message n stream w = Some (books, stream1, w1)" "message stream1 w1 = (r, w2)"
      "r = Inr None \<or> (\<exists>e. r = Inl e)" for n books stream1 w1 r w2
    unfolding drain_pull [OF that(1)] by (subst drain.simps) (use that(2,3) in auto)
  have "drain message stream [] w \<noteq> None" if "stream_ends message stream w"
    using that ends unfolding stream_ends_def by blast
  moreover have "stream_ends message stream w" if "drain message stream [] w \<noteq> None"
    using that by (auto dest: drain_returns)
  ultimately show ?thesis
    using ends [of n books stream1 w1 "Inr None" w2] ends [of n books stream1 w1 "Inl e" w2] by auto
qed

theorem get_events_drains_stream_witness:
  "drain (\<lambda>stream w. (case stream of [] \<Rightarrow> Inr None | b # bs \<Rightarrow> Inr (Some (b, bs)), Suc w))
     [default_EventBook, default_EventBook] [] 0
   = Some (Inr [default_EventBook, default_EventBook], 3)"
proof -
  let ?m = "\<lambda>stream w. (case stream of [] \<Rightarrow> Inr None | b # bs \<Rightarrow> Inr (Some (b, bs)), Suc w)"
  have "pull ?m 2 [default_EventBook, default_EventBook] 0 = Some ([default_EventBook, default_EventBook], [], 2)"
    by (simp add: numeral_2_eq_2)
  with get_events_drains_stream [of ?m 2 "[default_EventBook, default_EventBook]" 0 _ "[]" 2 3]
  show ?thesis by simp
qed

section \<open>Requests on the wire\<close>

definition correlation_metadata :: "(string \<Rightarrow> bool) \<Rightarrow> string \<Rightarrow> string \<Rightarrow> string option" where
  "correlation_metadata ascii corr =
     (if corr \<noteq> [] \<and> ascii corr then [CORRELATION_ID_HEADER \<mapsto> corr] else Map.empty)"

lemma call_stub_sends:
  "call_stub ascii stub msg corr w =
     (map_err CE_Grpc (fst (stub \<lparr>req_message = msg, req_metadata = correlation_metadata ascii corr\<rparr> w)),
      snd (stub \<lparr>req_message = msg, req_metadata = correlation_metadata ascii corr\<rparr> w))"
proof -
  have "correlated_request ascii msg corr
      = \<lparr>req_message = msg, req_metadata = correlation_metadata ascii corr\<rparr>"
    by (simp add: correlated_request_def correlation_metadata_def Let_def)
  moreover have "client_error_from_status = CE_Grpc"
    by (intro ext) (simp add: client_error_from_status_def)
  ultimately show ?thesis by (simp add: call_stub_def case_prod_unfold Let_def)
qed

text \<open>Every request of a client connected to a channel goes over that channel, unchanged,
  with the correlation id of its cover as metadata when it has one that is a legal header value
  (and never any other metadata); the answer is the stub's, a status as a \<open>Grpc\<close> error. A
  command is wrapped with the chosen mode, fail-fast cascading and no cascade id, and executing
  without a mode is the asynchronous mode.\<close>

theorem domain_client_requests:
  fixes S :: "('ch, 's, 'w) Stubs" and ch :: 'ch
  shows "gw_execute_with_sync_mode (domain_gateway E S (domain_from_channel ch)) command mode w =
      map_prod (map_err CE_Grpc) id
        (st_handle_command S ch
          \<lparr>req_message = \<lparr>cq_command = Some command, cq_sync_mode = mode,
             cq_cascade_error_mode = pe_cascade_fail_fast E, cq_cascade_id = None\<rparr>,
           req_metadata = correlation_metadata (st_ascii S) (cover_correlation (cb_cover command))\<rparr> w)
    \<and> gw_execute (domain_gateway E S (domain_from_channel ch)) command w =
      gw_execute_with_sync_mode (domain_gateway E S (domain_from_channel ch)) command (pe_sync_async E) w
    \<and> qa_get_event_book (domain_query_api S (domain_from_channel ch)) query w =
      map_prod (map_err CE_Grpc) id
        (st_get_event_book S ch
          \<lparr>req_message = query,
           req_metadata = correlation_metadata (st_ascii S) (cover_correlation (qy_cover query))\<rparr> w)
    \<and> speculate_process_manager S (dc_speculative (domain_from_channel ch)) sp w =
      map_prod (map_err CE_Grpc) id
        (st_pm_speculative S ch
          \<lparr>req_message = sp, req_metadata = correlation_metadata (st_ascii S)
             (book_correlation (Option.bind (spp_request sp) pm_trigger))\<rparr> w)"
proof (intro conjI)
  show "gw_execute (domain_gateway E S (domain_from_channel ch)) command w =
      gw_execute_with_sync_mode (domain_gateway E S (domain_from_channel ch)) command (pe_sync_async E) w"
    by (rule domain_client.execute_is_async)
qed (simp_all add: domain_gateway_def ch_gateway_def client_channel_defs handle_command_def
    command_request_def command_correlation_def call_stub_sends map_prod_def case_prod_unfold
    domain_query_api_def domain_get_event_book_def query_get_event_book_def
    speculate_process_manager_def speculative_from_channel_def)

end
