(* ===== verification/Builders.thy ===== *)
theory Builders
  imports Client Convert
begin

text \<open>
  \<^verbatim>\<open>src/src/builder.rs\<close>: the fluent builders of commands and queries, and the helpers
  that read a response.

  A builder is the record of its fields without the borrowed client, which is an argument of
  the operations that run it. \<open>Uuid::new_v4()\<close> is a random source: the UUID drawn is the
  argument \<open>fresh\<close>. A message given to \<open>with_command\<close> is its encoding.
\<close>

section \<open>Command builder\<close>

record 'u CommandBuilder =
  cmb_domain :: string
  cmb_root :: "'u option"
  cmb_correlation_id :: "string option"
  cmb_sequence :: "u32 option"
  cmb_merge_strategy :: i32
  cmb_type_url :: "string option"
  cmb_payload :: "bytes option"

text \<open>\<open>merge_commutative\<close> is the number of \<open>MergeStrategy::MergeCommutative\<close>.\<close>

definition CommandBuilder_new :: "i32 \<Rightarrow> string \<Rightarrow> 'u \<Rightarrow> 'u CommandBuilder" where
  "CommandBuilder_new merge_commutative domain root =
     \<lparr>cmb_domain = domain, cmb_root = Some root, cmb_correlation_id = None, cmb_sequence = None,
      cmb_merge_strategy = merge_commutative, cmb_type_url = None, cmb_payload = None\<rparr>"

definition with_correlation_id :: "string \<Rightarrow> 'u CommandBuilder \<Rightarrow> 'u CommandBuilder" where
  "with_correlation_id corr b = b\<lparr>cmb_correlation_id := Some corr\<rparr>"

definition with_sequence :: "u32 \<Rightarrow> 'u CommandBuilder \<Rightarrow> 'u CommandBuilder" where
  "with_sequence seq b = b\<lparr>cmb_sequence := Some seq\<rparr>"

definition with_merge_strategy :: "i32 \<Rightarrow> 'u CommandBuilder \<Rightarrow> 'u CommandBuilder" where
  "with_merge_strategy strategy b = b\<lparr>cmb_merge_strategy := strategy\<rparr>"

definition with_command :: "string \<Rightarrow> bytes \<Rightarrow> 'u CommandBuilder \<Rightarrow> 'u CommandBuilder" where
  "with_command url encoded b = b\<lparr>cmb_type_url := Some url, cmb_payload := Some encoded\<rparr>"

definition build_command :: "'u UuidCrate \<Rightarrow> 'u \<Rightarrow> 'u CommandBuilder \<Rightarrow> ClientError + CommandBook" where
  "build_command U fresh b =
     bindR (ok_or (inv_arg COMMAND_TYPE_URL_MISSING []) (cmb_type_url b)) (\<lambda>url.
     bindR (ok_or (inv_arg COMMAND_PAYLOAD_MISSING []) (cmb_payload b)) (\<lambda>payload.
     bindR (ok_or (inv_arg COMMAND_SEQUENCE_MISSING []) (cmb_sequence b)) (\<lambda>sequence.
     Inr \<lparr>cb_cover = Some
            \<lparr>cv_domain = cmb_domain b, cv_root = map_option (uuid_to_proto U) (cmb_root b),
             cv_correlation_id = unwrap_or (uc_to_string U fresh) (cmb_correlation_id b),
             cv_edition = None\<rparr>,
          cb_pages =
            [\<lparr>cp_header = Some \<lparr>ph_sequence_type = Some (Sequence sequence), ph_sync_mode = None\<rparr>,
              cp_merge_strategy = cmb_merge_strategy b,
              cp_payload = Some (Cmd_Command \<lparr>any_type_url = url, any_value = payload\<rparr>)\<rparr>]\<rparr>)))"

definition execute_command ::
  "'u UuidCrate \<Rightarrow> 'u \<Rightarrow> 'w GatewayClient \<Rightarrow> 'u CommandBuilder \<Rightarrow> i32 \<Rightarrow> 'w \<Rightarrow>
     (ClientError + CommandResponse) \<times> 'w" where
  "execute_command U fresh client b sync_mode w =
     (case build_command U fresh b of
        Inl e \<Rightarrow> (Inl e, w)
      | Inr command \<Rightarrow> gw_execute_with_sync_mode client command sync_mode w)"

text \<open>\<open>CommandBuilderExt\<close>.\<close>

definition command_for :: "i32 \<Rightarrow> string \<Rightarrow> 'u \<Rightarrow> 'u CommandBuilder" where
  "command_for merge_commutative domain root = CommandBuilder_new merge_commutative domain root"

definition command_new :: "i32 \<Rightarrow> string \<Rightarrow> 'u \<Rightarrow> 'u CommandBuilder" where
  "command_new merge_commutative domain fresh = CommandBuilder_new merge_commutative domain fresh"

section \<open>Query builder\<close>

record 'u QueryBuilder =
  qb_domain :: string
  qb_root :: "'u option"
  qb_correlation_id :: "string option"
  qb_selection :: "Selection option"
  qb_edition :: "string option"

definition QueryBuilder_new :: "string \<Rightarrow> 'u option \<Rightarrow> 'u QueryBuilder" where
  "QueryBuilder_new domain root =
     \<lparr>qb_domain = domain, qb_root = root, qb_correlation_id = None, qb_selection = None,
      qb_edition = None\<rparr>"

definition by_correlation_id :: "string \<Rightarrow> 'u QueryBuilder \<Rightarrow> 'u QueryBuilder" where
  "by_correlation_id corr b = b\<lparr>qb_correlation_id := Some corr, qb_root := None\<rparr>"

definition with_edition :: "string \<Rightarrow> 'u QueryBuilder \<Rightarrow> 'u QueryBuilder" where
  "with_edition edition b = b\<lparr>qb_edition := Some edition\<rparr>"

definition select_range :: "u32 \<Rightarrow> 'u QueryBuilder \<Rightarrow> 'u QueryBuilder" where
  "select_range lower b = b\<lparr>qb_selection := Some (Sel_Range \<lparr>srg_lower = lower, srg_upper = None\<rparr>)\<rparr>"

definition range_to :: "u32 \<Rightarrow> u32 \<Rightarrow> 'u QueryBuilder \<Rightarrow> 'u QueryBuilder" where
  "range_to lower upper b =
     b\<lparr>qb_selection := Some (Sel_Range \<lparr>srg_lower = lower, srg_upper = Some upper\<rparr>)\<rparr>"

definition as_of_sequence :: "u32 \<Rightarrow> 'u QueryBuilder \<Rightarrow> 'u QueryBuilder" where
  "as_of_sequence seq b =
     b\<lparr>qb_selection := Some (Sel_Temporal \<lparr>tq_point_in_time = Some (AsOfSequence seq)\<rparr>)\<rparr>"

definition as_of_time ::
  "(string \<Rightarrow> string + (64 word \<times> u32)) \<Rightarrow> string \<Rightarrow> 'u QueryBuilder \<Rightarrow> ClientError + 'u QueryBuilder" where
  "as_of_time chrono rfc3339 b =
     bindR (parse_timestamp chrono rfc3339) (\<lambda>timestamp.
     Inr (b\<lparr>qb_selection := Some (Sel_Temporal \<lparr>tq_point_in_time = Some (AsOfTime timestamp)\<rparr>)\<rparr>))"

definition build_query :: "'u UuidCrate \<Rightarrow> 'u QueryBuilder \<Rightarrow> Query" where
  "build_query U b =
     \<lparr>qy_cover = Some
        \<lparr>cv_domain = qb_domain b, cv_root = map_option (uuid_to_proto U) (qb_root b),
         cv_correlation_id = unwrap_or [] (qb_correlation_id b),
         cv_edition = map_option edition_implicit (qb_edition b)\<rparr>,
      qy_selection = qb_selection b\<rparr>"

definition fetch_event_book ::
  "'u UuidCrate \<Rightarrow> 'w QueryApi \<Rightarrow> 'u QueryBuilder \<Rightarrow> 'w \<Rightarrow> (ClientError + EventBook) \<times> 'w" where
  "fetch_event_book U client b w = qa_get_event_book client (build_query U b) w"

definition fetch_events ::
  "'u UuidCrate \<Rightarrow> 'w QueryApi \<Rightarrow> 'u QueryBuilder \<Rightarrow> 'w \<Rightarrow>
     ((ClientError + EventBook list) \<times> 'w) option" where
  "fetch_events U client b w = qa_get_events client (build_query U b) w"

definition fetch_pages ::
  "'u UuidCrate \<Rightarrow> 'w QueryApi \<Rightarrow> 'u QueryBuilder \<Rightarrow> 'w \<Rightarrow> (ClientError + EventPage list) \<times> 'w" where
  "fetch_pages U client b w =
     (let (res, w1) = fetch_event_book U client b w in (map_ok eb_pages res, w1))"

text \<open>\<open>QueryBuilderExt\<close>.\<close>

definition query_for :: "string \<Rightarrow> 'u \<Rightarrow> 'u QueryBuilder" where
  "query_for domain root = QueryBuilder_new domain (Some root)"

definition query_domain :: "string \<Rightarrow> 'u QueryBuilder" where
  "query_domain domain = QueryBuilder_new domain None"

section \<open>Reading responses\<close>

definition events_from_response :: "CommandResponse \<Rightarrow> EventPage list" where
  "events_from_response response = unwrap_or [] (map_option eb_pages (cres_events response))"

definition decode_event :: "'m Codec \<Rightarrow> EventPage \<Rightarrow> string \<Rightarrow> ClientError + 'm option" where
  "decode_event c event name =
     (case ep_payload event of
        Some (Ev_Event any) \<Rightarrow>
          if \<not> type_url_matches_exact (any_type_url any) name then Inr None
          else map_ok Some (decode_payload c (any_value any) (any_type_url any))
      | _ \<Rightarrow> Inr None)"

text \<open>With the type's own name, reading a page is trying to unpack its payload.\<close>

lemma decode_event_try_unpack:
  "decode_event c event (full_type_name c) =
     (case event_any event of None \<Rightarrow> Inr None | Some any \<Rightarrow> try_unpack c any)"
  by (simp add: decode_event_def event_any_def try_unpack_def type_matches_def
      type_url_matches_exact_def full_type_url_def full_type_name_def
      split: option.split EventPayload.split)

section \<open>The builders against their settings\<close>

text \<open>
  A call on a builder as a value, so that a chain of calls is a list. The latest call of a
  kind is the one that counts.
\<close>

datatype CommandSetting =
    Set_correlation string
  | Set_sequence u32
  | Set_merge i32
  | Set_command string bytes

primrec apply_setting :: "CommandSetting \<Rightarrow> 'u CommandBuilder \<Rightarrow> 'u CommandBuilder" where
  "apply_setting (Set_correlation corr) b = with_correlation_id corr b"
| "apply_setting (Set_sequence seq) b = with_sequence seq b"
| "apply_setting (Set_merge m) b = with_merge_strategy m b"
| "apply_setting (Set_command url encoded) b = with_command url encoded b"

fun latest :: "('a \<Rightarrow> 'b option) \<Rightarrow> 'a list \<Rightarrow> 'b option" where
  "latest f [] = None"
| "latest f (x # xs) = or_else (latest f xs) (f x)"

definition set_correlation :: "CommandSetting \<Rightarrow> string option" where
  "set_correlation s = (case s of Set_correlation corr \<Rightarrow> Some corr | _ \<Rightarrow> None)"
definition set_sequence :: "CommandSetting \<Rightarrow> u32 option" where
  "set_sequence s = (case s of Set_sequence n \<Rightarrow> Some n | _ \<Rightarrow> None)"
definition set_merge :: "CommandSetting \<Rightarrow> i32 option" where
  "set_merge s = (case s of Set_merge m \<Rightarrow> Some m | _ \<Rightarrow> None)"
definition set_command :: "CommandSetting \<Rightarrow> (string \<times> bytes) option" where
  "set_command s = (case s of Set_command url v \<Rightarrow> Some (url, v) | _ \<Rightarrow> None)"

lemmas setting_defs = set_correlation_def set_sequence_def set_merge_def set_command_def
  with_correlation_id_def with_sequence_def with_merge_strategy_def with_command_def

lemma latest_snoc: "latest f (xs @ [x]) = or_else (f x) (latest f xs)"
  by (induction xs) (auto simp: or_else_def split: option.split)

lemma apply_settings:
  "fold apply_setting ss (b :: 'u CommandBuilder) =
     b\<lparr>cmb_correlation_id := or_else (latest set_correlation ss) (cmb_correlation_id b),
       cmb_sequence := or_else (latest set_sequence ss) (cmb_sequence b),
       cmb_merge_strategy := unwrap_or (cmb_merge_strategy b) (latest set_merge ss),
       cmb_type_url := or_else (map_option fst (latest set_command ss)) (cmb_type_url b),
       cmb_payload := or_else (map_option snd (latest set_command ss)) (cmb_payload b)\<rparr>"
proof (induction ss rule: rev_induct)
  case (snoc s ss)
  then show ?case by (cases s) (simp_all add: latest_snoc setting_defs)
qed (simp add: or_else_def)

text \<open>C25: What a chain of calls on a command builder builds. Whatever the calls and their order,
  the latest of each kind counts: the book addresses the given domain and root, carries the
  latest correlation id or else the fresh UUID's text, and one page with the latest sequence,
  merge strategy (commutative by default) and command. Without a command, or else without a
  sequence, it is the error naming what is missing; \<open>COMMAND_PAYLOAD_MISSING\<close> cannot occur.\<close>

theorem command_builder_contract:
  "build_command U fresh (fold apply_setting ss (command_for merge domain root)) =
     (case latest set_command ss of
        None \<Rightarrow> Inl (inv_arg COMMAND_TYPE_URL_MISSING [])
      | Some (url, encoded) \<Rightarrow>
          (case latest set_sequence ss of
             None \<Rightarrow> Inl (inv_arg COMMAND_SEQUENCE_MISSING [])
           | Some seq \<Rightarrow>
               Inr \<lparr>cb_cover = Some \<lparr>cv_domain = domain, cv_root = Some \<lparr>uuid_value = uc_as_bytes U root\<rparr>,
                      cv_correlation_id = unwrap_or (uc_to_string U fresh) (latest set_correlation ss),
                      cv_edition = None\<rparr>,
                    cb_pages = [\<lparr>cp_header = Some \<lparr>ph_sequence_type = Some (Sequence seq), ph_sync_mode = None\<rparr>,
                      cp_merge_strategy = unwrap_or merge (latest set_merge ss),
                      cp_payload = Some (Cmd_Command \<lparr>any_type_url = url, any_value = encoded\<rparr>)\<rparr>]\<rparr>))"
  unfolding apply_settings
  by (simp add: build_command_def command_for_def CommandBuilder_new_def uuid_to_proto_def or_else_def
      split: option.split)

text \<open>The calls on a query builder; \<open>as_of_time\<close> is the one that can fail.\<close>

datatype QuerySetting =
    By_correlation string
  | On_edition string
  | In_range u32 "u32 option"
  | At_sequence u32
  | At_time string

definition apply_query ::
  "(string \<Rightarrow> string + (64 word \<times> u32)) \<Rightarrow> QuerySetting \<Rightarrow> 'u QueryBuilder \<Rightarrow> ClientError + 'u QueryBuilder" where
  "apply_query chrono s b =
     (case s of
        By_correlation corr \<Rightarrow> Inr (by_correlation_id corr b)
      | On_edition edition \<Rightarrow> Inr (with_edition edition b)
      | In_range lower None \<Rightarrow> Inr (select_range lower b)
      | In_range lower (Some upper) \<Rightarrow> Inr (range_to lower upper b)
      | At_sequence seq \<Rightarrow> Inr (as_of_sequence seq b)
      | At_time t \<Rightarrow> as_of_time chrono t b)"

fun apply_queries ::
  "(string \<Rightarrow> string + (64 word \<times> u32)) \<Rightarrow> QuerySetting list \<Rightarrow> 'u QueryBuilder \<Rightarrow> ClientError + 'u QueryBuilder" where
  "apply_queries chrono [] b = Inr b"
| "apply_queries chrono (s # ss) b = bindR (apply_query chrono s b) (apply_queries chrono ss)"

definition query_correlation :: "QuerySetting \<Rightarrow> string option" where
  "query_correlation s = (case s of By_correlation corr \<Rightarrow> Some corr | _ \<Rightarrow> None)"

definition query_edition :: "QuerySetting \<Rightarrow> string option" where
  "query_edition s = (case s of On_edition edition \<Rightarrow> Some edition | _ \<Rightarrow> None)"

definition query_selection ::
  "(string \<Rightarrow> string + (64 word \<times> u32)) \<Rightarrow> QuerySetting \<Rightarrow> Selection option" where
  "query_selection chrono s =
     (case s of
        In_range lower upper \<Rightarrow> Some (Sel_Range \<lparr>srg_lower = lower, srg_upper = upper\<rparr>)
      | At_sequence seq \<Rightarrow> Some (Sel_Temporal \<lparr>tq_point_in_time = Some (AsOfSequence seq)\<rparr>)
      | At_time t \<Rightarrow>
          (case chrono t of
             Inr (secs, subsecs) \<Rightarrow> Some (Sel_Temporal \<lparr>tq_point_in_time =
               Some (AsOfTime \<lparr>ts_seconds = secs, ts_nanos = subsecs\<rparr>)\<rparr>)
           | Inl _ \<Rightarrow> None)
      | _ \<Rightarrow> None)"

definition bad_time ::
  "(string \<Rightarrow> string + (64 word \<times> u32)) \<Rightarrow> QuerySetting \<Rightarrow> ClientError option" where
  "bad_time chrono s =
     (case s of
        At_time t \<Rightarrow>
          (case chrono t of
             Inl e \<Rightarrow> Some (invalid_timestamp (codes TIMESTAMP_PARSE_FAILED)
                        (messages TIMESTAMP_PARSE_FAILED) [(keys K_INPUT, t), (keys K_CAUSE, e)])
           | Inr _ \<Rightarrow> None)
      | _ \<Rightarrow> None)"

lemmas query_setting_defs = query_correlation_def query_edition_def query_selection_def
  bad_time_def by_correlation_id_def with_edition_def select_range_def range_to_def
  as_of_sequence_def as_of_time_def parse_timestamp_def

lemma apply_query_step:
  "apply_query chrono s b =
     (case bad_time chrono s of
        Some e \<Rightarrow> Inl e
      | None \<Rightarrow> Inr (b\<lparr>
          qb_root := (if query_correlation s = None then qb_root b else None),
          qb_correlation_id := or_else (query_correlation s) (qb_correlation_id b),
          qb_selection := or_else (query_selection chrono s) (qb_selection b),
          qb_edition := or_else (query_edition s) (qb_edition b)\<rparr>))"
  by (cases s; cases b)
    (auto simp: apply_query_def query_setting_defs split: option.split sum.split prod.split)

lemma apply_queries_latest:
  "apply_queries chrono ss b =
     (case latest (\<lambda>s. bad_time chrono s) (rev ss) of
        Some e \<Rightarrow> Inl e
      | None \<Rightarrow> Inr (b\<lparr>
          qb_root := (if latest query_correlation ss = None then qb_root b else None),
          qb_correlation_id := or_else (latest query_correlation ss) (qb_correlation_id b),
          qb_selection := or_else (latest (query_selection chrono) ss) (qb_selection b),
          qb_edition := or_else (latest query_edition ss) (qb_edition b)\<rparr>))"
proof (induction ss arbitrary: b)
  case (Cons s ss)
  show ?case
    by (auto simp: Cons.IH apply_query_step latest_snoc or_else_def split: option.split)
qed (simp add: or_else_def)

text \<open>C39: What a chain of calls on a query builder builds. The first timestamp that does not
  parse ends the chain with an error naming the text; otherwise the query has the latest
  selection, edition and correlation id (empty by default), and the root it was started with
  unless a correlation id was asked for, which clears it for good.\<close>

theorem query_builder_contract:
  "map_ok (build_query U) (apply_queries chrono ss (QueryBuilder_new domain root)) =
     (case latest (bad_time chrono) (rev ss) of
        Some e \<Rightarrow> Inl e
      | None \<Rightarrow> Inr
          \<lparr>qy_cover = Some
             \<lparr>cv_domain = domain,
              cv_root = (if latest query_correlation ss = None
                         then map_option (uuid_to_proto U) root else None),
              cv_correlation_id = unwrap_or [] (latest query_correlation ss),
              cv_edition = map_option (\<lambda>n. \<lparr>ed_name = n, ed_divergences = []\<rparr>) (latest query_edition ss)\<rparr>,
           qy_selection = latest (query_selection chrono) ss\<rparr>)"
  by (auto simp: apply_queries_latest build_query_def QueryBuilder_new_def edition_implicit_def
      or_else_def split: option.split)

section \<open>From the builder to the wire\<close>

context gateway
begin

lemma execute_command_async:
  "execute_command U fresh client b async w =
     (case build_command U fresh b of Inl e \<Rightarrow> (Inl e, w) | Inr command \<Rightarrow> gw_execute client command w)"
  by (simp add: execute_command_def execute_is_async split: sum.split)

lemma execute_command_error:
  "build_command U fresh b = Inl e \<Longrightarrow> execute_command U fresh client b mode w = (Inl e, w)"
  by (simp add: execute_command_def)

end

text \<open>C24: Executing a builder on a domain client sends the command as built. Whatever chain of
  setters made it, an incomplete builder fails with its error and without any request; otherwise
  exactly one request goes over the client's channel, with the chosen mode, and the coordinator's
  answer is the answer. The request's metadata is the correlation id the last setter gave, or the
  fresh UUID's text where none did, if that is not empty and is a valid metadata value
  (\<open>st_ascii\<close>); for any other correlation id no metadata is sent.\<close>

theorem built_command_is_sent:
  fixes S :: "('ch, 's, 'w) Stubs" and ch :: 'ch
  shows "execute_command U fresh (domain_gateway E S (domain_from_channel ch))
       (fold apply_setting ss (command_for merge domain root)) mode w =
     (case build_command U fresh (fold apply_setting ss (command_for merge domain root)) of
        Inl e \<Rightarrow> (Inl e, w)
      | Inr book \<Rightarrow>
          let corr = unwrap_or (uc_to_string U fresh) (latest set_correlation ss)
          in map_prod (map_err CE_Grpc) id
               (st_handle_command S ch
                  \<lparr>req_message = \<lparr>cq_command = Some book, cq_sync_mode = mode,
                     cq_cascade_error_mode = pe_cascade_fail_fast E, cq_cascade_id = None\<rparr>,
                   req_metadata =
                     (if corr \<noteq> [] \<and> st_ascii S corr then [CORRELATION_ID_HEADER \<mapsto> corr]
                      else Map.empty)\<rparr> w))"
proof (cases "build_command U fresh (fold apply_setting ss (command_for merge domain root))")
  case (Inl e)
  then show ?thesis by (simp add: domain_client.execute_command_error)
next
  case (Inr book)
  then have "cover_correlation (cb_cover book) =
      unwrap_or (uc_to_string U fresh) (latest set_correlation ss)"
    by (auto simp: apply_settings build_command_def bindR_eq_Inr cover_correlation_def or_else_def
        command_for_def CommandBuilder_new_def split: option.split)
  then show ?thesis
    using Inr
    by (simp add: execute_command_def domain_gateway_def ch_gateway_def client_channel_defs
        handle_command_def command_request_def command_correlation_def call_stub_sends
        correlation_metadata_def map_prod_def case_prod_unfold Let_def)
qed

text \<open>Stubs that count calls and answer a command only when it carries a correlation id.\<close>

definition refused :: "Status + 'a" where
  "refused = Inl \<lparr>status_code_of = Code_Unimplemented, status_message = []\<rparr>"

definition counting_stubs :: "(unit, unit, nat) Stubs" where
  "counting_stubs =
     \<lparr>st_ascii = (\<lambda>s. True), st_get_event_book = (\<lambda>_ _ w. (refused, Suc w)),
      st_get_events = (\<lambda>_ _ w. (refused, Suc w)), st_message = (\<lambda>_ w. (refused, w)),
      st_handle_command = (\<lambda>_ req w.
        (if req_metadata req CORRELATION_ID_HEADER = None then refused
         else Inr \<lparr>cres_events = None, cres_projections = []\<rparr>, Suc w)),
      st_handle_sync_speculative = (\<lambda>_ _ w. (refused, Suc w)),
      st_projector_speculative = (\<lambda>_ _ w. (refused, Suc w)),
      st_saga_speculative = (\<lambda>_ _ w. (refused, Suc w)),
      st_pm_speculative = (\<lambda>_ _ w. (refused, Suc w))\<rparr>"

theorem built_command_is_sent_witness:
  "execute_command uuid16_crate (uc_namespace_dns uuid16_crate)
     (domain_gateway \<lparr>pe_sync_async = 1, pe_cascade_fail_fast = 0\<rparr> counting_stubs (domain_from_channel ()))
     (fold apply_setting [Set_command ''t/x'' [7], Set_correlation ''c1'', Set_sequence 4]
        (command_for 0 ''order'' (uc_namespace_oid uuid16_crate))) 1 0
   = (Inr \<lparr>cres_events = None, cres_projections = []\<rparr>, 1)"
proof -
  let ?ss = "[Set_command ''t/x'' [7], Set_correlation ''c1'', Set_sequence 4]"
  have c: "latest set_correlation ?ss = Some ''c1''" by (simp add: set_correlation_def)
  show ?thesis
    by (subst built_command_is_sent, unfold c)
      (simp_all add: setting_defs build_command_def command_for_def CommandBuilder_new_def
        counting_stubs_def)
qed

end
