(* ===== verification/Validation.thy ===== *)
theory Validation
  imports Errors
begin

text \<open>
  \<^verbatim>\<open>src/src/validation.rs\<close>: the precondition guards of command handlers. A guard returns
  \<open>Ok(())\<close> or the rejection a handler propagates with \<open>?\<close>. The log line each failing guard
  writes has no effect on its result and is left out.

  The numeric guards take any \<open>T: PartialOrd + Default\<close>: here the comparison and the default
  are arguments, and \<open><=\<close> and \<open><\<close> are the operators Rust derives from the comparison, which
  are both false on values that cannot be compared. The status guards take any \<open>T: PartialEq\<close>:
  its \<open>==\<close> is an argument.
\<close>

section \<open>Comparisons\<close>

datatype ordering = Less | Equal | Greater

definition pord_le :: "('t \<Rightarrow> 't \<Rightarrow> ordering option) \<Rightarrow> 't \<Rightarrow> 't \<Rightarrow> bool" where
  "pord_le cmp a b \<longleftrightarrow> cmp a b = Some Less \<or> cmp a b = Some Equal"

definition pord_lt :: "('t \<Rightarrow> 't \<Rightarrow> ordering option) \<Rightarrow> 't \<Rightarrow> 't \<Rightarrow> bool" where
  "pord_lt cmp a b \<longleftrightarrow> cmp a b = Some Less"

section \<open>Guards\<close>

definition require_exists :: "bool \<Rightarrow> string \<Rightarrow> CommandRejectedError + unit" where
  "require_exists ex ctx =
     (if \<not> ex then Inl (rej_not_found (codes ENTITY_NOT_FOUND) (messages ENTITY_NOT_FOUND)
                          [(keys K_CONTEXT, ctx)])
      else Inr ())"

definition require_not_exists :: "bool \<Rightarrow> string \<Rightarrow> CommandRejectedError + unit" where
  "require_not_exists ex ctx =
     (if ex then Inl (rej_precondition_failed (codes ENTITY_ALREADY_EXISTS)
                        (messages ENTITY_ALREADY_EXISTS) [(keys K_CONTEXT, ctx)])
      else Inr ())"

definition require_positive ::
  "('t \<Rightarrow> 't \<Rightarrow> ordering option) \<Rightarrow> 't \<Rightarrow> 't \<Rightarrow> string \<Rightarrow> CommandRejectedError + unit" where
  "require_positive cmp zero v field_name =
     (if pord_le cmp v zero
      then Inl (rej_invalid_argument (codes VALUE_NOT_POSITIVE) (messages VALUE_NOT_POSITIVE)
                  [(keys K_FIELD, field_name)])
      else Inr ())"

definition require_non_negative ::
  "('t \<Rightarrow> 't \<Rightarrow> ordering option) \<Rightarrow> 't \<Rightarrow> 't \<Rightarrow> string \<Rightarrow> CommandRejectedError + unit" where
  "require_non_negative cmp zero v field_name =
     (if pord_lt cmp v zero
      then Inl (rej_invalid_argument (codes VALUE_NOT_NON_NEGATIVE)
                  (messages VALUE_NOT_NON_NEGATIVE) [(keys K_FIELD, field_name)])
      else Inr ())"

definition require_not_empty_str :: "string \<Rightarrow> string \<Rightarrow> CommandRejectedError + unit" where
  "require_not_empty_str v field_name =
     (if v = [] then Inl (rej_invalid_argument (codes VALUE_EMPTY) (messages VALUE_EMPTY)
                            [(keys K_FIELD, field_name)])
      else Inr ())"

definition require_not_empty :: "'t list \<Rightarrow> string \<Rightarrow> CommandRejectedError + unit" where
  "require_not_empty items field_name =
     (if items = [] then Inl (rej_invalid_argument (codes COLLECTION_EMPTY)
                                (messages COLLECTION_EMPTY) [(keys K_FIELD, field_name)])
      else Inr ())"

definition require_status ::
  "('t \<Rightarrow> 't \<Rightarrow> bool) \<Rightarrow> 't \<Rightarrow> 't \<Rightarrow> string \<Rightarrow> CommandRejectedError + unit" where
  "require_status eq actual expected ctx =
     (if \<not> eq actual expected
      then Inl (rej_precondition_failed (codes STATUS_MISMATCH) (messages STATUS_MISMATCH)
                  [(keys K_CONTEXT, ctx)])
      else Inr ())"

definition require_status_not ::
  "('t \<Rightarrow> 't \<Rightarrow> bool) \<Rightarrow> 't \<Rightarrow> 't \<Rightarrow> string \<Rightarrow> CommandRejectedError + unit" where
  "require_status_not eq actual forbidden ctx =
     (if eq actual forbidden
      then Inl (rej_precondition_failed (codes STATUS_FORBIDDEN) (messages STATUS_FORBIDDEN)
                  [(keys K_CONTEXT, ctx)])
      else Inr ())"

section \<open>The contract of a guard\<close>

text \<open>
  What a handler relies on: the guard passes exactly when its condition holds, and a failing
  guard is a rejection whose code, text and gRPC status are fixed, the caller's own text being
  in the details.
\<close>

locale guard =
  fixes check :: "'a \<Rightarrow> CommandRejectedError + unit"
    and holds :: "'a \<Rightarrow> bool"
    and e :: err
    and status :: Code
    and details :: details
  assumes passes: "holds a \<Longrightarrow> check a = Inr ()"
    and rejects: "\<not> holds a \<Longrightarrow> \<exists>r. check a = Inl r \<and> cr_code r = codes e \<and>
      cr_details r = details \<and>
      rejected_to_status r = \<lparr>status_code_of = status, status_message = messages e\<rparr>"
begin

lemma decides: "check a = Inr () \<longleftrightarrow> holds a"
  using passes [of a] rejects [of a] by (cases "holds a") auto

text \<open>What the caller of the service sees of a handler that runs the guard first.\<close>

lemma behind:
  "map_err (\<lambda>r. client_error_to_status (client_error_from_rejected r))
     (bindR (check a) (\<lambda>_. m)) =
     (if holds a then map_err (\<lambda>r. client_error_to_status (client_error_from_rejected r)) m
      else Inl \<lparr>status_code_of = status, status_message = messages e\<rparr>)"
  using passes [of a] rejects [of a] by (auto simp: client_error_from_rejected_def)

text \<open>Its events imply the condition.\<close>

lemma guards: "bindR (check a) (\<lambda>_. m) = Inr b \<longleftrightarrow> holds a \<and> m = Inr b"
  using passes [of a] rejects [of a] by (cases "holds a") auto

end

lemmas rej_defs = rej_not_found_def rej_precondition_failed_def rej_invalid_argument_def
  rejected_to_status_def

interpretation existing: guard "\<lambda>b. require_exists b ctx" "\<lambda>b. b" ENTITY_NOT_FOUND
    Code_NotFound "collect_map [(keys K_CONTEXT, ctx)]" for ctx
  by unfold_locales (simp_all add: require_exists_def rej_defs)

interpretation absent: guard "\<lambda>b. require_not_exists b ctx" Not ENTITY_ALREADY_EXISTS
    Code_FailedPrecondition "collect_map [(keys K_CONTEXT, ctx)]" for ctx
  by unfold_locales (simp_all add: require_not_exists_def rej_defs)

interpretation positive: guard "\<lambda>v. require_positive cmp zero v f"
    "\<lambda>v. cmp v zero = Some Greater \<or> cmp v zero = None" VALUE_NOT_POSITIVE
    Code_InvalidArgument "collect_map [(keys K_FIELD, f)]" for cmp zero f
proof unfold_locales
  fix v
  have o: "\<not> pord_le cmp v zero \<longleftrightarrow> cmp v zero = Some Greater \<or> cmp v zero = None"
    by (cases "cmp v zero") (auto simp: pord_le_def intro: ordering.exhaust)
  show "require_positive cmp zero v f = Inr ()"
    if "cmp v zero = Some Greater \<or> cmp v zero = None"
    using that o by (simp add: require_positive_def)
  show "\<exists>r. require_positive cmp zero v f = Inl r \<and> cr_code r = codes VALUE_NOT_POSITIVE \<and>
      cr_details r = collect_map [(keys K_FIELD, f)] \<and>
      rejected_to_status r =
        \<lparr>status_code_of = Code_InvalidArgument, status_message = messages VALUE_NOT_POSITIVE\<rparr>"
    if "\<not> (cmp v zero = Some Greater \<or> cmp v zero = None)"
    using that o by (simp add: require_positive_def rej_defs)
qed

interpretation non_negative: guard "\<lambda>v. require_non_negative cmp zero v f"
    "\<lambda>v. cmp v zero \<noteq> Some Less" VALUE_NOT_NON_NEGATIVE Code_InvalidArgument
    "collect_map [(keys K_FIELD, f)]" for cmp zero f
  by unfold_locales (simp_all add: require_non_negative_def pord_lt_def rej_defs)

interpretation text_present: guard "\<lambda>v. require_not_empty_str v f" "\<lambda>v. v \<noteq> []" VALUE_EMPTY
    Code_InvalidArgument "collect_map [(keys K_FIELD, f)]" for f
  by unfold_locales (simp_all add: require_not_empty_str_def rej_defs)

interpretation items_present: guard "\<lambda>v. require_not_empty v f" "\<lambda>v. v \<noteq> []" COLLECTION_EMPTY
    Code_InvalidArgument "collect_map [(keys K_FIELD, f)]" for f
  by unfold_locales (simp_all add: require_not_empty_def rej_defs)

interpretation status_is: guard "\<lambda>v. require_status eq v expected ctx" "\<lambda>v. eq v expected"
    STATUS_MISMATCH Code_FailedPrecondition "collect_map [(keys K_CONTEXT, ctx)]" for eq expected ctx
  by unfold_locales (simp_all add: require_status_def rej_defs)

interpretation status_is_not: guard "\<lambda>v. require_status_not eq v forbidden ctx"
    "\<lambda>v. \<not> eq v forbidden" STATUS_FORBIDDEN Code_FailedPrecondition
    "collect_map [(keys K_CONTEXT, ctx)]" for eq forbidden ctx
  by unfold_locales (simp_all add: require_status_not_def rej_defs)

section \<open>Properties\<close>

text \<open>C40: A handler behind the guards. One that first requires the aggregate to exist, then
  its status to be the expected one, then the amount to be positive, produces its events
  exactly when all three conditions hold; otherwise the caller sees the status of the first
  guard that fails, in that order: \<open>NotFound\<close>, \<open>FailedPrecondition\<close>, \<open>InvalidArgument\<close>. An
  amount that cannot be compared with the default, such as a floating-point NaN, passes both
  numeric guards; every other value that is positive is also non-negative.\<close>

theorem guarded_handler:
  "map_err (\<lambda>r. client_error_to_status (client_error_from_rejected r))
     (bindR (require_exists ex ctx) (\<lambda>_.
      bindR (require_status eq actual expected ctx') (\<lambda>_.
      bindR (require_positive cmp zero amount field) (\<lambda>_. Inr events))))
   = (if \<not> ex then
        Inl \<lparr>status_code_of = Code_NotFound, status_message = messages ENTITY_NOT_FOUND\<rparr>
      else if \<not> eq actual expected then
        Inl \<lparr>status_code_of = Code_FailedPrecondition, status_message = messages STATUS_MISMATCH\<rparr>
      else if cmp amount zero \<in> {Some Less, Some Equal} then
        Inl \<lparr>status_code_of = Code_InvalidArgument, status_message = messages VALUE_NOT_POSITIVE\<rparr>
      else Inr events)
   \<and> (require_positive cmp zero amount field = Inr () \<longleftrightarrow>
        cmp amount zero = Some Greater \<or> cmp amount zero = None)
   \<and> (require_non_negative cmp zero amount field = Inr () \<longleftrightarrow>
        require_positive cmp zero amount field = Inr () \<or> cmp amount zero = Some Equal)"
proof -
  have "cmp amount zero \<in> {Some Less, Some Equal} \<longleftrightarrow>
      \<not> (cmp amount zero = Some Greater \<or> cmp amount zero = None)"
    by (cases "cmp amount zero") (auto intro: ordering.exhaust)
  then show ?thesis
    by (simp add: existing.behind status_is.behind positive.behind positive.decides
        non_negative.decides) (metis ordering.exhaust not_None_eq ordering.distinct option.inject)
qed

end
