(* ===== verification/Testkit.thy ===== *)
theory Testkit
  imports Pages
begin

text \<open>
  \<^verbatim>\<open>src/src/identity.rs\<close> (aggregate roots computed from business keys) and
  \<^verbatim>\<open>src/src/testing\<close> (message builders, the scenario context and deterministic UUIDs of the
  test toolkit).

  The UUID crate is the record \<open>UuidCrate\<close>; \<open>Uuid::from_u128\<close>, which only a constant uses, is
  an argument \<open>from_u128\<close>. The clock answers the reads of \<open>SystemTime::now\<close> in order: the
  \<open>i\<close>-th read of a computation is \<open>clock i\<close>, and it is \<open>None\<close> before the epoch, where \<open>now\<close>
  panics. The opaque boxes of a scenario are type variables.
\<close>

section \<open>Identity\<close>

definition as_bytes :: "string \<Rightarrow> bytes" where
  "as_bytes s = map of_char s"

definition INVENTORY_PRODUCT_NAMESPACE :: "'u UuidCrate \<Rightarrow> 'u" where
  "INVENTORY_PRODUCT_NAMESPACE U = uc_namespace_dns U"

text \<open>The local \<open>seed\<close> of \<open>compute_root\<close>.\<close>

definition root_seed :: "string \<Rightarrow> string \<Rightarrow> string" where
  "root_seed domain business_key = ''angzarr'' @ domain @ business_key"

definition compute_root :: "'u UuidCrate \<Rightarrow> string \<Rightarrow> string \<Rightarrow> 'u" where
  "compute_root U domain business_key =
     uc_new_v5 U (uc_namespace_oid U) (as_bytes (root_seed domain business_key))"

definition inventory_product_root :: "'u UuidCrate \<Rightarrow> string \<Rightarrow> 'u" where
  "inventory_product_root U product_id =
     uc_new_v5 U (INVENTORY_PRODUCT_NAMESPACE U) (as_bytes product_id)"

definition customer_root :: "'u UuidCrate \<Rightarrow> string \<Rightarrow> 'u" where
  "customer_root U email = compute_root U ''customer'' email"

definition product_root :: "'u UuidCrate \<Rightarrow> string \<Rightarrow> 'u" where
  "product_root U sku = compute_root U ''product'' sku"

definition order_root :: "'u UuidCrate \<Rightarrow> string \<Rightarrow> 'u" where
  "order_root U order_id = compute_root U ''order'' order_id"

definition inventory_root :: "'u UuidCrate \<Rightarrow> string \<Rightarrow> 'u" where
  "inventory_root U product_id = compute_root U ''inventory'' product_id"

definition cart_root :: "'u UuidCrate \<Rightarrow> string \<Rightarrow> 'u" where
  "cart_root U customer_id = compute_root U ''cart'' customer_id"

definition fulfillment_root :: "'u UuidCrate \<Rightarrow> string \<Rightarrow> 'u" where
  "fulfillment_root U order_id = compute_root U ''fulfillment'' order_id"

definition to_proto_bytes :: "'u UuidCrate \<Rightarrow> 'u \<Rightarrow> bytes" where
  "to_proto_bytes U i = uc_as_bytes U i"

section \<open>Deterministic UUIDs of tests\<close>

definition DEFAULT_TEST_NAMESPACE :: "(128 word \<Rightarrow> 'u) \<Rightarrow> 'u" where
  "DEFAULT_TEST_NAMESPACE from_u128 = from_u128 0xa1b2c3d4e5f67890abcdef1234567890"

definition uuid_obj_for :: "'u UuidCrate \<Rightarrow> string \<Rightarrow> 'u \<Rightarrow> 'u" where
  "uuid_obj_for U name namespace = uc_new_v5 U namespace (as_bytes name)"

definition uuid_for :: "'u UuidCrate \<Rightarrow> string \<Rightarrow> 'u \<Rightarrow> bytes" where
  "uuid_for U name namespace = uc_as_bytes U (uc_new_v5 U namespace (as_bytes name))"

definition uuid_str_for :: "'u UuidCrate \<Rightarrow> string \<Rightarrow> 'u \<Rightarrow> string" where
  "uuid_str_for U name namespace = uc_to_string U (uc_new_v5 U namespace (as_bytes name))"

definition uuid_for_default :: "'u UuidCrate \<Rightarrow> (128 word \<Rightarrow> 'u) \<Rightarrow> string \<Rightarrow> bytes" where
  "uuid_for_default U from_u128 name = uuid_for U name (DEFAULT_TEST_NAMESPACE from_u128)"

definition uuid_str_for_default :: "'u UuidCrate \<Rightarrow> (128 word \<Rightarrow> 'u) \<Rightarrow> string \<Rightarrow> string" where
  "uuid_str_for_default U from_u128 name = uuid_str_for U name (DEFAULT_TEST_NAMESPACE from_u128)"

definition uuid_obj_for_default :: "'u UuidCrate \<Rightarrow> (128 word \<Rightarrow> 'u) \<Rightarrow> string \<Rightarrow> 'u" where
  "uuid_obj_for_default U from_u128 name = uuid_obj_for U name (DEFAULT_TEST_NAMESPACE from_u128)"

section \<open>Message builders\<close>

definition make_timestamp :: "(64 word \<times> u32) option \<Rightarrow> Timestamp panicking" where
  "make_timestamp clock = now_ts clock"

definition pack_event :: "'m Codec \<Rightarrow> 'm \<Rightarrow> Any_msg" where
  "pack_event c msg = \<lparr>any_type_url = type_url (cd_name c), any_value = cd_encode c msg\<rparr>"

definition make_cover :: "string \<Rightarrow> bytes \<Rightarrow> string \<Rightarrow> Cover" where
  "make_cover domain root corr =
     \<lparr>cv_domain = domain, cv_root = Some \<lparr>uuid_value = root\<rparr>, cv_correlation_id = corr,
      cv_edition = None\<rparr>"

definition make_event_page ::
  "(64 word \<times> u32) option \<Rightarrow> u32 \<Rightarrow> Any_msg \<Rightarrow> EventPage panicking" where
  "make_event_page clock sequence event =
     (case make_timestamp clock of
        Panicked msg \<Rightarrow> Panicked msg
      | Returned ts \<Rightarrow> Returned
          \<lparr>ep_header = Some \<lparr>ph_sequence_type = Some (Sequence sequence), ph_sync_mode = None\<rparr>,
           ep_created_at = Some ts, ep_payload = Some (Ev_Event event), ep_cascade_id = None,
           ep_no_commit = False\<rparr>)"

definition make_event_book :: "Cover \<Rightarrow> EventPage list \<Rightarrow> u32 option \<Rightarrow> EventBook" where
  "make_event_book cover pages next_sequence =
     \<lparr>eb_cover = Some cover, eb_pages = pages, eb_snapshot = None,
      eb_next_sequence = unwrap_or (of_nat (length pages)) next_sequence\<rparr>"

definition make_command_page :: "u32 \<Rightarrow> Any_msg \<Rightarrow> CommandPage" where
  "make_command_page sequence command =
     \<lparr>cp_header = Some \<lparr>ph_sequence_type = Some (Sequence sequence), ph_sync_mode = None\<rparr>,
      cp_merge_strategy = 0, cp_payload = Some (Cmd_Command command)\<rparr>"

definition make_command_book :: "Cover \<Rightarrow> Any_msg \<Rightarrow> u32 option \<Rightarrow> CommandBook" where
  "make_command_book cover command sequence =
     \<lparr>cb_cover = Some cover, cb_pages = [make_command_page (unwrap_or 0 sequence) command]\<rparr>"

section \<open>The scenario context\<close>

record ('r, 's) ScenarioContext =
  sc_domain :: string
  sc_root :: bytes
  sc_events :: "Any_msg list"
  sc_result :: "'r option"
  sc_error :: "CommandRejectedError option"
  sc_state :: "'s option"

definition ScenarioContext_new :: "('r, 's) ScenarioContext" where
  "ScenarioContext_new =
     \<lparr>sc_domain = [], sc_root = replicate 16 0, sc_events = [], sc_result = None,
      sc_error = None, sc_state = None\<rparr>"

text \<open>The pages of \<open>event_book\<close>: the \<open>enumerate\<close> and \<open>map\<close> of the events, from index \<open>i\<close> on.\<close>

fun scenario_pages ::
  "(nat \<Rightarrow> (64 word \<times> u32) option) \<Rightarrow> nat \<Rightarrow> Any_msg list \<Rightarrow> EventPage list panicking" where
  "scenario_pages clock i [] = Returned []"
| "scenario_pages clock i (ev # evs) =
     (case make_event_page (clock i) (of_nat i) ev of
        Panicked msg \<Rightarrow> Panicked msg
      | Returned p \<Rightarrow>
          (case scenario_pages clock (Suc i) evs of
             Panicked msg \<Rightarrow> Panicked msg
           | Returned ps \<Rightarrow> Returned (p # ps)))"

definition scenario_event_book ::
  "(nat \<Rightarrow> (64 word \<times> u32) option) \<Rightarrow> ('r, 's) ScenarioContext \<Rightarrow> EventBook panicking" where
  "scenario_event_book clock ctx =
     (case scenario_pages clock 0 (sc_events ctx) of
        Panicked msg \<Rightarrow> Panicked msg
      | Returned pages \<Rightarrow>
          Returned (make_event_book (make_cover (sc_domain ctx) (sc_root ctx) []) pages None))"

definition add_event :: "'m Codec \<Rightarrow> 'm \<Rightarrow> ('r, 's) ScenarioContext \<Rightarrow> ('r, 's) ScenarioContext" where
  "add_event c msg ctx = ctx\<lparr>sc_events := sc_events ctx @ [pack_event c msg]\<rparr>"

definition clear_events :: "('r, 's) ScenarioContext \<Rightarrow> ('r, 's) ScenarioContext" where
  "clear_events ctx = ctx\<lparr>sc_events := []\<rparr>"

definition clear_result :: "('r, 's) ScenarioContext \<Rightarrow> ('r, 's) ScenarioContext" where
  "clear_result ctx = ctx\<lparr>sc_result := None, sc_error := None\<rparr>"

definition reset_scenario :: "('r, 's) ScenarioContext \<Rightarrow> ('r, 's) ScenarioContext" where
  "reset_scenario ctx =
     ctx\<lparr>sc_domain := [], sc_root := replicate 16 0, sc_events := [], sc_result := None,
         sc_error := None, sc_state := None\<rparr>"

section \<open>Lemmas\<close>

lemma of_char_inj: "inj (of_char :: char \<Rightarrow> 8 word)"
proof (rule injI)
  fix x y :: char
  assume "(of_char x :: 8 word) = of_char y"
  then have "unat (of_char x :: 8 word) = unat (of_char y :: 8 word)" by simp
  moreover have "unat (of_char z :: 8 word) = of_char z" for z
  proof -
    have "(of_char z :: 8 word) = of_nat (of_char z)" by (simp add: of_char_def)
    moreover have "(of_char z :: nat) < 256" by simp
    ultimately show ?thesis by (simp add: unat_of_nat)
  qed
  ultimately show "x = y" by simp
qed

lemma as_bytes_inject [simp]: "as_bytes s = as_bytes t \<longleftrightarrow> s = t"
  using of_char_inj by (simp add: as_bytes_def inj_map_eq_map)

lemma reset_is_new: "reset_scenario ctx = ScenarioContext_new"
  by (cases ctx) (simp add: reset_scenario_def ScenarioContext_new_def)

lemma add_events_sel:
  "sc_events (fold (add_event c) ms ctx) = sc_events ctx @ map (pack_event c) ms"
  "sc_domain (fold (add_event c) ms ctx) = sc_domain ctx"
  "sc_root (fold (add_event c) ms ctx) = sc_root ctx"
  by (induction ms arbitrary: ctx) (simp_all add: add_event_def)

lemma clear_events_sel [simp]:
  "sc_events (clear_events ctx) = []" "sc_domain (clear_events ctx) = sc_domain ctx"
  "sc_root (clear_events ctx) = sc_root ctx"
  by (simp_all add: clear_events_def)

lemma make_event_page_cases:
  "make_event_page (Some (s, n)) k e = Returned
     \<lparr>ep_header = Some \<lparr>ph_sequence_type = Some (Sequence k), ph_sync_mode = None\<rparr>,
      ep_created_at = Some \<lparr>ts_seconds = s, ts_nanos = n\<rparr>, ep_payload = Some (Ev_Event e),
      ep_cascade_id = None, ep_no_commit = False\<rparr>"
  by (simp add: make_event_page_def make_timestamp_def now_ts_def)

text \<open>A clock after the epoch gives the pages, one per event, numbered from the start index.\<close>

lemma scenario_pages_total:
  assumes "\<forall>i. clock i \<noteq> None"
  obtains ps where "scenario_pages clock i evs = Returned ps" "length ps = length evs"
    "numbered_from (of_nat i) ps" "map ep_payload ps = map (\<lambda>e. Some (Ev_Event e)) evs"
proof -
  have "\<exists>ps. scenario_pages clock i evs = Returned ps \<and> length ps = length evs \<and>
      numbered_from (of_nat i) ps \<and> map ep_payload ps = map (\<lambda>e. Some (Ev_Event e)) evs"
  proof (induction evs arbitrary: i)
    case (Cons e evs)
    obtain s n where "clock i = Some (s, n)" using assms by fastforce
    moreover obtain ps where "scenario_pages clock (Suc i) evs = Returned ps"
      "length ps = length evs" "numbered_from (of_nat (Suc i)) ps"
      "map ep_payload ps = map (\<lambda>e. Some (Ev_Event e)) evs"
      using Cons.IH by blast
    ultimately show ?case
      by (simp add: make_event_page_cases explicit_sequence_def add.commute)
  qed simp
  then show thesis using that by blast
qed

lemma numbered_from_nth:
  "numbered_from n ps \<Longrightarrow> i < length ps \<Longrightarrow> ep_sequence_num (ps ! i) = n + of_nat i"
proof (induction ps arbitrary: n i)
  case (Cons p ps)
  then show ?case by (cases i) (auto simp: ep_sequence_num_def add.assoc)
qed simp

lemma decode_pack_event [simp]:
  "lawful_codec c \<Longrightarrow> decode_matching c (pack_event c m) = Inr (Some m)"
  by (simp add: decode_matching_def pack_event_def type_url_def)

section \<open>Properties\<close>

text \<open>The book of a test scenario is the history the scenario recorded, whatever the
  context held before. After \<open>clear_events\<close> and an \<open>add_event\<close> for each of \<open>ms\<close>, and a clock
  past the epoch, \<open>event_book\<close> returns: the context's domain and root on the cover, one page per
  message, page \<open>i\<close> numbered \<open>i\<close> and decoding to message \<open>i\<close>, and a next sequence that is the
  one the client itself would compute for the book.\<close>

theorem scenario_book_is_history:
  assumes "lawful_codec c" and "\<forall>i. clock i \<noteq> None"
  shows "\<exists>book. scenario_event_book clock (fold (add_event c) ms (clear_events ctx)) = Returned book
    \<and> domain_of (eb_cover book) = (if sc_domain ctx = [] then UNKNOWN_DOMAIN else sc_domain ctx)
    \<and> root_bytes (eb_cover book) = sc_root ctx
    \<and> length (eb_pages book) = length ms
    \<and> (\<forall>i<length ms. ep_sequence_num (eb_pages book ! i) = of_nat i
         \<and> ep_decode_typed c (eb_pages book ! i) = Inr (Some (ms ! i)))
    \<and> calculate_set_next_seq book = book"
proof -
  obtain ps where ps: "scenario_pages clock 0 (map (pack_event c) ms) = Returned ps"
    "length ps = length ms" "numbered_from 0 ps"
    "map ep_payload ps = map (\<lambda>e. Some (Ev_Event e)) (map (pack_event c) ms)"
    using scenario_pages_total [OF assms(2), where i = 0 and evs = "map (pack_event c) ms"] by auto
  let ?book = "make_event_book (make_cover (sc_domain ctx) (sc_root ctx) []) ps None"
  have "ep_decode_typed c (ps ! i) = Inr (Some (ms ! i))" if "i < length ms" for i
  proof -
    have "ep_payload (ps ! i) = Some (Ev_Event (pack_event c (ms ! i)))"
      using arg_cong [OF ps(4), of "\<lambda>xs. xs ! i"] that ps(2) by simp
    then show ?thesis using assms(1) by (simp add: ep_decode_typed_def)
  qed
  moreover have "ep_sequence_num (ps ! i) = of_nat i" if "i < length ms" for i
    using numbered_from_nth [OF ps(3)] that ps(2) by simp
  moreover have "calculate_next_sequence ps None = of_nat (length ps)"
    using numbered_from_next [OF ps(3)] by (cases ps) (simp_all add: accessor_simps)
  ultimately show ?thesis
    using ps(1,2)
    by (intro exI [of _ ?book])
      (simp add: scenario_event_book_def add_events_sel make_event_book_def make_cover_def
        domain_of_Some root_bytes_def calculate_set_next_seq_def)
qed

theorem scenario_book_is_history_witness:
  "\<exists>book. scenario_event_book (\<lambda>_. Some (0, 0))
      (fold (add_event (bytes_codec ''pkg.A'')) [[1], [2, 3]]
        (clear_events (ScenarioContext_new :: (unit, unit) ScenarioContext))) = Returned book
    \<and> length (eb_pages book) = 2
    \<and> ep_decode_typed (bytes_codec ''pkg.A'') (eb_pages book ! 1) = Inr (Some [2, 3])"
proof -
  have "\<forall>i. (\<lambda>_::nat. Some (0 :: 64 word, 0 :: u32)) i \<noteq> None" by simp
  from scenario_book_is_history [OF lawful_bytes_codec this, where ms = "[[1], [2, 3]]"
      and ctx = "ScenarioContext_new :: (unit, unit) ScenarioContext"]
  show ?thesis by fastforce
qed

text \<open>The business domains the crate computes roots for.\<close>

definition business_domains :: "string list" where
  "business_domains =
     [''customer'', ''product'', ''order'', ''inventory'', ''cart'', ''fulfillment'']"

lemma root_seed_inject:
  assumes "d \<in> set business_domains" and "d' \<in> set business_domains"
  shows "root_seed d k = root_seed d' k' \<longleftrightarrow> d = d' \<and> k = k'"
  using assms unfolding business_domains_def set_simps
  by (elim insertE emptyE; hypsubst; simp add: root_seed_def)

text \<open>What a computed root depends on. Between the six business domains the hashed name
  is unambiguous: two of them hash the same name only for the same domain and the same key.
  It is not so in general: domain and key are concatenated with nothing between them, so moving
  text from the front of the key to the end of the domain gives the same root, and an aggregate
  \<open>1\<close> of a domain \<open>orders\<close> has the root of the order \<open>s1\<close>.\<close>

theorem root_identity:
  "(d \<in> set business_domains \<and> d' \<in> set business_domains \<longrightarrow>
      (as_bytes (root_seed d k) = as_bytes (root_seed d' k') \<longleftrightarrow> d = d' \<and> k = k'))
   \<and> compute_root U d (x @ k) = compute_root U (d @ x) k
   \<and> order_root U ''s1'' = compute_root U ''orders'' ''1''"
  by (simp add: root_seed_inject) (simp add: root_seed_def compute_root_def order_root_def)

theorem root_identity_witness:
  "as_bytes (root_seed ''cart'' ''7'') \<noteq> as_bytes (root_seed ''customer'' ''7'')"
  using conjunct1 [OF root_identity [of "''cart''" "''customer''" "''7''" "''7''"]]
  by (simp add: business_domains_def)

end
