(* ===== verification/Type_Urls.thy ===== *)
theory Type_Urls
  imports Compensation Dispatch_Events
begin

text \<open>
  \<^verbatim>\<open>src/src/proto_ext/type_url.rs\<close>: the type URLs of the framework's own messages. The module
  gives them the scheme \<open>type.angzarr.io/\<close>, every other part of the crate builds and matches
  URLs under \<open>TYPE_URL_PREFIX\<close>; the lemmas show what that means for a message that carries one
  of them.
\<close>

definition NOTIFICATION :: string where
  "NOTIFICATION = ''type.angzarr.io/angzarr.Notification''"
definition REJECTION_NOTIFICATION :: string where
  "REJECTION_NOTIFICATION = ''type.angzarr.io/angzarr.RejectionNotification''"
definition SAGA_COMPENSATION_FAILED :: string where
  "SAGA_COMPENSATION_FAILED = ''type.angzarr.io/angzarr.SagaCompensationFailed''"
definition CONFIRMATION :: string where
  "CONFIRMATION = ''type.angzarr.io/angzarr.Confirmation''"
definition REVOCATION :: string where
  "REVOCATION = ''type.angzarr.io/angzarr.Revocation''"
definition COMPENSATE :: string where
  "COMPENSATE = ''type.angzarr.io/angzarr.Compensate''"
definition NOOP :: string where
  "NOOP = ''type.angzarr.io/angzarr.NoOp''"

definition framework_urls :: "string set" where
  "framework_urls = {NOTIFICATION, REJECTION_NOTIFICATION, SAGA_COMPENSATION_FAILED, CONFIRMATION,
     REVOCATION, COMPENSATE, NOOP}"

lemmas framework_url_defs = framework_urls_def NOTIFICATION_def REJECTION_NOTIFICATION_def
  SAGA_COMPENSATION_FAILED_def CONFIRMATION_def REVOCATION_def COMPENSATE_def NOOP_def

lemma framework_url_foreign: "u \<in> framework_urls \<Longrightarrow> \<not> starts_with u TYPE_URL_PREFIX"
  by (auto simp: framework_url_defs starts_with_def TYPE_URL_PREFIX_def)

text \<open>No codec, and neither the routers nor the compensation helpers, know these URLs: a
  command under \<open>NOTIFICATION\<close> is not taken for a rejection.\<close>

lemma framework_url_unmatched:
  assumes "u \<in> framework_urls"
  shows "u \<noteq> full_type_url c" "u \<noteq> notification_url W" "\<not> is_notification u"
  using framework_url_foreign [OF assms]
  by (auto simp: full_type_url_def notification_url_def is_notification_def)

text \<open>An event under one of them is no trigger of a saga or a process manager.\<close>

lemma framework_event_refused:
  assumes "u \<in> framework_urls"
  shows "extract_saga_event_type_url request \<noteq> Inr u"
    and "extract_pm_event_type_url request' \<noteq> Inr u"
  using framework_url_foreign [OF assms]
  by (auto simp: extract_saga_trigger extract_pm_trigger trigger_url_def opt_filter_def
      split: option.splits if_splits)

end
