(* ===== verification/Spec2Isabelle.thy ===== *)
theory Spec2Isabelle
  imports Generated_Facts Server Supervision Builders Validation Testkit Type_Urls
begin

text \<open>
  A verification library for \<^verbatim>\<open>angzarr-client-rust\<close>, the Rust client of the angzarr
  event-sourcing framework. Paths below are relative to \<^verbatim>\<open>src/\<close>.

  \<^bold>\<open>The program.\<close> A service author marks methods of an \<open>impl\<close> block; the kind macros
  (\<^verbatim>\<open>angzarr-macros/src/lib.rs\<close>) turn the block into a \<open>Handler\<close> with a configuration and a
  \<open>dispatch\<close>. Factories of such handlers are registered with the router builder
  (\<^verbatim>\<open>src/router/builder.rs\<close>), which classifies them into one of five runtime routers
  (\<^verbatim>\<open>src/router/runtime.rs\<close>, \<^verbatim>\<open>src/router/upcaster.rs\<close>). gRPC adapters (\<^verbatim>\<open>src/handler.rs\<close>) put a
  router behind a service, and a runner (\<^verbatim>\<open>src/server.rs\<close>) serves it, with a readiness
  supervisor (\<^verbatim>\<open>src/readiness.rs\<close>) that probes the coordinators the service depends on.
  On the other side, callers use the clients (\<^verbatim>\<open>src/client.rs\<close>) through the builders
  (\<^verbatim>\<open>src/builder.rs\<close>), connecting with a retry policy (\<^verbatim>\<open>src/retry.rs\<close>) to endpoints resolved
  from the environment (\<^verbatim>\<open>src/transport.rs\<close>).

  \<^bold>\<open>The model.\<close> Pure functions are HOL functions; a fallible one returns a sum, \<open>Inl\<close> for
  \<open>Err\<close>; a panic is a value of \<open>panicking\<close>; an effectful call threads an explicit world \<open>'w\<close>.
  User code, the network, the clock, random draws and third-party crates are arguments
  (\<open>Host\<close>, \<open>Network\<close>, \<open>Codec\<close>, \<open>UuidCrate\<close>, \<open>IndexMapCrate\<close>, \<open>HealthCrate\<close>, \<open>Stubs\<close>, \<open>Connector\<close>), with what the code
  relies on named (\<open>lawful_codec\<close>, \<open>lawful_uuid\<close>, \<open>lawful_hex\<close>, \<open>lawful_index_map\<close>,
  \<open>lawful_health\<close>) and an instance of each law proved. \<open>u16\<close>, \<open>u32\<close> and \<open>u64\<close> are words. Messages
  generated from the proto files are records and datatypes (\<open>Proto\<close>), with fields the code never
  reads left opaque.

  \<^bold>\<open>Data.\<close>
  \<^item> \<open>Prelude\<close>: \<open>Result\<close> and \<open>Option\<close> combinators, string and number routines of the standard
    library, collections of simplification rules.
  \<^item> \<open>Error_Codes\<close> (\<^verbatim>\<open>src/error_codes.rs\<close>), \<open>Errors\<close> (\<^verbatim>\<open>src/error.rs\<close>): the error inventory, the
    error values and their translation to gRPC statuses, which keeps the class of an error.
  \<^item> \<open>Proto\<close>, \<open>Cover_Ext\<close>, \<open>Pages\<close> (\<^verbatim>\<open>src/proto_ext\<close>), \<open>Convert\<close> (\<^verbatim>\<open>src/convert.rs\<close>): accessors of
    the messages, sequence arithmetic, keys that identify aggregates and deferred commands,
    packing and unpacking. \<open>Instances\<close> holds the concrete instances the examples use.
  \<^item> \<open>Type_Urls\<close> (\<^verbatim>\<open>src/proto_ext/type_url.rs\<close>): the URLs of the framework's messages, which no
    router and no codec of the crate matches.
  \<^item> \<open>Destinations\<close> (\<^verbatim>\<open>src/router/state.rs\<close>): destination sequences and the stamping of commands.

  \<^bold>\<open>Routing.\<close>
  \<^item> \<open>Handlers\<close> (\<^verbatim>\<open>src/router/handler.rs\<close>, \<^verbatim>\<open>src/router/responses.rs\<close>), \<open>Router_Builder\<close>
    (\<^verbatim>\<open>src/router/builder.rs\<close>): kinds, configurations, and what \<open>build\<close> accepts and refuses.
  \<^item> \<open>Fan_Out\<close>: the loop every fan-out dispatcher runs, as a locale; the saga, process-manager,
    rejection and upcaster loops are interpretations of it. A dispatch against factories that
    answer functionally is then a fold over the selected answers, in registration order; where
    responses concatenate (\<open>merging_fan_out\<close>, over response types that are monoids) it is a sum.
    \<open>Effects\<close> does the same for handlers that act on the world: folds that may fail, and the loop
    as such a fold over the handlers its factories make.
  \<^item> \<open>Dispatch_Command\<close>, \<open>Dispatch_Events\<close>, \<open>Router_Info\<close> (\<^verbatim>\<open>src/router/runtime.rs\<close>), \<open>Upcasting\<close>
    (\<^verbatim>\<open>src/router/upcaster.rs\<close>): the dispatchers, errors included, the threading of sequences
    through compensations, facts and replays, names and output domains.
  \<^item> \<open>Macro_Args\<close>, \<open>Macro_Expand\<close> (\<^verbatim>\<open>angzarr-macros/src/lib.rs\<close>): the argument parsers over token
    lists with the exact language each accepts, the metadata collected from markers, and the
    \<open>config\<close> and \<open>dispatch\<close> each kind macro generates. \<open>Macro_Laws\<close> states the contract between a
    router and a generated handler (\<open>generated_handler\<close>), interprets it for the five kinds, and
    shows that a command runs on the state rebuilt from its history.
  \<^item> \<open>Grpc_Adapters\<close> (\<^verbatim>\<open>src/handler.rs\<close>): the service methods over their routers (locale \<open>service\<close>).
  \<^item> \<open>Compensation\<close> (\<^verbatim>\<open>src/compensation.rs\<close>): the context of a rejection against the key the
    router routes by, and the responses of a compensating handler.
  \<^item> \<open>Generated_Routers\<close>: the composition of the four above. For services whose handlers are
    generated from impl blocks, what a call does in terms of the marked methods alone: the saga,
    process-manager, compensation, projector and upcaster services as folds over the registered
    blocks, through macro metadata, router loop, generated dispatch and gRPC adapter.
    \<open>Generated_Facts\<close> does the same for facts and replays.

  \<^bold>\<open>Running and calling.\<close>
  \<^item> \<open>Retry\<close> (\<^verbatim>\<open>src/retry.rs\<close>): delays as numbers of nanoseconds with the \<open>f64\<close> rounding of the
    jitter (locale \<open>rounding\<close>), and the retry loop with the trace of its calls and pauses.
  \<^item> \<open>Transport\<close> (\<^verbatim>\<open>src/transport.rs\<close>): transport modes and endpoint resolution.
  \<^item> \<open>Readiness\<close>, \<open>Server\<close>: probes, the supervisor's ticks, configuration, and \<open>run_kind\<close> as a
    step relation over the runner and the supervisor in any interleaving. Invariants by rule
    induction (locale \<open>step_invariant\<close>): serving is published only after a round in which every
    probe passed, and reported only while the runner serves or is shutting down; nothing is
    published after shutdown; the steps of the supervisor refine the abstract round. A run over a Unix socket acts on the file system of \<open>Files\<close>
    (directories, files and sockets by path, paths compared as spelled, no links; no other
    process changes it during a run): its socket file survives it, and the next run binds
    because it removes the file. \<open>Supervision\<close> runs the supervisor in time (\<open>World\<close>: what a check
    does from the instant it starts, and how late the executor resumes a task), with the timeout of
    a poll, caught panics, warnings and pauses: whatever the checks do, an outage or a recovery is
    reported within two ticks and an interval.
  \<^item> \<open>Client\<close> (\<^verbatim>\<open>src/client.rs\<close>, \<^verbatim>\<open>src/traits.rs\<close>): connecting, which is the retry policy applied
    to the connect call, the requests of the four clients (locale \<open>gateway\<close>), and the drain of a
    response stream, a \<open>partial_function\<close> that returns exactly when the stream ends.
  \<^item> \<open>Builders\<close> (\<^verbatim>\<open>src/builder.rs\<close>): what any chain of builder calls builds, and that a built
    command is what a client sends.
  \<^item> \<open>Validation\<close> (\<^verbatim>\<open>src/validation.rs\<close>): the precondition guards (locale \<open>guard\<close>).
  \<^item> \<open>Testkit\<close> (\<^verbatim>\<open>src/identity.rs\<close>, \<^verbatim>\<open>src/testing\<close>): computed roots and the test scenario.

  The last section, below, composes caller and service: a command built by the client's builder, served by a
  router that \<open>build\<close> accepted, reaches the marked method of the generated aggregate.

  \<^bold>\<open>Termination and bounds.\<close> No definition uses fuel. Loops over factories, pages, arguments and
  attempts are structural or have a measure (the argument parsers, by the tokens left). The
  retry loop runs over its list of attempts, so it always returns. Only the stream drain may not
  return, and its property says when it does. Sequences are \<open>u32\<close> and wrap, as the release
  build does.

  \<^bold>\<open>Not modelled.\<close> Logging, apart from the warnings of the readiness supervisor, and
  \<open>Debug\<close>/\<open>Display\<close> output; \<open>close\<close> and \<open>clone\<close> of clients and services, which only touch
  reference counts; tonic's request and response envelopes apart from the
  correlation header; the parsing of Rust syntax by \<open>syn\<close> below token trees, and the re-emission
  of unmarked items; the code \<open>prost\<close> and \<open>tonic\<close> generate from the proto files; the crate roots,
  which hold re-exports; derived instances and unit tests.
\<close>

section \<open>From the builder to the marked method\<close>

text \<open>With distinct claims, no earlier configuration claims what a later one does.\<close>

lemma no_earlier_claim:
  assumes "distinct (concat (map claimed cfgs))" and "i < length cfgs" and "claims d url (cfgs ! i)"
    and "j < i"
  shows "\<not> claims d url (cfgs ! j)"
  using assms
proof (induction cfgs arbitrary: i j)
  case (Cons c cs)
  obtain k where i: "i = Suc k" using Cons.prems(4) by (cases i) auto
  with Cons.prems have k: "k < length cs" "claims d url (cs ! k)" by simp_all
  then have "(d, url) \<in> set (concat (map claimed cs))"
    using nth_mem [OF k(1)] by (auto simp: claims_def)
  with Cons.prems(1) have "\<not> claims d url c" by (auto simp: claims_def)
  moreover have "\<not> claims d url (cs ! m)" if "j = Suc m" for m
    using Cons.prems(1,4) k i that by (intro Cons.IH [of k]) simp_all
  ultimately show ?case by (cases j) simp_all
qed simp

text \<open>The loop produces the factories before the first claim and dispatches to that one.\<close>

lemma command_loop_reaches:
  assumes "list_all2 steady fs cfgs" and "i < length cfgs" and "claims d url (cfgs ! i)"
    and "\<And>j. j < i \<Longrightarrow> \<not> claims d url (cfgs ! j)"
    and "fac_produce (fs ! i) (produce_all (take i fs) w) = (h, w1)"
  shows "command_loop d url cmd fs w =
     (Some (as_command (fst (h_dispatch h (Req_CommandHandler cmd) w1))),
      snd (h_dispatch h (Req_CommandHandler cmd) w1))"
  using assms
proof (induction fs cfgs arbitrary: i w rule: list_all2_induct)
  case (Cons f fs c cs)
  obtain g w2 where p: "fac_produce f w = (g, w2)" by fastforce
  with Cons.hyps(1) have c: "h_config g = c" by (rule steady_produce)
  show ?case
  proof (cases i)
    case 0
    with Cons.prems c p show ?thesis
      by (simp add: produce_all_def command_loop_hit del: command_loop.simps)
  next
    case (Suc k)
    with Cons.prems(3) [of 0] c have "\<not> claims d url (h_config g)" by simp
    then have "command_loop d url cmd (f # fs) w = command_loop d url cmd fs w2"
      by (rule command_loop_skip [OF p])
    also have "\<dots> = (Some (as_command (fst (h_dispatch h (Req_CommandHandler cmd) w1))),
        snd (h_dispatch h (Req_CommandHandler cmd) w1))"
    proof (rule Cons.IH)
      show "k < length cs" "claims d url (cs ! k)" using Cons.prems(1,2) Suc by simp_all
      show "\<not> claims d url (cs ! j)" if "j < k" for j
        using Cons.prems(3) [of "Suc j"] that Suc by simp
      show "fac_produce (fs ! k) (produce_all (take k fs) w2) = (h, w1)"
        using Cons.prems(4) Suc p by (simp add: produce_all_def)
    qed
    finally show ?thesis .
  qed
qed simp

lemma built_distinct:
  assumes "fst (build R w) = Inr (Built_CommandHandler r)"
    and "list_all2 steady (rb_factories R) cfgs"
  shows "distinct (concat (map claimed cfgs))" "rt_factories r = rb_factories R"
  using build_outcome [OF assms(2), of w] assms(1) by simp_all

text \<open>C1: From the builder to the marked method and back. A message of a handled type, put into
  a command by the command builder for the aggregate's domain, and served by a router that
  \<open>build\<close> accepted with the generated aggregate among its handlers, reaches the method marked
  for that type: the method gets the message, the state rebuilt from the prior events and their
  next sequence, after the handlers before it were produced and with nothing else run. Its events
  come back as the response, its rejection as a status of the rejection's class, and a prior
  event that does not decode as an error before the method runs.\<close>

theorem command_reaches_method:
  assumes "fst (build R w0) = Inr (Built_CommandHandler r)"
    and "list_all2 steady (rb_factories R) cfgs" and "i < length cfgs"
    and "fac_produce (rb_factories R ! i) (produce_all (take i (rb_factories R)) w) =
           (aggregate_handler T U W args (collect_method_metadata input), w1)"
    and "first_arm T (mm_handled_with_methods (collect_method_metadata input))
           (full_type_url (ty_codec T ty)) = Some (method, ty)"
    and "lawful_codec (ty_codec T ty)" and "full_type_url (ty_codec T ty) \<noteq> notification_url W"
  shows "\<exists>book. build_command C fresh (with_sequence seq
        (with_command (full_type_url (ty_codec T ty)) (cd_encode (ty_codec T ty) cmd)
           (command_for merge (aa_domain args) root))) = Inr book
    \<and> ch_grpc_handle W r \<lparr>cc_events = Some events, cc_command = Some book\<rparr> w =
       (case state_of T U (collect_method_metadata input) (Some events) of
          Inl e \<Rightarrow> (Inl (client_error_to_status e), w1)
        | Inr state \<Rightarrow>
            (let (outcome, w2) = ui_handle U method cmd state (eb_next_sequence events) w1
             in (case outcome of
                   Inl rej \<Rightarrow> Inl (rejected_to_status rej)
                 | Inr out \<Rightarrow> Inr \<lparr>br_result = Some (BR_Events out)\<rparr>, w2)))"
proof -
  let ?meta = "collect_method_metadata input" and ?c = "ty_codec T ty"
  let ?h = "aggregate_handler T U W args ?meta"
  obtain book where book: "build_command C fresh (with_sequence seq
      (with_command (full_type_url ?c) (cd_encode ?c cmd) (command_for merge (aa_domain args) root)))
      = Inr book"
    and cover: "map_option cv_domain (cb_cover book) = Some (aa_domain args)"
    and page: "\<exists>p. first_opt (cb_pages book) = Some p \<and> cp_payload p = Some (Cmd_Command
        \<lparr>any_type_url = full_type_url ?c, any_value = cd_encode ?c cmd\<rparr>)"
    by (simp add: build_command_def setting_defs command_for_def CommandBuilder_new_def)
  let ?ctx = "\<lparr>cc_events = Some events, cc_command = Some book\<rparr>"
  let ?any = "\<lparr>any_type_url = full_type_url ?c, any_value = cd_encode ?c cmd\<rparr>"
  have payload: "command_payload ?ctx = Inr ?any"
    and url: "extract_command_type_url ?ctx = Inr (full_type_url ?c)"
    using page by (auto simp: command_payload_def extract_command_type_url_def full_type_url_def
        TYPE_URL_PREFIX_def)
  have domain: "command_domain ?ctx = Some (aa_domain args)"
    using cover by (simp add: command_domain_def)
  have "cfgs ! i = h_config ?h"
    by (rule steady_produce [OF list_all2_nthD2 [OF assms(2,3)] assms(4), symmetric])
  then have claim: "claims (aa_domain args) (full_type_url ?c) (cfgs ! i)"
    using assms(5) first_arm_None [of T "mm_handled_with_methods ?meta" "full_type_url ?c"]
      coherent_collect [of input]
    by (simp add: aggregate_handler_def aggregate_config_def coherent_def del: full_type_url_inject)
  have loop: "command_loop (aa_domain args) (full_type_url ?c) ?ctx (rt_factories r) w =
      (Some (as_command (fst (h_dispatch ?h (Req_CommandHandler ?ctx) w1))),
       snd (h_dispatch ?h (Req_CommandHandler ?ctx) w1))"
    unfolding built_distinct(2) [OF assms(1,2)]
    using no_earlier_claim [OF built_distinct(1) [OF assms(1,2)] assms(3) claim]
    by (intro command_loop_reaches [OF assms(2,3) claim]) (simp_all add: assms(4))
  have run: "h_dispatch ?h (Req_CommandHandler ?ctx) w1 =
      (case state_of T U ?meta (Some events) of
         Inl e \<Rightarrow> (Inl e, w1)
       | Inr state \<Rightarrow> call_method events_response
           (ui_handle U method cmd state (eb_next_sequence events) w1))"
    by (rule generated_command [OF payload])
      (use assms(5,7) lawful_codecD [OF assms(6)] in simp_all)
  show ?thesis
    using book url domain loop run assms(7)
    by (auto simp: ch_grpc_handle_def ch_dispatch_def to_response_def call_method_def
        events_response_def split: sum.split prod.split)
qed

text \<open>An impl block with one command method and one applier.\<close>

definition shop_impl :: ItemImpl where
  "shop_impl = \<lparr>ii_attrs = [], ii_items =
     [Item_Fn \<lparr>im_ident = ''buy'',
        im_attrs = [\<lparr>at_path = [''handles''], at_meta = Meta_List [T_Ident ''Buy'']\<rparr>]\<rparr>,
      Item_Fn \<lparr>im_ident = ''bought'',
        im_attrs = [\<lparr>at_path = [''applies''], at_meta = Meta_List [T_Ident ''Bought'']\<rparr>]\<rparr>]\<rparr>"

lemma shop_metadata:
  "collect_method_metadata shop_impl = no_metadata
     \<lparr>mm_handled := [''Buy''], mm_handled_with_methods := [(''buy'', ''Buy'')],
      mm_applies := [''Bought''], mm_applies_with_methods := [(''bought'', ''Bought'')]\<rparr>"
  by (simp add: shop_impl_def collect_method_metadata_def collect_item_def collect_attr_def
      is_ident_def get_attr_ident_def no_metadata_def)

definition shop_router :: "unit Router" where
  "shop_router = \<lparr>rb_name = ''shop'', rb_factories =
     [const_factory (const_handler (ch_example ''stock'' [TYPE_URL_PREFIX @ ''Buy'']) (\<lambda>_. Inl (wrong_kind []))),
      const_factory (aggregate_handler example_types example_impl example_wire example_args
        (collect_method_metadata shop_impl))]\<rparr>"

theorem command_reaches_method_witness:
  "\<exists>book. build_command uuid16_crate (uc_namespace_oid uuid16_crate) (with_sequence 1
        (with_command (TYPE_URL_PREFIX @ ''Buy'') [3]
           (command_for 0 ''order'' (uc_namespace_oid uuid16_crate)))) = Inr book
    \<and> ch_grpc_handle example_wire \<lparr>rt_factories = rb_factories shop_router, rt_cached_name = None\<rparr>
        \<lparr>cc_events = Some ((event_book None [event_page 0 (raw_any ''Bought'' [1])])
            \<lparr>eb_next_sequence := 1\<rparr>), cc_command = Some book\<rparr> () =
      (Inr \<lparr>br_result = Some (BR_Events (event_book None [event_page 1 (raw_any ''Bought'' [1, 3])]))\<rparr>, ())"
proof -
  let ?meta = "collect_method_metadata shop_impl"
  let ?h = "aggregate_handler example_types example_impl example_wire example_args ?meta"
  let ?r = "\<lparr>rt_factories = rb_factories shop_router, rt_cached_name = None\<rparr>"
  let ?book = "(event_book None [event_page 0 (raw_any ''Bought'' [1])])\<lparr>eb_next_sequence := 1\<rparr>"
  let ?cfgs = "[ch_example ''stock'' [TYPE_URL_PREFIX @ ''Buy''], h_config ?h]"
  have cfg: "h_config ?h = Cfg_CommandHandler \<lparr>ch_domain = ''order'', ch_handled = [TYPE_URL_PREFIX @ ''Buy''],
      ch_rejected = [], ch_applies = [TYPE_URL_PREFIX @ ''Bought''], ch_state_factory = None,
      ch_handles_fact = [], ch_supports_replay = True\<rparr>"
    by (simp add: shop_metadata aggregate_handler_def aggregate_config_def example_args_def
        example_types_def no_metadata_def full_type_url_def bytes_codec_def)
  have b: "fst (build shop_router ()) = Inr (Built_CommandHandler ?r)"
    by (simp add: shop_router_def build_def cfg ch_example_def built_of_def)
  have st: "list_all2 steady (rb_factories shop_router) ?cfgs"
    by (simp add: shop_router_def)
  have p: "fac_produce (rb_factories shop_router ! 1) (produce_all (take 1 (rb_factories shop_router)) ()) = (?h, ())"
    by (simp add: shop_router_def)
  have arm: "first_arm example_types (mm_handled_with_methods ?meta)
      (full_type_url (ty_codec example_types ''Buy'')) = Some (''buy'', ''Buy'')"
    by (simp add: shop_metadata)
  have law: "lawful_codec (ty_codec example_types ''Buy'')"
    by (simp add: example_types_def lawful_bytes_codec)
  have ne: "full_type_url (ty_codec example_types ''Buy'') \<noteq> notification_url example_wire"
    by (simp add: example_types_def full_type_url_def bytes_codec_def notification_url_def example_wire_def)
  have state: "state_of example_types example_impl ?meta (Some ?book) = Inr [1]"
    by (simp add: shop_metadata state_of_def List.map_filter_def event_page_def event_any_def
        no_metadata_def example_types_def example_impl_def raw_any_def full_type_url_def
        bytes_codec_def decode_arm_def initial_state_def event_book_def)
  have names: "full_type_url (ty_codec example_types ''Buy'') = TYPE_URL_PREFIX @ ''Buy''"
    "cd_encode (ty_codec example_types ''Buy'') [3] = [3]" "aa_domain example_args = ''order''"
    "eb_next_sequence ?book = 1"
    by (simp_all add: example_types_def full_type_url_def bytes_codec_def example_args_def)
  show ?thesis
    using command_reaches_method [OF b st _ p arm law ne, of uuid16_crate
        "uc_namespace_oid uuid16_crate" 1 "[3]" 0 "uc_namespace_oid uuid16_crate" ?book]
    by (simp add: state names) (simp add: example_impl_def)
qed

end
